(* ===== verification/Prelude.thy ===== *)
theory Prelude
  imports Main
begin

text \<open>
  Shared vocabulary of the development: the collections of rules the component theories add
  to, tables as lists of rows with the three SQL verbs the broker uses (find the first row,
  update the matching rows, delete the matching rows), time in nanoseconds with the
  millisecond truncation of the database, and the generic lemmas on these.
\<close>

section \<open>Collections of rules\<close>

named_theorems store_simps \<open>unfolding rules of the store operations\<close>
named_theorems store_frame \<open>what a store operation leaves alone\<close>
named_theorems inv_intro \<open>preservation rules of the store invariant\<close>
named_theorems broker_simps \<open>unfolding rules of the broker's effects\<close>
named_theorems life_intro \<open>lifecycle rules of the broker's handlers\<close>

section \<open>Time\<close>

text \<open>
  \<^verbatim>\<open>time.Time\<close> is a number of nanoseconds since the Unix epoch and \<^verbatim>\<open>time.Duration\<close> a number
  of nanoseconds. \<^verbatim>\<open>UnixMilli\<close> floors to milliseconds, which is what the database keeps.
\<close>

type_synonym time = int
type_synonym duration = int

definition millisecond :: duration where
  "millisecond = 1000000"

definition second :: duration where
  "second = 1000 * millisecond"

definition minute :: duration where
  "minute = 60 * second"

text \<open>The zero value of \<^verbatim>\<open>time.Time\<close>: midnight of 1 January of the year 1.\<close>

definition zero_time :: time where
  "zero_time = - 62135596800 * second"

definition ms :: "time \<Rightarrow> int" where
  "ms t = t div millisecond"

definition fromMS :: "int \<Rightarrow> time" where
  "fromMS v = v * millisecond"

text \<open>What a time reads like after it went through an INTEGER column.\<close>

definition stored_time :: "time \<Rightarrow> time" where
  "stored_time t = fromMS (ms t)"

section \<open>Tables\<close>

definition rows_update :: "('r \<Rightarrow> bool) \<Rightarrow> ('r \<Rightarrow> 'r) \<Rightarrow> 'r list \<Rightarrow> 'r list" where
  "rows_update p f rs = map (\<lambda>r. if p r then f r else r) rs"

definition rows_delete :: "('r \<Rightarrow> bool) \<Rightarrow> 'r list \<Rightarrow> 'r list" where
  "rows_delete p rs = filter (\<lambda>r. \<not> p r) rs"

definition rows_affected :: "('r \<Rightarrow> bool) \<Rightarrow> 'r list \<Rightarrow> nat" where
  "rows_affected p rs = length (filter p rs)"

text \<open>Lookup by key: the first row carrying the key, as \<^verbatim>\<open>QueryRow\<close> scans it.\<close>

definition lookup_by :: "('r \<Rightarrow> 'k) \<Rightarrow> 'r list \<Rightarrow> 'k \<Rightarrow> 'r option" where
  "lookup_by key rs k = find (\<lambda>r. key r = k) rs"

section \<open>Lemmas on time\<close>

lemma ms_fromMS [simp]: "ms (fromMS v) = v"
  by (simp add: ms_def fromMS_def millisecond_def)

lemma ms_stored_time [simp]: "ms (stored_time t) = ms t"
  by (simp add: stored_time_def)

lemma stored_time_idem [simp]: "stored_time (stored_time t) = stored_time t"
  by (simp add: stored_time_def)

lemma stored_time_le: "stored_time t \<le> t"
  using minus_mod_eq_div_mult [of t "1000000::int"] pos_mod_sign [of "1000000::int" t]
  by (simp add: stored_time_def ms_def fromMS_def millisecond_def)

lemma ms_mono: "s \<le> t \<Longrightarrow> ms s \<le> ms t"
  by (simp add: ms_def millisecond_def zdiv_mono1)

section \<open>Lemmas on tables\<close>

lemma find_eq_None_conv [simp]: "find p xs = None \<longleftrightarrow> (\<forall>x\<in>set xs. \<not> p x)"
  by (induction xs) auto

lemma find_SomeD: "find p xs = Some x \<Longrightarrow> x \<in> set xs \<and> p x"
  by (induction xs) (auto split: if_splits)

lemma find_append: "find p (xs @ ys) = (case find p xs of None \<Rightarrow> find p ys | Some x \<Rightarrow> Some x)"
  by (induction xs) auto

lemma lookup_by_SomeD: "lookup_by key rs k = Some r \<Longrightarrow> r \<in> set rs \<and> key r = k"
  unfolding lookup_by_def by (drule find_SomeD) simp

lemma lookup_by_None_iff: "lookup_by key rs k = None \<longleftrightarrow> k \<notin> key ` set rs"
  by (auto simp: lookup_by_def)

lemma lookup_by_Nil [simp]: "lookup_by key [] k = None"
  by (simp add: lookup_by_def)

lemma lookup_by_Cons [simp]:
  "lookup_by key (r # rs) k = (if key r = k then Some r else lookup_by key rs k)"
  by (simp add: lookup_by_def)

lemma lookup_by_append:
  "lookup_by key (rs @ [r]) k =
     (case lookup_by key rs k of Some x \<Rightarrow> Some x | None \<Rightarrow> if key r = k then Some r else None)"
  by (induction rs) auto

lemma lookup_by_append_fresh:
  "key r \<notin> key ` set rs \<Longrightarrow>
   lookup_by key (rs @ [r]) k = (if key r = k then Some r else lookup_by key rs k)"
  by (induction rs) auto

lemma lookup_by_in_set:
  "distinct (map key rs) \<Longrightarrow> r \<in> set rs \<Longrightarrow> lookup_by key rs (key r) = Some r"
  by (induction rs) (auto simp: image_iff)

lemma rows_update_Nil [simp]: "rows_update p f [] = []"
  by (simp add: rows_update_def)

lemma rows_update_Cons [simp]:
  "rows_update p f (r # rs) = (if p r then f r else r) # rows_update p f rs"
  by (simp add: rows_update_def)

lemma length_rows_update [simp]: "length (rows_update p f rs) = length rs"
  by (simp add: rows_update_def)

lemma rows_update_id: "(\<And>r. r \<in> set rs \<Longrightarrow> \<not> p r) \<Longrightarrow> rows_update p f rs = rs"
  by (induction rs) auto

lemma set_rows_update:
  "set (rows_update p f rs) = f ` {r \<in> set rs. p r} \<union> {r \<in> set rs. \<not> p r}"
  by (induction rs) auto

lemma rows_update_memD:
  "r \<in> set (rows_update p f rs) \<Longrightarrow> \<exists>q \<in> set rs. r = (if p q then f q else q)"
  by (auto simp: rows_update_def)

text \<open>An update that keeps a column keeps the whole column.\<close>

lemma map_rows_update:
  "(\<And>r. p r \<Longrightarrow> key (f r) = key r) \<Longrightarrow> map key (rows_update p f rs) = map key rs"
  by (induction rs) auto

lemma image_rows_update:
  "(\<And>r. p r \<Longrightarrow> key (f r) = key r) \<Longrightarrow> key ` set (rows_update p f rs) = key ` set rs"
  by (metis list.set_map map_rows_update)

lemma lookup_by_rows_update:
  assumes "\<And>r. p r \<Longrightarrow> key (f r) = key r"
  shows "lookup_by key (rows_update p f rs) k =
           map_option (\<lambda>r. if p r then f r else r) (lookup_by key rs k)"
  using assms by (induction rs) auto

text \<open>An update of the row under one key, seen through lookup.\<close>

lemma lookup_by_update_at:
  assumes "\<And>r. key (f r) = key r"
  shows "lookup_by key (rows_update (\<lambda>r. key r = i \<and> q r) f rs) k =
           map_option (\<lambda>r. if i = k \<and> q r then f r else r) (lookup_by key rs k)"
  using assms by (induction rs) auto

text \<open>A unique row that was hit is the only row under its key afterwards.\<close>

lemma rows_update_hit:
  assumes "distinct (map key rs)" "lookup_by key rs k = Some x" "q x" "\<And>r. key (f r) = key r"
    and "r \<in> set (rows_update (\<lambda>r. key r = k \<and> q r) f rs)" "key r = k"
  shows "r = f x"
proof -
  obtain y where y: "y \<in> set rs" "r = (if key y = k \<and> q y then f y else y)"
    using rows_update_memD [OF assms(5)] by blast
  then have "key y = k" using assms(4,6) by (simp split: if_splits)
  then have "y = x" using lookup_by_in_set [OF assms(1) y(1)] assms(2) by simp
  then show ?thesis using y(2) \<open>key y = k\<close> assms(3) by simp
qed

lemma rows_affected_eq_0 [simp]: "rows_affected p rs = 0 \<longleftrightarrow> (\<forall>r \<in> set rs. \<not> p r)"
  by (simp add: rows_affected_def filter_empty_conv)

lemma rows_affected_key:
  "distinct (map key rs) \<Longrightarrow>
   rows_affected (\<lambda>r. key r = k \<and> q r) rs =
     (case lookup_by key rs k of Some r \<Rightarrow> if q r then 1 else 0 | None \<Rightarrow> 0)"
proof (induction rs)
  case Nil
  then show ?case by (simp add: rows_affected_def)
next
  case (Cons r rs)
  have none: "filter (\<lambda>x. key x = k \<and> q x) rs = []" if "key r = k"
    using Cons.prems that by (auto simp: filter_empty_conv) (metis imageI)
  show ?case
    using Cons none by (auto simp: rows_affected_def)
qed

lemma set_rows_delete [simp]: "set (rows_delete p rs) = {r \<in> set rs. \<not> p r}"
  by (auto simp: rows_delete_def)

lemma rows_delete_id: "(\<And>r. r \<in> set rs \<Longrightarrow> \<not> p r) \<Longrightarrow> rows_delete p rs = rs"
  by (simp add: rows_delete_def)

lemma distinct_map_rows_delete: "distinct (map key rs) \<Longrightarrow> distinct (map key (rows_delete p rs))"
  by (simp add: rows_delete_def distinct_map_filter)

lemma image_subset_rows_delete:
  "A \<subseteq> key ` set rs \<Longrightarrow> i \<notin> A \<Longrightarrow> A \<subseteq> key ` set (rows_delete (\<lambda>r. key r = i) rs)"
  by (auto simp: rows_delete_def)

lemma lookup_by_rows_delete:
  assumes "distinct (map key rs)"
  shows "lookup_by key (rows_delete p rs) k =
           (case lookup_by key rs k of Some r \<Rightarrow> if p r then None else Some r | None \<Rightarrow> None)"
  using assms
proof (induction rs)
  case (Cons r rs)
  have none: "lookup_by key rs k = None" if "key r = k"
    using Cons.prems that by (simp add: lookup_by_None_iff)
  then show ?case
    using Cons by (cases "key r = k") (simp_all add: rows_delete_def)
qed (simp add: rows_delete_def)

section \<open>Lemmas on sorting and limits\<close>

lemma set_take_sort_subset: "x \<in> set (take n (sort_key f xs)) \<Longrightarrow> x \<in> set xs"
  by (metis in_set_takeD set_sort)

lemma take_eq_Nil_pos: "0 < n \<Longrightarrow> take n xs = [] \<longleftrightarrow> xs = []"
  by (cases xs) auto

end
