(* ===== verification/Go_Text.thy ===== *)
theory Go_Text
  imports Prelude
begin

text \<open>
  Go strings are byte sequences. This theory models the part of Go's standard library the
  program uses on them: UTF-8 decoding into runes with the decoder's treatment of invalid
  bytes, re-encoding, \<^verbatim>\<open>utf8.RuneCountInString\<close>, \<^verbatim>\<open>strings.TrimSpace\<close>, \<^verbatim>\<open>Fields\<close>, \<^verbatim>\<open>Trim\<close>,
  \<^verbatim>\<open>TrimRight\<close>, \<^verbatim>\<open>HasPrefix\<close>, \<^verbatim>\<open>ToLower\<close>, \<^verbatim>\<open>ReplaceAll\<close> with an empty replacement and \<^verbatim>\<open>Join\<close>.
  Lower-casing beyond ASCII follows the Unicode tables, which are a parameter.
\<close>

section \<open>Runes and UTF-8\<close>

type_synonym rune = nat

definition byte :: "char \<Rightarrow> nat" where
  "byte c = of_char c"

definition RuneError :: rune where
  "RuneError = 65533"

definition in_range :: "nat \<Rightarrow> nat \<Rightarrow> char \<Rightarrow> bool" where
  "in_range lo hi c \<longleftrightarrow> lo \<le> byte c \<and> byte c \<le> hi"

text \<open>
  The range the second byte of a sequence must lie in, by its first byte, and the length of
  the sequence: the table of Go's \<^verbatim>\<open>unicode/utf8\<close>. Length 0 marks a first byte that starts
  no sequence.
\<close>

definition utf8_shape :: "nat \<Rightarrow> nat \<times> nat \<times> nat" where
  "utf8_shape b =
     (if b < 128 then (1, 0, 0)
      else if b < 194 then (0, 0, 0)
      else if b < 224 then (2, 128, 191)
      else if b = 224 then (3, 160, 191)
      else if b = 237 then (3, 128, 159)
      else if b < 240 then (3, 128, 191)
      else if b = 240 then (4, 144, 191)
      else if b < 244 then (4, 128, 191)
      else if b = 244 then (4, 128, 143)
      else (0, 0, 0))"

text \<open>\<^verbatim>\<open>DecodeRune\<close> on a non-empty string: the rune and the number of bytes it takes.\<close>

fun decode_rune :: "string \<Rightarrow> rune \<times> nat" where
  "decode_rune [] = (RuneError, 0)"
| "decode_rune (c # cs) =
     (let b = byte c; (n, lo, hi) = utf8_shape b in
      if n = 1 then (b, 1)
      else case cs of
          [] \<Rightarrow> (RuneError, 1)
        | c1 # cs1 \<Rightarrow>
            if n = 0 \<or> \<not> in_range lo hi c1 then (RuneError, 1)
            else if n = 2 then ((b mod 32) * 64 + byte c1 mod 64, 2)
            else case cs1 of
                [] \<Rightarrow> (RuneError, 1)
              | c2 # cs2 \<Rightarrow>
                  if \<not> in_range 128 191 c2 then (RuneError, 1)
                  else if n = 3 then ((b mod 16) * 4096 + byte c1 mod 64 * 64 + byte c2 mod 64, 3)
                  else case cs2 of
                      [] \<Rightarrow> (RuneError, 1)
                    | c3 # cs3 \<Rightarrow>
                        if \<not> in_range 128 191 c3 then (RuneError, 1)
                        else ((b mod 8) * 262144 + byte c1 mod 64 * 4096
                               + byte c2 mod 64 * 64 + byte c3 mod 64, 4))"

text \<open>
  A string as the loop \<^verbatim>\<open>for _, r := range s\<close> sees it: each rune with the bytes it was read
  from. An invalid byte is \<^verbatim>\<open>RuneError\<close> read from one byte.
\<close>

function chunks :: "string \<Rightarrow> (rune \<times> string) list" where
  "chunks [] = []"
| "chunks (c # cs) =
     (let (r, w) = decode_rune (c # cs)
      in (r, take w (c # cs)) # chunks (drop w (c # cs)))"
  by pat_completeness auto
termination
proof (relation "measure length", goal_cases)
  case (2 c cs p r w)
  then have "1 \<le> w"
    by (auto simp: Let_def split: list.splits prod.splits if_splits)
  then show ?case by (simp add: less_Suc_eq_le)
qed simp

definition runes :: "string \<Rightarrow> rune list" where
  "runes s = map fst (chunks s)"

text \<open>\<^verbatim>\<open>utf8.RuneCountInString\<close>\<close>

definition rune_count :: "string \<Rightarrow> nat" where
  "rune_count s = length (chunks s)"

definition valid_rune :: "rune \<Rightarrow> bool" where
  "valid_rune r \<longleftrightarrow> r < 55296 \<or> (57344 \<le> r \<and> r \<le> 1114111)"

text \<open>\<^verbatim>\<open>utf8.AppendRune\<close>: surrogates and values past the last code point encode as \<^verbatim>\<open>RuneError\<close>.\<close>

definition encode_rune :: "rune \<Rightarrow> string" where
  "encode_rune r0 =
     (let r = if valid_rune r0 then r0 else RuneError in
      if r < 128 then [char_of r]
      else if r < 2048 then [char_of (192 + r div 64), char_of (128 + r mod 64)]
      else if r < 65536 then
        [char_of (224 + r div 4096), char_of (128 + r div 64 mod 64), char_of (128 + r mod 64)]
      else
        [char_of (240 + r div 262144), char_of (128 + r div 4096 mod 64),
         char_of (128 + r div 64 mod 64), char_of (128 + r mod 64)])"

text \<open>The conversion \<^verbatim>\<open>string([]rune)\<close>.\<close>

definition encode :: "rune list \<Rightarrow> string" where
  "encode rs = concat (map encode_rune rs)"

section \<open>Spaces, fields and trimming\<close>

text \<open>\<^verbatim>\<open>unicode.IsSpace\<close>: the code points with the White\_Space property.\<close>

definition is_space :: "rune \<Rightarrow> bool" where
  "is_space r \<longleftrightarrow>
     r \<in> {9, 10, 11, 12, 13, 32, 133, 160, 5760, 8232, 8233, 8239, 8287, 12288}
     \<or> (8192 \<le> r \<and> r \<le> 8202)"

definition chunk_bytes :: "(rune \<times> string) list \<Rightarrow> string" where
  "chunk_bytes ks = concat (map snd ks)"

definition space_chunk :: "rune \<times> string \<Rightarrow> bool" where
  "space_chunk k \<longleftrightarrow> is_space (fst k)"

definition TrimSpace :: "string \<Rightarrow> string" where
  "TrimSpace s =
     chunk_bytes (rev (dropWhile space_chunk (rev (dropWhile space_chunk (chunks s)))))"

text \<open>The maximal runs of chunks without a space, as \<^verbatim>\<open>strings.Fields\<close> collects them.\<close>

fun field_runs :: "(rune \<times> string) list \<Rightarrow> (rune \<times> string) list \<Rightarrow> (rune \<times> string) list list" where
  "field_runs cur [] = (if cur = [] then [] else [rev cur])"
| "field_runs cur (k # ks) =
     (if space_chunk k then (if cur = [] then field_runs [] ks else rev cur # field_runs [] ks)
      else field_runs (k # cur) ks)"

definition Fields :: "string \<Rightarrow> string list" where
  "Fields s = map chunk_bytes (field_runs [] (chunks s))"

text \<open>\<^verbatim>\<open>strings.TrimRight\<close> and \<^verbatim>\<open>strings.Trim\<close> with a cutset of ASCII characters.\<close>

definition TrimRight :: "string \<Rightarrow> string \<Rightarrow> string" where
  "TrimRight s cutset = rev (dropWhile (\<lambda>c. c \<in> set cutset) (rev s))"

definition Trim :: "string \<Rightarrow> string \<Rightarrow> string" where
  "Trim s cutset = TrimRight (dropWhile (\<lambda>c. c \<in> set cutset) s) cutset"

fun HasPrefix :: "string \<Rightarrow> string \<Rightarrow> bool" where
  "HasPrefix s [] = True"
| "HasPrefix [] (p # ps) = False"
| "HasPrefix (c # cs) (p # ps) = (c = p \<and> HasPrefix cs ps)"

definition TrimPrefix :: "string \<Rightarrow> string \<Rightarrow> string" where
  "TrimPrefix s p = (if HasPrefix s p then drop (length p) s else s)"

fun Join :: "string list \<Rightarrow> string \<Rightarrow> string" where
  "Join [] sep = []"
| "Join [s] sep = s"
| "Join (s # t # ss) sep = s @ sep @ Join (t # ss) sep"

text \<open>\<^verbatim>\<open>strings.ReplaceAll(s, old, "")\<close> for a non-empty \<^verbatim>\<open>old\<close>.\<close>

function remove_all :: "string \<Rightarrow> string \<Rightarrow> string" where
  "remove_all old [] = []"
| "remove_all old (c # cs) =
     (if old \<noteq> [] \<and> HasPrefix (c # cs) old then remove_all old (drop (length old) (c # cs))
      else c # remove_all old cs)"
  by pat_completeness auto
termination
  by (relation "measure (\<lambda>(old, s). length s)") auto

section \<open>Lower case\<close>

text \<open>
  \<^verbatim>\<open>unicode.ToLower\<close>: ASCII by shifting the capital letters, the rest by the Unicode tables
  \<^term>\<open>uni\<close>. \<^verbatim>\<open>strings.ToLower\<close> maps it over the runes and re-encodes them.
\<close>

definition lower_rune :: "(rune \<Rightarrow> rune) \<Rightarrow> rune \<Rightarrow> rune" where
  "lower_rune uni r =
     (if r < 128 then (if 65 \<le> r \<and> r \<le> 90 then r + 32 else r) else uni r)"

definition ToLower :: "(rune \<Rightarrow> rune) \<Rightarrow> string \<Rightarrow> string" where
  "ToLower uni s = encode (map (lower_rune uni) (runes s))"

section \<open>Lemmas on decoding\<close>

declare decode_rune.simps(2) [simp del]
declare chunks.simps(2) [simp del]
declare remove_all.simps(2) [simp del]

lemma byte_char_of [simp]: "n < 256 \<Longrightarrow> byte (char_of n) = n"
  by (simp add: byte_def)

lemma byte_less [simp]: "byte c < 256"
  using mod_less_divisor [of 256 "byte c"] by (simp add: byte_def)

lemma decode_rune_ascii: "byte c < 128 \<Longrightarrow> decode_rune (c # cs) = (byte c, 1)"
  by (simp add: decode_rune.simps(2) utf8_shape_def)

lemma chunks_ascii: "byte c < 128 \<Longrightarrow> chunks (c # cs) = (byte c, [c]) # chunks cs"
  by (simp add: chunks.simps(2) decode_rune_ascii)

lemma chunk_bytes_chunks [simp]: "chunk_bytes (chunks s) = s"
proof (induction s rule: chunks.induct)
  case (2 c cs)
  obtain r w where "decode_rune (c # cs) = (r, w)" by force
  with 2 show ?case
    by (simp add: chunks.simps(2) chunk_bytes_def)
qed (simp add: chunk_bytes_def)

lemma decode_rune_2:
  "utf8_shape (byte c) = (2, lo, hi) \<Longrightarrow> in_range lo hi c1 \<Longrightarrow>
   decode_rune (c # c1 # rest) = (byte c mod 32 * 64 + byte c1 mod 64, 2)"
  by (simp add: decode_rune.simps(2))

lemma decode_rune_3:
  "utf8_shape (byte c) = (3, lo, hi) \<Longrightarrow> in_range lo hi c1 \<Longrightarrow> in_range 128 191 c2 \<Longrightarrow>
   decode_rune (c # c1 # c2 # rest) =
     (byte c mod 16 * 4096 + byte c1 mod 64 * 64 + byte c2 mod 64, 3)"
  by (simp add: decode_rune.simps(2))

lemma decode_rune_4:
  "utf8_shape (byte c) = (4, lo, hi) \<Longrightarrow> in_range lo hi c1 \<Longrightarrow> in_range 128 191 c2 \<Longrightarrow>
   in_range 128 191 c3 \<Longrightarrow>
   decode_rune (c # c1 # c2 # c3 # rest) =
     (byte c mod 8 * 262144 + byte c1 mod 64 * 4096 + byte c2 mod 64 * 64 + byte c3 mod 64, 4)"
  by (simp add: decode_rune.simps(2))

text \<open>The base-64 digits a rune is cut into, and the rune they add up to.\<close>

lemma base64_digits_2: "(r::nat) div 64 * 64 + r mod 64 = r"
  by simp

lemma base64_digits_3: "(r::nat) div 4096 * 4096 + r div 64 mod 64 * 64 + r mod 64 = r"
proof -
  have "r div 64 div 64 * 64 + r div 64 mod 64 = r div 64" by (rule div_mult_mod_eq)
  moreover have "r div 64 * 64 + r mod 64 = r" by (rule div_mult_mod_eq)
  moreover have "r div 64 div 64 = r div 4096" by (simp add: div_mult2_eq [symmetric])
  ultimately show ?thesis by linarith
qed

lemma base64_digits_4:
  "(r::nat) div 262144 * 262144 + r div 4096 mod 64 * 4096 + r div 64 mod 64 * 64 + r mod 64 = r"
proof -
  have "r div 4096 div 64 * 64 + r div 4096 mod 64 = r div 4096" by (rule div_mult_mod_eq)
  moreover have "r div 4096 div 64 = r div 262144" by (simp add: div_mult2_eq [symmetric])
  ultimately show ?thesis using base64_digits_3 [of r] by linarith
qed

lemma byte_digit [simp]: "byte (char_of (128 + d mod 64)) = 128 + (d::nat) mod 64"
proof -
  have "d mod 64 < 64" by simp
  then have "128 + d mod 64 < 256" by linarith
  then show ?thesis by (rule byte_char_of)
qed

lemma in_range_digit [simp]: "in_range 128 191 (char_of (128 + (d::nat) mod 64))"
proof -
  have "d mod 64 < 64" by simp
  then show ?thesis unfolding in_range_def byte_digit by linarith
qed

lemma mod_offset: "(k::nat) < m \<Longrightarrow> (q * m + k) mod m = k"
  by simp

lemma mod64_digit [simp]: "(128 + (d::nat) mod 64) mod 64 = d mod 64"
  using mod_offset [of "d mod 64" 64 2] by simp

lemma decode_encode_2:
  assumes "128 \<le> r" "r < 2048"
  shows "decode_rune (char_of (192 + r div 64) # char_of (128 + r mod 64) # rest) = (r, 2)"
proof -
  have b: "2 \<le> r div 64" "r div 64 < 32" using assms by arith+
  then have "utf8_shape (byte (char_of (192 + r div 64))) = (2, 128, 191)"
    by (simp add: utf8_shape_def)
  moreover have "(192 + r div 64) mod 32 = r div 64"
    using b mod_offset [of "r div 64" 32 6] by simp
  ultimately show ?thesis using b by (simp add: decode_rune_2)
qed

lemma decode_encode_3:
  assumes "2048 \<le> r" "r < 65536" "valid_rune r"
  shows "decode_rune (char_of (224 + r div 4096) # char_of (128 + r div 64 mod 64)
           # char_of (128 + r mod 64) # rest) = (r, 3)"
proof -
  let ?b = "224 + r div 4096" and ?c1 = "char_of (128 + r div 64 mod 64)"
  have b: "r div 4096 < 16" using assms by arith
  have c1: "byte ?c1 = 128 + r div 64 mod 64" by (rule byte_digit)
  have le63: "r div 64 mod 64 \<le> 63" using mod_less_divisor [of 64 "r div 64"] by linarith
  have d: "r div 64 = r div 4096 * 64 + r div 64 mod 64"
    using base64_digits_3 [of r] div_mult_mod_eq [of r 64] by linarith
  obtain lo hi where shape: "utf8_shape ?b = (3, lo, hi)" and rng: "in_range lo hi ?c1"
  proof -
    consider "r div 4096 = 0" | "r div 4096 = 13" | "r div 4096 \<noteq> 0" "r div 4096 \<noteq> 13" by blast
    then show thesis
    proof cases
      case 1
      then have "32 \<le> r div 64 mod 64" using d assms(1) by arith
      then show thesis using 1 c1 le63
        by (intro that [of 160 191]) (simp_all add: utf8_shape_def in_range_def)
    next
      case 2
      then have "r < 55296" using assms(3) unfolding valid_rune_def by arith
      then have "r div 64 mod 64 \<le> 31" using 2 d by arith
      then show thesis using 2 c1
        by (intro that [of 128 159]) (simp_all add: utf8_shape_def in_range_def)
    next
      case 3
      show thesis using 3 b c1 le63
        by (intro that [of 128 191]) (simp_all add: utf8_shape_def in_range_def)
    qed
  qed
  have "?b mod 16 = r div 4096" using b mod_offset [of "r div 4096" 16 14] by simp
  then show ?thesis
    using shape rng b base64_digits_3 [of r] by (simp add: decode_rune_3)
qed

lemma decode_encode_4:
  assumes "65536 \<le> r" "r \<le> 1114111"
  shows "decode_rune (char_of (240 + r div 262144) # char_of (128 + r div 4096 mod 64)
           # char_of (128 + r div 64 mod 64) # char_of (128 + r mod 64) # rest) = (r, 4)"
proof -
  let ?b = "240 + r div 262144" and ?c1 = "char_of (128 + r div 4096 mod 64)"
  have b: "r div 262144 \<le> 4" using assms by arith
  have c1: "byte ?c1 = 128 + r div 4096 mod 64" by (rule byte_digit)
  have le63: "r div 4096 mod 64 \<le> 63" using mod_less_divisor [of 64 "r div 4096"] by linarith
  have d: "r div 4096 = r div 262144 * 64 + r div 4096 mod 64"
    using base64_digits_4 [of r] base64_digits_3 [of r] by linarith
  have d16: "16 \<le> r div 4096" "r div 4096 \<le> 271" using assms by arith+
  obtain lo hi where shape: "utf8_shape ?b = (4, lo, hi)" and rng: "in_range lo hi ?c1"
  proof -
    consider "r div 262144 = 0" | "r div 262144 = 4" | "r div 262144 \<noteq> 0" "r div 262144 < 4"
      using b by linarith
    then show thesis
    proof cases
      case 1
      then show thesis using c1 le63 d d16
        by (intro that [of 144 191]) (simp_all add: utf8_shape_def in_range_def)
    next
      case 2
      then show thesis using c1 d d16
        by (intro that [of 128 143]) (simp_all add: utf8_shape_def in_range_def)
    next
      case 3
      then show thesis using c1 le63
        by (intro that [of 128 191]) (simp_all add: utf8_shape_def in_range_def)
    qed
  qed
  have "?b mod 8 = r div 262144" using b mod_offset [of "r div 262144" 8 30] by simp
  then show ?thesis
    using shape rng b base64_digits_4 [of r] by (simp add: decode_rune_4)
qed

lemma decode_encode_rune:
  assumes "valid_rune r"
  shows "decode_rune (encode_rune r @ rest) = (r, length (encode_rune r))"
proof -
  consider "r < 128" | "128 \<le> r" "r < 2048" | "2048 \<le> r" "r < 65536"
    | "65536 \<le> r" "r \<le> 1114111"
    using assms unfolding valid_rune_def by linarith
  then show ?thesis
    using assms
    by cases (simp_all add: encode_rune_def decode_rune_ascii decode_encode_2
        decode_encode_3 decode_encode_4)
qed

lemma encode_rune_not_Nil [simp]: "encode_rune r \<noteq> []"
  by (simp add: encode_rune_def Let_def)

lemma chunks_encode_rune:
  assumes "valid_rune r"
  shows "chunks (encode_rune r @ rest) = (r, encode_rune r) # chunks rest"
proof -
  obtain c cs where e: "encode_rune r = c # cs" by (cases "encode_rune r") auto
  show ?thesis
    using decode_encode_rune [OF assms, of rest] by (simp add: e chunks.simps(2))
qed

lemma chunks_encode:
  "\<forall>r \<in> set rs. valid_rune r \<Longrightarrow>
   chunks (encode rs @ rest) = map (\<lambda>r. (r, encode_rune r)) rs @ chunks rest"
  by (induction rs) (simp_all add: encode_def chunks_encode_rune)

lemma runes_encode: "\<forall>r \<in> set rs. valid_rune r \<Longrightarrow> runes (encode rs) = rs"
  using chunks_encode [of rs "[]"] by (simp add: runes_def comp_def)

lemma rune_count_encode:
  "\<forall>r \<in> set rs. valid_rune r \<Longrightarrow> rune_count (encode rs @ rest) = length rs + rune_count rest"
  by (simp add: rune_count_def chunks_encode)

section \<open>Decoded runes are valid\<close>

lemma valid_RuneError [simp]: "valid_rune RuneError"
  by (simp add: valid_rune_def RuneError_def)

lemma valid_rune_small: "r < 55296 \<Longrightarrow> valid_rune r"
  by (simp add: valid_rune_def)

lemma mod_between:
  assumes "q * m \<le> b" "b < q * m + (m::nat)"
  obtains x where "b = q * m + x" "x < m" "b mod m = x"
proof
  show "b = q * m + (b - q * m)" "b - q * m < m" using assms by linarith+
  then show "b mod m = b - q * m" by (metis mod_offset)
qed

lemma valid_rune_digits_3:
  assumes "x < 16" "y < 64" "z < 64" "x = 13 \<Longrightarrow> y \<le> 31"
  shows "valid_rune (x * 4096 + y * 64 + z)"
proof -
  consider "x \<le> 12" | "x = 13" | "14 \<le> x" by linarith
  then show ?thesis
  proof cases
    case 1
    then show ?thesis using assms by (intro valid_rune_small) linarith
  next
    case 2
    then have "y \<le> 31" by (rule assms(4))
    then show ?thesis using 2 assms(3) by (intro valid_rune_small) linarith
  next
    case 3
    then have "57344 \<le> x * 4096 + y * 64 + z" by linarith
    moreover have "x * 4096 + y * 64 + z \<le> 1114111" using assms(1-3) by linarith
    ultimately show ?thesis unfolding valid_rune_def by blast
  qed
qed

lemma valid_rune_3:
  assumes "utf8_shape b = (3, lo, hi)" "lo \<le> b1" "b1 \<le> hi" "128 \<le> b2" "b2 \<le> 191"
  shows "valid_rune (b mod 16 * 4096 + b1 mod 64 * 64 + b2 mod 64)"
proof -
  have r: "224 \<le> b" "b < 240" "128 \<le> lo" "hi \<le> 191" and ed: "b = 237 \<Longrightarrow> hi = 159"
    using assms(1) by (auto simp: utf8_shape_def split: if_splits)
  obtain x where x: "b = 14 * 16 + x" "x < 16" "b mod 16 = x"
    by (rule mod_between [of 14 16 b]) (use r in simp_all)
  obtain y where y: "b1 = 2 * 64 + y" "y < 64" "b1 mod 64 = y"
    by (rule mod_between [of 2 64 b1]) (use r assms in simp_all)
  obtain z where z: "b2 = 2 * 64 + z" "z < 64" "b2 mod 64 = z"
    by (rule mod_between [of 2 64 b2]) (use assms in simp_all)
  have "y \<le> 31" if "x = 13" using that ed x(1) y(1) assms(3) by simp
  then show ?thesis unfolding x(3) y(3) z(3)
    by (rule valid_rune_digits_3 [OF x(2) y(2) z(2)])
qed

lemma valid_rune_4:
  assumes "utf8_shape b = (4, lo, hi)" "lo \<le> b1" "b1 \<le> hi" "128 \<le> b2" "b2 \<le> 191"
    "128 \<le> b3" "b3 \<le> 191"
  shows "valid_rune (b mod 8 * 262144 + b1 mod 64 * 4096 + b2 mod 64 * 64 + b3 mod 64)"
proof -
  have r: "240 \<le> b" "b \<le> 244" "128 \<le> lo" "hi \<le> 191"
    and first: "b = 240 \<Longrightarrow> lo = 144" and last: "b = 244 \<Longrightarrow> hi = 143"
    using assms(1) by (auto simp: utf8_shape_def split: if_splits)
  obtain x where x: "b = 30 * 8 + x" "x < 8" "b mod 8 = x"
    by (rule mod_between [of 30 8 b]) (use r in simp_all)
  obtain y where y: "b1 = 2 * 64 + y" "y < 64" "b1 mod 64 = y"
    by (rule mod_between [of 2 64 b1]) (use r assms in simp_all)
  obtain z where z: "b2 = 2 * 64 + z" "z < 64" "b2 mod 64 = z"
    by (rule mod_between [of 2 64 b2]) (use assms in simp_all)
  obtain u where u: "b3 = 2 * 64 + u" "u < 64" "b3 mod 64 = u"
    by (rule mod_between [of 2 64 b3]) (use assms in simp_all)
  have "16 \<le> y" if "x = 0" using that first x(1) y(1) assms(2) by simp
  moreover have "y \<le> 15" if "x = 4" using that last x(1) y(1) assms(3) by simp
  moreover have "x \<le> 4" using x(1) r(2) by simp
  ultimately have "57344 \<le> x * 262144 + y * 4096 + z * 64 + u"
    and "x * 262144 + y * 4096 + z * 64 + u \<le> 1114111"
    using y(2) z(2) u(2) by (cases "x = 0", linarith, linarith, cases "x = 4", linarith, linarith)
  then show ?thesis unfolding x(3) y(3) z(3) u(3) valid_rune_def by blast
qed

lemma decode_rune_valid: "valid_rune (fst (decode_rune s))"
proof (cases s)
  case (Cons c cs)
  obtain n lo hi where sh: "utf8_shape (byte c) = (n, lo, hi)" by (metis prod_cases3)
  have two: "valid_rune (byte c mod 32 * 64 + d mod 64)" for d
  proof -
    have "byte c mod 32 \<le> 31" "d mod 64 \<le> 63"
      using mod_less_divisor [of 32 "byte c"] mod_less_divisor [of 64 d] by linarith+
    then show ?thesis by (intro valid_rune_small) linarith
  qed
  have one: "n = 1 \<Longrightarrow> valid_rune (byte c)"
    using sh by (auto simp: utf8_shape_def valid_rune_def split: if_splits)
  have n: "n = 0 \<or> n = 1 \<or> n = 2 \<or> n = 3 \<or> n = 4"
    using sh by (auto simp: utf8_shape_def split: if_splits)
  show ?thesis
    using sh one two n valid_rune_3 [of "byte c" lo hi] valid_rune_4 [of "byte c" lo hi]
    by (auto simp: Cons Let_def decode_rune.simps(2) in_range_def split: list.splits)
qed simp

lemma runes_valid: "r \<in> set (runes s) \<Longrightarrow> valid_rune r"
proof (induction s rule: chunks.induct)
  case (2 c cs)
  obtain r' w where "decode_rune (c # cs) = (r', w)" by force
  with 2 decode_rune_valid [of "c # cs"] show ?case
    by (auto simp: runes_def chunks.simps(2))
qed (simp add: runes_def)

section \<open>Counting runes of a concatenation\<close>

text \<open>A string whose first byte continues no sequence: whatever comes before it decodes alone.\<close>

definition starts_rune :: "string \<Rightarrow> bool" where
  "starts_rune s \<longleftrightarrow> (case s of [] \<Rightarrow> True | c # _ \<Rightarrow> \<not> in_range 128 191 c)"

lemma starts_rune_ascii [simp]: "byte c < 128 \<Longrightarrow> starts_rune (c # cs)"
  by (simp add: starts_rune_def in_range_def)

lemma decode_rune_append:
  assumes "starts_rune t"
  shows "decode_rune (c # cs @ t) = decode_rune (c # cs)"
proof -
  obtain n lo hi where sh: "utf8_shape (byte c) = (n, lo, hi)" by (metis prod_cases3)
  have bounds: "n \<le> 1 \<or> (128 \<le> lo \<and> hi \<le> 191)"
    using sh by (auto simp: utf8_shape_def split: if_splits)
  show ?thesis
  proof (cases t)
    case (Cons d ds)
    have "\<not> in_range 128 191 d" using assms by (simp add: Cons starts_rune_def)
    moreover from this bounds have "n \<le> 1 \<or> \<not> in_range lo hi d" by (auto simp: in_range_def)
    ultimately show ?thesis
      using sh by (auto simp: Cons Let_def decode_rune.simps(2) append_eq_Cons_conv
          split: list.splits)
  qed simp
qed

lemma decode_rune_width_le: "snd (decode_rune (c # cs)) \<le> Suc (length cs)"
  by (auto simp: Let_def decode_rune.simps(2) split: list.splits prod.splits)

lemma chunks_append: "starts_rune t \<Longrightarrow> chunks (s @ t) = chunks s @ chunks t"
proof (induction s rule: chunks.induct)
  case (2 c cs)
  obtain r w where d: "decode_rune (c # cs) = (r, w)" by force
  then have w: "w \<le> Suc (length cs)" using decode_rune_width_le [of c cs] by simp
  have "drop w (c # cs @ t) = drop w (c # cs) @ t"
    using w drop_append [of w "c # cs" t] by simp
  moreover have "take w (c # cs @ t) = take w (c # cs)"
    using w take_append [of w "c # cs" t] by simp
  ultimately show ?case
    using 2 d by (simp add: chunks.simps(2) decode_rune_append)
qed simp

lemma rune_count_runes: "rune_count s = length (runes s)"
  by (simp add: rune_count_def runes_def)

lemma rune_count_append: "starts_rune t \<Longrightarrow> rune_count (s @ t) = rune_count s + rune_count t"
  by (simp add: rune_count_def chunks_append)

lemma rune_count_Nil [simp]: "rune_count [] = 0"
  by (simp add: rune_count_def)

lemma rune_count_ascii_Cons: "byte c < 128 \<Longrightarrow> rune_count (c # cs) = Suc (rune_count cs)"
  by (simp add: rune_count_def chunks_ascii)

lemma rune_count_ascii: "\<forall>c \<in> set s. byte c < 128 \<Longrightarrow> rune_count s = length s"
  by (induction s) (simp_all add: rune_count_ascii_Cons)

section \<open>Lower case and trimming on ASCII\<close>

lemma runes_ascii: "\<forall>c \<in> set s. byte c < 128 \<Longrightarrow> runes s = map byte s"
  by (induction s) (simp_all add: runes_def chunks_ascii)

lemma HasPrefix_iff: "HasPrefix s p \<longleftrightarrow> (\<exists>t. s = p @ t)"
  by (induction s p rule: HasPrefix.induct) auto

lemma HasPrefix_append [simp]: "HasPrefix (p @ t) p"
  by (auto simp: HasPrefix_iff)

end
