(* ===== verification/Protocol.thy ===== *)
theory Protocol
  imports Complex_Main Go_Text
begin

text \<open>
  The wire protocol of \<^verbatim>\<open>internal/protocol\<close>: message types, the envelope, the payload structs,
  which types are delivered at least once, and how replies refer to the message they answer.
  The JSON text of a payload is represented by the struct it decodes into; a payload whose
  text does not decode is \<open>PUndecodable\<close>.
\<close>

section \<open>Message types and codes\<close>

abbreviation "TypeHello \<equiv> ''hello''"
abbreviation "TypePing \<equiv> ''ping''"
abbreviation "TypeJobProgress \<equiv> ''job.progress''"
abbreviation "TypeJobResult \<equiv> ''job.result''"
abbreviation "TypeApprovalRequest \<equiv> ''approval.request''"
abbreviation "TypeWelcome \<equiv> ''welcome''"
abbreviation "TypePong \<equiv> ''pong''"
abbreviation "TypeJobDispatch \<equiv> ''job.dispatch''"
abbreviation "TypeJobCancel \<equiv> ''job.cancel''"
abbreviation "TypeApprovalResponse \<equiv> ''approval.response''"
abbreviation "TypeAck \<equiv> ''ack''"
abbreviation "TypeError \<equiv> ''error''"

definition NeedsAck :: "string \<Rightarrow> bool" where
  "NeedsAck typ \<longleftrightarrow>
     typ \<in> {TypeJobDispatch, TypeJobCancel, TypeApprovalResponse, TypeJobResult,
            TypeApprovalRequest}"

abbreviation "NackUnknownJob \<equiv> ''unknown_job''"
abbreviation "NackWorkspaceUnknown \<equiv> ''workspace_unknown''"
abbreviation "NackBusy \<equiv> ''busy''"
abbreviation "NackBadPayload \<equiv> ''bad_payload''"
abbreviation "NackForbidden \<equiv> ''forbidden''"
abbreviation "NackAgentUnknown \<equiv> ''agent_unknown''"
abbreviation "ErrUnknownType \<equiv> ''unknown_type''"

abbreviation "DecisionAllow \<equiv> ''allow''"
abbreviation "DecisionDeny \<equiv> ''deny''"

abbreviation "StatusSucceeded \<equiv> ''succeeded''"
abbreviation "StatusFailed \<equiv> ''failed''"
abbreviation "StatusCancelled \<equiv> ''cancelled''"

abbreviation "PhaseStarting \<equiv> ''starting''"
abbreviation "PhaseRunning \<equiv> ''running''"
abbreviation "PhaseAwaitingApproval \<equiv> ''awaiting_approval''"

abbreviation "ActionResume \<equiv> ''resume''"
abbreviation "ActionAbort \<equiv> ''abort''"

abbreviation "CloseReplaced \<equiv> (4001::int)"
abbreviation "CloseUnauthorized \<equiv> (4003::int)"
abbreviation "CloseVersionTooOld \<equiv> (4004::int)"
abbreviation "CloseProtocolViolate \<equiv> (4005::int)"

definition MaxFileBytes :: int where
  "MaxFileBytes = 8 * 2 ^ 20"

section \<open>Payload structs\<close>

record Ack =
  ak_OK :: bool
  ak_Code :: string
  ak_Message :: string

record HelloJob =
  hj_JobID :: string
  hj_State :: string
  hj_LastSeq :: int
  hj_PendingApprovals :: "string list"

record Hello =
  he_HarnessVersion :: string
  he_Hostname :: string
  he_Workspaces :: "string list"
  he_MaxJobs :: int
  he_Jobs :: "HelloJob list"

record WelcomeJob =
  wj_JobID :: string
  wj_Action :: string
  wj_Reason :: string

record Welcome =
  we_HarnessID :: string
  we_HeartbeatIntervalMS :: int
  we_ServerTime :: int
  we_Jobs :: "WelcomeJob list"

record File =
  fl_Name :: string
  fl_Mime :: string
  fl_DataB64 :: string

record HistoryPost =
  hp_Username :: string
  hp_At :: int
  hp_Text :: string

record JobDispatch =
  jd_BotUserID :: string
  jd_Workspace :: string
  jd_Agent :: string
  jd_Prompt :: string
  jd_ChannelID :: string
  jd_RootPostID :: string
  jd_TriggerPostID :: string
  jd_RequesterID :: string
  jd_RequesterName :: string
  jd_Attachments :: "File list"
  jd_History :: "HistoryPost list"
  jd_MaxTurns :: int
  jd_TimeoutMS :: int

record JobProgress =
  jp_Seq :: int
  jp_Phase :: string
  jp_Text :: string
  jp_CurrentTool :: string
  jp_Turns :: int

record JobError =
  je_Code :: string
  je_Message :: string

record Usage =
  us_Turns :: int
  us_DurationMS :: int
  us_CostUSD :: rat

record JobResult =
  jr_Status :: string
  jr_Text :: string
  jr_Error :: "JobError option"
  jr_Files :: "File list"
  jr_Usage :: Usage

record ApprovalRequest =
  ar_ApprovalID :: string
  ar_Tool :: string
  ar_Summary :: string
  ar_Input :: string
  ar_CWD :: string
  ar_ExpiresAt :: int

record ApprovalResponse =
  ap_ApprovalID :: string
  ap_Decision :: string
  ap_DecidedBy :: string
  ap_DecidedAt :: int

datatype payload =
    PHello Hello
  | PWelcome Welcome
  | PPing int
  | PPong int
  | PDispatch JobDispatch
  | PCancel string
  | PProgress JobProgress
  | PResult JobResult
  | PApprovalRequest ApprovalRequest
  | PApprovalResponse ApprovalResponse
  | PAck Ack
  | PError string string
  | PUndecodable

section \<open>Envelopes\<close>

record Envelope =
  en_ID :: string
  en_Type :: string
  en_JobID :: string
  en_Ref :: string
  en_TS :: int
  en_Payload :: payload

text \<open>
  \<^verbatim>\<open>NewID\<close>: the ULID is drawn from a third-party package and arrives as an argument.
\<close>

definition NewID :: "string \<Rightarrow> string \<Rightarrow> string" where
  "NewID ulid prefix = prefix @ ''_'' @ ulid"

definition HasIDPrefix :: "nat \<Rightarrow> string \<Rightarrow> string \<Rightarrow> bool" where
  "HasIDPrefix encodedSize i prefix \<longleftrightarrow>
     HasPrefix i (prefix @ ''_'') \<and> length i = length prefix + 1 + encodedSize"

definition New :: "string \<Rightarrow> time \<Rightarrow> string \<Rightarrow> string \<Rightarrow> payload \<Rightarrow> Envelope" where
  "New ulid now typ jobID p =
     \<lparr>en_ID = NewID ulid ''msg'', en_Type = typ, en_JobID = jobID, en_Ref = [],
      en_TS = ms now, en_Payload = p\<rparr>"

definition Reply :: "string \<Rightarrow> time \<Rightarrow> string \<Rightarrow> Envelope \<Rightarrow> payload \<Rightarrow> Envelope" where
  "Reply ulid now typ to p = (New ulid now typ (en_JobID to) p)\<lparr>en_Ref := en_ID to\<rparr>"

definition ack_ok :: Ack where
  "ack_ok = \<lparr>ak_OK = True, ak_Code = [], ak_Message = []\<rparr>"

definition nack :: "string \<Rightarrow> string \<Rightarrow> Ack" where
  "nack code msg = \<lparr>ak_OK = False, ak_Code = code, ak_Message = msg\<rparr>"

definition zero_ack :: Ack where
  "zero_ack = \<lparr>ak_OK = False, ak_Code = [], ak_Message = []\<rparr>"

section \<open>Decoding a payload\<close>

fun decode_hello :: "payload \<Rightarrow> Hello option" where
  "decode_hello (PHello h) = Some h"
| "decode_hello _ = None"

fun decode_ack :: "payload \<Rightarrow> Ack option" where
  "decode_ack (PAck a) = Some a"
| "decode_ack _ = None"

fun decode_progress :: "payload \<Rightarrow> JobProgress option" where
  "decode_progress (PProgress p) = Some p"
| "decode_progress _ = None"

fun decode_result :: "payload \<Rightarrow> JobResult option" where
  "decode_result (PResult r) = Some r"
| "decode_result _ = None"

fun decode_approval_request :: "payload \<Rightarrow> ApprovalRequest option" where
  "decode_approval_request (PApprovalRequest r) = Some r"
| "decode_approval_request _ = None"

fun decode_dispatch :: "payload \<Rightarrow> JobDispatch option" where
  "decode_dispatch (PDispatch d) = Some d"
| "decode_dispatch _ = None"

fun decode_cancel :: "payload \<Rightarrow> string option" where
  "decode_cancel (PCancel r) = Some r"
| "decode_cancel _ = None"

fun decode_approval_response :: "payload \<Rightarrow> ApprovalResponse option" where
  "decode_approval_response (PApprovalResponse r) = Some r"
| "decode_approval_response _ = None"

fun decode_welcome :: "payload \<Rightarrow> Welcome option" where
  "decode_welcome (PWelcome w) = Some w"
| "decode_welcome _ = None"

section \<open>Lemmas\<close>

lemma Reply_fields [simp]:
  "en_Ref (Reply u t typ to p) = en_ID to"
  "en_JobID (Reply u t typ to p) = en_JobID to"
  "en_Type (Reply u t typ to p) = typ"
  "en_Payload (Reply u t typ to p) = p"
  by (simp_all add: Reply_def New_def)

lemma New_fields [simp]:
  "en_ID (New u t typ j p) = NewID u ''msg''"
  "en_Type (New u t typ j p) = typ"
  "en_JobID (New u t typ j p) = j"
  "en_Payload (New u t typ j p) = p"
  by (simp_all add: New_def)

lemma NewID_inject [simp]: "NewID u p = NewID v p \<longleftrightarrow> u = v"
  by (simp add: NewID_def)

lemma ack_simps [simp]:
  "ak_OK ack_ok" "\<not> ak_OK (nack c m)" "ak_Code (nack c m) = c"
  by (simp_all add: ack_ok_def nack_def)

section \<open>Well-typed envelopes\<close>

text \<open>The type of message a payload is the struct of.\<close>

fun payload_type :: "payload \<Rightarrow> string option" where
  "payload_type (PHello _) = Some TypeHello"
| "payload_type (PWelcome _) = Some TypeWelcome"
| "payload_type (PPing _) = Some TypePing"
| "payload_type (PPong _) = Some TypePong"
| "payload_type (PDispatch _) = Some TypeJobDispatch"
| "payload_type (PCancel _) = Some TypeJobCancel"
| "payload_type (PProgress _) = Some TypeJobProgress"
| "payload_type (PResult _) = Some TypeJobResult"
| "payload_type (PApprovalRequest _) = Some TypeApprovalRequest"
| "payload_type (PApprovalResponse _) = Some TypeApprovalResponse"
| "payload_type (PAck _) = Some TypeAck"
| "payload_type (PError _ _) = Some TypeError"
| "payload_type PUndecodable = None"

text \<open>An envelope is well-typed when its payload is the struct of its type.\<close>

definition typed :: "Envelope \<Rightarrow> bool" where
  "typed e \<longleftrightarrow> payload_type (en_Payload e) = Some (en_Type e)"

declare payload_type.simps [life_intro]

lemma typed_New [life_intro]: "payload_type p = Some t \<Longrightarrow> typed (New u now t j p)"
  by (simp add: typed_def New_def)

lemma typed_Reply [life_intro]: "payload_type p = Some t \<Longrightarrow> typed (Reply u now t e p)"
  by (simp add: typed_def Reply_def New_def)

end
