(* ===== verification/Store.thy ===== *)
theory Store
  imports Protocol "HOL-Library.Char_ord" "HOL-Library.List_Lexorder"
begin

text \<open>
  The broker's persistence boundary, \<^verbatim>\<open>internal/store/store.go\<close>: job states, the row structs
  and the errors of the store interface, and the database state the SQLite implementation
  works on. A table is the list of its rows in insertion order. \<open>sqlFault\<close> says which SQL
  statements currently fail in the driver; no operation changes it, so every statement about
  the store holds for every pattern of driver failures.
\<close>

section \<open>Job states\<close>

datatype JobState =
    JobQueued | JobDispatched | JobRunning | JobAwaitingApproval
  | JobSucceeded | JobFailed | JobCancelled | JobLost | JobExpired

fun Terminal :: "JobState \<Rightarrow> bool" where
  "Terminal JobSucceeded = True"
| "Terminal JobFailed = True"
| "Terminal JobCancelled = True"
| "Terminal JobLost = True"
| "Terminal JobExpired = True"
| "Terminal _ = False"

definition ActiveStates :: "JobState list" where
  "ActiveStates = [JobQueued, JobDispatched, JobRunning, JobAwaitingApproval]"

fun job_state_string :: "JobState \<Rightarrow> string" where
  "job_state_string JobQueued = ''queued''"
| "job_state_string JobDispatched = ''dispatched''"
| "job_state_string JobRunning = ''running''"
| "job_state_string JobAwaitingApproval = ''awaiting_approval''"
| "job_state_string JobSucceeded = ''succeeded''"
| "job_state_string JobFailed = ''failed''"
| "job_state_string JobCancelled = ''cancelled''"
| "job_state_string JobLost = ''lost''"
| "job_state_string JobExpired = ''expired''"

section \<open>Rows\<close>

record Harness =
  hn_ID :: string
  hn_MMUserID :: string
  hn_Name :: string
  hn_TokenHash :: string
  hn_Version :: string
  hn_CreatedAt :: time
  hn_LastSeenAt :: "time option"

record Pairing =
  pr_CodeHash :: string
  pr_MMUserID :: string
  pr_ExpiresAt :: time
  pr_UsedAt :: "time option"

record Job =
  jb_ID :: string
  jb_HarnessID :: string
  jb_MMUserID :: string
  jb_ChannelID :: string
  jb_RootPostID :: string
  jb_TriggerPostID :: string
  jb_StatusPostID :: string
  jb_BotUserID :: string
  jb_Workspace :: string
  jb_Prompt :: string
  jb_State :: JobState
  jb_LastSeq :: int
  jb_ResultText :: string
  jb_Error :: string
  jb_CreatedAt :: time
  jb_UpdatedAt :: time
  jb_ExpiresAt :: "time option"
  jb_FinishedAt :: "time option"

record JobPatch =
  pt_StatusPostID :: "string option"
  pt_ResultText :: "string option"
  pt_Error :: "string option"

definition no_patch :: JobPatch where
  "no_patch = \<lparr>pt_StatusPostID = None, pt_ResultText = None, pt_Error = None\<rparr>"

record Approval =
  av_ID :: string
  av_JobID :: string
  av_Tool :: string
  av_Summary :: string
  av_Input :: string
  av_Nonce :: string
  av_RequestedAt :: time
  av_ExpiresAt :: time
  av_Decision :: string
  av_DecidedBy :: string
  av_DecidedAt :: "time option"

definition Pending :: "Approval \<Rightarrow> bool" where
  "Pending a \<longleftrightarrow> av_Decision a = []"

record OutboxMessage =
  ob_ID :: string
  ob_HarnessID :: string
  ob_JobID :: string
  ob_Type :: string
  ob_Payload :: payload
  ob_CreatedAt :: time
  ob_AckedAt :: "time option"

record Bot =
  bt_UserID :: string
  bt_MMUserID :: string
  bt_Username :: string
  bt_Token :: string
  bt_CreatedAt :: time
  bt_HarnessID :: string
  bt_TeamID :: string
  bt_ChannelID :: string
  bt_IncomingHookID :: string
  bt_OutgoingHookID :: string
  bt_OutgoingToken :: string

record Installation =
  il_TeamID :: string
  il_UserID :: string
  il_Credentials :: string
  il_CommandID :: string
  il_CommandToken :: string

record InitRequest =
  in_CodeHash :: string
  in_BotName :: string
  in_HarnessName :: string
  in_CreatedAt :: time
  in_ExpiresAt :: time
  in_ClaimedAt :: "time option"
  in_HarnessID :: string
  in_HarnessToken :: string
  in_FetchedAt :: "time option"
  in_BotUserID :: string
  in_PollTokenHash :: string

definition Claimed :: "InitRequest \<Rightarrow> bool" where
  "Claimed r \<longleftrightarrow> in_ClaimedAt r \<noteq> None"

text \<open>The JSON values the audit details use.\<close>

datatype detail = DStr string | DInt int | DBool bool | DRat rat

record AuditEntry =
  ae_At :: time
  ae_Actor :: string
  ae_Action :: string
  ae_JobID :: string
  ae_Details :: "(string \<times> detail) list"

record JobFilter =
  jf_BotUserID :: string
  jf_TriggerPostID :: string
  jf_MMUserID :: string
  jf_HarnessID :: string
  jf_RootPostID :: string
  jf_States :: "JobState list"
  jf_Limit :: int

definition any_job :: JobFilter where
  "any_job = \<lparr>jf_BotUserID = [], jf_TriggerPostID = [], jf_MMUserID = [], jf_HarnessID = [],
              jf_RootPostID = [], jf_States = [], jf_Limit = 0\<rparr>"

section \<open>Errors and the database\<close>

text \<open>
  \<open>ErrForeignKey\<close> is the driver's foreign-key error and \<open>ErrNoFromState\<close> the guard of
  \<^verbatim>\<open>TransitionJob\<close>; both reach the caller unchanged, as every other driver error.
\<close>

datatype store_err = ErrNotFound | ErrConflict | ErrForeignKey | ErrNoFromState | ErrDriver

type_synonym 'a res = "store_err + 'a"

text \<open>One constructor per SQL statement of the implementation.\<close>

datatype sqlop =
    InsertHarness | SelectHarnessByID | SelectHarnessByToken | SelectHarnessesByUser
  | UpdateHarness | DeleteHarnessRow | InsertPairing | UpdatePairing
  | InsertJob | SelectJobByID | SelectJobs | UpdateJobState | UpdateJobSeq | UpdateJobsExpired
  | InsertApproval | SelectApprovalByID | SelectApprovalsByJob | UpdateApproval
  | InsertOutbox | SelectOutbox | UpdateOutbox | DeleteOutboxRows
  | InsertBot | SelectBotByOwner | SelectBotByUserID | SelectBots | SelectBotsByOwner
  | SelectBotByUsername | UpdateBotRow | DeleteBotRow
  | InsertInit | SelectInitByCode | SelectInitByHarness | UpdateInitClaim | UpdateInitFetch
  | TxBegin | TxSelectInit | TxSelectBot | TxInsertHarness | TxUpdateBot | TxUpdateInit | TxCommit
  | UpsertInstallation | SelectInstallation | SelectInstallations | InsertAudit

record db =
  harnesses :: "Harness list"
  pairings :: "Pairing list"
  jobs :: "Job list"
  approvals :: "Approval list"
  outbox :: "OutboxMessage list"
  bots :: "Bot list"
  init_requests :: "InitRequest list"
  installations :: "Installation list"
  audit_log :: "AuditEntry list"
  sqlFault :: "sqlop \<Rightarrow> bool"

definition empty_db :: db where
  "empty_db = \<lparr>harnesses = [], pairings = [], jobs = [], approvals = [], outbox = [], bots = [],
     init_requests = [], installations = [], audit_log = [], sqlFault = (\<lambda>_. False)\<rparr>"

section \<open>Lemmas\<close>

lemma ActiveStates_iff: "s \<in> set ActiveStates \<longleftrightarrow> \<not> Terminal s"
  by (cases s) (simp_all add: ActiveStates_def)

lemma ActiveStates_not_Nil [simp]: "ActiveStates \<noteq> []"
  by (simp add: ActiveStates_def)

lemma job_state_string_inject: "job_state_string s = job_state_string t \<Longrightarrow> s = t"
  by (cases s; cases t) simp_all

end
