(* ===== verification/Sqlite.thy ===== *)
theory Sqlite
  imports Store
begin

text \<open>
  The SQLite implementation of the store, \<^verbatim>\<open>internal/store/sqlite\<close>: one definition per method,
  following its SQL statements in their order, with the uniqueness, foreign-key and partial
  index constraints of \<^verbatim>\<open>migrations/0001_init.sql\<close>. Rows keep the Go struct that a later scan
  returns, so times are truncated to milliseconds when they are written. SQL leaves the order
  of rows that compare equal open; the model keeps insertion order there.
\<close>

section \<open>What a scan reads back after an insert\<close>

definition stored_harness :: "Harness \<Rightarrow> Harness" where
  "stored_harness h =
     h\<lparr>hn_CreatedAt := stored_time (hn_CreatedAt h),
       hn_LastSeenAt := map_option stored_time (hn_LastSeenAt h)\<rparr>"

definition stored_job :: "Job \<Rightarrow> Job" where
  "stored_job j =
     j\<lparr>jb_CreatedAt := stored_time (jb_CreatedAt j), jb_UpdatedAt := stored_time (jb_UpdatedAt j),
       jb_ExpiresAt := map_option stored_time (jb_ExpiresAt j),
       jb_FinishedAt := map_option stored_time (jb_FinishedAt j)\<rparr>"

definition stored_approval :: "Approval \<Rightarrow> Approval" where
  "stored_approval a =
     a\<lparr>av_Input := (if av_Input a = [] then ''null'' else av_Input a),
       av_RequestedAt := stored_time (av_RequestedAt a),
       av_ExpiresAt := stored_time (av_ExpiresAt a),
       av_DecidedAt := map_option stored_time (av_DecidedAt a)\<rparr>"

definition stored_outbox :: "OutboxMessage \<Rightarrow> OutboxMessage" where
  "stored_outbox m =
     m\<lparr>ob_CreatedAt := stored_time (ob_CreatedAt m),
       ob_AckedAt := map_option stored_time (ob_AckedAt m)\<rparr>"

definition stored_bot :: "Bot \<Rightarrow> Bot" where
  "stored_bot b = b\<lparr>bt_CreatedAt := stored_time (bt_CreatedAt b)\<rparr>"

definition stored_init :: "InitRequest \<Rightarrow> InitRequest" where
  "stored_init r =
     r\<lparr>in_CreatedAt := stored_time (in_CreatedAt r), in_ExpiresAt := stored_time (in_ExpiresAt r),
       in_ClaimedAt := map_option stored_time (in_ClaimedAt r),
       in_FetchedAt := map_option stored_time (in_FetchedAt r)\<rparr>"

text \<open>\<^verbatim>\<open>scanX(QueryRow(...))\<close>: no row is \<^verbatim>\<open>ErrNotFound\<close>.\<close>

definition scan_row :: "bool \<Rightarrow> 'r option \<Rightarrow> 'r res" where
  "scan_row fault row =
     (if fault then Inl ErrDriver else case row of None \<Rightarrow> Inl ErrNotFound | Some r \<Rightarrow> Inr r)"

section \<open>Harnesses\<close>

definition CreateHarness :: "db \<Rightarrow> Harness \<Rightarrow> unit res \<times> db" where
  "CreateHarness d h =
     (if sqlFault d InsertHarness then (Inl ErrDriver, d)
      else if hn_ID h \<in> hn_ID ` set (harnesses d)
              \<or> hn_TokenHash h \<in> hn_TokenHash ` set (harnesses d) then (Inl ErrConflict, d)
      else (Inr (), d\<lparr>harnesses := harnesses d @ [stored_harness h]\<rparr>))"

definition HarnessByID :: "db \<Rightarrow> string \<Rightarrow> Harness res" where
  "HarnessByID d i = scan_row (sqlFault d SelectHarnessByID) (lookup_by hn_ID (harnesses d) i)"

definition HarnessByTokenHash :: "db \<Rightarrow> string \<Rightarrow> Harness res" where
  "HarnessByTokenHash d hash =
     scan_row (sqlFault d SelectHarnessByToken) (lookup_by hn_TokenHash (harnesses d) hash)"

definition HarnessesByUser :: "db \<Rightarrow> string \<Rightarrow> Harness list res" where
  "HarnessesByUser d user =
     (if sqlFault d SelectHarnessesByUser then Inl ErrDriver
      else Inr (sort_key (\<lambda>h. ms (hn_CreatedAt h))
                  (filter (\<lambda>h. hn_MMUserID h = user) (harnesses d))))"

definition TouchHarness :: "db \<Rightarrow> string \<Rightarrow> time \<Rightarrow> string \<Rightarrow> unit res \<times> db" where
  "TouchHarness d i seenAt version =
     (if sqlFault d UpdateHarness then (Inl ErrDriver, d)
      else if rows_affected (\<lambda>h. hn_ID h = i) (harnesses d) = 0 then (Inl ErrNotFound, d)
      else (Inr (), d\<lparr>harnesses := rows_update (\<lambda>h. hn_ID h = i)
              (\<lambda>h. h\<lparr>hn_LastSeenAt := Some (stored_time seenAt), hn_Version := version\<rparr>)
              (harnesses d)\<rparr>))"

definition DeleteHarness :: "db \<Rightarrow> string \<Rightarrow> unit res \<times> db" where
  "DeleteHarness d i =
     (if sqlFault d DeleteHarnessRow then (Inl ErrDriver, d)
      else if rows_affected (\<lambda>h. hn_ID h = i) (harnesses d) = 0 then (Inl ErrNotFound, d)
      else if i \<in> jb_HarnessID ` set (jobs d)
              \<or> (\<exists>b \<in> set (bots d). bt_HarnessID b = i \<and> i \<noteq> []) then (Inl ErrForeignKey, d)
      else (Inr (), d\<lparr>harnesses := rows_delete (\<lambda>h. hn_ID h = i) (harnesses d)\<rparr>))"

section \<open>Pairings\<close>

definition CreatePairing :: "db \<Rightarrow> string \<Rightarrow> string \<Rightarrow> time \<Rightarrow> unit res \<times> db" where
  "CreatePairing d codeHash user expiresAt =
     (if sqlFault d InsertPairing then (Inl ErrDriver, d)
      else if codeHash \<in> pr_CodeHash ` set (pairings d) then (Inl ErrConflict, d)
      else (Inr (), d\<lparr>pairings := pairings d @
              [\<lparr>pr_CodeHash = codeHash, pr_MMUserID = user, pr_ExpiresAt = stored_time expiresAt,
                pr_UsedAt = None\<rparr>]\<rparr>))"

definition pairing_usable :: "string \<Rightarrow> time \<Rightarrow> Pairing \<Rightarrow> bool" where
  "pairing_usable codeHash now p \<longleftrightarrow>
     pr_CodeHash p = codeHash \<and> pr_UsedAt p = None \<and> ms now < ms (pr_ExpiresAt p)"

definition ConsumePairing :: "db \<Rightarrow> string \<Rightarrow> time \<Rightarrow> string res \<times> db" where
  "ConsumePairing d codeHash now =
     (if sqlFault d UpdatePairing then (Inl ErrDriver, d)
      else case find (pairing_usable codeHash now) (pairings d) of
          None \<Rightarrow> (Inl ErrNotFound, d)
        | Some p \<Rightarrow> (Inr (pr_MMUserID p),
            d\<lparr>pairings := rows_update (pairing_usable codeHash now)
                (\<lambda>p. p\<lparr>pr_UsedAt := Some (stored_time now)\<rparr>) (pairings d)\<rparr>))"

section \<open>Jobs\<close>

text \<open>The partial unique index \<^verbatim>\<open>jobs_bot_trigger\<close>.\<close>

definition trigger_taken :: "Job list \<Rightarrow> Job \<Rightarrow> bool" where
  "trigger_taken js j \<longleftrightarrow>
     jb_BotUserID j \<noteq> [] \<and> jb_TriggerPostID j \<noteq> [] \<and>
     (\<exists>k \<in> set js. jb_BotUserID k = jb_BotUserID j \<and> jb_TriggerPostID k = jb_TriggerPostID j)"

definition CreateJob :: "db \<Rightarrow> Job \<Rightarrow> unit res \<times> db" where
  "CreateJob d j =
     (if sqlFault d InsertJob then (Inl ErrDriver, d)
      else if jb_ID j \<in> jb_ID ` set (jobs d) \<or> trigger_taken (jobs d) j then (Inl ErrConflict, d)
      else if jb_HarnessID j \<notin> hn_ID ` set (harnesses d) then (Inl ErrForeignKey, d)
      else (Inr (), d\<lparr>jobs := jobs d @ [stored_job j]\<rparr>))"

definition JobByID :: "db \<Rightarrow> string \<Rightarrow> Job res" where
  "JobByID d i = scan_row (sqlFault d SelectJobByID) (lookup_by jb_ID (jobs d) i)"

definition job_matches :: "JobFilter \<Rightarrow> Job \<Rightarrow> bool" where
  "job_matches f j \<longleftrightarrow>
     (jf_BotUserID f \<noteq> [] \<longrightarrow> jb_BotUserID j = jf_BotUserID f) \<and>
     (jf_TriggerPostID f \<noteq> [] \<longrightarrow> jb_TriggerPostID j = jf_TriggerPostID f) \<and>
     (jf_MMUserID f \<noteq> [] \<longrightarrow> jb_MMUserID j = jf_MMUserID f) \<and>
     (jf_HarnessID f \<noteq> [] \<longrightarrow> jb_HarnessID j = jf_HarnessID f) \<and>
     (jf_RootPostID f \<noteq> [] \<longrightarrow> jb_RootPostID j = jf_RootPostID f) \<and>
     (jf_States f \<noteq> [] \<longrightarrow> jb_State j \<in> set (jf_States f))"

definition ListJobs :: "db \<Rightarrow> JobFilter \<Rightarrow> Job list res" where
  "ListJobs d f =
     (if sqlFault d SelectJobs then Inl ErrDriver
      else Inr (take (nat (if jf_Limit f \<le> 0 then 100 else jf_Limit f))
                  (sort_key (\<lambda>j. - ms (jb_CreatedAt j)) (filter (job_matches f) (jobs d)))))"

definition ActiveJobsByHarness :: "db \<Rightarrow> string \<Rightarrow> Job list res" where
  "ActiveJobsByHarness d harnessID =
     ListJobs d (any_job\<lparr>jf_HarnessID := harnessID, jf_States := ActiveStates, jf_Limit := 1000\<rparr>)"

definition patch_job :: "time \<Rightarrow> JobState \<Rightarrow> JobPatch \<Rightarrow> Job \<Rightarrow> Job" where
  "patch_job now to p j =
     j\<lparr>jb_State := to, jb_UpdatedAt := stored_time now,
       jb_StatusPostID := (case pt_StatusPostID p of None \<Rightarrow> jb_StatusPostID j | Some v \<Rightarrow> v),
       jb_ResultText := (case pt_ResultText p of None \<Rightarrow> jb_ResultText j | Some v \<Rightarrow> v),
       jb_Error := (case pt_Error p of None \<Rightarrow> jb_Error j | Some v \<Rightarrow> v),
       jb_FinishedAt := (if Terminal to then Some (stored_time now) else jb_FinishedAt j)\<rparr>"

definition TransitionJob ::
    "db \<Rightarrow> time \<Rightarrow> string \<Rightarrow> JobState list \<Rightarrow> JobState \<Rightarrow> JobPatch \<Rightarrow> Job res \<times> db" where
  "TransitionJob d now i from to p =
     (if from = [] then (Inl ErrNoFromState, d)
      else if sqlFault d UpdateJobState then (Inl ErrDriver, d)
      else
        let hit = (\<lambda>j. jb_ID j = i \<and> jb_State j \<in> set from);
            d' = d\<lparr>jobs := rows_update hit (patch_job now to p) (jobs d)\<rparr>
        in if rows_affected hit (jobs d) = 0
           then (case JobByID d' i of Inl e \<Rightarrow> (Inl e, d') | Inr _ \<Rightarrow> (Inl ErrConflict, d'))
           else (JobByID d' i, d'))"

definition RecordProgress :: "db \<Rightarrow> time \<Rightarrow> string \<Rightarrow> int \<Rightarrow> bool res \<times> db" where
  "RecordProgress d now i seq =
     (if sqlFault d UpdateJobSeq then (Inl ErrDriver, d)
      else
        let hit = (\<lambda>j. jb_ID j = i \<and> (jb_LastSeq j < seq
                        \<and> jb_State j \<in> {JobRunning, JobAwaitingApproval}))
        in (Inr (rows_affected hit (jobs d) = 1),
            d\<lparr>jobs := rows_update hit
                (\<lambda>j. j\<lparr>jb_LastSeq := seq, jb_UpdatedAt := stored_time now\<rparr>) (jobs d)\<rparr>))"

definition queue_expired :: "time \<Rightarrow> Job \<Rightarrow> bool" where
  "queue_expired now j \<longleftrightarrow>
     jb_State j = JobQueued \<and> (case jb_ExpiresAt j of None \<Rightarrow> False | Some e \<Rightarrow> ms e \<le> ms now)"

definition expire_job :: "time \<Rightarrow> Job \<Rightarrow> Job" where
  "expire_job now j =
     j\<lparr>jb_State := JobExpired, jb_UpdatedAt := stored_time now,
       jb_FinishedAt := Some (stored_time now)\<rparr>"

definition ExpireQueuedJobs :: "db \<Rightarrow> time \<Rightarrow> Job list res \<times> db" where
  "ExpireQueuedJobs d now =
     (if sqlFault d UpdateJobsExpired then (Inl ErrDriver, d)
      else (Inr (map (expire_job now) (filter (queue_expired now) (jobs d))),
            d\<lparr>jobs := rows_update (queue_expired now) (expire_job now) (jobs d)\<rparr>))"

section \<open>Approvals\<close>

definition CreateApproval :: "db \<Rightarrow> Approval \<Rightarrow> unit res \<times> db" where
  "CreateApproval d a =
     (if sqlFault d InsertApproval then (Inl ErrDriver, d)
      else if av_ID a \<in> av_ID ` set (approvals d) then (Inl ErrConflict, d)
      else if av_JobID a \<notin> jb_ID ` set (jobs d) then (Inl ErrForeignKey, d)
      else (Inr (), d\<lparr>approvals := approvals d @ [stored_approval a]\<rparr>))"

definition ApprovalByID :: "db \<Rightarrow> string \<Rightarrow> Approval res" where
  "ApprovalByID d i = scan_row (sqlFault d SelectApprovalByID) (lookup_by av_ID (approvals d) i)"

definition PendingApprovalsByJob :: "db \<Rightarrow> string \<Rightarrow> Approval list res" where
  "PendingApprovalsByJob d jobID =
     (if sqlFault d SelectApprovalsByJob then Inl ErrDriver
      else Inr (sort_key (\<lambda>a. ms (av_RequestedAt a))
                  (filter (\<lambda>a. av_JobID a = jobID \<and> Pending a) (approvals d))))"

definition decide_row :: "string \<Rightarrow> string \<Rightarrow> time \<Rightarrow> Approval \<Rightarrow> Approval" where
  "decide_row dec who t a =
     a\<lparr>av_Decision := dec, av_DecidedBy := who, av_DecidedAt := Some (stored_time t)\<rparr>"

definition DecideApproval ::
    "db \<Rightarrow> string \<Rightarrow> string \<Rightarrow> string \<Rightarrow> time \<Rightarrow> Approval res \<times> db" where
  "DecideApproval d i dec who decidedAt =
     (if sqlFault d UpdateApproval then (Inl ErrDriver, d)
      else
        let hit = (\<lambda>a. av_ID a = i \<and> (Pending a \<and> ms decidedAt < ms (av_ExpiresAt a)));
            d' = d\<lparr>approvals := rows_update hit (decide_row dec who decidedAt) (approvals d)\<rparr>
        in if rows_affected hit (approvals d) = 0
           then (case ApprovalByID d' i of Inl e \<Rightarrow> (Inl e, d') | Inr _ \<Rightarrow> (Inl ErrConflict, d'))
           else (ApprovalByID d' i, d'))"

section \<open>Outbox\<close>

definition Enqueue :: "db \<Rightarrow> OutboxMessage \<Rightarrow> unit res \<times> db" where
  "Enqueue d m =
     (if sqlFault d InsertOutbox then (Inl ErrDriver, d)
      else if ob_ID m \<in> ob_ID ` set (outbox d) then (Inl ErrConflict, d)
      else (Inr (), d\<lparr>outbox := outbox d @ [stored_outbox m]\<rparr>))"

definition outbox_pending :: "OutboxMessage list \<Rightarrow> string \<Rightarrow> OutboxMessage list" where
  "outbox_pending rows harnessID =
     sort_key (\<lambda>m. ms (ob_CreatedAt m))
       (sort_key ob_ID (filter (\<lambda>m. ob_HarnessID m = harnessID \<and> ob_AckedAt m = None) rows))"

definition PendingOutbox :: "db \<Rightarrow> string \<Rightarrow> OutboxMessage list res" where
  "PendingOutbox d harnessID =
     (if sqlFault d SelectOutbox then Inl ErrDriver
      else Inr (outbox_pending (outbox d) harnessID))"

definition AckOutbox :: "db \<Rightarrow> string \<Rightarrow> time \<Rightarrow> unit res \<times> db" where
  "AckOutbox d msgID ackedAt =
     (if sqlFault d UpdateOutbox then (Inl ErrDriver, d)
      else (Inr (), d\<lparr>outbox := rows_update (\<lambda>m. ob_ID m = msgID \<and> ob_AckedAt m = None)
              (\<lambda>m. m\<lparr>ob_AckedAt := Some (stored_time ackedAt)\<rparr>) (outbox d)\<rparr>))"

definition acked_before :: "time \<Rightarrow> OutboxMessage \<Rightarrow> bool" where
  "acked_before t m \<longleftrightarrow> (case ob_AckedAt m of None \<Rightarrow> False | Some a \<Rightarrow> ms a < ms t)"

definition PurgeOutbox :: "db \<Rightarrow> time \<Rightarrow> nat res \<times> db" where
  "PurgeOutbox d ackedBefore =
     (if sqlFault d DeleteOutboxRows then (Inl ErrDriver, d)
      else (Inr (rows_affected (acked_before ackedBefore) (outbox d)),
            d\<lparr>outbox := rows_delete (acked_before ackedBefore) (outbox d)\<rparr>))"

section \<open>Bots\<close>

definition checkBotHarness :: "db \<Rightarrow> Bot \<Rightarrow> unit res" where
  "checkBotHarness d b =
     (if bt_HarnessID b = [] then Inr ()
      else case HarnessByID d (bt_HarnessID b) of
          Inl e \<Rightarrow> Inl e
        | Inr h \<Rightarrow> if hn_MMUserID h \<noteq> bt_MMUserID b then Inl ErrConflict else Inr ())"

definition CreateBot :: "db \<Rightarrow> Bot \<Rightarrow> unit res \<times> db" where
  "CreateBot d b =
     (case checkBotHarness d b of
        Inl e \<Rightarrow> (Inl e, d)
      | Inr _ \<Rightarrow>
          if sqlFault d InsertBot then (Inl ErrDriver, d)
          else if bt_UserID b \<in> bt_UserID ` set (bots d)
                  \<or> bt_Username b \<in> bt_Username ` set (bots d) then (Inl ErrConflict, d)
          else (Inr (), d\<lparr>bots := bots d @ [stored_bot b]\<rparr>))"

definition BotByOwner :: "db \<Rightarrow> string \<Rightarrow> Bot res" where
  "BotByOwner d owner =
     scan_row (sqlFault d SelectBotByOwner)
       (case sort_key (\<lambda>b. ms (bt_CreatedAt b))
               (sort_key bt_UserID (filter (\<lambda>b. bt_MMUserID b = owner) (bots d))) of
          [] \<Rightarrow> None | b # _ \<Rightarrow> Some b)"

definition BotByUserID :: "db \<Rightarrow> string \<Rightarrow> Bot res" where
  "BotByUserID d i = scan_row (sqlFault d SelectBotByUserID) (lookup_by bt_UserID (bots d) i)"

definition ListBots :: "db \<Rightarrow> Bot list res" where
  "ListBots d =
     (if sqlFault d SelectBots then Inl ErrDriver
      else Inr (sort_key (\<lambda>b. ms (bt_CreatedAt b)) (bots d)))"

definition BotsByOwner :: "db \<Rightarrow> string \<Rightarrow> Bot list res" where
  "BotsByOwner d owner =
     (if sqlFault d SelectBotsByOwner then Inl ErrDriver
      else Inr (sort_key (\<lambda>b. ms (bt_CreatedAt b))
                 (sort_key bt_UserID (filter (\<lambda>b. bt_MMUserID b = owner) (bots d)))))"

definition BotByUsername :: "db \<Rightarrow> string \<Rightarrow> Bot res" where
  "BotByUsername d name =
     scan_row (sqlFault d SelectBotByUsername) (lookup_by bt_Username (bots d) name)"

definition UpdateBot :: "db \<Rightarrow> Bot \<Rightarrow> unit res \<times> db" where
  "UpdateBot d b =
     (case checkBotHarness d b of
        Inl e \<Rightarrow> (Inl e, d)
      | Inr _ \<Rightarrow>
          if sqlFault d UpdateBotRow then (Inl ErrDriver, d)
          else
            let hit = (\<lambda>r. bt_UserID r = bt_UserID b \<and> (bt_MMUserID r = bt_MMUserID b
                           \<and> (bt_HarnessID r = [] \<or> bt_HarnessID r = bt_HarnessID b)));
                d' = d\<lparr>bots := rows_update hit
                        (\<lambda>r. r\<lparr>bt_HarnessID := bt_HarnessID b, bt_TeamID := bt_TeamID b,
                               bt_ChannelID := bt_ChannelID b, bt_Token := bt_Token b,
                               bt_IncomingHookID := bt_IncomingHookID b,
                               bt_OutgoingHookID := bt_OutgoingHookID b,
                               bt_OutgoingToken := bt_OutgoingToken b\<rparr>) (bots d)\<rparr>
            in if rows_affected hit (bots d) \<noteq> 1 then (Inl ErrConflict, d') else (Inr (), d'))"

definition DeleteBot :: "db \<Rightarrow> string \<Rightarrow> unit res \<times> db" where
  "DeleteBot d i =
     (if sqlFault d DeleteBotRow then (Inl ErrDriver, d)
      else
        let d' = d\<lparr>bots := rows_delete (\<lambda>b. bt_UserID b = i) (bots d)\<rparr>
        in if rows_affected (\<lambda>b. bt_UserID b = i) (bots d) \<noteq> 1 then (Inl ErrNotFound, d')
           else (Inr (), d'))"

section \<open>Init requests\<close>

definition CreateInit :: "db \<Rightarrow> InitRequest \<Rightarrow> unit res \<times> db" where
  "CreateInit d r =
     (if sqlFault d InsertInit then (Inl ErrDriver, d)
      else if in_CodeHash r \<in> in_CodeHash ` set (init_requests d) then (Inl ErrConflict, d)
      else (Inr (), d\<lparr>init_requests := init_requests d @ [stored_init r]\<rparr>))"

definition InitByCode :: "db \<Rightarrow> string \<Rightarrow> InitRequest res" where
  "InitByCode d codeHash =
     scan_row (sqlFault d SelectInitByCode) (lookup_by in_CodeHash (init_requests d) codeHash)"

definition ClaimInit :: "db \<Rightarrow> string \<Rightarrow> time \<Rightarrow> string \<Rightarrow> string \<Rightarrow> unit res \<times> db" where
  "ClaimInit d codeHash now harnessID harnessToken =
     (if sqlFault d UpdateInitClaim then (Inl ErrDriver, d)
      else
        let hit = (\<lambda>r. in_CodeHash r = codeHash \<and> (in_ClaimedAt r = None
                       \<and> ms now < ms (in_ExpiresAt r)));
            d' = d\<lparr>init_requests := rows_update hit
                    (\<lambda>r. r\<lparr>in_ClaimedAt := Some (stored_time now), in_HarnessID := harnessID,
                           in_HarnessToken := harnessToken\<rparr>) (init_requests d)\<rparr>
        in if rows_affected hit (init_requests d) = 1 then (Inr (), d')
           else case InitByCode d' codeHash of
               Inl _ \<Rightarrow> (Inl ErrNotFound, d')
             | Inr r \<Rightarrow> (Inl (if in_ExpiresAt r \<le> now then ErrNotFound else ErrConflict), d'))"

definition FetchInit :: "db \<Rightarrow> string \<Rightarrow> time \<Rightarrow> InitRequest res \<times> db" where
  "FetchInit d codeHash now =
     (case InitByCode d codeHash of
        Inl e \<Rightarrow> (Inl e, d)
      | Inr r \<Rightarrow>
          if in_ExpiresAt r \<le> now then (Inl ErrNotFound, d)
          else if \<not> Claimed r then (Inr r, d)
          else if sqlFault d UpdateInitFetch then (Inl ErrDriver, d)
          else
            let hit = (\<lambda>r. in_CodeHash r = codeHash \<and> in_FetchedAt r = None);
                d' = d\<lparr>init_requests := rows_update hit
                        (\<lambda>r. r\<lparr>in_FetchedAt := Some (stored_time now), in_HarnessToken := []\<rparr>)
                        (init_requests d)\<rparr>
            in if rows_affected hit (init_requests d) = 0 then (Inl ErrConflict, d')
               else (Inr (r\<lparr>in_FetchedAt := Some now\<rparr>), d'))"

definition InitByHarness :: "db \<Rightarrow> string \<Rightarrow> InitRequest res" where
  "InitByHarness d harnessID =
     scan_row (sqlFault d SelectInitByHarness)
       (case sort_key (\<lambda>r. - ms (in_CreatedAt r))
               (filter (\<lambda>r. in_HarnessID r = harnessID) (init_requests d)) of
          [] \<Rightarrow> None | r # _ \<Rightarrow> Some r)"

text \<open>
  \<^verbatim>\<open>CompleteInit\<close> runs in one transaction: every early return rolls back, so the state it
  returns on an error is the one it was given.
\<close>

definition complete_tables :: "db \<Rightarrow> string \<Rightarrow> time \<Rightarrow> Harness \<Rightarrow> string \<Rightarrow> string \<Rightarrow> db" where
  "complete_tables d hash now h botID token =
     d\<lparr>harnesses := harnesses d @ [stored_harness h],
       bots := rows_update (\<lambda>b. bt_UserID b = botID) (\<lambda>b. b\<lparr>bt_HarnessID := hn_ID h\<rparr>) (bots d),
       init_requests := rows_update (\<lambda>r. in_CodeHash r = hash)
         (\<lambda>r. r\<lparr>in_ClaimedAt := Some (stored_time now), in_HarnessID := hn_ID h,
                in_HarnessToken := token, in_BotUserID := botID\<rparr>) (init_requests d)\<rparr>"

definition CompleteInit ::
    "db \<Rightarrow> string \<Rightarrow> time \<Rightarrow> Harness \<Rightarrow> string \<Rightarrow> string \<Rightarrow> unit res \<times> db" where
  "CompleteInit d hash now h botID token =
     (if sqlFault d TxBegin then (Inl ErrDriver, d)
      else case scan_row (sqlFault d TxSelectInit)
                  (lookup_by in_CodeHash (init_requests d) hash) of
          Inl e \<Rightarrow> (Inl e, d)
        | Inr r \<Rightarrow>
            if in_ExpiresAt r \<le> now then (Inl ErrNotFound, d)
            else if Claimed r then (Inl ErrConflict, d)
            else case scan_row (sqlFault d TxSelectBot) (lookup_by bt_UserID (bots d) botID) of
                Inl e \<Rightarrow> (Inl e, d)
              | Inr b \<Rightarrow>
                  if bt_MMUserID b \<noteq> hn_MMUserID h \<or> bt_HarnessID b \<noteq> []
                  then (Inl ErrConflict, d)
                  else if sqlFault d TxInsertHarness then (Inl ErrDriver, d)
                  else if hn_ID h \<in> hn_ID ` set (harnesses d)
                          \<or> hn_TokenHash h \<in> hn_TokenHash ` set (harnesses d)
                  then (Inl ErrConflict, d)
                  else if sqlFault d TxUpdateBot \<or> sqlFault d TxUpdateInit \<or> sqlFault d TxCommit
                  then (Inl ErrDriver, d)
                  else (Inr (), complete_tables d hash now h botID token))"

section \<open>Installations and audit\<close>

definition SaveInstallation :: "db \<Rightarrow> Installation \<Rightarrow> unit res \<times> db" where
  "SaveInstallation d i =
     (if sqlFault d UpsertInstallation then (Inl ErrDriver, d)
      else (Inr (), d\<lparr>installations :=
              (if il_TeamID i \<in> il_TeamID ` set (installations d)
               then rows_update (\<lambda>r. il_TeamID r = il_TeamID i)
                 (\<lambda>r. r\<lparr>il_UserID := il_UserID i, il_Credentials := il_Credentials i,
                        il_CommandID := il_CommandID i, il_CommandToken := il_CommandToken i\<rparr>)
                 (installations d)
               else installations d @ [i])\<rparr>))"

definition InstallationByTeam :: "db \<Rightarrow> string \<Rightarrow> Installation res" where
  "InstallationByTeam d team =
     scan_row (sqlFault d SelectInstallation) (lookup_by il_TeamID (installations d) team)"

definition ListInstallations :: "db \<Rightarrow> Installation list res" where
  "ListInstallations d =
     (if sqlFault d SelectInstallations then Inl ErrDriver
      else Inr (sort_key il_TeamID (installations d)))"

definition AppendAudit :: "db \<Rightarrow> time \<Rightarrow> AuditEntry \<Rightarrow> unit res \<times> db" where
  "AppendAudit d now e =
     (let ts = if ae_At e = zero_time then now else ae_At e in
      if sqlFault d InsertAudit then (Inl ErrDriver, d)
      else (Inr (), d\<lparr>audit_log := audit_log d @ [e\<lparr>ae_At := stored_time ts\<rparr>]\<rparr>))"

end
