(* ===== verification/Sqlite_Inv.thy ===== *)
theory Sqlite_Inv
  imports Sqlite
begin

text \<open>
  The integrity of the database: the keys the schema declares unique are unique, references
  point to rows that exist, at most one job exists per bot and triggering post, and a bot is
  only ever bound to a harness of its own owner. Every write of the store keeps it, so it
  holds after any sequence of store calls, whatever statements fail on the way.
\<close>

section \<open>The invariant\<close>

definition has_trigger :: "Job \<Rightarrow> bool" where
  "has_trigger j \<longleftrightarrow> jb_BotUserID j \<noteq> [] \<and> jb_TriggerPostID j \<noteq> []"

definition trigger_key :: "Job \<Rightarrow> string \<times> string" where
  "trigger_key j = (jb_BotUserID j, jb_TriggerPostID j)"

definition unique_triggers :: "Job list \<Rightarrow> bool" where
  "unique_triggers js \<longleftrightarrow> distinct (map trigger_key (filter has_trigger js))"

definition owned_by :: "Harness \<Rightarrow> string \<times> string" where
  "owned_by h = (hn_ID h, hn_MMUserID h)"

definition bots_bound :: "Bot list \<Rightarrow> Harness list \<Rightarrow> bool" where
  "bots_bound bs hs \<longleftrightarrow>
     (\<forall>b \<in> set bs. bt_HarnessID b \<noteq> [] \<longrightarrow>
        (bt_HarnessID b, bt_MMUserID b) \<in> owned_by ` set hs)"

definition keys_unique :: "db \<Rightarrow> bool" where
  "keys_unique d \<longleftrightarrow>
     distinct (map hn_ID (harnesses d)) \<and> distinct (map hn_TokenHash (harnesses d)) \<and>
     distinct (map pr_CodeHash (pairings d)) \<and> distinct (map jb_ID (jobs d)) \<and>
     distinct (map av_ID (approvals d)) \<and> distinct (map ob_ID (outbox d)) \<and>
     distinct (map bt_UserID (bots d)) \<and> distinct (map bt_Username (bots d)) \<and>
     distinct (map in_CodeHash (init_requests d)) \<and>
     distinct (map il_TeamID (installations d))"

definition refs_ok :: "db \<Rightarrow> bool" where
  "refs_ok d \<longleftrightarrow>
     jb_HarnessID ` set (jobs d) \<subseteq> hn_ID ` set (harnesses d) \<and>
     av_JobID ` set (approvals d) \<subseteq> jb_ID ` set (jobs d) \<and>
     unique_triggers (jobs d) \<and> bots_bound (bots d) (harnesses d)"

definition db_ok :: "db \<Rightarrow> bool" where
  "db_ok d \<longleftrightarrow> keys_unique d \<and> refs_ok d"

section \<open>Store calls as steps\<close>

inductive db_step :: "db \<Rightarrow> db \<Rightarrow> bool" where
  CreateHarness: "db_step d (snd (CreateHarness d h))"
| TouchHarness: "db_step d (snd (TouchHarness d i t v))"
| DeleteHarness: "db_step d (snd (DeleteHarness d i))"
| CreatePairing: "db_step d (snd (CreatePairing d c u t))"
| ConsumePairing: "db_step d (snd (ConsumePairing d c t))"
| CreateJob: "db_step d (snd (CreateJob d j))"
| TransitionJob: "db_step d (snd (TransitionJob d t i from to p))"
| RecordProgress: "db_step d (snd (RecordProgress d t i n))"
| ExpireQueuedJobs: "db_step d (snd (ExpireQueuedJobs d t))"
| CreateApproval: "db_step d (snd (CreateApproval d a))"
| DecideApproval: "db_step d (snd (DecideApproval d i dec u t))"
| Enqueue: "db_step d (snd (Enqueue d m))"
| AckOutbox: "db_step d (snd (AckOutbox d i t))"
| PurgeOutbox: "db_step d (snd (PurgeOutbox d t))"
| CreateBot: "db_step d (snd (CreateBot d b))"
| UpdateBot: "db_step d (snd (UpdateBot d b))"
| DeleteBot: "db_step d (snd (DeleteBot d i))"
| CreateInit: "db_step d (snd (CreateInit d r))"
| ClaimInit: "db_step d (snd (ClaimInit d c t i tok))"
| FetchInit: "db_step d (snd (FetchInit d c t))"
| CompleteInit: "db_step d (snd (CompleteInit d c t h i tok))"
| SaveInstallation: "db_step d (snd (SaveInstallation d il))"
| AppendAudit: "db_step d (snd (AppendAudit d t e))"
| Fault: "db_step d (d\<lparr>sqlFault := f\<rparr>)"

inductive db_reach :: "db \<Rightarrow> bool" where
  start: "db_reach empty_db"
| step: "db_reach d \<Longrightarrow> db_step d d' \<Longrightarrow> db_reach d'"

section \<open>Columns an update keeps\<close>

lemma stored_fields [simp]:
  "hn_ID (stored_harness h) = hn_ID h" "hn_TokenHash (stored_harness h) = hn_TokenHash h"
  "hn_MMUserID (stored_harness h) = hn_MMUserID h" "hn_Name (stored_harness h) = hn_Name h"
  "jb_ID (stored_job j) = jb_ID j" "jb_HarnessID (stored_job j) = jb_HarnessID j"
  "jb_BotUserID (stored_job j) = jb_BotUserID j"
  "jb_TriggerPostID (stored_job j) = jb_TriggerPostID j"
  "jb_MMUserID (stored_job j) = jb_MMUserID j" "jb_State (stored_job j) = jb_State j"
  "jb_RootPostID (stored_job j) = jb_RootPostID j"
  "av_ID (stored_approval a) = av_ID a" "av_JobID (stored_approval a) = av_JobID a"
  "av_Nonce (stored_approval a) = av_Nonce a" "av_Decision (stored_approval a) = av_Decision a"
  "ob_ID (stored_outbox m) = ob_ID m" "ob_HarnessID (stored_outbox m) = ob_HarnessID m"
  "ob_JobID (stored_outbox m) = ob_JobID m" "ob_Type (stored_outbox m) = ob_Type m"
  "ob_Payload (stored_outbox m) = ob_Payload m"
  "bt_UserID (stored_bot b) = bt_UserID b" "bt_Username (stored_bot b) = bt_Username b"
  "bt_MMUserID (stored_bot b) = bt_MMUserID b" "bt_HarnessID (stored_bot b) = bt_HarnessID b"
  "in_CodeHash (stored_init r) = in_CodeHash r"
  by (simp_all add: stored_harness_def stored_job_def stored_approval_def stored_outbox_def
      stored_bot_def stored_init_def)

lemma patch_job_fields [simp]:
  "jb_ID (patch_job t s p j) = jb_ID j" "jb_HarnessID (patch_job t s p j) = jb_HarnessID j"
  "jb_BotUserID (patch_job t s p j) = jb_BotUserID j"
  "jb_TriggerPostID (patch_job t s p j) = jb_TriggerPostID j"
  "jb_MMUserID (patch_job t s p j) = jb_MMUserID j" "jb_State (patch_job t s p j) = s"
  "jb_RootPostID (patch_job t s p j) = jb_RootPostID j"
  "jb_LastSeq (patch_job t s p j) = jb_LastSeq j"
  by (simp_all add: patch_job_def)

lemma expire_job_fields [simp]:
  "jb_ID (expire_job t j) = jb_ID j" "jb_HarnessID (expire_job t j) = jb_HarnessID j"
  "jb_BotUserID (expire_job t j) = jb_BotUserID j"
  "jb_TriggerPostID (expire_job t j) = jb_TriggerPostID j"
  "jb_MMUserID (expire_job t j) = jb_MMUserID j" "jb_State (expire_job t j) = JobExpired"
  "jb_RootPostID (expire_job t j) = jb_RootPostID j"
  by (simp_all add: expire_job_def)

section \<open>Rows and the invariant\<close>

lemma trigger_taken_iff:
  "trigger_taken js j \<longleftrightarrow> has_trigger j \<and> trigger_key j \<in> trigger_key ` set (filter has_trigger js)"
  by (auto simp: trigger_taken_def has_trigger_def trigger_key_def image_iff)

lemma unique_triggers_append:
  "unique_triggers js \<Longrightarrow> \<not> trigger_taken js j \<Longrightarrow> unique_triggers (js @ [j])"
  by (auto simp: unique_triggers_def trigger_taken_iff)

lemma unique_triggers_update:
  assumes "\<And>j. jb_BotUserID (f j) = jb_BotUserID j \<and> jb_TriggerPostID (f j) = jb_TriggerPostID j"
  shows "unique_triggers (rows_update p f js) = unique_triggers js"
proof -
  have "map trigger_key (filter has_trigger (rows_update p f js)) =
        map trigger_key (filter has_trigger js)"
    using assms by (induction js) (simp_all add: has_trigger_def trigger_key_def)
  then show ?thesis by (simp add: unique_triggers_def)
qed

lemma has_trigger_stored [simp]:
  "has_trigger (stored_job j) = has_trigger j" "trigger_key (stored_job j) = trigger_key j"
  by (simp_all add: has_trigger_def trigger_key_def)

lemma trigger_taken_stored [simp]: "trigger_taken js (stored_job j) = trigger_taken js j"
  by (simp add: trigger_taken_iff)

text \<open>
  A job table rewritten row by row, with the columns the invariant reads unchanged: the shape
  of every job update of the store.
\<close>

definition keeps_job_refs :: "(Job \<Rightarrow> Job) \<Rightarrow> bool" where
  "keeps_job_refs f \<longleftrightarrow>
     (\<forall>j. jb_ID (f j) = jb_ID j \<and> jb_HarnessID (f j) = jb_HarnessID j
        \<and> jb_BotUserID (f j) = jb_BotUserID j \<and> jb_TriggerPostID (f j) = jb_TriggerPostID j)"

lemma db_ok_update_jobs [inv_intro]:
  assumes "db_ok d" "keeps_job_refs f"
  shows "db_ok (d\<lparr>jobs := rows_update p f (jobs d)\<rparr>)"
proof -
  have "map jb_ID (rows_update p f (jobs d)) = map jb_ID (jobs d)"
    and "jb_ID ` set (rows_update p f (jobs d)) = jb_ID ` set (jobs d)"
    and "jb_HarnessID ` set (rows_update p f (jobs d)) = jb_HarnessID ` set (jobs d)"
    and "unique_triggers (rows_update p f (jobs d)) = unique_triggers (jobs d)"
    using assms(2)
    by (simp_all add: map_rows_update image_rows_update unique_triggers_update keeps_job_refs_def)
  with assms(1) show ?thesis by (simp add: db_ok_def keys_unique_def refs_ok_def)
qed

lemma keeps_job_refs_patch [inv_intro]: "keeps_job_refs (patch_job t s p)"
  by (simp add: keeps_job_refs_def)

lemma keeps_job_refs_expire [inv_intro]: "keeps_job_refs (expire_job t)"
  by (simp add: keeps_job_refs_def)

lemma keeps_job_refs_seq [inv_intro]:
  "keeps_job_refs (\<lambda>j. j\<lparr>jb_LastSeq := n, jb_UpdatedAt := t\<rparr>)"
  by (simp add: keeps_job_refs_def)

text \<open>The same for the tables whose rows only carry a key.\<close>

lemma db_ok_update_outbox [inv_intro]:
  "db_ok d \<Longrightarrow> (\<And>m. ob_ID (f m) = ob_ID m) \<Longrightarrow> db_ok (d\<lparr>outbox := rows_update p f (outbox d)\<rparr>)"
  by (simp add: db_ok_def keys_unique_def refs_ok_def map_rows_update)

lemma db_ok_update_approvals [inv_intro]:
  "db_ok d \<Longrightarrow> (\<And>a. av_ID (f a) = av_ID a \<and> av_JobID (f a) = av_JobID a) \<Longrightarrow>
   db_ok (d\<lparr>approvals := rows_update p f (approvals d)\<rparr>)"
  by (simp add: db_ok_def keys_unique_def refs_ok_def map_rows_update image_rows_update)

lemma db_ok_update_pairings [inv_intro]:
  "db_ok d \<Longrightarrow> (\<And>a. pr_CodeHash (f a) = pr_CodeHash a) \<Longrightarrow>
   db_ok (d\<lparr>pairings := rows_update p f (pairings d)\<rparr>)"
  by (simp add: db_ok_def keys_unique_def refs_ok_def map_rows_update)

lemma db_ok_update_init [inv_intro]:
  "db_ok d \<Longrightarrow> (\<And>a. in_CodeHash (f a) = in_CodeHash a) \<Longrightarrow>
   db_ok (d\<lparr>init_requests := rows_update p f (init_requests d)\<rparr>)"
  by (simp add: db_ok_def keys_unique_def refs_ok_def map_rows_update)

lemma db_ok_sqlFault [simp]: "db_ok (d\<lparr>sqlFault := f\<rparr>) = db_ok d"
  by (simp add: db_ok_def keys_unique_def refs_ok_def)

lemma db_ok_audit [simp]: "db_ok (d\<lparr>audit_log := l\<rparr>) = db_ok d"
  by (simp add: db_ok_def keys_unique_def refs_ok_def)

section \<open>Every store call keeps the invariant\<close>

lemma bots_bound_mono: "bots_bound bs hs \<Longrightarrow> set hs \<subseteq> set hs' \<Longrightarrow> bots_bound bs hs'"
  by (force simp: bots_bound_def)

lemma db_ok_CreateHarness [inv_intro]: "db_ok d \<Longrightarrow> db_ok (snd (CreateHarness d h))"
  by (auto simp: CreateHarness_def db_ok_def keys_unique_def refs_ok_def
      elim!: bots_bound_mono)

lemma db_ok_TouchHarness [inv_intro]:
  assumes "db_ok d"
  shows "db_ok (snd (TouchHarness d i t v))"
proof -
  let ?f = "\<lambda>h. h\<lparr>hn_LastSeenAt := Some (stored_time t), hn_Version := v\<rparr>"
  let ?hs = "rows_update (\<lambda>h. hn_ID h = i) ?f (harnesses d)"
  have "owned_by ` set ?hs = owned_by ` set (harnesses d)"
    by (rule image_rows_update) (simp add: owned_by_def)
  with assms show ?thesis
    by (simp add: TouchHarness_def db_ok_def keys_unique_def refs_ok_def map_rows_update
        image_rows_update bots_bound_def)
qed

lemma bots_bound_delete:
  assumes "bots_bound bs hs" "\<not> (\<exists>b \<in> set bs. bt_HarnessID b = i \<and> i \<noteq> [])"
  shows "bots_bound bs (rows_delete (\<lambda>h. hn_ID h = i) hs)"
  unfolding bots_bound_def
proof (intro ballI impI)
  fix b assume b: "b \<in> set bs" "bt_HarnessID b \<noteq> []"
  then have "bt_HarnessID b \<noteq> i" using assms(2) by blast
  moreover have "(bt_HarnessID b, bt_MMUserID b) \<in> owned_by ` set hs"
    using assms(1) b by (simp add: bots_bound_def)
  ultimately show "(bt_HarnessID b, bt_MMUserID b) \<in>
      owned_by ` set (rows_delete (\<lambda>h. hn_ID h = i) hs)"
    by (auto simp: owned_by_def)
qed

lemma db_ok_DeleteHarness [inv_intro]: "db_ok d \<Longrightarrow> db_ok (snd (DeleteHarness d i))"
  unfolding db_ok_def keys_unique_def refs_ok_def DeleteHarness_def
  by (simp add: distinct_map_rows_delete bots_bound_delete image_subset_rows_delete
      del: set_rows_delete)

lemma db_ok_CreatePairing [inv_intro]: "db_ok d \<Longrightarrow> db_ok (snd (CreatePairing d c u t))"
  by (auto simp: CreatePairing_def db_ok_def keys_unique_def refs_ok_def)

lemma db_ok_ConsumePairing [inv_intro]: "db_ok d \<Longrightarrow> db_ok (snd (ConsumePairing d c t))"
  by (auto simp: ConsumePairing_def intro!: inv_intro split: option.splits)

lemma db_ok_CreateJob [inv_intro]: "db_ok d \<Longrightarrow> db_ok (snd (CreateJob d j))"
  by (auto simp: CreateJob_def db_ok_def keys_unique_def refs_ok_def
      intro!: unique_triggers_append)

lemma db_ok_TransitionJob [inv_intro]: "db_ok d \<Longrightarrow> db_ok (snd (TransitionJob d t i from to p))"
  by (auto simp: TransitionJob_def Let_def intro!: inv_intro split: sum.splits)

lemma db_ok_RecordProgress [inv_intro]: "db_ok d \<Longrightarrow> db_ok (snd (RecordProgress d t i n))"
  by (auto simp: RecordProgress_def Let_def intro!: inv_intro)

lemma db_ok_ExpireQueuedJobs [inv_intro]: "db_ok d \<Longrightarrow> db_ok (snd (ExpireQueuedJobs d t))"
  by (auto simp: ExpireQueuedJobs_def intro!: inv_intro)

lemma db_ok_CreateApproval [inv_intro]: "db_ok d \<Longrightarrow> db_ok (snd (CreateApproval d a))"
  by (auto simp: CreateApproval_def db_ok_def keys_unique_def refs_ok_def)

lemma db_ok_DecideApproval [inv_intro]: "db_ok d \<Longrightarrow> db_ok (snd (DecideApproval d i dec u t))"
  by (auto simp: DecideApproval_def decide_row_def Let_def intro!: inv_intro split: sum.splits)

lemma db_ok_Enqueue [inv_intro]: "db_ok d \<Longrightarrow> db_ok (snd (Enqueue d m))"
  by (auto simp: Enqueue_def db_ok_def keys_unique_def refs_ok_def)

lemma db_ok_AckOutbox [inv_intro]: "db_ok d \<Longrightarrow> db_ok (snd (AckOutbox d i t))"
  by (auto simp: AckOutbox_def intro!: inv_intro)

lemma db_ok_PurgeOutbox [inv_intro]: "db_ok d \<Longrightarrow> db_ok (snd (PurgeOutbox d t))"
  by (auto simp: PurgeOutbox_def db_ok_def keys_unique_def refs_ok_def distinct_map_rows_delete)

text \<open>\<^verbatim>\<open>checkBotHarness\<close> is what keeps bots bound to machines of their owner.\<close>

lemma checkBotHarness_bound:
  assumes "checkBotHarness d b = Inr ()" "bt_HarnessID b \<noteq> []"
  shows "(bt_HarnessID b, bt_MMUserID b) \<in> owned_by ` set (harnesses d)"
  using assms
  by (force simp: checkBotHarness_def HarnessByID_def scan_row_def owned_by_def image_iff
      dest: lookup_by_SomeD split: if_splits option.splits)

lemma bots_bound_append:
  "bots_bound bs hs \<Longrightarrow>
   (bt_HarnessID b \<noteq> [] \<Longrightarrow> (bt_HarnessID b, bt_MMUserID b) \<in> owned_by ` set hs) \<Longrightarrow>
   bots_bound (bs @ [b]) hs"
  by (simp add: bots_bound_def)

lemma db_ok_CreateBot [inv_intro]:
  assumes "db_ok d"
  shows "db_ok (snd (CreateBot d b))"
proof (cases "checkBotHarness d b")
  case (Inr u)
  then have "bots_bound (bots d @ [stored_bot b]) (harnesses d)"
    using assms checkBotHarness_bound [of d b]
    by (auto simp: db_ok_def refs_ok_def intro!: bots_bound_append)
  with assms Inr show ?thesis
    by (auto simp: CreateBot_def db_ok_def keys_unique_def refs_ok_def)
qed (simp add: CreateBot_def assms)

lemma db_ok_UpdateBot [inv_intro]:
  assumes "db_ok d"
  shows "db_ok (snd (UpdateBot d b))"
proof (cases "checkBotHarness d b")
  case (Inr u)
  let ?p = "\<lambda>r. bt_UserID r = bt_UserID b \<and> (bt_MMUserID r = bt_MMUserID b
              \<and> (bt_HarnessID r = [] \<or> bt_HarnessID r = bt_HarnessID b))"
  let ?f = "\<lambda>r. r\<lparr>bt_HarnessID := bt_HarnessID b, bt_TeamID := bt_TeamID b,
              bt_ChannelID := bt_ChannelID b, bt_Token := bt_Token b,
              bt_IncomingHookID := bt_IncomingHookID b, bt_OutgoingHookID := bt_OutgoingHookID b,
              bt_OutgoingToken := bt_OutgoingToken b\<rparr>"
  have "bots_bound (bots d) (harnesses d)" using assms by (simp add: db_ok_def refs_ok_def)
  then have "bots_bound (rows_update ?p ?f (bots d)) (harnesses d)"
    using checkBotHarness_bound [of d b] Inr
    by (auto simp: bots_bound_def dest!: rows_update_memD)
  with assms have "db_ok (d\<lparr>bots := rows_update ?p ?f (bots d)\<rparr>)"
    by (simp add: db_ok_def keys_unique_def refs_ok_def map_rows_update)
  with assms Inr show ?thesis
    by (simp add: UpdateBot_def Let_def)
qed (simp add: UpdateBot_def assms)

lemma db_ok_DeleteBot [inv_intro]: "db_ok d \<Longrightarrow> db_ok (snd (DeleteBot d i))"
  by (auto simp: DeleteBot_def Let_def db_ok_def keys_unique_def refs_ok_def bots_bound_def
      distinct_map_rows_delete)

lemma db_ok_CreateInit [inv_intro]: "db_ok d \<Longrightarrow> db_ok (snd (CreateInit d r))"
  by (auto simp: CreateInit_def db_ok_def keys_unique_def refs_ok_def)

lemma db_ok_ClaimInit [inv_intro]: "db_ok d \<Longrightarrow> db_ok (snd (ClaimInit d c t i tok))"
  by (auto simp: ClaimInit_def Let_def intro!: inv_intro split: sum.splits)

lemma db_ok_FetchInit [inv_intro]: "db_ok d \<Longrightarrow> db_ok (snd (FetchInit d c t))"
  by (auto simp: FetchInit_def Let_def intro!: inv_intro split: sum.splits)

lemma db_ok_SaveInstallation [inv_intro]: "db_ok d \<Longrightarrow> db_ok (snd (SaveInstallation d il))"
  by (auto simp: SaveInstallation_def db_ok_def keys_unique_def refs_ok_def map_rows_update)

lemma db_ok_AppendAudit [inv_intro]: "db_ok d \<Longrightarrow> db_ok (snd (AppendAudit d t e))"
  by (auto simp: AppendAudit_def Let_def)

lemma db_ok_complete_tables:
  assumes ok: "db_ok d" and b: "lookup_by bt_UserID (bots d) botID = Some b"
    and owner: "bt_MMUserID b = hn_MMUserID h"
    and fresh: "hn_ID h \<notin> hn_ID ` set (harnesses d)" "hn_TokenHash h \<notin> hn_TokenHash ` set (harnesses d)"
  shows "db_ok (complete_tables d hash now h botID token)"
proof -
  let ?hs = "harnesses d @ [stored_harness h]"
  let ?bs = "rows_update (\<lambda>b. bt_UserID b = botID) (\<lambda>b. b\<lparr>bt_HarnessID := hn_ID h\<rparr>) (bots d)"
  have dist: "distinct (map bt_UserID (bots d))" using ok by (simp add: db_ok_def keys_unique_def)
  have same: "c = b" if "c \<in> set (bots d)" "bt_UserID c = botID" for c
    using lookup_by_in_set [OF dist that(1)] that(2) b by simp
  have bound: "bots_bound (bots d) ?hs"
    using ok by (auto simp: db_ok_def refs_ok_def elim!: bots_bound_mono)
  have "bots_bound ?bs ?hs"
    unfolding bots_bound_def
  proof (intro ballI impI)
    fix c assume "c \<in> set ?bs" "bt_HarnessID c \<noteq> []"
    then obtain q where q: "q \<in> set (bots d)"
        "c = (if bt_UserID q = botID then q\<lparr>bt_HarnessID := hn_ID h\<rparr> else q)"
      by (blast dest: rows_update_memD)
    show "(bt_HarnessID c, bt_MMUserID c) \<in> owned_by ` set ?hs"
    proof (cases "bt_UserID q = botID")
      case True
      then show ?thesis using q same owner by (simp add: owned_by_def)
    next
      case False
      then show ?thesis using q bound \<open>bt_HarnessID c \<noteq> []\<close> unfolding bots_bound_def by simp
    qed
  qed
  then show ?thesis
    using ok fresh
    by (auto simp: complete_tables_def db_ok_def keys_unique_def refs_ok_def map_rows_update)
qed

lemma db_ok_CompleteInit [inv_intro]: "db_ok d \<Longrightarrow> db_ok (snd (CompleteInit d c t h i tok))"
  by (auto simp: CompleteInit_def scan_row_def intro!: db_ok_complete_tables
      split: sum.splits option.splits if_splits)

lemma db_step_ok: "db_step d d' \<Longrightarrow> db_ok d \<Longrightarrow> db_ok d'"
  by (induction rule: db_step.induct) (simp_all add: inv_intro)

lemma db_ok_empty [simp]: "db_ok empty_db"
  by (simp add: db_ok_def keys_unique_def refs_ok_def empty_db_def unique_triggers_def bots_bound_def)

lemma db_reach_ok: "db_reach d \<Longrightarrow> db_ok d"
  by (induction rule: db_reach.induct) (auto intro: db_step_ok)

end
