(* ===== verification/Sqlite_Frame.thy ===== *)
theory Sqlite_Frame
  imports Sqlite_Inv
begin

text \<open>
  The frame of the store: what each call leaves alone. Collected in \<open>store_frame\<close>, these rules
  let a proof about one table skip every call that works on another.
\<close>

lemma CreateHarness_frame [store_frame]:
  "pairings (snd (CreateHarness d h)) = pairings d"
  "jobs (snd (CreateHarness d h)) = jobs d"
  "approvals (snd (CreateHarness d h)) = approvals d"
  "outbox (snd (CreateHarness d h)) = outbox d"
  "bots (snd (CreateHarness d h)) = bots d"
  "init_requests (snd (CreateHarness d h)) = init_requests d"
  "installations (snd (CreateHarness d h)) = installations d"
  "audit_log (snd (CreateHarness d h)) = audit_log d"
  "sqlFault (snd (CreateHarness d h)) = sqlFault d"
  by (simp_all add: CreateHarness_def Let_def split: sum.split option.split)

lemma TouchHarness_frame [store_frame]:
  "pairings (snd (TouchHarness d i t v)) = pairings d"
  "jobs (snd (TouchHarness d i t v)) = jobs d"
  "approvals (snd (TouchHarness d i t v)) = approvals d"
  "outbox (snd (TouchHarness d i t v)) = outbox d"
  "bots (snd (TouchHarness d i t v)) = bots d"
  "init_requests (snd (TouchHarness d i t v)) = init_requests d"
  "installations (snd (TouchHarness d i t v)) = installations d"
  "audit_log (snd (TouchHarness d i t v)) = audit_log d"
  "sqlFault (snd (TouchHarness d i t v)) = sqlFault d"
  by (simp_all add: TouchHarness_def Let_def split: sum.split option.split)

lemma DeleteHarness_frame [store_frame]:
  "pairings (snd (DeleteHarness d i)) = pairings d"
  "jobs (snd (DeleteHarness d i)) = jobs d"
  "approvals (snd (DeleteHarness d i)) = approvals d"
  "outbox (snd (DeleteHarness d i)) = outbox d"
  "bots (snd (DeleteHarness d i)) = bots d"
  "init_requests (snd (DeleteHarness d i)) = init_requests d"
  "installations (snd (DeleteHarness d i)) = installations d"
  "audit_log (snd (DeleteHarness d i)) = audit_log d"
  "sqlFault (snd (DeleteHarness d i)) = sqlFault d"
  by (simp_all add: DeleteHarness_def Let_def split: sum.split option.split)

lemma CreatePairing_frame [store_frame]:
  "harnesses (snd (CreatePairing d c u t)) = harnesses d"
  "jobs (snd (CreatePairing d c u t)) = jobs d"
  "approvals (snd (CreatePairing d c u t)) = approvals d"
  "outbox (snd (CreatePairing d c u t)) = outbox d"
  "bots (snd (CreatePairing d c u t)) = bots d"
  "init_requests (snd (CreatePairing d c u t)) = init_requests d"
  "installations (snd (CreatePairing d c u t)) = installations d"
  "audit_log (snd (CreatePairing d c u t)) = audit_log d"
  "sqlFault (snd (CreatePairing d c u t)) = sqlFault d"
  by (simp_all add: CreatePairing_def Let_def split: sum.split option.split)

lemma ConsumePairing_frame [store_frame]:
  "harnesses (snd (ConsumePairing d c t)) = harnesses d"
  "jobs (snd (ConsumePairing d c t)) = jobs d"
  "approvals (snd (ConsumePairing d c t)) = approvals d"
  "outbox (snd (ConsumePairing d c t)) = outbox d"
  "bots (snd (ConsumePairing d c t)) = bots d"
  "init_requests (snd (ConsumePairing d c t)) = init_requests d"
  "installations (snd (ConsumePairing d c t)) = installations d"
  "audit_log (snd (ConsumePairing d c t)) = audit_log d"
  "sqlFault (snd (ConsumePairing d c t)) = sqlFault d"
  by (simp_all add: ConsumePairing_def Let_def split: sum.split option.split)

lemma CreateJob_frame [store_frame]:
  "harnesses (snd (CreateJob d j)) = harnesses d"
  "pairings (snd (CreateJob d j)) = pairings d"
  "approvals (snd (CreateJob d j)) = approvals d"
  "outbox (snd (CreateJob d j)) = outbox d"
  "bots (snd (CreateJob d j)) = bots d"
  "init_requests (snd (CreateJob d j)) = init_requests d"
  "installations (snd (CreateJob d j)) = installations d"
  "audit_log (snd (CreateJob d j)) = audit_log d"
  "sqlFault (snd (CreateJob d j)) = sqlFault d"
  by (simp_all add: CreateJob_def Let_def split: sum.split option.split)

lemma TransitionJob_frame [store_frame]:
  "harnesses (snd (TransitionJob d t i from to p)) = harnesses d"
  "pairings (snd (TransitionJob d t i from to p)) = pairings d"
  "approvals (snd (TransitionJob d t i from to p)) = approvals d"
  "outbox (snd (TransitionJob d t i from to p)) = outbox d"
  "bots (snd (TransitionJob d t i from to p)) = bots d"
  "init_requests (snd (TransitionJob d t i from to p)) = init_requests d"
  "installations (snd (TransitionJob d t i from to p)) = installations d"
  "audit_log (snd (TransitionJob d t i from to p)) = audit_log d"
  "sqlFault (snd (TransitionJob d t i from to p)) = sqlFault d"
  by (simp_all add: TransitionJob_def Let_def split: sum.split option.split)

lemma RecordProgress_frame [store_frame]:
  "harnesses (snd (RecordProgress d t i n)) = harnesses d"
  "pairings (snd (RecordProgress d t i n)) = pairings d"
  "approvals (snd (RecordProgress d t i n)) = approvals d"
  "outbox (snd (RecordProgress d t i n)) = outbox d"
  "bots (snd (RecordProgress d t i n)) = bots d"
  "init_requests (snd (RecordProgress d t i n)) = init_requests d"
  "installations (snd (RecordProgress d t i n)) = installations d"
  "audit_log (snd (RecordProgress d t i n)) = audit_log d"
  "sqlFault (snd (RecordProgress d t i n)) = sqlFault d"
  by (simp_all add: RecordProgress_def Let_def split: sum.split option.split)

lemma ExpireQueuedJobs_frame [store_frame]:
  "harnesses (snd (ExpireQueuedJobs d t)) = harnesses d"
  "pairings (snd (ExpireQueuedJobs d t)) = pairings d"
  "approvals (snd (ExpireQueuedJobs d t)) = approvals d"
  "outbox (snd (ExpireQueuedJobs d t)) = outbox d"
  "bots (snd (ExpireQueuedJobs d t)) = bots d"
  "init_requests (snd (ExpireQueuedJobs d t)) = init_requests d"
  "installations (snd (ExpireQueuedJobs d t)) = installations d"
  "audit_log (snd (ExpireQueuedJobs d t)) = audit_log d"
  "sqlFault (snd (ExpireQueuedJobs d t)) = sqlFault d"
  by (simp_all add: ExpireQueuedJobs_def Let_def split: sum.split option.split)

lemma CreateApproval_frame [store_frame]:
  "harnesses (snd (CreateApproval d a)) = harnesses d"
  "pairings (snd (CreateApproval d a)) = pairings d"
  "jobs (snd (CreateApproval d a)) = jobs d"
  "outbox (snd (CreateApproval d a)) = outbox d"
  "bots (snd (CreateApproval d a)) = bots d"
  "init_requests (snd (CreateApproval d a)) = init_requests d"
  "installations (snd (CreateApproval d a)) = installations d"
  "audit_log (snd (CreateApproval d a)) = audit_log d"
  "sqlFault (snd (CreateApproval d a)) = sqlFault d"
  by (simp_all add: CreateApproval_def Let_def split: sum.split option.split)

lemma DecideApproval_frame [store_frame]:
  "harnesses (snd (DecideApproval d i dec u t)) = harnesses d"
  "pairings (snd (DecideApproval d i dec u t)) = pairings d"
  "jobs (snd (DecideApproval d i dec u t)) = jobs d"
  "outbox (snd (DecideApproval d i dec u t)) = outbox d"
  "bots (snd (DecideApproval d i dec u t)) = bots d"
  "init_requests (snd (DecideApproval d i dec u t)) = init_requests d"
  "installations (snd (DecideApproval d i dec u t)) = installations d"
  "audit_log (snd (DecideApproval d i dec u t)) = audit_log d"
  "sqlFault (snd (DecideApproval d i dec u t)) = sqlFault d"
  by (simp_all add: DecideApproval_def Let_def split: sum.split option.split)

lemma Enqueue_frame [store_frame]:
  "harnesses (snd (Enqueue d m)) = harnesses d"
  "pairings (snd (Enqueue d m)) = pairings d"
  "jobs (snd (Enqueue d m)) = jobs d"
  "approvals (snd (Enqueue d m)) = approvals d"
  "bots (snd (Enqueue d m)) = bots d"
  "init_requests (snd (Enqueue d m)) = init_requests d"
  "installations (snd (Enqueue d m)) = installations d"
  "audit_log (snd (Enqueue d m)) = audit_log d"
  "sqlFault (snd (Enqueue d m)) = sqlFault d"
  by (simp_all add: Enqueue_def Let_def split: sum.split option.split)

lemma AckOutbox_frame [store_frame]:
  "harnesses (snd (AckOutbox d i t)) = harnesses d"
  "pairings (snd (AckOutbox d i t)) = pairings d"
  "jobs (snd (AckOutbox d i t)) = jobs d"
  "approvals (snd (AckOutbox d i t)) = approvals d"
  "bots (snd (AckOutbox d i t)) = bots d"
  "init_requests (snd (AckOutbox d i t)) = init_requests d"
  "installations (snd (AckOutbox d i t)) = installations d"
  "audit_log (snd (AckOutbox d i t)) = audit_log d"
  "sqlFault (snd (AckOutbox d i t)) = sqlFault d"
  by (simp_all add: AckOutbox_def Let_def split: sum.split option.split)

lemma PurgeOutbox_frame [store_frame]:
  "harnesses (snd (PurgeOutbox d t)) = harnesses d"
  "pairings (snd (PurgeOutbox d t)) = pairings d"
  "jobs (snd (PurgeOutbox d t)) = jobs d"
  "approvals (snd (PurgeOutbox d t)) = approvals d"
  "bots (snd (PurgeOutbox d t)) = bots d"
  "init_requests (snd (PurgeOutbox d t)) = init_requests d"
  "installations (snd (PurgeOutbox d t)) = installations d"
  "audit_log (snd (PurgeOutbox d t)) = audit_log d"
  "sqlFault (snd (PurgeOutbox d t)) = sqlFault d"
  by (simp_all add: PurgeOutbox_def Let_def split: sum.split option.split)

lemma CreateBot_frame [store_frame]:
  "harnesses (snd (CreateBot d b)) = harnesses d"
  "pairings (snd (CreateBot d b)) = pairings d"
  "jobs (snd (CreateBot d b)) = jobs d"
  "approvals (snd (CreateBot d b)) = approvals d"
  "outbox (snd (CreateBot d b)) = outbox d"
  "init_requests (snd (CreateBot d b)) = init_requests d"
  "installations (snd (CreateBot d b)) = installations d"
  "audit_log (snd (CreateBot d b)) = audit_log d"
  "sqlFault (snd (CreateBot d b)) = sqlFault d"
  by (simp_all add: CreateBot_def Let_def split: sum.split option.split)

lemma UpdateBot_frame [store_frame]:
  "harnesses (snd (UpdateBot d b)) = harnesses d"
  "pairings (snd (UpdateBot d b)) = pairings d"
  "jobs (snd (UpdateBot d b)) = jobs d"
  "approvals (snd (UpdateBot d b)) = approvals d"
  "outbox (snd (UpdateBot d b)) = outbox d"
  "init_requests (snd (UpdateBot d b)) = init_requests d"
  "installations (snd (UpdateBot d b)) = installations d"
  "audit_log (snd (UpdateBot d b)) = audit_log d"
  "sqlFault (snd (UpdateBot d b)) = sqlFault d"
  by (simp_all add: UpdateBot_def Let_def split: sum.split option.split)

lemma DeleteBot_frame [store_frame]:
  "harnesses (snd (DeleteBot d i)) = harnesses d"
  "pairings (snd (DeleteBot d i)) = pairings d"
  "jobs (snd (DeleteBot d i)) = jobs d"
  "approvals (snd (DeleteBot d i)) = approvals d"
  "outbox (snd (DeleteBot d i)) = outbox d"
  "init_requests (snd (DeleteBot d i)) = init_requests d"
  "installations (snd (DeleteBot d i)) = installations d"
  "audit_log (snd (DeleteBot d i)) = audit_log d"
  "sqlFault (snd (DeleteBot d i)) = sqlFault d"
  by (simp_all add: DeleteBot_def Let_def split: sum.split option.split)

lemma CreateInit_frame [store_frame]:
  "harnesses (snd (CreateInit d r)) = harnesses d"
  "pairings (snd (CreateInit d r)) = pairings d"
  "jobs (snd (CreateInit d r)) = jobs d"
  "approvals (snd (CreateInit d r)) = approvals d"
  "outbox (snd (CreateInit d r)) = outbox d"
  "bots (snd (CreateInit d r)) = bots d"
  "installations (snd (CreateInit d r)) = installations d"
  "audit_log (snd (CreateInit d r)) = audit_log d"
  "sqlFault (snd (CreateInit d r)) = sqlFault d"
  by (simp_all add: CreateInit_def Let_def split: sum.split option.split)

lemma ClaimInit_frame [store_frame]:
  "harnesses (snd (ClaimInit d c t i tok)) = harnesses d"
  "pairings (snd (ClaimInit d c t i tok)) = pairings d"
  "jobs (snd (ClaimInit d c t i tok)) = jobs d"
  "approvals (snd (ClaimInit d c t i tok)) = approvals d"
  "outbox (snd (ClaimInit d c t i tok)) = outbox d"
  "bots (snd (ClaimInit d c t i tok)) = bots d"
  "installations (snd (ClaimInit d c t i tok)) = installations d"
  "audit_log (snd (ClaimInit d c t i tok)) = audit_log d"
  "sqlFault (snd (ClaimInit d c t i tok)) = sqlFault d"
  by (simp_all add: ClaimInit_def Let_def split: sum.split option.split)

lemma FetchInit_frame [store_frame]:
  "harnesses (snd (FetchInit d c t)) = harnesses d"
  "pairings (snd (FetchInit d c t)) = pairings d"
  "jobs (snd (FetchInit d c t)) = jobs d"
  "approvals (snd (FetchInit d c t)) = approvals d"
  "outbox (snd (FetchInit d c t)) = outbox d"
  "bots (snd (FetchInit d c t)) = bots d"
  "installations (snd (FetchInit d c t)) = installations d"
  "audit_log (snd (FetchInit d c t)) = audit_log d"
  "sqlFault (snd (FetchInit d c t)) = sqlFault d"
  by (simp_all add: FetchInit_def Let_def split: sum.split option.split)

lemma CompleteInit_frame [store_frame]:
  "pairings (snd (CompleteInit d c t h i tok)) = pairings d"
  "jobs (snd (CompleteInit d c t h i tok)) = jobs d"
  "approvals (snd (CompleteInit d c t h i tok)) = approvals d"
  "outbox (snd (CompleteInit d c t h i tok)) = outbox d"
  "installations (snd (CompleteInit d c t h i tok)) = installations d"
  "audit_log (snd (CompleteInit d c t h i tok)) = audit_log d"
  "sqlFault (snd (CompleteInit d c t h i tok)) = sqlFault d"
  by (simp_all add: CompleteInit_def Let_def complete_tables_def split: sum.split option.split)

lemma SaveInstallation_frame [store_frame]:
  "harnesses (snd (SaveInstallation d il)) = harnesses d"
  "pairings (snd (SaveInstallation d il)) = pairings d"
  "jobs (snd (SaveInstallation d il)) = jobs d"
  "approvals (snd (SaveInstallation d il)) = approvals d"
  "outbox (snd (SaveInstallation d il)) = outbox d"
  "bots (snd (SaveInstallation d il)) = bots d"
  "init_requests (snd (SaveInstallation d il)) = init_requests d"
  "audit_log (snd (SaveInstallation d il)) = audit_log d"
  "sqlFault (snd (SaveInstallation d il)) = sqlFault d"
  by (simp_all add: SaveInstallation_def Let_def split: sum.split option.split)

lemma AppendAudit_frame [store_frame]:
  "harnesses (snd (AppendAudit d t e)) = harnesses d"
  "pairings (snd (AppendAudit d t e)) = pairings d"
  "jobs (snd (AppendAudit d t e)) = jobs d"
  "approvals (snd (AppendAudit d t e)) = approvals d"
  "outbox (snd (AppendAudit d t e)) = outbox d"
  "bots (snd (AppendAudit d t e)) = bots d"
  "init_requests (snd (AppendAudit d t e)) = init_requests d"
  "installations (snd (AppendAudit d t e)) = installations d"
  "sqlFault (snd (AppendAudit d t e)) = sqlFault d"
  by (simp_all add: AppendAudit_def Let_def split: sum.split option.split)

end
