(* ===== verification/Contracts.thy ===== *)
theory Contracts
  imports Prelude
begin

text \<open>
  The contracts the components rely on, as locales with the lemmas their clients need: a
  table whose rows change only by compare-and-set, an outbox that loses nothing before it is
  acknowledged, and a keyed store. The components that provide them interpret the locales on
  their own operations.
\<close>

section \<open>Compare-and-set\<close>

text \<open>
  A command \<open>c\<close> reads the row at its target and rewrites it when the guard holds; every other
  row, and every row when the store is not enabled, stays as it is.
\<close>

locale cas_table =
  fixes row :: "'s \<Rightarrow> 'k \<Rightarrow> 'v option"
    and cas :: "'c \<Rightarrow> 's \<Rightarrow> 's"
    and enabled :: "'s \<Rightarrow> bool"
    and target :: "'c \<Rightarrow> 'k"
    and guard :: "'c \<Rightarrow> 'v \<Rightarrow> bool"
    and result :: "'c \<Rightarrow> 'v \<Rightarrow> 'v"
  assumes cas_row:
    "row (cas c s) k =
       map_option (\<lambda>v. if enabled s \<and> target c = k \<and> guard c v then result c v else v) (row s k)"
begin

lemma cas_none: "row (cas c s) k = None \<longleftrightarrow> row s k = None"
  by (simp add: cas_row)

lemma cas_runs_none: "row (fold cas cs s) k = None \<longleftrightarrow> row s k = None"
  by (induction cs arbitrary: s) (simp_all add: cas_none)

text \<open>A row no command of the run can move stays what it is.\<close>

lemma cas_frozen:
  assumes "row s k = Some v" "\<And>c. c \<in> set cs \<Longrightarrow> target c = k \<Longrightarrow> \<not> guard c v"
  shows "row (fold cas cs s) k = Some v"
  using assms
proof (induction cs arbitrary: s)
  case (Cons c cs)
  have "row (cas c s) k = Some v"
    using Cons.prems(1) Cons.prems(2) [of c] by (auto simp: cas_row)
  then show ?case using Cons.IH Cons.prems(2) by simp
qed simp

text \<open>Whatever every guarded rewrite respects, a whole run respects.\<close>

lemma cas_respects:
  assumes "row s k = Some v"
    and "reflp R" "transp R"
    and "\<And>c u. c \<in> set cs \<Longrightarrow> target c = k \<Longrightarrow> guard c u \<Longrightarrow> R u (result c u)"
  shows "\<exists>v'. row (fold cas cs s) k = Some v' \<and> R v v'"
  using assms(1,4)
proof (induction cs arbitrary: s v)
  case Nil
  then show ?case using assms(2) by (auto dest: reflpD)
next
  case (Cons c cs)
  define u where "u = (if enabled s \<and> target c = k \<and> guard c v then result c v else v)"
  have "row (cas c s) k = Some u" using Cons.prems(1) by (simp add: cas_row u_def)
  then obtain v' where "row (fold cas cs (cas c s)) k = Some v'" "R u v'"
    using Cons.IH Cons.prems(2) by (metis list.set_intros(2))
  moreover have "R v u" using Cons.prems(2) assms(2) by (auto simp: u_def dest: reflpD)
  ultimately show ?case using assms(3) by (auto dest: transpD)
qed

text \<open>
  The winner of a race: once a command has closed the guards of all that follow, its result
  stays.
\<close>

lemma cas_first_wins:
  assumes "row s k = Some v" "enabled s" "target c = k" "guard c v"
    and "\<And>e. e \<in> set cs \<Longrightarrow> target e = k \<Longrightarrow> \<not> guard e (result c v)"
  shows "row (fold cas (c # cs) s) k = Some (result c v)"
  using assms by (simp add: cas_row cas_frozen)

end

section \<open>Outboxes\<close>

datatype ('m, 'k) outbox_op = AddOp 'm | AckOp 'k

fun op_key :: "('m \<Rightarrow> 'k) \<Rightarrow> ('m, 'k) outbox_op \<Rightarrow> 'k" where
  "op_key key (AddOp m) = key m"
| "op_key key (AckOp k) = k"

fun op_run :: "('m \<Rightarrow> 's \<Rightarrow> 's) \<Rightarrow> ('k \<Rightarrow> 's \<Rightarrow> 's) \<Rightarrow> ('m, 'k) outbox_op \<Rightarrow> 's \<Rightarrow> 's" where
  "op_run add ack (AddOp m) s = add m s"
| "op_run add ack (AckOp k) s = ack k s"

text \<open>
  \<open>pending\<close> is what a reconnect resends. An accepted message is pending, and only its own
  acknowledgement (or a message under the same key) can take it out again.
\<close>

locale outbox_contract =
  fixes add :: "'m \<Rightarrow> 's \<Rightarrow> 's"
    and ack :: "'k \<Rightarrow> 's \<Rightarrow> 's"
    and pending :: "'s \<Rightarrow> 'm set"
    and key :: "'m \<Rightarrow> 'k"
    and accepts :: "'s \<Rightarrow> 'm \<Rightarrow> bool"
    and kept :: "'m \<Rightarrow> 'm"
    and acks :: "'s \<Rightarrow> bool"
  assumes kept_key: "key (kept m) = key m"
    and add_adds: "accepts s m \<Longrightarrow> kept m \<in> pending (add m s)"
    and add_keeps: "m \<in> pending s \<Longrightarrow> key m \<noteq> key a \<Longrightarrow> m \<in> pending (add a s)"
    and ack_keeps: "m \<in> pending s \<Longrightarrow> key m \<noteq> k \<Longrightarrow> m \<in> pending (ack k s)"
    and ack_drops: "acks s \<Longrightarrow> m \<in> pending (ack k s) \<Longrightarrow> key m \<noteq> k"
begin

lemma run_keeps:
  "m \<in> pending s \<Longrightarrow> op_key key e \<noteq> key m \<Longrightarrow> m \<in> pending (op_run add ack e s)"
  by (cases e) (auto simp: add_keeps ack_keeps)

lemma survives:
  assumes "m \<in> pending s" "\<And>e. e \<in> set es \<Longrightarrow> op_key key e \<noteq> key m"
  shows "m \<in> pending (fold (op_run add ack) es s)"
  using assms by (induction es arbitrary: s) (simp_all add: run_keeps)

text \<open>At least once: an accepted message is resent after every run that does not acknowledge it.\<close>

lemma at_least_once:
  assumes "accepts s m" "\<And>e. e \<in> set es \<Longrightarrow> op_key key e \<noteq> key m"
  shows "kept m \<in> pending (fold (op_run add ack) es (add m s))"
  using assms by (intro survives add_adds) (auto simp: kept_key)

lemma acked_gone:
  "acks s \<Longrightarrow> m \<in> pending (op_run add ack (AckOp (key m)) s) \<Longrightarrow> False"
  using ack_drops by force

end

text \<open>An outbox that is also cleaned up: the clean-up only takes acknowledged messages.\<close>

locale purged_outbox = outbox_contract add ack pending key accepts kept acks
  for add :: "'m \<Rightarrow> 's \<Rightarrow> 's" and ack :: "'k \<Rightarrow> 's \<Rightarrow> 's" and pending :: "'s \<Rightarrow> 'm set"
    and key :: "'m \<Rightarrow> 'k" and accepts :: "'s \<Rightarrow> 'm \<Rightarrow> bool" and kept :: "'m \<Rightarrow> 'm"
    and acks :: "'s \<Rightarrow> bool" +
  fixes purge :: "'t \<Rightarrow> 's \<Rightarrow> 's"
  assumes purge_keeps: "m \<in> pending s \<Longrightarrow> m \<in> pending (purge t s)"
begin

lemma purged_survives:
  assumes "accepts s m" "\<And>e. e \<in> set es \<Longrightarrow> op_key key e \<noteq> key m"
  shows "kept m \<in> pending (purge t (fold (op_run add ack) es (add m s)))"
  using assms by (intro purge_keeps at_least_once)

end

section \<open>Keyed stores\<close>

text \<open>
  A map under keys that may only be told apart when they are well formed (\<open>ok\<close>): what was put
  under a key is found there, and writes under other keys never show.
\<close>

locale keyed_store =
  fixes get :: "'s \<Rightarrow> 'k \<Rightarrow> 'v option"
    and put :: "'k \<Rightarrow> 'v \<Rightarrow> 's \<Rightarrow> 's"
    and del :: "'k \<Rightarrow> 's \<Rightarrow> 's"
    and ok :: "'k \<Rightarrow> bool"
  assumes get_put: "get (put k v s) k = Some v"
    and get_del: "get (del k s) k = None"
    and put_other: "ok k \<Longrightarrow> ok k' \<Longrightarrow> k' \<noteq> k \<Longrightarrow> get (put k v s) k' = get s k'"
    and del_other: "ok k \<Longrightarrow> ok k' \<Longrightarrow> k' \<noteq> k \<Longrightarrow> get (del k s) k' = get s k'"
begin

text \<open>One update: \<^term>\<open>Some v\<close> puts, \<^term>\<open>None\<close> deletes.\<close>

definition update :: "'k \<times> 'v option \<Rightarrow> 's \<Rightarrow> 's" where
  "update kv s = (case snd kv of None \<Rightarrow> del (fst kv) s | Some v \<Rightarrow> put (fst kv) v s)"

lemma get_write: "get (update kv s) (fst kv) = snd kv"
  by (simp add: update_def get_put get_del split: option.split)

lemma write_other: "ok (fst kv) \<Longrightarrow> ok k \<Longrightarrow> k \<noteq> fst kv \<Longrightarrow> get (update kv s) k = get s k"
  by (simp add: update_def put_other del_other split: option.split)

lemma writes_other:
  assumes "ok k" "\<forall>kv \<in> set kvs. ok (fst kv) \<and> fst kv \<noteq> k"
  shows "get (fold update kvs s) k = get s k"
  using assms by (induction kvs arbitrary: s) (auto simp: write_other)

text \<open>The last write under a key decides.\<close>

lemma last_write_wins:
  assumes "ok k" "\<forall>kv \<in> set kvs. ok (fst kv) \<and> fst kv \<noteq> k"
  shows "get (fold update ((k, v) # kvs) s) k = v"
  using writes_other [OF assms] get_write [of "(k, v)"] by simp

end

end
