(* ===== verification/Sqlite_Props.thy ===== *)
theory Sqlite_Props
  imports Sqlite_Frame Contracts
begin

text \<open>
  What the store promises its callers. Job transitions and approval decisions are
  compare-and-set (interpretations of \<open>cas_table\<close>), the outbox keeps what is not acknowledged
  (interpretation of \<open>purged_outbox\<close>), and pairing codes, init tokens and progress numbers are
  accepted once, across any further sequence of store calls.
\<close>

section \<open>The abstract job table\<close>

text \<open>The store as its callers see it: a map from job ids to jobs, changed by compare-and-set.\<close>

definition job_map :: "db \<Rightarrow> string \<Rightarrow> Job option" where
  "job_map d = lookup_by jb_ID (jobs d)"

definition cas_job ::
    "(string \<Rightarrow> Job option) \<Rightarrow> time \<Rightarrow> string \<Rightarrow> JobState list \<Rightarrow> JobState \<Rightarrow> JobPatch
      \<Rightarrow> Job res \<times> (string \<Rightarrow> Job option)" where
  "cas_job m now i from to p =
     (case m i of
        None \<Rightarrow> (Inl ErrNotFound, m)
      | Some j \<Rightarrow> if jb_State j \<in> set from
                  then (Inr (patch_job now to p j), m(i \<mapsto> patch_job now to p j))
                  else (Inl ErrConflict, m))"

type_synonym job_cmd = "time \<times> string \<times> JobState list \<times> JobState \<times> JobPatch"

definition run_transition :: "job_cmd \<Rightarrow> db \<Rightarrow> db" where
  "run_transition = (\<lambda>(now, i, from, to, p) d. snd (TransitionJob d now i from to p))"

type_synonym decide_cmd = "string \<times> string \<times> string \<times> time"

definition run_decision :: "decide_cmd \<Rightarrow> db \<Rightarrow> db" where
  "run_decision = (\<lambda>(i, dec, who, t) d. snd (DecideApproval d i dec who t))"

definition approval_map :: "db \<Rightarrow> string \<Rightarrow> Approval option" where
  "approval_map d = lookup_by av_ID (approvals d)"

definition unacked :: "db \<Rightarrow> OutboxMessage set" where
  "unacked d = {m \<in> set (outbox d). ob_AckedAt m = None}"

section \<open>Jobs by compare-and-set\<close>

lemma jobs_TransitionJob:
  "jobs (snd (TransitionJob d now i from to p)) =
     (if from = [] \<or> sqlFault d UpdateJobState then jobs d
      else rows_update (\<lambda>j. jb_ID j = i \<and> jb_State j \<in> set from) (patch_job now to p) (jobs d))"
  by (simp add: TransitionJob_def Let_def split: sum.split)

lemma job_map_TransitionJob:
  "job_map (snd (TransitionJob d now i from to p)) k =
     map_option (\<lambda>j. if \<not> sqlFault d UpdateJobState \<and> i = k \<and> jb_State j \<in> set from
                     then patch_job now to p j else j) (job_map d k)"
  by (cases "lookup_by jb_ID (jobs d) k")
    (auto simp: job_map_def jobs_TransitionJob lookup_by_update_at)

interpretation job_cas: cas_table job_map run_transition "\<lambda>d. \<not> sqlFault d UpdateJobState"
    "\<lambda>(now, i, from, to, p). i" "\<lambda>(now, i, from, to, p) j. jb_State j \<in> set from"
    "\<lambda>(now, i, from, to, p). patch_job now to p"
  by unfold_locales (auto simp: run_transition_def job_map_TransitionJob split: prod.split)

lemma affected_jobs:
  "distinct (map jb_ID (jobs d)) \<Longrightarrow>
   rows_affected (\<lambda>j. jb_ID j = i \<and> jb_State j \<in> set from) (jobs d) =
     (case job_map d i of Some j \<Rightarrow> if jb_State j \<in> set from then 1 else 0 | None \<Rightarrow> 0)"
  by (simp add: rows_affected_key job_map_def)

lemma JobByID_job_map:
  "\<not> sqlFault d SelectJobByID \<Longrightarrow>
   JobByID d i = (case job_map d i of None \<Rightarrow> Inl ErrNotFound | Some j \<Rightarrow> Inr j)"
  by (simp add: JobByID_def scan_row_def job_map_def)

lemma fst_TransitionJob:
  assumes "db_ok d" "from \<noteq> []" "\<not> sqlFault d UpdateJobState" "\<not> sqlFault d SelectJobByID"
  shows "fst (TransitionJob d now i from to p) = fst (cas_job (job_map d) now i from to p)"
proof -
  let ?hit = "\<lambda>j. jb_ID j = i \<and> jb_State j \<in> set from"
  let ?d = "d\<lparr>jobs := rows_update ?hit (patch_job now to p) (jobs d)\<rparr>"
  have d: "job_map ?d i =
      map_option (\<lambda>j. if jb_State j \<in> set from then patch_job now to p j else j) (job_map d i)"
    by (simp add: job_map_def lookup_by_update_at)
  have by_id: "JobByID ?d i = (case job_map ?d i of None \<Rightarrow> Inl ErrNotFound | Some j \<Rightarrow> Inr j)"
    using assms(4) by (intro JobByID_job_map) simp
  have "distinct (map jb_ID (jobs d))" using assms(1) by (simp add: db_ok_def keys_unique_def)
  note hits = affected_jobs [OF this, of i "from"]
  show ?thesis
    using assms(2,3) d by_id hits unfolding TransitionJob_def cas_job_def Let_def
    by (cases "job_map d i") (simp_all del: rows_affected_eq_0)
qed

lemma job_map_cas:
  assumes "from \<noteq> []" "\<not> sqlFault d UpdateJobState"
  shows "job_map (snd (TransitionJob d now i from to p)) =
         snd (cas_job (job_map d) now i from to p)"
proof
  fix k
  show "job_map (snd (TransitionJob d now i from to p)) k =
        snd (cas_job (job_map d) now i from to p) k"
    using assms by (cases "job_map d k"; cases "job_map d i")
      (auto simp: job_map_TransitionJob cas_job_def)
qed

lemmas cas_job_simps = fst_TransitionJob job_map_cas cas_job_def


text \<open>
  Of racing transitions the first wins: once a transition has moved a job to a state that
  none of the following calls starts from, the job stays exactly as the winner left it, however
  many of them run.
\<close>

theorem transition_first_wins:
  assumes "job_map d i = Some j" "jb_State j \<in> set from" "\<not> sqlFault d UpdateJobState"
    and "\<forall>(now', i', from', to', p') \<in> set cs. to \<notin> set from'"
  shows "job_map (fold run_transition ((now, i, from, to, p) # cs) d) i = Some (patch_job now to p j)"
  using assms job_cas.cas_first_wins [of d i j "(now, i, from, to, p)" cs] by fastforce

section \<open>Approvals are decided once\<close>

lemma approvals_DecideApproval:
  "approvals (snd (DecideApproval d i dec who t)) =
     (if sqlFault d UpdateApproval then approvals d
      else rows_update (\<lambda>a. av_ID a = i \<and> (Pending a \<and> ms t < ms (av_ExpiresAt a)))
             (decide_row dec who t) (approvals d))"
  by (simp add: DecideApproval_def Let_def split: sum.split)

lemma approval_map_DecideApproval:
  "approval_map (snd (DecideApproval d i dec who t)) k =
     map_option (\<lambda>a. if \<not> sqlFault d UpdateApproval \<and> i = k
                        \<and> (Pending a \<and> ms t < ms (av_ExpiresAt a))
                     then decide_row dec who t a else a) (approval_map d k)"
  by (cases "lookup_by av_ID (approvals d) k")
    (auto simp: approval_map_def approvals_DecideApproval lookup_by_update_at decide_row_def)

interpretation approval_cas: cas_table approval_map run_decision "\<lambda>d. \<not> sqlFault d UpdateApproval"
    "\<lambda>(i, dec, who, t). i" "\<lambda>(i, dec, who, t) a. Pending a \<and> ms t < ms (av_ExpiresAt a)"
    "\<lambda>(i, dec, who, t). decide_row dec who t"
  by unfold_locales (auto simp: run_decision_def approval_map_DecideApproval split: prod.split)

lemma fst_DecideApproval:
  assumes "db_ok d"
  shows "fst (DecideApproval d i dec who t) =
     (if sqlFault d UpdateApproval \<or> sqlFault d SelectApprovalByID then Inl ErrDriver
      else case approval_map d i of
          None \<Rightarrow> Inl ErrNotFound
        | Some a \<Rightarrow> if Pending a \<and> ms t < ms (av_ExpiresAt a) then Inr (decide_row dec who t a)
                    else Inl ErrConflict)"
proof -
  let ?q = "\<lambda>a. Pending a \<and> ms t < ms (av_ExpiresAt a)"
  let ?hit = "\<lambda>a. av_ID a = i \<and> ?q a"
  have "distinct (map av_ID (approvals d))" using assms by (simp add: db_ok_def keys_unique_def)
  then have hits: "rows_affected ?hit (approvals d) =
      (case approval_map d i of Some a \<Rightarrow> if ?q a then 1 else 0 | None \<Rightarrow> 0)"
    unfolding approval_map_def by (rule rows_affected_key)
  have row: "lookup_by av_ID (rows_update ?hit (decide_row dec who t) (approvals d)) i =
      map_option (\<lambda>a. if ?q a then decide_row dec who t a else a) (approval_map d i)"
    by (simp add: approval_map_def decide_row_def lookup_by_update_at)
  show ?thesis
    using hits row
    unfolding DecideApproval_def Let_def ApprovalByID_def
    by (cases "approval_map d i") (simp_all add: scan_row_def del: rows_affected_eq_0)
qed

text \<open>A decided approval is never touched again by any store call.\<close>

lemma approvals_CreateApproval:
  "approvals (snd (CreateApproval d a)) = approvals d \<or>
   approvals (snd (CreateApproval d a)) = approvals d @ [stored_approval a]"
  by (simp add: CreateApproval_def)

lemma decided_stays_step:
  assumes "db_step d d'" "approval_map d i = Some a" "\<not> Pending a"
  shows "approval_map d' i = Some a"
  using assms
proof (cases rule: db_step.cases)
  case (CreateApproval b)
  then show ?thesis
    using assms approvals_CreateApproval [of d b] by (auto simp: approval_map_def lookup_by_append)
next
  case (DecideApproval j dec u t)
  then show ?thesis using assms by (simp add: approval_map_DecideApproval)
qed (simp_all add: approval_map_def store_frame)

lemma decided_stays:
  "db_step\<^sup>*\<^sup>* d d' \<Longrightarrow> approval_map d i = Some a \<Longrightarrow> \<not> Pending a \<Longrightarrow> approval_map d' i = Some a"
  by (induction rule: rtranclp_induct) (auto dest: decided_stays_step)

lemma db_steps_ok: "db_step\<^sup>*\<^sup>* d d' \<Longrightarrow> db_ok d \<Longrightarrow> db_ok d'"
  by (induction rule: rtranclp_induct) (auto dest: db_step_ok)

lemma DecideApproval_decided:
  assumes "db_ok d" "DecideApproval d i dec who t = (Inr a, d1)"
  shows "approval_map d1 i = Some a" "av_Decision a = dec" "av_DecidedBy a = who"
proof -
  have f: "fst (DecideApproval d i dec who t) = Inr a" and s: "d1 = snd (DecideApproval d i dec who t)"
    using assms(2) by simp_all
  show "approval_map d1 i = Some a" "av_Decision a = dec" "av_DecidedBy a = who"
    using f unfolding s approval_map_DecideApproval fst_DecideApproval [OF assms(1)]
    by (auto simp: decide_row_def split: if_splits option.splits)
qed

text \<open>
  C20. A decision is final: after \<^verbatim>\<open>DecideApproval\<close> succeeded with a non-empty decision, no
  sequence of further store calls changes the row, and every later attempt to decide it fails.
\<close>

theorem decision_is_final:
  assumes "db_ok d" "DecideApproval d i dec who t = (Inr a, d1)" "dec \<noteq> []" "db_step\<^sup>*\<^sup>* d1 d2"
  shows "approval_map d2 i = Some a \<and> (\<exists>e. fst (DecideApproval d2 i dec' who' t') = Inl e)"
proof -
  note dec = DecideApproval_decided [OF assms(1,2)]
  have "\<not> Pending a" using dec(2) assms(3) by (simp add: Pending_def)
  then have stays: "approval_map d2 i = Some a" using decided_stays assms(4) dec(1) by blast
  have "d1 = snd (DecideApproval d i dec who t)" using assms(2) by simp
  then have "db_ok d2" using assms(1,4) db_steps_ok inv_intro by metis
  then show ?thesis
    using stays \<open>\<not> Pending a\<close> by (simp add: fst_DecideApproval)
qed

section \<open>Codes and tokens are used once\<close>

definition code_spent :: "string \<Rightarrow> db \<Rightarrow> bool" where
  "code_spent c d \<longleftrightarrow>
     c \<in> pr_CodeHash ` set (pairings d) \<and>
     (\<forall>p \<in> set (pairings d). pr_CodeHash p = c \<longrightarrow> pr_UsedAt p \<noteq> None)"

definition token_spent :: "string \<Rightarrow> db \<Rightarrow> bool" where
  "token_spent c d \<longleftrightarrow>
     c \<in> in_CodeHash ` set (init_requests d) \<and>
     (\<forall>r \<in> set (init_requests d). in_CodeHash r = c \<longrightarrow>
        Claimed r \<and> in_FetchedAt r \<noteq> None \<and> in_HarnessToken r = [])"

lemma code_spent_update:
  assumes "code_spent c d" "\<And>p. pr_CodeHash (f p) = pr_CodeHash p"
    "\<And>p. pr_UsedAt p \<noteq> None \<Longrightarrow> pr_UsedAt (f p) \<noteq> None"
  shows "code_spent c (d\<lparr>pairings := rows_update q f (pairings d)\<rparr>)"
  using assms unfolding code_spent_def
  by (auto simp: image_rows_update dest!: rows_update_memD split: if_splits)

lemma code_spent_step:
  assumes "db_step d d'" "code_spent c d"
  shows "code_spent c d'"
  using assms
proof (cases rule: db_step.cases)
  case (CreatePairing b u t)
  then show ?thesis using assms(2) by (auto simp: CreatePairing_def code_spent_def)
next
  case (ConsumePairing b t)
  then show ?thesis
    using assms(2) by (auto simp: ConsumePairing_def intro!: code_spent_update split: option.split)
qed (simp_all add: code_spent_def store_frame)

lemma code_spent_steps: "db_step\<^sup>*\<^sup>* d d' \<Longrightarrow> code_spent c d \<Longrightarrow> code_spent c d'"
  by (induction rule: rtranclp_induct) (auto dest: code_spent_step)

lemma unique_pairing:
  "db_ok d \<Longrightarrow> p \<in> set (pairings d) \<Longrightarrow> q \<in> set (pairings d) \<Longrightarrow> pr_CodeHash p = pr_CodeHash q \<Longrightarrow> p = q"
  by (metis db_ok_def keys_unique_def lookup_by_in_set option.inject)

lemma ConsumePairing_spends:
  assumes "db_ok d" "ConsumePairing d c t = (Inr u, d1)"
  shows "code_spent c d1"
proof -
  obtain p where p: "find (pairing_usable c t) (pairings d) = Some p"
    and d1: "d1 = d\<lparr>pairings := rows_update (pairing_usable c t)
                (\<lambda>p. p\<lparr>pr_UsedAt := Some (stored_time t)\<rparr>) (pairings d)\<rparr>"
    using assms(2) by (auto simp: ConsumePairing_def split: if_splits option.splits)
  note find_SomeD [OF p]
  then have "q \<in> set (pairings d) \<Longrightarrow> pr_CodeHash q = c \<Longrightarrow> pairing_usable c t q" for q
    using unique_pairing [OF assms(1), of p q] by (auto simp: pairing_usable_def)
  with find_SomeD [OF p] show ?thesis
    by (auto simp: d1 code_spent_def image_rows_update pairing_usable_def
        dest!: rows_update_memD split: if_splits)
qed

text \<open>
  A pairing code pairs one harness: after a successful \<^verbatim>\<open>ConsumePairing\<close> every later attempt
  with the same code fails, at any time and after any sequence of store calls.
\<close>

theorem pairing_code_single_use:
  assumes "db_ok d" "ConsumePairing d c t = (Inr u, d1)" "db_step\<^sup>*\<^sup>* d1 d2"
  shows "\<exists>e. ConsumePairing d2 c t' = (Inl e, d2)"
proof -
  have "code_spent c d2" using ConsumePairing_spends code_spent_steps assms by blast
  then have "find (pairing_usable c t') (pairings d2) = None"
    by (auto simp: code_spent_def pairing_usable_def)
  then show ?thesis unfolding ConsumePairing_def by (simp del: find_eq_None_conv)
qed

lemma token_spent_update:
  assumes "token_spent c d" "\<And>r. in_CodeHash (f r) = in_CodeHash r"
    "\<And>r. q r \<Longrightarrow> Claimed r \<Longrightarrow> in_FetchedAt r \<noteq> None \<Longrightarrow> in_HarnessToken r = [] \<Longrightarrow>
       in_CodeHash r = c \<Longrightarrow> Claimed (f r) \<and> in_FetchedAt (f r) \<noteq> None \<and> in_HarnessToken (f r) = []"
  shows "token_spent c (d\<lparr>init_requests := rows_update q f (init_requests d)\<rparr>)"
  using assms unfolding token_spent_def
  by (auto simp: image_rows_update dest!: rows_update_memD split: if_splits)

lemma token_spent_complete:
  assumes "token_spent c d" "lookup_by in_CodeHash (init_requests d) b = Some r" "\<not> Claimed r"
  shows "token_spent c (complete_tables d b t h i tok)"
proof -
  have "c \<noteq> b" using assms lookup_by_SomeD unfolding token_spent_def by metis
  then have "token_spent c (d\<lparr>init_requests := init_requests (complete_tables d b t h i tok)\<rparr>)"
    unfolding complete_tables_def using assms(1) by (simp, intro token_spent_update) auto
  then show ?thesis by (simp add: token_spent_def)
qed

lemma CompleteInit_cases:
  obtains (failed) e where "CompleteInit d c t h i tok = (Inl e, d)"
  | (completed) r b where "CompleteInit d c t h i tok = (Inr (), complete_tables d c t h i tok)"
      "lookup_by in_CodeHash (init_requests d) c = Some r" "\<not> Claimed r" "t < in_ExpiresAt r"
      "lookup_by bt_UserID (bots d) i = Some b" "bt_MMUserID b = hn_MMUserID h"
      "bt_HarnessID b = []"
      "hn_ID h \<notin> hn_ID ` set (harnesses d)" "hn_TokenHash h \<notin> hn_TokenHash ` set (harnesses d)"
proof (cases "fst (CompleteInit d c t h i tok)")
  case (Inl e)
  then have "CompleteInit d c t h i tok = (Inl e, d)"
    by (auto simp: CompleteInit_def scan_row_def split: if_splits option.splits)
  then show ?thesis by (rule failed)
next
  case (Inr u)
  then show ?thesis
    using completed by (simp add: CompleteInit_def scan_row_def split: if_splits option.splits)
qed

lemma init_requests_ClaimInit:
  "\<exists>q f. init_requests (snd (ClaimInit d c t i tok)) = rows_update q f (init_requests d) \<and>
     (\<forall>r. q r \<longrightarrow> \<not> Claimed r) \<and> (\<forall>r. in_CodeHash (f r) = in_CodeHash r)"
proof (cases "sqlFault d UpdateInitClaim")
  case True
  then show ?thesis
    by (intro exI [of _ "\<lambda>_. False"] exI [of _ id]) (simp add: ClaimInit_def rows_update_id)
next
  case False
  let ?q = "\<lambda>r. in_CodeHash r = c \<and> (in_ClaimedAt r = None \<and> ms t < ms (in_ExpiresAt r))"
  let ?f = "\<lambda>r. r\<lparr>in_ClaimedAt := Some (stored_time t), in_HarnessID := i, in_HarnessToken := tok\<rparr>"
  have "init_requests (snd (ClaimInit d c t i tok)) = rows_update ?q ?f (init_requests d)"
    using False by (simp add: ClaimInit_def Let_def split: sum.split)
  then show ?thesis by (intro exI [of _ ?q] exI [of _ ?f]) (simp add: Claimed_def)
qed

lemma init_requests_FetchInit:
  "init_requests (snd (FetchInit d c t)) = init_requests d \<or>
   init_requests (snd (FetchInit d c t)) =
     rows_update (\<lambda>r. in_CodeHash r = c \<and> in_FetchedAt r = None)
       (\<lambda>r. r\<lparr>in_FetchedAt := Some (stored_time t), in_HarnessToken := []\<rparr>) (init_requests d)"
  by (simp add: FetchInit_def Let_def split: sum.split)

lemma token_spent_step:
  assumes "db_step d d'" "token_spent c d"
  shows "token_spent c d'"
  using assms
proof (cases rule: db_step.cases)
  case (CreateInit r)
  then show ?thesis using assms(2) by (auto simp: CreateInit_def token_spent_def)
next
  case (ClaimInit b t i tok)
  obtain q f where "init_requests d' = rows_update q f (init_requests d)"
    "\<forall>r. q r \<longrightarrow> \<not> Claimed r" "\<forall>r. in_CodeHash (f r) = in_CodeHash r"
    using init_requests_ClaimInit [of d b t i tok] ClaimInit by blast
  then show ?thesis
    using token_spent_update [OF assms(2), of f q] by (simp add: token_spent_def)
next
  case (FetchInit b t)
  let ?f = "\<lambda>r. r\<lparr>in_FetchedAt := Some (stored_time t), in_HarnessToken := []\<rparr>"
  have "token_spent c (d\<lparr>init_requests := rows_update q ?f (init_requests d)\<rparr>)" for q
    by (rule token_spent_update [OF assms(2)]) (simp_all add: Claimed_def)
  then show ?thesis
    using init_requests_FetchInit [of d b t] FetchInit assms(2) unfolding token_spent_def by auto
next
  case (CompleteInit b t h i tok)
  show ?thesis
  proof (cases rule: CompleteInit_cases [of d b t h i tok])
    case (completed r bot)
    then show ?thesis using CompleteInit assms(2) token_spent_complete by simp
  qed (use CompleteInit assms(2) in simp)
qed (simp_all add: token_spent_def store_frame)

lemma token_spent_steps: "db_step\<^sup>*\<^sup>* d d' \<Longrightarrow> token_spent c d \<Longrightarrow> token_spent c d'"
  by (induction rule: rtranclp_induct) (auto dest: token_spent_step)

lemma FetchInit_claimed:
  assumes "FetchInit d c t = (Inr r, d1)" "Claimed r"
  obtains q where "lookup_by in_CodeHash (init_requests d) c = Some q" "Claimed q"
    "d1 = d\<lparr>init_requests := rows_update (\<lambda>r. in_CodeHash r = c \<and> in_FetchedAt r = None)
        (\<lambda>r. r\<lparr>in_FetchedAt := Some (stored_time t), in_HarnessToken := []\<rparr>) (init_requests d)\<rparr>"
    "rows_affected (\<lambda>r. in_CodeHash r = c \<and> in_FetchedAt r = None) (init_requests d) \<noteq> 0"
proof (cases "InitByCode d c")
  case (Inr q)
  moreover from Inr have "lookup_by in_CodeHash (init_requests d) c = Some q"
    by (simp add: InitByCode_def scan_row_def split: if_splits option.splits)
  ultimately show ?thesis
    using assms that
    by (simp add: FetchInit_def Let_def Claimed_def del: rows_affected_eq_0 split: if_splits)
qed (use assms in \<open>simp add: FetchInit_def\<close>)

lemma FetchInit_spends:
  assumes "db_ok d" "FetchInit d c t = (Inr r, d1)" "Claimed r"
  shows "token_spent c d1"
proof -
  let ?f = "\<lambda>r. r\<lparr>in_FetchedAt := Some (stored_time t), in_HarnessToken := []\<rparr>"
  obtain q where q: "lookup_by in_CodeHash (init_requests d) c = Some q" "Claimed q"
    and d1: "d1 = d\<lparr>init_requests :=
        rows_update (\<lambda>r. in_CodeHash r = c \<and> in_FetchedAt r = None) ?f (init_requests d)\<rparr>"
    and hits: "rows_affected (\<lambda>r. in_CodeHash r = c \<and> in_FetchedAt r = None) (init_requests d) \<noteq> 0"
    using FetchInit_claimed [OF assms(2,3)] .
  have dist: "distinct (map in_CodeHash (init_requests d))"
    using assms(1) by (simp add: db_ok_def keys_unique_def)
  then have "in_FetchedAt q = None"
    using hits q(1) by (simp add: rows_affected_key del: rows_affected_eq_0 split: if_splits)
  then have "r = ?f q" if "r \<in> set (init_requests d1)" "in_CodeHash r = c" for r
    using rows_update_hit [OF dist q(1), of "\<lambda>r. in_FetchedAt r = None" ?f r] that by (simp add: d1)
  moreover have "Claimed (?f q)" using q(2) by (simp add: Claimed_def)
  ultimately have "\<forall>r \<in> set (init_requests d1). in_CodeHash r = c \<longrightarrow>
      Claimed r \<and> in_FetchedAt r \<noteq> None \<and> in_HarnessToken r = []"
    by fastforce
  moreover have "c \<in> in_CodeHash ` set (init_requests d1)"
    using lookup_by_SomeD [OF q(1)] by (auto simp: d1 image_rows_update)
  ultimately show ?thesis by (simp add: token_spent_def)
qed

text \<open>
  A harness token is handed out once: after \<^verbatim>\<open>FetchInit\<close> returned a claimed request, no later
  call with the same code returns it, at any time and after any sequence of store calls, and
  the clear-text token is gone from the database.
\<close>

theorem init_token_fetched_once:
  assumes "db_ok d" "FetchInit d c t = (Inr r, d1)" "Claimed r" "db_step\<^sup>*\<^sup>* d1 d2"
  shows "(\<exists>e. fst (FetchInit d2 c t') = Inl e) \<and>
         (\<forall>r \<in> set (init_requests d2). in_CodeHash r = c \<longrightarrow> in_HarnessToken r = [])"
proof (intro conjI)
  have spent: "token_spent c d2" using FetchInit_spends token_spent_steps assms by blast
  then show "\<forall>r \<in> set (init_requests d2). in_CodeHash r = c \<longrightarrow> in_HarnessToken r = []"
    by (simp add: token_spent_def)
  show "\<exists>e. fst (FetchInit d2 c t') = Inl e"
    using spent
    by (auto simp: FetchInit_def Let_def InitByCode_def scan_row_def token_spent_def
        dest!: lookup_by_SomeD split: sum.split option.split)
qed

section \<open>Progress numbers only grow\<close>

definition seq_at_least :: "string \<Rightarrow> int \<Rightarrow> db \<Rightarrow> bool" where
  "seq_at_least i n d \<longleftrightarrow>
     i \<in> jb_ID ` set (jobs d) \<and> (\<forall>j \<in> set (jobs d). jb_ID j = i \<longrightarrow> n \<le> jb_LastSeq j)"

lemma seq_at_least_update:
  assumes "seq_at_least i n d" "\<And>j. jb_ID (f j) = jb_ID j" "\<And>j. q j \<Longrightarrow> jb_LastSeq j \<le> jb_LastSeq (f j)"
  shows "seq_at_least i n (d\<lparr>jobs := rows_update q f (jobs d)\<rparr>)"
proof -
  have "n \<le> jb_LastSeq j" if "j \<in> set (rows_update q f (jobs d))" "jb_ID j = i" for j
    using rows_update_memD [OF that(1)] that(2) assms order_trans
    by (fastforce simp: seq_at_least_def split: if_splits)
  then show ?thesis using assms(1,2) by (simp add: seq_at_least_def image_rows_update)
qed

lemma expire_job_seq [simp]: "jb_LastSeq (expire_job t j) = jb_LastSeq j"
  by (simp add: expire_job_def)

lemma seq_at_least_step:
  assumes "db_step d d'" "seq_at_least i n d"
  shows "seq_at_least i n d'"
  using assms
proof (cases rule: db_step.cases)
  case (CreateJob j)
  then show ?thesis using assms(2) by (auto simp: CreateJob_def seq_at_least_def)
next
  case (TransitionJob t k "from" to p)
  then show ?thesis using assms(2)
    by (auto simp: TransitionJob_def Let_def intro!: seq_at_least_update split: sum.split)
next
  case (RecordProgress t k m)
  then show ?thesis using assms(2)
    by (auto simp: RecordProgress_def Let_def intro!: seq_at_least_update)
next
  case (ExpireQueuedJobs t)
  then show ?thesis using assms(2)
    by (auto simp: ExpireQueuedJobs_def intro!: seq_at_least_update)
qed (simp_all add: seq_at_least_def store_frame)

lemma seq_at_least_steps: "db_step\<^sup>*\<^sup>* d d' \<Longrightarrow> seq_at_least i n d \<Longrightarrow> seq_at_least i n d'"
  by (induction rule: rtranclp_induct) (auto dest: seq_at_least_step)

lemma RecordProgress_accepts:
  assumes "db_ok d" "\<not> sqlFault d UpdateJobSeq"
  shows "fst (RecordProgress d now i seq) = Inr True \<longleftrightarrow>
    (\<exists>j. job_map d i = Some j \<and> jb_LastSeq j < seq \<and> jb_State j \<in> {JobRunning, JobAwaitingApproval})"
proof -
  have "distinct (map jb_ID (jobs d))" using assms(1) by (simp add: db_ok_def keys_unique_def)
  from rows_affected_key [OF this] show ?thesis
    using assms(2) by (auto simp: RecordProgress_def Let_def job_map_def split: option.split)
qed

lemma jobs_RecordProgress:
  "jobs (snd (RecordProgress d now i seq)) =
     (if sqlFault d UpdateJobSeq then jobs d
      else rows_update (\<lambda>j. jb_ID j = i \<and> (jb_LastSeq j < seq
                          \<and> jb_State j \<in> {JobRunning, JobAwaitingApproval}))
             (\<lambda>j. j\<lparr>jb_LastSeq := seq, jb_UpdatedAt := stored_time now\<rparr>) (jobs d))"
  by (simp add: RecordProgress_def Let_def)

lemma RecordProgress_seq:
  assumes "db_ok d" "RecordProgress d now i seq = (Inr True, d1)"
  shows "seq_at_least i seq d1"
proof -
  let ?q = "\<lambda>j. jb_LastSeq j < seq \<and> jb_State j \<in> {JobRunning, JobAwaitingApproval}"
  let ?f = "\<lambda>j. j\<lparr>jb_LastSeq := seq, jb_UpdatedAt := stored_time now\<rparr>"
  have nf: "\<not> sqlFault d UpdateJobSeq" using assms(2) by (auto simp: RecordProgress_def split: if_splits)
  then obtain j where j: "lookup_by jb_ID (jobs d) i = Some j" "?q j"
    using RecordProgress_accepts [OF assms(1) nf, of now i seq] assms(2) by (auto simp: job_map_def)
  have dist: "distinct (map jb_ID (jobs d))" using assms(1) by (simp add: db_ok_def keys_unique_def)
  have jobs: "jobs d1 = rows_update (\<lambda>j. jb_ID j = i \<and> ?q j) ?f (jobs d)"
    using jobs_RecordProgress [of d now i seq] assms(2) nf by simp
  have "k = ?f j" if "k \<in> set (jobs d1)" "jb_ID k = i" for k
    using rows_update_hit [OF dist j(1), of ?q ?f k] that j(2) jobs by simp
  then have "\<forall>k \<in> set (jobs d1). jb_ID k = i \<longrightarrow> seq \<le> jb_LastSeq k" by fastforce
  moreover have "i \<in> jb_ID ` set (jobs d1)"
    using lookup_by_SomeD [OF j(1)] by (auto simp: jobs image_rows_update)
  ultimately show ?thesis by (simp add: seq_at_least_def)
qed

text \<open>
  Progress is accepted in increasing order only: once a sequence number was accepted for a
  job, no sequence of store calls makes the store accept it, or a lower one, again.
\<close>

theorem progress_accepted_once:
  assumes "db_ok d" "RecordProgress d now i seq = (Inr True, d1)" "db_step\<^sup>*\<^sup>* d1 d2" "seq' \<le> seq"
  shows "fst (RecordProgress d2 now' i seq') \<noteq> Inr True"
proof -
  have "seq_at_least i seq d2" using RecordProgress_seq seq_at_least_steps assms by blast
  then have "\<not> (jb_ID j = i \<and> (jb_LastSeq j < seq' \<and> jb_State j \<in> {JobRunning, JobAwaitingApproval}))"
    if "j \<in> set (jobs d2)" for j
    using that assms(4) by (fastforce simp: seq_at_least_def)
  then have "rows_affected (\<lambda>j. jb_ID j = i \<and> (jb_LastSeq j < seq'
      \<and> jb_State j \<in> {JobRunning, JobAwaitingApproval})) (jobs d2) = 0"
    by simp
  then show ?thesis
    unfolding RecordProgress_def Let_def by (simp del: rows_affected_eq_0 insert_iff)
qed

section \<open>Expiry, outbox, onboarding and bots\<close>

lemma queue_expired_expire [simp]: "\<not> queue_expired t (expire_job now j)"
  by (simp add: queue_expired_def)

lemma job_map_mem: "db_ok d \<Longrightarrow> j \<in> set (jobs d) \<Longrightarrow> job_map d (jb_ID j) = Some j"
  by (simp add: job_map_def db_ok_def keys_unique_def lookup_by_in_set)

lemma job_map_SomeD: "job_map d i = Some j \<Longrightarrow> j \<in> set (jobs d) \<and> jb_ID j = i"
  unfolding job_map_def by (rule lookup_by_SomeD)

lemma ExpireQueuedJobs_result:
  assumes "ExpireQueuedJobs d now = (Inr js, d1)"
  shows "js = map (expire_job now) (filter (queue_expired now) (jobs d))"
    "jobs d1 = rows_update (queue_expired now) (expire_job now) (jobs d)"
    "\<not> sqlFault d1 UpdateJobsExpired"
  using assms by (auto simp: ExpireQueuedJobs_def split: if_splits)

text \<open>
  \<^verbatim>\<open>ExpireQueuedJobs\<close> expires exactly the queued jobs whose deadline has passed: it returns
  them as they now are in the table, leaves every other job alone, and a second sweep at the
  same time finds nothing.
\<close>

theorem expire_queued_exact:
  assumes "db_ok d" "ExpireQueuedJobs d now = (Inr js, d1)"
  shows "(\<forall>j \<in> set js. jb_State j = JobExpired \<and> job_map d1 (jb_ID j) = Some j) \<and>
    (\<forall>i. i \<in> jb_ID ` set js \<longleftrightarrow> (\<exists>j e. job_map d i = Some j \<and> jb_State j = JobQueued
                                     \<and> jb_ExpiresAt j = Some e \<and> ms e \<le> ms now)) \<and>
    (\<forall>i. i \<notin> jb_ID ` set js \<longrightarrow> job_map d1 i = job_map d i) \<and>
    fst (ExpireQueuedJobs d1 now) = Inr []"
proof -
  note res = ExpireQueuedJobs_result [OF assms(2)]
  have m: "job_map d1 i = map_option (\<lambda>j. if queue_expired now j then expire_job now j else j) (job_map d i)" for i
    unfolding job_map_def res(2) by (rule lookup_by_rows_update) simp
  have ids: "i \<in> jb_ID ` set js \<longleftrightarrow> (\<exists>j. job_map d i = Some j \<and> queue_expired now j)" for i
  proof
    assume "i \<in> jb_ID ` set js"
    then obtain j where "j \<in> set (jobs d)" "queue_expired now j" "i = jb_ID j" by (auto simp: res(1))
    then show "\<exists>j. job_map d i = Some j \<and> queue_expired now j" using job_map_mem [OF assms(1)] by blast
  next
    assume "\<exists>j. job_map d i = Some j \<and> queue_expired now j"
    then obtain j where "job_map d i = Some j" "queue_expired now j" by blast
    then have "expire_job now j \<in> set js" "jb_ID (expire_job now j) = i"
      using job_map_SomeD [of d i j] by (simp_all add: res(1))
    then show "i \<in> jb_ID ` set js" by blast
  qed
  have "\<forall>j \<in> set js. jb_State j = JobExpired \<and> job_map d1 (jb_ID j) = Some j"
    using job_map_mem [OF assms(1)] by (simp add: res(1) m)
  moreover have "queue_expired now j \<longleftrightarrow> jb_State j = JobQueued \<and>
      (\<exists>e. jb_ExpiresAt j = Some e \<and> ms e \<le> ms now)" for j
    by (simp add: queue_expired_def split: option.split)
  moreover have "i \<notin> jb_ID ` set js \<longrightarrow> job_map d1 i = job_map d i" for i
    unfolding ids m by (cases "job_map d i") simp_all
  moreover have "fst (ExpireQueuedJobs d1 now) = Inr []"
    using res(3) by (auto simp: ExpireQueuedJobs_def filter_empty_conv res(2) set_rows_update)
  ultimately show ?thesis unfolding ids by blast
qed

lemma unacked_Enqueue:
  "m \<in> unacked d \<Longrightarrow> m \<in> unacked (snd (Enqueue d a))"
  by (simp add: unacked_def Enqueue_def)

lemma unacked_Enqueue_new:
  "\<not> sqlFault d InsertOutbox \<Longrightarrow> ob_ID m \<notin> ob_ID ` set (outbox d) \<Longrightarrow> ob_AckedAt m = None \<Longrightarrow>
   stored_outbox m \<in> unacked (snd (Enqueue d m))"
  by (simp add: unacked_def Enqueue_def stored_outbox_def)

lemma unacked_AckOutbox:
  "m \<in> unacked (snd (AckOutbox d k t)) \<longleftrightarrow> m \<in> unacked d \<and> (sqlFault d UpdateOutbox \<or> ob_ID m \<noteq> k)"
  by (auto simp: unacked_def AckOutbox_def set_rows_update)

lemma unacked_PurgeOutbox: "unacked (snd (PurgeOutbox d t)) = unacked d"
  by (auto simp: unacked_def PurgeOutbox_def acked_before_def)

interpretation store_outbox: purged_outbox "\<lambda>m d. snd (Enqueue d m)" "\<lambda>k d. snd (AckOutbox d k t)"
    unacked ob_ID
    "\<lambda>d m. \<not> sqlFault d InsertOutbox \<and> ob_ID m \<notin> ob_ID ` set (outbox d) \<and> ob_AckedAt m = None"
    stored_outbox "\<lambda>d. \<not> sqlFault d UpdateOutbox" "\<lambda>before d. snd (PurgeOutbox d before)" for t
  by unfold_locales
    (simp_all add: unacked_Enqueue unacked_Enqueue_new unacked_AckOutbox unacked_PurgeOutbox)

lemma PendingOutbox_unacked:
  "\<not> sqlFault d SelectOutbox \<Longrightarrow>
   \<exists>ms. PendingOutbox d h = Inr ms \<and> set ms = {m \<in> unacked d. ob_HarnessID m = h}"
  by (auto simp: PendingOutbox_def outbox_pending_def unacked_def)

text \<open>
  Delivery is at least once: an accepted message is in the harness's pending list, as
  stored, after any run of further enqueues and acknowledgements of other messages and a purge
  of the acknowledged ones.
\<close>

theorem outbox_at_least_once:
  assumes "\<not> sqlFault d InsertOutbox" "ob_ID m \<notin> ob_ID ` set (outbox d)" "ob_AckedAt m = None"
    and "\<forall>e \<in> set es. op_key ob_ID e \<noteq> ob_ID m"
    and "d1 = fold (op_run (\<lambda>m d. snd (Enqueue d m)) (\<lambda>k d. snd (AckOutbox d k t))) es (snd (Enqueue d m))"
    and "d2 = snd (PurgeOutbox d1 before)" "\<not> sqlFault d2 SelectOutbox"
  shows "\<exists>ms. PendingOutbox d2 (ob_HarnessID m) = Inr ms \<and> stored_outbox m \<in> set ms"
  using store_outbox.purged_survives [of d m es t "before"] assms(1-6)
    PendingOutbox_unacked [OF assms(7), of "ob_HarnessID m"] by auto

text \<open>
  \<^verbatim>\<open>CompleteInit\<close> is atomic: it either fails and changes nothing, or registers the harness,
  binds the bot (unbound before, of the same owner) to it and claims the request with its token,
  all at once.
\<close>

theorem complete_init_atomic:
  assumes "db_ok d" "CompleteInit d hash now h botID token = (r, d1)"
  shows "(\<exists>e. r = Inl e \<and> d1 = d) \<or>
    (r = Inr () \<and>
     (\<exists>b q. lookup_by bt_UserID (bots d) botID = Some b \<and> bt_HarnessID b = [] \<and>
            bt_MMUserID b = hn_MMUserID h \<and>
            lookup_by bt_UserID (bots d1) botID = Some (b\<lparr>bt_HarnessID := hn_ID h\<rparr>) \<and>
            lookup_by in_CodeHash (init_requests d) hash = Some q \<and> \<not> Claimed q \<and> now < in_ExpiresAt q \<and>
            lookup_by in_CodeHash (init_requests d1) hash =
              Some (q\<lparr>in_ClaimedAt := Some (stored_time now), in_HarnessID := hn_ID h,
                      in_HarnessToken := token, in_BotUserID := botID\<rparr>)) \<and>
     lookup_by hn_ID (harnesses d) (hn_ID h) = None \<and>
     lookup_by hn_ID (harnesses d1) (hn_ID h) = Some (stored_harness h))"
proof (cases rule: CompleteInit_cases [of d hash now h botID token])
  case (completed q b)
  then show ?thesis
    using assms(2) lookup_by_SomeD [OF completed(2)] lookup_by_SomeD [OF completed(5)]
    by (auto simp: complete_tables_def lookup_by_rows_update lookup_by_append_fresh
        lookup_by_None_iff)
qed (use assms(2) in auto)

text \<open>
  A bot, once bound to a harness, is never bound to another: no store call changes the
  binding of a row that has one.
\<close>

theorem bot_never_rebound:
  assumes "db_ok d" "db_step d d'" "b \<in> set (bots d)" "bt_HarnessID b \<noteq> []"
    and "b' \<in> set (bots d')" "bt_UserID b' = bt_UserID b"
  shows "bt_HarnessID b' = bt_HarnessID b"
proof -
  have uniq: "c = b" if "c \<in> set (bots d)" "bt_UserID c = bt_UserID b" for c
    using that assms(1,3) by (metis db_ok_def keys_unique_def lookup_by_in_set option.inject)
  show ?thesis
    using assms(2)
  proof (cases rule: db_step.cases)
    case (CreateBot c)
    then show ?thesis
      using assms(3,5,6) uniq by (auto simp: CreateBot_def split: sum.splits if_splits)
  next
    case (UpdateBot c)
    then show ?thesis
      using assms(4-6) uniq
      by (fastforce simp: UpdateBot_def Let_def dest!: rows_update_memD split: sum.splits if_splits)
  next
    case (DeleteBot i)
    then show ?thesis
      using assms(5,6) uniq by (auto simp: DeleteBot_def Let_def split: if_splits)
  next
    case (CompleteInit c t h i tok)
    show ?thesis
    proof (cases rule: CompleteInit_cases [of d c t h i tok])
      case (completed r c)
      then show ?thesis
        using assms(4-6) uniq CompleteInit lookup_by_SomeD [OF completed(5)]
        by (fastforce simp: complete_tables_def dest!: rows_update_memD split: if_splits)
    qed (use CompleteInit assms uniq in auto)
  qed (use assms uniq in \<open>auto simp: store_frame\<close>)
qed

end
