(* ===== verification/Effects.thy ===== *)
theory Effects
  imports Prelude "HOL-Library.State_Monad"
begin

text \<open>
  Effects as state passing: a Go function that reads and changes the state is a value of the
  library's state monad, a loop over a slice is \<open>for_each\<close>. The locale \<open>step_relation\<close> carries
  what a relation between the states before and after needs so that it can be proved of a whole
  handler from its calls, one rule per statement form.
\<close>

primrec for_each :: "('a \<Rightarrow> ('s, unit) state) \<Rightarrow> 'a list \<Rightarrow> ('s, unit) state" where
  "for_each f [] = State_Monad.return ()"
| "for_each f (x # xs) = do { f x; for_each f xs }"

text \<open>A loop that appends to a slice.\<close>

primrec collect :: "('a \<Rightarrow> ('s, 'b list) state) \<Rightarrow> 'a list \<Rightarrow> ('s, 'b list) state" where
  "collect f [] = State_Monad.return []"
| "collect f (x # xs) = do { ys \<leftarrow> f x; zs \<leftarrow> collect f xs; State_Monad.return (ys @ zs) }"

definition reads :: "('s \<Rightarrow> 'a) \<Rightarrow> ('s, 'a) state" where
  "reads f = State (\<lambda>s. (f s, s))"

definition modify :: "('s \<Rightarrow> 's) \<Rightarrow> ('s, unit) state" where
  "modify f = State (\<lambda>s. ((), f s))"

lemma run_state_reads [simp]: "run_state (reads f) s = (f s, s)"
  by (simp add: reads_def)

lemma run_state_modify [simp]: "run_state (modify f) s = ((), f s)"
  by (simp add: modify_def)

definition keeps :: "('s \<Rightarrow> 's \<Rightarrow> bool) \<Rightarrow> ('s, 'a) state \<Rightarrow> bool" where
  "keeps R m \<longleftrightarrow> (\<forall>s. R s (snd (run_state m s)))"

lemma keepsI: "(\<And>s. R s (snd (run_state m s))) \<Longrightarrow> keeps R m"
  by (simp add: keeps_def)

lemma keepsD: "keeps R m \<Longrightarrow> R s (snd (run_state m s))"
  by (simp add: keeps_def)

lemma keeps_if: "(b \<Longrightarrow> keeps R m) \<Longrightarrow> (\<not> b \<Longrightarrow> keeps R n) \<Longrightarrow> keeps R (if b then m else n)"
  by simp

lemma keeps_option:
  "(x = None \<Longrightarrow> keeps R m) \<Longrightarrow> (\<And>a. x = Some a \<Longrightarrow> keeps R (f a)) \<Longrightarrow>
   keeps R (case x of None \<Rightarrow> m | Some a \<Rightarrow> f a)"
  by (cases x) simp_all

lemma keeps_sum:
  "(\<And>e. x = Inl e \<Longrightarrow> keeps R (f e)) \<Longrightarrow> (\<And>a. x = Inr a \<Longrightarrow> keeps R (g a)) \<Longrightarrow>
   keeps R (case x of Inl e \<Rightarrow> f e | Inr a \<Rightarrow> g a)"
  by (cases x) simp_all

lemma keeps_list:
  "keeps R m \<Longrightarrow> (\<And>y ys. keeps R (f y ys)) \<Longrightarrow> keeps R (case x of [] \<Rightarrow> m | y # ys \<Rightarrow> f y ys)"
  by (cases x) simp_all

lemma keeps_prod: "(\<And>a b. x = (a, b) \<Longrightarrow> keeps R (f a b)) \<Longrightarrow> keeps R (case x of (a, b) \<Rightarrow> f a b)"
  by (cases x) simp

lemmas keeps_cases = keeps_if keeps_option keeps_sum keeps_list keeps_prod

lemma keeps_impl: "keeps R m \<Longrightarrow> (\<And>s t. R s t \<Longrightarrow> S s t) \<Longrightarrow> keeps S m"
  by (simp add: keeps_def)

locale step_relation =
  fixes R :: "'s \<Rightarrow> 's \<Rightarrow> bool"
  assumes rel_refl: "R s s"
    and rel_trans: "R s t \<Longrightarrow> R t u \<Longrightarrow> R s u"
begin

lemma return_keeps: "keeps R (State_Monad.return x)"
  by (simp add: keeps_def rel_refl)

lemma reads_keeps: "keeps R (reads f)"
  by (simp add: keeps_def rel_refl)

lemma bind_keeps: "keeps R m \<Longrightarrow> (\<And>a. keeps R (f a)) \<Longrightarrow> keeps R (State_Monad.bind m f)"
  unfolding keeps_def by (auto split: prod.split) (metis rel_trans snd_conv)

text \<open>The same when the call is known to return only certain values.\<close>

lemma bind_keeps_returned:
  "keeps R m \<Longrightarrow> (\<And>s. V (fst (run_state m s))) \<Longrightarrow> (\<And>a. V a \<Longrightarrow> keeps R (f a)) \<Longrightarrow>
   keeps R (State_Monad.bind m f)"
  unfolding keeps_def by (auto split: prod.split) (metis fst_conv rel_trans snd_conv)

lemma for_each_keeps: "(\<And>x. keeps R (f x)) \<Longrightarrow> keeps R (for_each f xs)"
  by (induction xs) (simp_all add: return_keeps bind_keeps)

lemma collect_keeps: "(\<And>x. keeps R (f x)) \<Longrightarrow> keeps R (collect f xs)"
  by (induction xs) (simp_all add: return_keeps bind_keeps)

lemmas body_keeps = return_keeps reads_keeps bind_keeps for_each_keeps collect_keeps keeps_cases

end

section \<open>Relations under a stable condition\<close>

text \<open>
  A condition on the state that every related state inherits may be used at every call of the
  rest of a handler.
\<close>

definition keeps_on :: "('s \<Rightarrow> bool) \<Rightarrow> ('s \<Rightarrow> 's \<Rightarrow> bool) \<Rightarrow> ('s, 'a) state \<Rightarrow> bool" where
  "keeps_on F R m \<longleftrightarrow> (\<forall>s. F s \<longrightarrow> R s (snd (run_state m s)))"

lemma keeps_onI: "(\<And>s. F s \<Longrightarrow> R s (snd (run_state m s))) \<Longrightarrow> keeps_on F R m"
  by (simp add: keeps_on_def)

lemma keeps_onD: "keeps_on F R m \<Longrightarrow> F s \<Longrightarrow> R s (snd (run_state m s))"
  by (simp add: keeps_on_def)

lemma keeps_on_keeps: "keeps R m \<Longrightarrow> keeps_on F R m"
  by (simp add: keeps_def keeps_on_def)

lemma keeps_on_cases:
  "keeps_on F R m \<Longrightarrow> keeps_on F R n \<Longrightarrow> keeps_on F R (if b then m else n)"
  "keeps_on F R m \<Longrightarrow> (\<And>a. keeps_on F R (f a)) \<Longrightarrow> keeps_on F R (case x of None \<Rightarrow> m | Some a \<Rightarrow> f a)"
  "(\<And>e. keeps_on F R (k e)) \<Longrightarrow> (\<And>c. keeps_on F R (g c)) \<Longrightarrow>
   keeps_on F R (case y of Inl e \<Rightarrow> k e | Inr c \<Rightarrow> g c)"
  "(\<And>c d. keeps_on F R (h c d)) \<Longrightarrow> keeps_on F R (case z of (c, d) \<Rightarrow> h c d)"
  by (simp_all split: option.split sum.split prod.split)

locale guarded_relation = step_relation R for R :: "'s \<Rightarrow> 's \<Rightarrow> bool" +
  fixes F :: "'s \<Rightarrow> bool"
  assumes stable: "R s t \<Longrightarrow> F s \<Longrightarrow> F t"
begin

lemma bind_keeps_on: "keeps_on F R m \<Longrightarrow> (\<And>a. keeps_on F R (f a)) \<Longrightarrow> keeps_on F R (State_Monad.bind m f)"
  unfolding keeps_on_def by (auto split: prod.split) (metis rel_trans snd_conv stable)

end

end
