(* ===== verification/Go_Fmt.thy ===== *)
theory Go_Fmt
  imports Complex_Main Go_Text
begin

text \<open>
  Formatting and encodings of Go's standard library as the program uses them: 64-bit
  wrap-around, decimal numbers, \<^verbatim>\<open>time.Duration\<close> rounding and printing, \<^verbatim>\<open>%.2f\<close>, hexadecimal,
  base32 and base64, splitting at a byte, and upper case.
\<close>

section \<open>Numbers\<close>

text \<open>A result of Go's \<^verbatim>\<open>int\<close> and \<^verbatim>\<open>int64\<close> arithmetic.\<close>

definition wrap64 :: "int \<Rightarrow> int" where
  "wrap64 x = (x + 2 ^ 63) mod 2 ^ 64 - 2 ^ 63"

definition digit_char :: "nat \<Rightarrow> char" where
  "digit_char d = char_of (48 + d)"

fun nat_digits :: "nat \<Rightarrow> string" where
  "nat_digits n = (if n < 10 then [digit_char n] else nat_digits (n div 10) @ [digit_char (n mod 10)])"

declare nat_digits.simps [simp del]

definition itoa :: "int \<Rightarrow> string" where
  "itoa i = (if i < 0 then ''-'' @ nat_digits (nat (- i)) else nat_digits (nat i))"

text \<open>Exactly \<^term>\<open>w\<close> decimal digits of a number below \<^term>\<open>10 ^ w\<close>.\<close>

fun padded_digits :: "nat \<Rightarrow> nat \<Rightarrow> string" where
  "padded_digits 0 n = []"
| "padded_digits (Suc w) n = padded_digits w (n div 10) @ [digit_char (n mod 10)]"

text \<open>\<^verbatim>\<open>%.2f\<close> of a non-negative number: nearest, ties to even.\<close>

definition round_half_even :: "rat \<Rightarrow> int" where
  "round_half_even q =
     (let f = \<lfloor>q\<rfloor>; r = q - of_int f in
      if r < 1 / 2 \<or> (r = 1 / 2 \<and> even f) then f else f + 1)"

definition fmt_2f :: "rat \<Rightarrow> string" where
  "fmt_2f q =
     (let c = nat (round_half_even (q * 100))
      in nat_digits (c div 100) @ ''.'' @ padded_digits 2 (c mod 100))"

section \<open>Durations\<close>

text \<open>\<^verbatim>\<open>fmtFrac\<close>: the digits of a fraction without trailing zeros, and no point when there are none.\<close>

definition fmt_frac :: "nat \<Rightarrow> nat \<Rightarrow> string" where
  "fmt_frac prec v =
     (let ds = rev (dropWhile (\<lambda>c. c = digit_char 0) (rev (padded_digits prec (v mod 10 ^ prec))))
      in if ds = [] then [] else ''.'' @ ds)"

definition Duration_String :: "duration \<Rightarrow> string" where
  "Duration_String d =
     (let u = nat \<bar>d\<bar>; sgn = if d < 0 then ''-'' else [] in
      if u = 0 then ''0s''
      else if u < 1000 then sgn @ nat_digits u @ ''ns''
      else if u < 1000000 then sgn @ nat_digits (u div 1000) @ fmt_frac 3 u @ encode [181] @ ''s''
      else if u < 1000000000 then sgn @ nat_digits (u div 1000000) @ fmt_frac 6 u @ ''ms''
      else
        let s = u div 1000000000; m = s div 60; h = m div 60
        in sgn @ (if h > 0 then nat_digits h @ ''h'' else [])
             @ (if m > 0 then nat_digits (m mod 60) @ ''m'' else [])
             @ nat_digits (s mod 60) @ fmt_frac 9 u @ ''s'')"

text \<open>\<^verbatim>\<open>Duration.Round\<close> for a positive unit, saturating at the ends of the range.\<close>

definition Duration_Round :: "duration \<Rightarrow> duration \<Rightarrow> duration" where
  "Duration_Round d m =
     (if d < 0 then
        let r = (- d) mod m in
        if 2 * r < m then d + r else if d - m + r \<ge> - (2 ^ 63) then d - m + r else - (2 ^ 63)
      else
        let r = d mod m in
        if 2 * r < m then d - r else if d + m - r < 2 ^ 63 then d + m - r else 2 ^ 63 - 1)"

section \<open>Encodings\<close>

definition hex_digit :: "nat \<Rightarrow> char" where
  "hex_digit d = (if d < 10 then char_of (48 + d) else char_of (87 + d))"

definition hex_encode :: "string \<Rightarrow> string" where
  "hex_encode s = concat (map (\<lambda>c. [hex_digit (byte c div 16), hex_digit (byte c mod 16)]) s)"

definition b32_char :: "nat \<Rightarrow> char" where
  "b32_char d = (if d < 26 then char_of (65 + d) else char_of (24 + d))"

text \<open>The bits of a byte string, most significant first, and five of them per base32 character.\<close>

definition byte_bits :: "char \<Rightarrow> bool list" where
  "byte_bits c = map (\<lambda>i. odd (byte c div 2 ^ i)) [7, 6, 5, 4, 3, 2, 1, 0]"

definition bits_value :: "bool list \<Rightarrow> nat" where
  "bits_value bs = foldl (\<lambda>n b. 2 * n + (if b then 1 else 0)) 0 bs"

function base32_bits :: "bool list \<Rightarrow> string" where
  "base32_bits bs =
     (if bs = [] then []
      else b32_char (bits_value (take 5 (bs @ [False, False, False, False]))) # base32_bits (drop 5 bs))"
  by pat_completeness auto
termination
  by (relation "measure length") simp_all

declare base32_bits.simps [simp del]

text \<open>\<^verbatim>\<open>base32.StdEncoding.WithPadding(NoPadding)\<close>\<close>

definition base32_encode :: "string \<Rightarrow> string" where
  "base32_encode s = base32_bits (concat (map byte_bits s))"

definition b64_char :: "nat \<Rightarrow> char" where
  "b64_char d =
     (if d < 26 then char_of (65 + d) else if d < 52 then char_of (71 + d)
      else if d < 62 then char_of (d - 4) else if d = 62 then CHR ''+'' else CHR ''/'')"

definition b64_value :: "char \<Rightarrow> nat option" where
  "b64_value c =
     (let b = byte c in
      if 65 \<le> b \<and> b \<le> 90 then Some (b - 65)
      else if 97 \<le> b \<and> b \<le> 122 then Some (b - 71)
      else if 48 \<le> b \<and> b \<le> 57 then Some (b + 4)
      else if b = 43 then Some 62 else if b = 47 then Some 63 else None)"

fun base64_encode :: "string \<Rightarrow> string" where
  "base64_encode [] = []"
| "base64_encode [a] =
     (let n = byte a * 16 in [b64_char (n div 64), b64_char (n mod 64), CHR ''='', CHR ''=''])"
| "base64_encode [a, b] =
     (let n = (byte a * 256 + byte b) * 4
      in [b64_char (n div 4096), b64_char (n div 64 mod 64), b64_char (n mod 64), CHR ''=''])"
| "base64_encode (a # b # c # s) =
     (let n = byte a * 65536 + byte b * 256 + byte c
      in b64_char (n div 262144) # b64_char (n div 4096 mod 64) # b64_char (n div 64 mod 64)
           # b64_char (n mod 64) # base64_encode s)"

text \<open>
  \<^verbatim>\<open>base64.StdEncoding.DecodeString\<close>: line breaks are skipped, padding only at the end, unused
  trailing bits ignored.
\<close>

fun base64_quads :: "string \<Rightarrow> string option" where
  "base64_quads [] = Some []"
| "base64_quads (w # x # y # z # s) =
     (case (b64_value w, b64_value x) of
        (Some d0, Some d1) \<Rightarrow>
          if y = CHR ''='' then
            (if z = CHR ''='' \<and> s = [] then Some [char_of ((d0 * 64 + d1) div 16)] else None)
          else case b64_value y of
              None \<Rightarrow> None
            | Some d2 \<Rightarrow>
                if z = CHR ''='' then
                  (if s = [] then
                     let n = (d0 * 4096 + d1 * 64 + d2) div 4
                     in Some [char_of (n div 256), char_of (n mod 256)]
                   else None)
                else case b64_value z of
                    None \<Rightarrow> None
                  | Some d3 \<Rightarrow>
                      let n = d0 * 262144 + d1 * 4096 + d2 * 64 + d3
                      in map_option (\<lambda>t. char_of (n div 65536) # char_of (n div 256 mod 256)
                                           # char_of (n mod 256) # t) (base64_quads s)
      | _ \<Rightarrow> None)"
| "base64_quads _ = None"

definition base64_decode :: "string \<Rightarrow> string option" where
  "base64_decode s = base64_quads (filter (\<lambda>c. byte c \<noteq> 10 \<and> byte c \<noteq> 13) s)"

section \<open>Splitting and upper case\<close>

text \<open>\<^verbatim>\<open>strings.Split\<close> at a one-byte separator.\<close>

fun split_at :: "char \<Rightarrow> string \<Rightarrow> string list" where
  "split_at sep [] = [[]]"
| "split_at sep (c # cs) =
     (if c = sep then [] # split_at sep cs
      else case split_at sep cs of [] \<Rightarrow> [[c]] | s # ss \<Rightarrow> (c # s) # ss)"

definition upper_rune :: "(rune \<Rightarrow> rune) \<Rightarrow> rune \<Rightarrow> rune" where
  "upper_rune uni r =
     (if r < 128 then (if 97 \<le> r \<and> r \<le> 122 then r - 32 else r) else uni r)"

definition ToUpper :: "(rune \<Rightarrow> rune) \<Rightarrow> string \<Rightarrow> string" where
  "ToUpper uni s = encode (map (upper_rune uni) (runes s))"

section \<open>Lemmas\<close>

lemma wrap64_id: "- (2 ^ 63) \<le> x \<Longrightarrow> x < 2 ^ 63 \<Longrightarrow> wrap64 x = x"
  by (simp add: wrap64_def)

lemma split_at_nonempty: "split_at c xs \<noteq> []"
  by (induction c xs rule: split_at.induct) (auto split: list.splits)

lemma split_at_append: "split_at c (xs @ c # ys) = split_at c xs @ split_at c ys"
proof (induction xs)
  case (Cons x xs)
  then show ?case using split_at_nonempty [of c xs] by (auto split: list.splits)
qed simp

lemma split_at_plain: "c \<notin> set xs \<Longrightarrow> split_at c xs = [xs]"
  by (induction xs) auto

lemma b64_char_byte:
  assumes "d < 64"
  shows "byte (b64_char d) =
     (if d < 26 then 65 + d else if d < 52 then 71 + d else if d < 62 then d - 4
      else if d = 62 then 43 else 47)"
  using assms by (simp add: b64_char_def) (simp add: byte_def)

lemma b64_value_char [simp]: "d < 64 \<Longrightarrow> b64_value (b64_char d) = Some d"
  by (auto simp: b64_value_def b64_char_byte Let_def)

lemma b64_char_plain [simp]:
  assumes "d < 64"
  shows "b64_char d \<noteq> CHR ''=''" "byte (b64_char d) \<noteq> 10" "byte (b64_char d) \<noteq> 13"
proof -
  have "byte (b64_char d) \<noteq> 61" using assms by (auto simp: b64_char_byte)
  then show "b64_char d \<noteq> CHR ''=''" by (auto simp: byte_def)
  show "byte (b64_char d) \<noteq> 10" "byte (b64_char d) \<noteq> 13" using assms by (auto simp: b64_char_byte)
qed

lemma char_of_byte [simp]: "char_of (byte c) = c"
  by (simp add: byte_def)

lemma char_of_rest: "n mod 256 = byte b \<Longrightarrow> char_of n = b"
  by (metis char_of_byte char_of_mod_256)

lemma byte_pad [simp]: "byte (CHR ''='') = 61"
  by (simp add: byte_def)

text \<open>The three bytes of a group, read back from their number.\<close>

lemma group_bytes:
  assumes "a < 256" "b < 256" "c < (256::nat)" "n = a * 65536 + b * 256 + c"
  shows "n div 65536 = a" "n div 256 mod 256 = b" "n mod 256 = c" "n div 262144 < 64"
proof -
  have "n = a * 65536 + (b * 256 + c)" "n = (a * 256 + b) * 256 + c" using assms(4) by simp_all
  moreover have "b * 256 + c < 65536" using assms(2,3) by linarith
  ultimately show "n div 65536 = a" by simp
  show "n mod 256 = c" using assms(3) \<open>n = (a * 256 + b) * 256 + c\<close> mod_offset by blast
  have "n div 256 = a * 256 + b" using assms(3,4) by simp
  then show "n div 256 mod 256 = b" using assms(2) by simp
  have "n < 262144 * 64" using assms by linarith
  then show "n div 262144 < 64" by (simp add: less_mult_imp_div_less)
qed

lemma base64_group:
  "(n::nat) div 262144 * 262144 + n div 4096 mod 64 * 4096 + n div 64 mod 64 * 64 + n mod 64 = n"
  by (rule base64_digits_4)

lemma base64_quads_encode: "base64_quads (base64_encode s) = Some s"
proof (induction s rule: base64_encode.induct)
  case (2 a)
  have "byte a * 16 div 64 < 64" using byte_less [of a] by (simp add: less_mult_imp_div_less)
  moreover have "byte a * 16 div 64 * 64 + byte a * 16 mod 64 = byte a * 16"
    by (rule div_mult_mod_eq)
  ultimately show ?case by (simp add: Let_def)
next
  case (3 a b)
  define n where "n = (byte a * 256 + byte b) * 4"
  have enc: "base64_encode [a, b] =
      [b64_char (n div 4096), b64_char (n div 64 mod 64), b64_char (n mod 64), CHR ''='']"
    by (simp only: base64_encode.simps Let_def n_def)
  have n: "n div 4096 * 4096 + n div 64 mod 64 * 64 + n mod 64 = n" by (rule base64_digits_3)
  have "n < 4096 * 64" using byte_less [of a] byte_less [of b] unfolding n_def by presburger
  then have "n div 4096 < 64" by (simp add: less_mult_imp_div_less)
  moreover have "n div 4 = byte a * 256 + byte b" by (simp add: n_def)
  moreover have "(byte a * 256 + byte b) div 256 = byte a" "(byte a * 256 + byte b) mod 256 = byte b"
    by simp_all
  ultimately show ?case using n unfolding enc by (simp add: Let_def char_of_rest)
next
  case (4 a b c s)
  define n where "n = byte a * 65536 + byte b * 256 + byte c"
  note g = group_bytes [OF byte_less byte_less byte_less n_def]
  show ?case using 4 [of n] g base64_group [of n] by (simp add: Let_def n_def [symmetric] char_of_rest)
qed simp

lemma base64_encode_no_breaks: "c \<in> set (base64_encode s) \<Longrightarrow> byte c \<noteq> 10 \<and> byte c \<noteq> 13"
proof (induction s rule: base64_encode.induct)
  case (2 a)
  have "byte a * 16 div 64 < 64" using byte_less [of a] by (simp add: less_mult_imp_div_less)
  with 2 show ?case by (auto simp: Let_def)
next
  case (3 a b)
  define n where "n = (byte a * 256 + byte b) * 4"
  have enc: "base64_encode [a, b] =
      [b64_char (n div 4096), b64_char (n div 64 mod 64), b64_char (n mod 64), CHR ''='']"
    by (simp only: base64_encode.simps Let_def n_def)
  have "n < 4096 * 64" using byte_less [of a] byte_less [of b] unfolding n_def by presburger
  then have "n div 4096 < 64" by (simp add: less_mult_imp_div_less)
  with 3 show ?case unfolding enc by auto
next
  case (4 a b d s)
  define n where "n = byte a * 65536 + byte b * 256 + byte d"
  note g = group_bytes [OF byte_less byte_less byte_less n_def]
  show ?case using 4 g by (auto simp: Let_def n_def [symmetric])
qed simp

lemma base64_roundtrip: "base64_decode (base64_encode s) = Some s"
proof -
  have "filter (\<lambda>c. byte c \<noteq> 10 \<and> byte c \<noteq> 13) (base64_encode s) = base64_encode s"
    by (simp add: filter_id_conv base64_encode_no_breaks)
  then show ?thesis by (simp add: base64_decode_def base64_quads_encode)
qed

lemma hex_encode_length [simp]: "length (hex_encode s) = 2 * length s"
  by (induction s) (simp_all add: hex_encode_def)

lemma hex_digit_byte: "d < 16 \<Longrightarrow> byte (hex_digit d) = (if d < 10 then 48 + d else 87 + d)"
  by (simp add: hex_digit_def)

lemma hex_encode_chars:
  assumes "x \<in> set (hex_encode s)"
  shows "48 \<le> byte x" "byte x \<le> 102"
proof -
  obtain c where c: "x = hex_digit (byte c div 16) \<or> x = hex_digit (byte c mod 16)"
    using assms by (auto simp: hex_encode_def)
  have "byte c div 16 < 16" "byte c mod 16 < 16"
    using byte_less [of c] by (simp_all add: less_mult_imp_div_less)
  then show "48 \<le> byte x" "byte x \<le> 102" using c by (auto simp: hex_digit_byte)
qed

end
