(* ===== verification/Core_Text.thy ===== *)
theory Core_Text
  imports Protocol Go_Fmt
begin

text \<open>
  The text helpers of \<^verbatim>\<open>internal/broker/core/core.go\<close>: which bots a message addresses, the
  workspace and agent tokens of a prompt, the texts of status posts with their budgets in runes,
  the string a button signature covers, and codes and tokens. The post size limit comes from the
  Mattermost package and is the argument \<open>maxLen\<close>; SHA-256 and HMAC are the arguments \<open>sha\<close> and
  \<open>mac\<close>, random bytes are arguments.
\<close>

section \<open>Pieces of messages\<close>

definition nl :: string where "nl = [CHR 0x0A]"
definition tick :: string where "tick = [CHR 0x60]"
definition ellipsis :: string where "ellipsis = encode [8230]"
definition hourglass :: string where "hourglass = encode [9203]"
definition pause_sign :: string where "pause_sign = encode [9208]"
definition play_sign :: string where "play_sign = encode [9654, 65039]"
definition no_entry :: string where "no_entry = encode [9940]"
definition check_mark :: string where "check_mark = encode [9989]"
definition cross_mark :: string where "cross_mark = encode [10060]"
definition sleep_sign :: string where "sleep_sign = encode [128164]"
definition clip_sign :: string where "clip_sign = encode [128206]"
definition antenna :: string where "antenna = encode [128225]"
definition prohibited :: string where "prohibited = encode [128683]"
definition dot_sep :: string where "dot_sep = '' '' @ encode [183] @ '' ''"

definition quoted :: "string \<Rightarrow> string" where
  "quoted s = tick @ s @ tick"

section \<open>Mentions\<close>

definition word_byte :: "char \<Rightarrow> bool" where
  "word_byte c \<longleftrightarrow>
     (let b = byte c in (48 \<le> b \<and> b \<le> 57) \<or> (65 \<le> b \<and> b \<le> 90) \<or> (97 \<le> b \<and> b \<le> 122) \<or> b = 95)"

definition alnum_byte :: "char \<Rightarrow> bool" where
  "alnum_byte c \<longleftrightarrow> word_byte c \<and> byte c \<noteq> 95"

definition name_byte :: "char \<Rightarrow> bool" where
  "name_byte c \<longleftrightarrow> word_byte c \<or> c = CHR ''.'' \<or> c = CHR ''-''"

text \<open>
  The non-overlapping matches of \<^verbatim>\<open>mentionRegex\<close>, left to right. \<open>free\<close> says whether the pattern
  may start at this byte: at the start of the text, or after a rune outside \<^verbatim>\<open>[A-Za-z0-9_]\<close> that
  no earlier match has consumed. Bytes of multi-byte runes are outside that class.
\<close>

function mention_matches :: "bool \<Rightarrow> string \<Rightarrow> string list" where
  "mention_matches free [] = []"
| "mention_matches free (c # cs) =
     (if free \<and> c = CHR ''@'' \<and> cs \<noteq> [] \<and> alnum_byte (hd cs)
      then takeWhile name_byte cs # mention_matches False (dropWhile name_byte cs)
      else mention_matches (\<not> word_byte c) cs)"
  by pat_completeness auto
termination
  by (relation "measure (\<lambda>(free, s). length s)")
    (auto simp: less_Suc_eq_le length_dropWhile_le)

declare mention_matches.simps(2) [simp del]

definition mentionedNames :: "(rune \<Rightarrow> rune) \<Rightarrow> string \<Rightarrow> string list" where
  "mentionedNames uni text =
     filter (\<lambda>n. n \<noteq> [])
       (map (\<lambda>m. ToLower uni (TrimRight m ''.,;:!?-_'')) (mention_matches True text))"

definition stripMention :: "string \<Rightarrow> string \<Rightarrow> string" where
  "stripMention msg botName = TrimSpace (remove_all (''@'' @ botName) msg)"

section \<open>Workspace and agent tokens\<close>

text \<open>The characters \<^verbatim>\<open>`\"'.,;:\<close> trimmed around a token.\<close>

definition token_cutset :: string where
  "token_cutset = [CHR 0x60, CHR 0x22, CHR 0x27] @ ''.,;:''"

fun find_token :: "string \<Rightarrow> string list \<Rightarrow> string list \<Rightarrow> (string \<times> string list) option" where
  "find_token p seen [] = None"
| "find_token p seen (f # fs) =
     (let t = Trim f token_cutset in
      if \<not> HasPrefix t p \<or> length t = length p then find_token p (seen @ [f]) fs
      else Some (drop (length p) t, seen @ fs))"

definition splitWorkspace :: "string \<Rightarrow> string \<times> string" where
  "splitWorkspace text =
     (case find_token ''ws:'' [] (Fields text) of
        Some (name, rest) \<Rightarrow> (name, Join rest '' '')
      | None \<Rightarrow> ([], TrimSpace text))"

definition splitAgent :: "(rune \<Rightarrow> rune) \<Rightarrow> string \<Rightarrow> string \<times> string" where
  "splitAgent uni text =
     (case find_token ''agent:'' [] (Fields text) of
        Some (name, rest) \<Rightarrow> (ToLower uni name, Join rest '' '')
      | None \<Rightarrow> ([], TrimSpace text))"

section \<open>Budgets in runes\<close>

definition runeLen :: "string \<Rightarrow> int" where
  "runeLen s = int (rune_count s)"

definition truncate_text :: "string \<Rightarrow> int \<Rightarrow> string" where
  "truncate_text s n0 =
     (let n = if n0 < 0 then 0 else n0 in
      if runeLen s \<le> n then s else encode (take (nat n) (runes s)) @ ellipsis)"

definition progress_head :: "string \<Rightarrow> JobProgress \<Rightarrow> string" where
  "progress_head harnessName p =
     (if jp_Phase p = PhaseAwaitingApproval
      then pause_sign @ '' Waiting for approval on '' @ quoted harnessName @ dot_sep @ itoa (jp_Turns p) @ '' turns''
      else play_sign @ '' Running on '' @ quoted harnessName @ dot_sep @ itoa (jp_Turns p) @ '' turns'')
     @ (if jp_CurrentTool p \<noteq> [] then dot_sep @ jp_CurrentTool p else [])"

definition renderProgress :: "int \<Rightarrow> string \<Rightarrow> JobProgress \<Rightarrow> string" where
  "renderProgress maxLen harnessName p =
     (let head = progress_head harnessName p; text = TrimSpace (jp_Text p)
      in if text = [] then head
         else head @ nl @ nl @ truncate_text text (maxLen - runeLen head - 100))"

section \<open>Texts of results and rejections\<close>

definition result_head :: "JobResult \<Rightarrow> string" where
  "result_head r =
     (if jr_Status r = StatusSucceeded then check_mark @ '' Done''
      else if jr_Status r = StatusCancelled then prohibited @ '' Cancelled''
      else cross_mark @ '' Failed'' @
             (case jr_Error r of None \<Rightarrow> [] | Some e \<Rightarrow> '' ('' @ je_Code e @ '')''))"

definition result_meta :: "string \<Rightarrow> JobResult \<Rightarrow> string" where
  "result_meta harnessName r =
     result_head r @ '' on '' @ quoted harnessName @ dot_sep @ itoa (us_Turns (jr_Usage r)) @ '' turns''
       @ dot_sep @ Duration_String (Duration_Round (wrap64 (us_DurationMS (jr_Usage r) * millisecond)) second)
       @ (if us_CostUSD (jr_Usage r) > 0 then dot_sep @ ''$'' @ fmt_2f (us_CostUSD (jr_Usage r)) else [])"

definition result_body :: "JobResult \<Rightarrow> string" where
  "result_body r =
     (case jr_Error r of
        Some e \<Rightarrow> if TrimSpace (jr_Text r) = [] then je_Message e else jr_Text r
      | None \<Rightarrow> jr_Text r)"

definition result_full :: "string \<Rightarrow> JobResult \<Rightarrow> string" where
  "result_full harnessName r = result_meta harnessName r @ nl @ nl @ result_body r"

definition result_too_long :: "int \<Rightarrow> string \<Rightarrow> JobResult \<Rightarrow> bool" where
  "result_too_long maxLen harnessName r \<longleftrightarrow> runeLen (result_full harnessName r) > maxLen - 200"

definition result_message :: "int \<Rightarrow> string \<Rightarrow> JobResult \<Rightarrow> string" where
  "result_message maxLen harnessName r =
     (if result_too_long maxLen harnessName r
      then result_meta harnessName r @ nl @ nl
             @ truncate_text (result_body r) (maxLen - runeLen (result_meta harnessName r) - 300)
             @ nl @ nl @ ''_(full output attached)_''
      else result_full harnessName r)"

definition nackText :: "Ack \<Rightarrow> string" where
  "nackText a = (if ak_Message a \<noteq> [] then ak_Code a @ '': '' @ ak_Message a else ak_Code a)"

definition helpText :: "string \<Rightarrow> string" where
  "helpText botName =
     ''Mention me with a task in any channel or thread, e.g. ''
       @ quoted (''@'' @ botName @ '' ws:infra bump the mattermost provider'') @ ''.'' @ nl
     @ ''- '' @ quoted ''ws:<name>'' @ '' picks a workspace configured on your harness; without it the thread'' @ [CHR 0x27] @ ''s previous workspace or the harness'' @ [CHR 0x27] @ ''s default folder is used.'' @ nl
     @ ''- '' @ quoted ''agent:claude'' @ '' or '' @ quoted ''agent:codex'' @ '' picks the coding agent; without it the thread'' @ [CHR 0x27] @ ''s previous agent or the harness'' @ [CHR 0x27] @ ''s default is used.'' @ nl
     @ ''- Reply in the same thread to continue the conversation.'' @ nl
     @ ''- '' @ quoted (''@'' @ botName @ '' cancel'') @ '' stops the running job in a thread.'' @ nl
     @ ''- Onboarding: '' @ quoted ''mhb harness init'' @ '' on your machine, then '' @ quoted ''/harness init <code>'' @ '' here; '' @ quoted (''/harness join '' @ botName) @ '' brings this bot into a channel, '' @ quoted ''/harness status'' @ '' lists your bots and harnesses.''"

section \<open>Signatures, codes and tokens\<close>

definition sign_input :: "string \<Rightarrow> string \<Rightarrow> string \<Rightarrow> string" where
  "sign_input approvalID decision nonce = approvalID @ ''|'' @ decision @ ''|'' @ nonce"

definition sign :: "(string \<Rightarrow> string) \<Rightarrow> string \<Rightarrow> string \<Rightarrow> string \<Rightarrow> string" where
  "sign mac approvalID decision nonce = hex_encode (mac (sign_input approvalID decision nonce))"

definition hashCode :: "(string \<Rightarrow> string) \<Rightarrow> (rune \<Rightarrow> rune) \<Rightarrow> string \<Rightarrow> string" where
  "hashCode sha uni code = hex_encode (sha (ToUpper uni (TrimSpace code)))"

definition tokenHash :: "(string \<Rightarrow> string) \<Rightarrow> string \<Rightarrow> string" where
  "tokenHash sha token = hex_encode (sha token)"

definition randomToken :: "string \<Rightarrow> string" where
  "randomToken bytes = hex_encode bytes"

definition randomCode :: "string \<Rightarrow> string" where
  "randomCode bytes = take (length bytes) (base32_encode bytes)"

section \<open>Lemmas on truncation\<close>

lemma valid_ellipsis [simp]: "valid_rune 8230"
  by (simp add: valid_rune_def)

lemma truncate_runes:
  assumes "\<not> runeLen s \<le> n" "0 \<le> n"
  shows "truncate_text s n = encode (take (nat n) (runes s) @ [8230])"
  using assms by (simp add: truncate_text_def ellipsis_def encode_def)

lemma rune_count_truncate:
  "rune_count (truncate_text s n) \<le> (if runeLen s \<le> n then rune_count s else Suc (nat n))"
proof (cases "runeLen s \<le> (if n < 0 then 0 else n)")
  case True
  then show ?thesis by (auto simp: truncate_text_def runeLen_def split: if_splits)
next
  case False
  define m where "m = (if n < 0 then 0 else n)"
  have "truncate_text s n = truncate_text s m" by (simp add: truncate_text_def m_def)
  then have "truncate_text s n = encode (take (nat m) (runes s) @ [8230])"
    using False truncate_runes [of s m] by (simp add: m_def)
  moreover have "rune_count (encode (take (nat m) (runes s) @ [8230]))
      = length (take (nat m) (runes s) @ [8230])"
    by (rule rune_count_encode [where rest = "[]", simplified]) (auto dest: in_set_takeD runes_valid)
  ultimately have "rune_count (truncate_text s n) \<le> Suc (nat n)" by (simp add: m_def)
  moreover have "\<not> runeLen s \<le> n" using False by (simp split: if_splits)
  ultimately show ?thesis by simp
qed

lemma runeLen_truncate: "0 \<le> n \<Longrightarrow> runeLen (truncate_text s n) \<le> n + 1"
  using rune_count_truncate [of s n] by (auto simp: runeLen_def split: if_splits)

lemma rune_count_nl [simp]: "rune_count (nl @ s) = Suc (rune_count s)"
  by (simp add: nl_def rune_count_ascii_Cons byte_def)

lemma starts_rune_nl [simp]: "starts_rune (nl @ s)"
  by (simp add: nl_def byte_def)

lemma runeLen_after_head: "runeLen (a @ nl @ nl @ b) = runeLen a + 2 + runeLen b"
  by (simp add: runeLen_def rune_count_append)

section \<open>Properties\<close>

text \<open>
  \<^verbatim>\<open>truncate\<close> cuts in runes: a text within the budget is unchanged, a longer one keeps exactly
  its first \<^term>\<open>n\<close> runes followed by an ellipsis, so no rune is ever split.
\<close>

theorem truncate_exact:
  assumes "0 \<le> n"
  shows "(runeLen s \<le> n \<longrightarrow> truncate_text s n = s) \<and>
         (n < runeLen s \<longrightarrow> runes (truncate_text s n) = take (nat n) (runes s) @ [8230])"
proof -
  have "runes (encode (take (nat n) (runes s) @ [8230])) = take (nat n) (runes s) @ [8230]"
    by (rule runes_encode) (auto dest: in_set_takeD runes_valid)
  then show ?thesis using assms truncate_runes [of s n] by (auto simp: truncate_text_def)
qed

text \<open>
  A status text never exceeds the post size limit: whatever the harness reports, a progress
  text stays within the limit as long as its head line leaves the 100 runes of slack the code
  reserves.
\<close>

theorem progress_fits:
  assumes "runeLen (progress_head name p) \<le> maxLen - 100"
  shows "runeLen (renderProgress maxLen name p) \<le> maxLen"
  using assms runeLen_truncate [of "maxLen - runeLen (progress_head name p) - 100" "TrimSpace (jp_Text p)"]
  by (simp add: renderProgress_def Let_def runeLen_after_head)

lemma runeLen_attached: "runeLen (nl @ nl @ ''_(full output attached)_'') = 26"
proof -
  have "rune_count ''_(full output attached)_'' = 24"
    using rune_count_ascii [of "''_(full output attached)_''"] by (simp add: byte_def)
  then show ?thesis by (simp add: runeLen_def)
qed

text \<open>
  The same for results: the message that replaces the status post is within the limit, cut
  or not, as long as the head line with harness name, turns, duration and cost leaves 300 runes.
\<close>

theorem result_fits:
  assumes "runeLen (result_meta name r) \<le> maxLen - 300"
  shows "runeLen (result_message maxLen name r) \<le> maxLen"
proof (cases "result_too_long maxLen name r")
  case True
  let ?t = "truncate_text (result_body r) (maxLen - runeLen (result_meta name r) - 300)"
  let ?tail = "nl @ nl @ ''_(full output attached)_''"
  have "runeLen (?t @ ?tail) = runeLen ?t + 26"
    using runeLen_attached by (simp only: runeLen_def rune_count_append starts_rune_nl)
  then show ?thesis
    using True assms runeLen_truncate [of "maxLen - runeLen (result_meta name r) - 300" "result_body r"]
    by (simp add: result_message_def runeLen_after_head)
next
  case False
  then show ?thesis by (simp add: result_message_def result_too_long_def)
qed

lemma append_sep_inject:
  assumes "u @ c # v = u' @ c # v'" "c \<notin> set v" "c \<notin> set v'"
  shows "u = u' \<and> v = v'"
  using assms
  by (auto simp: append_eq_append_conv2 append_eq_Cons_conv Cons_eq_append_conv)

lemma no_bar_hex: "CHR ''|'' \<notin> set (hex_encode s)"
  using hex_encode_chars [of "CHR ''|''" s] by (auto simp: byte_def)

text \<open>
  A button signature covers exactly one click: the signed string determines the approval, the
  decision and the nonce, even though they are only joined by bars and the approval id is chosen
  by the harness.
\<close>

theorem sign_input_unambiguous:
  assumes "d \<in> {DecisionAllow, DecisionDeny}" "d' \<in> {DecisionAllow, DecisionDeny}"
    and "sign_input a d (randomToken b) = sign_input a' d' (randomToken b')"
  shows "a = a' \<and> d = d' \<and> randomToken b = randomToken b'"
proof -
  have "(a @ ''|'' @ d) @ CHR ''|'' # randomToken b = (a' @ ''|'' @ d') @ CHR ''|'' # randomToken b'"
    using assms(3) by (simp add: sign_input_def)
  then have *: "a @ ''|'' @ d = a' @ ''|'' @ d' \<and> randomToken b = randomToken b'"
    by (rule append_sep_inject) (simp_all add: randomToken_def no_bar_hex)
  then have "a @ CHR ''|'' # d = a' @ CHR ''|'' # d'" by simp
  then have "a = a' \<and> d = d'" by (rule append_sep_inject) (use assms(1,2) in auto)
  with * show ?thesis by simp
qed

end
