(* ===== verification/Broker_State.thy ===== *)
theory Broker_State
  imports Sqlite_Props Effects Core_Text
begin

text \<open>
  The state the broker's handlers share and the environment they run in. The state holds the
  database, the live connections of the hub with the frames written to them, the debouncers of
  the status posts and the requests sent to Mattermost so far. The environment is what the
  program does not decide: its configuration, the clock, random bytes, ULIDs, cryptographic
  functions, and the answers of the Mattermost server, which may depend on every request sent
  before. A handler sees one reading of the clock.
\<close>

section \<open>Mattermost\<close>

record Post =
  po_Id :: string
  po_UserId :: string
  po_ChannelId :: string
  po_RootId :: string
  po_Message :: string
  po_Type :: string
  po_FromBot :: bool
  po_DeleteAt :: int
  po_CreateAt :: int
  po_FileIds :: "string list"

record PostedEvent =
  ev_Post :: "Post option"
  ev_ChannelType :: string
  ev_Mentions :: "string list"

record User =
  ur_Id :: string
  ur_Username :: string

record FileInfo =
  fi_Name :: string
  fi_MimeType :: string
  fi_Size :: int

record Button =
  bn_URL :: string
  bn_ApprovalID :: string
  bn_Decision :: string
  bn_Sig :: string

record Attachment =
  at_Title :: string
  at_Text :: string
  at_Fallback :: string
  at_Actions :: "Button list"

text \<open>Whose credentials a request carries.\<close>

datatype api = SharedAPI | BotAPI string | UnavailableAPI

text \<open>
  The requests that change something on the server: posts and files, and the management of bots,
  memberships and webhooks by the installation of a team.
\<close>

datatype prov_op =
    CreateBotAccount string string string
  | CreateBotToken string
  | AddTeamMember string
  | AddChannelMember string string
  | CreateIncomingWebhook string string
  | CreateOutgoingWebhook string string
  | DeleteIncomingWebhook string
  | DeleteOutgoingWebhook string
  | DisableBot string

datatype mm_call =
    MMCreatePost api string string string "string list" "Attachment list"
  | MMUpdatePost api string string
  | MMUploadFile api string string string
  | MMProvision string prov_op

section \<open>Environment\<close>

record Config =
  cf_BotUserID :: string
  cf_BotUsername :: string
  cf_PublicURL :: string
  cf_CallbackSecret :: string
  cf_CommandToken :: string
  cf_QueueTTL :: duration
  cf_GracePeriod :: duration
  cf_ApprovalTTL :: duration
  cf_JobTimeout :: duration
  cf_DefaultMaxTurns :: int
  cf_EditInterval :: duration
  cf_OutboxRetention :: duration

definition defaults :: "Config \<Rightarrow> Config" where
  "defaults c =
     c\<lparr>cf_QueueTTL := (if cf_QueueTTL c = 0 then 5 * minute else cf_QueueTTL c),
       cf_GracePeriod := (if cf_GracePeriod c = 0 then 10 * minute else cf_GracePeriod c),
       cf_ApprovalTTL := (if cf_ApprovalTTL c = 0 then 30 * minute else cf_ApprovalTTL c),
       cf_JobTimeout := (if cf_JobTimeout c = 0 then 30 * minute else cf_JobTimeout c),
       cf_DefaultMaxTurns := (if cf_DefaultMaxTurns c = 0 then 40 else cf_DefaultMaxTurns c),
       cf_EditInterval := (if cf_EditInterval c = 0 then 1200 * millisecond else cf_EditInterval c),
       cf_OutboxRetention := (if cf_OutboxRetention c = 0 then 24 * 60 * minute else cf_OutboxRetention c)\<rparr>"

record env =
  e_cfg :: Config
  e_mm :: api
  e_newPoster :: "(string \<Rightarrow> api option) option"
  e_admin :: bool
  e_now :: time
  e_minVersion :: string
  e_heartbeat :: duration
  e_lower :: "rune \<Rightarrow> rune"
  e_upper :: "rune \<Rightarrow> rune"
  e_sha :: "string \<Rightarrow> string"
  e_mac :: "string \<Rightarrow> string \<Rightarrow> string"
  e_maxLen :: int
  e_ulid :: "nat \<Rightarrow> string"
  e_random :: "nat \<Rightarrow> nat \<Rightarrow> string"
  e_localtime :: "string \<Rightarrow> time \<Rightarrow> string"
  e_errText :: "store_err \<Rightarrow> string"
  e_wireText :: string
  e_decodeText :: string
  e_GetUser :: "mm_call list \<Rightarrow> api \<Rightarrow> string \<Rightarrow> User option"
  e_GetThread :: "mm_call list \<Rightarrow> api \<Rightarrow> string \<Rightarrow> Post list option"
  e_GetFileInfo :: "mm_call list \<Rightarrow> api \<Rightarrow> string \<Rightarrow> FileInfo option"
  e_DownloadFile :: "mm_call list \<Rightarrow> api \<Rightarrow> string \<Rightarrow> string option"
  e_DirectChannel :: "mm_call list \<Rightarrow> api \<Rightarrow> string \<Rightarrow> string \<Rightarrow> string option"
  e_answer :: "mm_call list \<Rightarrow> string option"

section \<open>State\<close>

text \<open>\<open>ed_timer\<close>: when the timer fires, and the bot and the post its closure has captured.\<close>

record editor =
  ed_pending :: string
  ed_timer :: "(time \<times> string \<times> string) option"
  ed_last :: time

record broker =
  bk_db :: db
  bk_conns :: "string \<Rightarrow> nat option"
  bk_frames :: "(nat \<times> Envelope) list"
  bk_closed :: "(nat \<times> int) list"
  bk_broken :: "nat \<Rightarrow> bool"
  bk_edits :: "string \<Rightarrow> editor option"
  bk_posts :: "mm_call list"
  bk_drawn :: nat

definition empty_broker :: broker where
  "empty_broker = \<lparr>bk_db = empty_db, bk_conns = (\<lambda>_. None), bk_frames = [], bk_closed = [],
     bk_broken = (\<lambda>_. False), bk_edits = (\<lambda>_. None), bk_posts = [], bk_drawn = 0\<rparr>"

type_synonym 'a io = "(broker, 'a) state"

section \<open>Calls\<close>

text \<open>A call of the store that may change it, and one that only reads.\<close>

definition store_call :: "(db \<Rightarrow> 'a \<times> db) \<Rightarrow> 'a io" where
  "store_call f = State (\<lambda>s. let (r, d) = f (bk_db s) in (r, s\<lparr>bk_db := d\<rparr>))"

definition store_read :: "(db \<Rightarrow> 'a) \<Rightarrow> 'a io" where
  "store_read f = reads (\<lambda>s. f (bk_db s))"

text \<open>The next ULID or random token: every draw gets its own number.\<close>

definition draw :: "(nat \<Rightarrow> 'a) \<Rightarrow> 'a io" where
  "draw f = State (\<lambda>s. (f (bk_drawn s), s\<lparr>bk_drawn := Suc (bk_drawn s)\<rparr>))"

text \<open>
  Requests to Mattermost: \<^verbatim>\<open>UnavailableAPI\<close> answers every one with an error and sends nothing, the
  other clients send it and get the server's answer.
\<close>

definition mm_send :: "env \<Rightarrow> api \<Rightarrow> mm_call \<Rightarrow> string option io" where
  "mm_send E a call =
     (if a = UnavailableAPI then State_Monad.return None
      else State (\<lambda>s. let log = bk_posts s @ [call] in (e_answer E log, s\<lparr>bk_posts := log\<rparr>)))"

definition CreatePost :: "env \<Rightarrow> api \<Rightarrow> string \<Rightarrow> string \<Rightarrow> string \<Rightarrow> string list \<Rightarrow> Attachment list
    \<Rightarrow> string option io" where
  "CreatePost E a channel rootID msg files atts = mm_send E a (MMCreatePost a channel rootID msg files atts)"

definition UpdatePost :: "env \<Rightarrow> api \<Rightarrow> string \<Rightarrow> string \<Rightarrow> string option io" where
  "UpdatePost E a post msg = mm_send E a (MMUpdatePost a post msg)"

definition UploadFile :: "env \<Rightarrow> api \<Rightarrow> string \<Rightarrow> string \<Rightarrow> string \<Rightarrow> string option io" where
  "UploadFile E a channel name data = mm_send E a (MMUploadFile a channel name data)"

definition mm_read :: "api \<Rightarrow> (mm_call list \<Rightarrow> 'a option) \<Rightarrow> 'a option io" where
  "mm_read a f = reads (\<lambda>s. if a = UnavailableAPI then None else f (bk_posts s))"

definition GetUser :: "env \<Rightarrow> api \<Rightarrow> string \<Rightarrow> User option io" where
  "GetUser E a i = mm_read a (\<lambda>log. e_GetUser E log a i)"

definition GetThread :: "env \<Rightarrow> api \<Rightarrow> string \<Rightarrow> Post list option io" where
  "GetThread E a rootID = mm_read a (\<lambda>log. e_GetThread E log a rootID)"

definition GetFileInfo :: "env \<Rightarrow> api \<Rightarrow> string \<Rightarrow> FileInfo option io" where
  "GetFileInfo E a i = mm_read a (\<lambda>log. e_GetFileInfo E log a i)"

definition DownloadFile :: "env \<Rightarrow> api \<Rightarrow> string \<Rightarrow> string option io" where
  "DownloadFile E a i = mm_read a (\<lambda>log. e_DownloadFile E log a i)"

definition DirectChannel :: "env \<Rightarrow> api \<Rightarrow> string \<Rightarrow> string \<Rightarrow> string option io" where
  "DirectChannel E a b u = mm_read a (\<lambda>log. e_DirectChannel E log a b u)"

section \<open>Lemmas\<close>

lemma run_store_call [simp]:
  "run_state (store_call f) s = (fst (f (bk_db s)), s\<lparr>bk_db := snd (f (bk_db s))\<rparr>)"
  by (simp add: store_call_def split: prod.split)

lemma run_store_read [simp]: "run_state (store_read f) s = (f (bk_db s), s)"
  by (simp add: store_read_def)

lemma run_draw [simp]: "run_state (draw f) s = (f (bk_drawn s), s\<lparr>bk_drawn := Suc (bk_drawn s)\<rparr>)"
  by (simp add: draw_def)

lemma run_mm_read [simp]:
  "run_state (mm_read a f) s = ((if a = UnavailableAPI then None else f (bk_posts s)), s)"
  by (simp add: mm_read_def)

lemma run_mm_send [simp]:
  "run_state (mm_send E a call) s =
     (if a = UnavailableAPI then (None, s)
      else (e_answer E (bk_posts s @ [call]), s\<lparr>bk_posts := bk_posts s @ [call]\<rparr>))"
  by (simp add: mm_send_def Let_def)

lemmas mm_defs = CreatePost_def UpdatePost_def UploadFile_def
lemmas mm_read_defs = GetUser_def GetThread_def GetFileInfo_def DownloadFile_def DirectChannel_def

end
