(* ===== verification/Hub.thy ===== *)
theory Hub
  imports Broker_State
begin

text \<open>
  The hub of \<^verbatim>\<open>internal/broker/hub/hub.go\<close>: authentication, the handshake, outbox delivery and
  the dispatch of incoming messages to a handler. A connection is a number; writing to one that
  is closed or broken fails. The goroutine that serves a connection is cut into the steps other
  goroutines can observe between: the handshake, one message, and the deferred clean-up.
\<close>

section \<open>Versions\<close>

fun atoi_runes :: "int \<Rightarrow> rune list \<Rightarrow> int" where
  "atoi_runes n [] = n"
| "atoi_runes n (r # rs) =
     (if r < 48 \<or> 57 < r then n else atoi_runes (wrap64 (n * 10 + (int r - 48))) rs)"

definition atoi :: "string \<Rightarrow> int" where
  "atoi s = atoi_runes 0 (runes s)"

definition version_part :: "string \<Rightarrow> nat \<Rightarrow> int" where
  "version_part v i = (let ps = split_at (CHR ''.'') v in if i < length ps then atoi (ps ! i) else 0)"

fun version_less_from :: "string \<Rightarrow> string \<Rightarrow> nat list \<Rightarrow> bool" where
  "version_less_from a b [] = False"
| "version_less_from a b (i # is) =
     (if version_part a i \<noteq> version_part b i then version_part a i < version_part b i
      else version_less_from a b is)"

definition versionLess :: "string \<Rightarrow> string \<Rightarrow> bool" where
  "versionLess a b = version_less_from a b [0, 1, 2]"

section \<open>Sending\<close>

datatype send_err = ErrOffline | ErrWire | ErrFireAndForget string | ErrStore store_err

definition send_err_text :: "env \<Rightarrow> send_err \<Rightarrow> string" where
  "send_err_text E e =
     (case e of
        ErrOffline \<Rightarrow> ''hub: harness offline''
      | ErrWire \<Rightarrow> e_wireText E
      | ErrFireAndForget typ \<Rightarrow> ''hub: SendReliable on fire-and-forget type '' @ typ
      | ErrStore se \<Rightarrow> e_errText E se)"

definition conn_up :: "broker \<Rightarrow> nat \<Rightarrow> bool" where
  "conn_up s c \<longleftrightarrow> \<not> bk_broken s c \<and> c \<notin> fst ` set (bk_closed s)"

definition conn_send :: "nat \<Rightarrow> Envelope \<Rightarrow> (send_err + unit) io" where
  "conn_send c env = State (\<lambda>s.
     if conn_up s c then (Inr (), s\<lparr>bk_frames := bk_frames s @ [(c, env)]\<rparr>) else (Inl ErrWire, s))"

definition conn_close :: "nat \<Rightarrow> int \<Rightarrow> unit io" where
  "conn_close c code = modify (\<lambda>s. s\<lparr>bk_closed := bk_closed s @ [(c, code)]\<rparr>)"

definition is_online :: "broker \<Rightarrow> string \<Rightarrow> bool" where
  "is_online s harnessID \<longleftrightarrow> bk_conns s harnessID \<noteq> None"

definition Online :: "string \<Rightarrow> bool io" where
  "Online harnessID = reads (\<lambda>s. is_online s harnessID)"

definition Send :: "string \<Rightarrow> Envelope \<Rightarrow> (send_err + unit) io" where
  "Send harnessID env = do {
     cn \<leftarrow> reads (\<lambda>s. bk_conns s harnessID);
     case cn of None \<Rightarrow> State_Monad.return (Inl ErrOffline) | Some c \<Rightarrow> conn_send c env
   }"

definition outbox_row :: "string \<Rightarrow> time \<Rightarrow> Envelope \<Rightarrow> OutboxMessage" where
  "outbox_row harnessID now env =
     \<lparr>ob_ID = en_ID env, ob_HarnessID = harnessID, ob_JobID = en_JobID env, ob_Type = en_Type env,
      ob_Payload = en_Payload env, ob_CreatedAt = now, ob_AckedAt = None\<rparr>"

definition SendReliable :: "env \<Rightarrow> string \<Rightarrow> Envelope \<Rightarrow> (send_err + unit) io" where
  "SendReliable E harnessID env =
     (if \<not> NeedsAck (en_Type env) then State_Monad.return (Inl (ErrFireAndForget (en_Type env)))
      else do {
        r \<leftarrow> store_call (\<lambda>d. Enqueue d (outbox_row harnessID (e_now E) env));
        if r \<noteq> Inr () \<and> r \<noteq> Inl ErrConflict
        then State_Monad.return (case r of Inl e \<Rightarrow> Inl (ErrStore e) | Inr _ \<Rightarrow> Inr ())
        else do {
          r \<leftarrow> Send harnessID env;
          State_Monad.return (if r = Inl ErrOffline then Inr () else r)
        }
      })"

section \<open>Handlers\<close>

record handler =
  h_OnHello :: "Harness \<Rightarrow> Hello \<Rightarrow> WelcomeJob list io"
  h_OnProgress :: "Harness \<Rightarrow> string \<Rightarrow> JobProgress \<Rightarrow> unit io"
  h_OnResult :: "Harness \<Rightarrow> string \<Rightarrow> JobResult \<Rightarrow> Ack io"
  h_OnApprovalRequest :: "Harness \<Rightarrow> string \<Rightarrow> ApprovalRequest \<Rightarrow> Ack io"
  h_OnAck :: "Harness \<Rightarrow> string \<Rightarrow> string \<Rightarrow> Ack \<Rightarrow> unit io"
  h_OnDisconnect :: "Harness \<Rightarrow> unit io"

section \<open>Serving a connection\<close>

text \<open>\<^verbatim>\<open>ServeHTTP\<close> up to the upgrade: the harness an \<^verbatim>\<open>Authorization\<close> header belongs to.\<close>

definition TokenHash :: "env \<Rightarrow> string \<Rightarrow> string" where
  "TokenHash E token = tokenHash (e_sha E) token"

definition authenticate :: "env \<Rightarrow> string \<Rightarrow> Harness option io" where
  "authenticate E auth =
     (if \<not> HasPrefix auth ''Bearer '' then State_Monad.return None
      else do {
        r \<leftarrow> store_read (\<lambda>d. HarnessByTokenHash d (TokenHash E (TrimPrefix auth ''Bearer '')));
        State_Monad.return (case r of Inl _ \<Rightarrow> None | Inr h \<Rightarrow> Some h)
      })"

fun flush_messages :: "env \<Rightarrow> nat \<Rightarrow> OutboxMessage list \<Rightarrow> (send_err + unit) io" where
  "flush_messages E c [] = State_Monad.return (Inr ())"
| "flush_messages E c (m # rest) = do {
     r \<leftarrow> conn_send c \<lparr>en_ID = ob_ID m, en_Type = ob_Type m, en_JobID = ob_JobID m, en_Ref = [],
                        en_TS = ms (e_now E), en_Payload = ob_Payload m\<rparr>;
     case r of Inl e \<Rightarrow> State_Monad.return (Inl e) | Inr _ \<Rightarrow> flush_messages E c rest
   }"

definition flushOutbox :: "env \<Rightarrow> string \<Rightarrow> nat \<Rightarrow> (send_err + unit) io" where
  "flushOutbox E harnessID c = do {
     r \<leftarrow> store_read (\<lambda>d. PendingOutbox d harnessID);
     case r of
       Inl e \<Rightarrow> State_Monad.return (Inl (ErrStore e))
     | Inr pending \<Rightarrow> flush_messages E c pending
   }"

text \<open>The deferred clean-up of \<^verbatim>\<open>serve\<close>: only the connection that is still registered goes offline.\<close>

definition serve_end :: "handler \<Rightarrow> Harness \<Rightarrow> nat \<Rightarrow> unit io" where
  "serve_end H harness c = do {
     cur \<leftarrow> reads (\<lambda>s. bk_conns s (hn_ID harness));
     if cur = Some c then do {
       modify (\<lambda>s. s\<lparr>bk_conns := (bk_conns s)(hn_ID harness := None)\<rparr>);
       h_OnDisconnect H harness
     } else State_Monad.return ()
   }"

text \<open>
  \<^verbatim>\<open>serve\<close> from the first message to the end of the flush. The result says whether the read loop
  is entered; when it is not after the connection was registered, the clean-up has run.
\<close>

definition register_conn :: "string \<Rightarrow> nat \<Rightarrow> unit io" where
  "register_conn harnessID c = do {
     old \<leftarrow> reads (\<lambda>s. bk_conns s harnessID);
     (case old of None \<Rightarrow> State_Monad.return () | Some o' \<Rightarrow> conn_close o' CloseReplaced);
     modify (\<lambda>s. s\<lparr>bk_conns := (bk_conns s)(harnessID := Some c)\<rparr>)
   }"

definition serve_hello :: "env \<Rightarrow> handler \<Rightarrow> Harness \<Rightarrow> nat \<Rightarrow> Envelope option \<Rightarrow> bool io" where
  "serve_hello E H harness c first =
     (case first of
        None \<Rightarrow> do { conn_close c CloseProtocolViolate; State_Monad.return False }
      | Some env \<Rightarrow>
          if en_Type env \<noteq> TypeHello
          then do { conn_close c CloseProtocolViolate; State_Monad.return False }
          else case decode_hello (en_Payload env) of
              None \<Rightarrow> do { conn_close c CloseProtocolViolate; State_Monad.return False }
            | Some hello \<Rightarrow>
                if e_minVersion E \<noteq> [] \<and> versionLess (he_HarnessVersion hello) (e_minVersion E)
                then do { conn_close c CloseVersionTooOld; State_Monad.return False }
                else do {
                  register_conn (hn_ID harness) c;
                  store_call (\<lambda>d. TouchHarness d (hn_ID harness) (e_now E) (he_HarnessVersion hello));
                  jobs \<leftarrow> h_OnHello H harness hello;
                  u \<leftarrow> draw (e_ulid E);
                  r \<leftarrow> conn_send c (New u (e_now E) TypeWelcome []
                         (PWelcome \<lparr>we_HarnessID = hn_ID harness,
                                    we_HeartbeatIntervalMS = e_heartbeat E div millisecond,
                                    we_ServerTime = ms (e_now E), we_Jobs = jobs\<rparr>));
                  case r of
                    Inl _ \<Rightarrow> do { serve_end H harness c; State_Monad.return False }
                  | Inr _ \<Rightarrow> do {
                      f \<leftarrow> flushOutbox E (hn_ID harness) c;
                      case f of
                        Inl _ \<Rightarrow> do { serve_end H harness c; State_Monad.return False }
                      | Inr _ \<Rightarrow> State_Monad.return True
                    }
                })"

text \<open>One message of the read loop.\<close>

definition reply_to :: "env \<Rightarrow> nat \<Rightarrow> string \<Rightarrow> Envelope \<Rightarrow> payload \<Rightarrow> unit io" where
  "reply_to E c typ env p = do {
     u \<leftarrow> draw (e_ulid E);
     conn_send c (Reply u (e_now E) typ env p);
     State_Monad.return ()
   }"

definition handle :: "env \<Rightarrow> handler \<Rightarrow> Harness \<Rightarrow> nat \<Rightarrow> Envelope \<Rightarrow> unit io" where
  "handle E H harness c env =
     (if en_Type env = TypePing then do {
        store_call (\<lambda>d. TouchHarness d (hn_ID harness) (e_now E) []);
        reply_to E c TypePong env (PPong (ms (e_now E)))
      }
      else if en_Type env = TypeAck then do {
        store_call (\<lambda>d. AckOutbox d (en_Ref env) (e_now E));
        h_OnAck H harness (en_Ref env) (en_JobID env)
          (case decode_ack (en_Payload env) of None \<Rightarrow> zero_ack | Some a \<Rightarrow> a)
      }
      else if en_Type env = TypeError then State_Monad.return ()
      else if en_Type env = TypeJobProgress then
        (case decode_progress (en_Payload env) of
           None \<Rightarrow> State_Monad.return ()
         | Some p \<Rightarrow> h_OnProgress H harness (en_JobID env) p)
      else if en_Type env = TypeJobResult then do {
        ack \<leftarrow> (case decode_result (en_Payload env) of
                  None \<Rightarrow> State_Monad.return (nack NackBadPayload (e_decodeText E))
                | Some r \<Rightarrow> h_OnResult H harness (en_JobID env) r);
        reply_to E c TypeAck env (PAck ack)
      }
      else if en_Type env = TypeApprovalRequest then do {
        ack \<leftarrow> (case decode_approval_request (en_Payload env) of
                  None \<Rightarrow> State_Monad.return (nack NackBadPayload (e_decodeText E))
                | Some r \<Rightarrow> h_OnApprovalRequest H harness (en_JobID env) r);
        reply_to E c TypeAck env (PAck ack)
      }
      else reply_to E c TypeError env (PError ErrUnknownType (en_Type env)))"

text \<open>A connection served without interference: handshake, its messages, clean-up.\<close>

definition serve :: "env \<Rightarrow> handler \<Rightarrow> Harness \<Rightarrow> nat \<Rightarrow> Envelope option \<Rightarrow> Envelope list \<Rightarrow> unit io" where
  "serve E H harness c first rest = do {
     ok \<leftarrow> serve_hello E H harness c first;
     if ok then do { for_each (handle E H harness c) rest; serve_end H harness c }
     else State_Monad.return ()
   }"

text \<open>\<^verbatim>\<open>Close\<close>: every live connection is closed with the going-away status 1001.\<close>

definition Close_hub :: "string list \<Rightarrow> unit io" where
  "Close_hub harnessIDs = for_each (\<lambda>i. do {
     cn \<leftarrow> reads (\<lambda>s. bk_conns s i);
     (case cn of
        None \<Rightarrow> State_Monad.return ()
      | Some c \<Rightarrow> do { conn_close c 1001; modify (\<lambda>s. s\<lparr>bk_conns := (bk_conns s)(i := None)\<rparr>) })
   }) harnessIDs"

section \<open>Lemmas\<close>

lemma run_Online [simp]: "run_state (Online h) s = (is_online s h, s)"
  by (simp add: Online_def)

lemma run_conn_send [simp]:
  "run_state (conn_send c env) s =
     (if conn_up s c then (Inr (), s\<lparr>bk_frames := bk_frames s @ [(c, env)]\<rparr>) else (Inl ErrWire, s))"
  by (simp add: conn_send_def)

lemma run_conn_close [simp]:
  "run_state (conn_close c code) s = ((), s\<lparr>bk_closed := bk_closed s @ [(c, code)]\<rparr>)"
  by (simp add: conn_close_def)

lemma run_Send [simp]:
  "run_state (Send h env) s =
     (case bk_conns s h of
        None \<Rightarrow> (Inl ErrOffline, s)
      | Some c \<Rightarrow> if conn_up s c then (Inr (), s\<lparr>bk_frames := bk_frames s @ [(c, env)]\<rparr>) else (Inl ErrWire, s))"
  by (simp add: Send_def split: option.split)

end
