(* ===== verification/Core.thy ===== *)
theory Core
  imports Hub
begin

text \<open>
  The broker's domain logic, \<^verbatim>\<open>internal/broker/core/core.go\<close>: posts that mention a bot become
  jobs, harness messages move the jobs along and become posts, button clicks decide approvals,
  and the sweeper runs the time-based transitions. One definition per method, in the order of
  the file; an early return is a branch without a continuation. Logging is left out.
\<close>

section \<open>Results\<close>

definition is_ok :: "'a res \<Rightarrow> bool" where
  "is_ok r = (case r of Inl _ \<Rightarrow> False | Inr _ \<Rightarrow> True)"

text \<open>The slice a call returned, \<^verbatim>\<open>nil\<close> when it failed.\<close>

definition slice :: "'a list res \<Rightarrow> 'a list" where
  "slice r = (case r of Inl _ \<Rightarrow> [] | Inr xs \<Rightarrow> xs)"

section \<open>Identities\<close>

definition api_for :: "env \<Rightarrow> string \<Rightarrow> api io" where
  "api_for E botUserID =
     (if botUserID = [] \<or> botUserID = cf_BotUserID (e_cfg E) then State_Monad.return (e_mm E)
      else case e_newPoster E of
          None \<Rightarrow> State_Monad.return UnavailableAPI
        | Some newPoster \<Rightarrow> do {
            b \<leftarrow> store_read (\<lambda>d. BotByUserID d botUserID);
            State_Monad.return
              (case b of
                 Inl _ \<Rightarrow> UnavailableAPI
               | Inr b \<Rightarrow> if bt_Token b = [] then UnavailableAPI
                          else case newPoster (bt_Token b) of None \<Rightarrow> UnavailableAPI | Some p \<Rightarrow> p)
          })"

definition rootOf :: "Post \<Rightarrow> string" where
  "rootOf p = (if po_RootId p \<noteq> [] then po_RootId p else po_Id p)"

record mention =
  mn_userID :: string
  mn_username :: string
  mn_owner :: string
  mn_ownerName :: string
  mn_harnessID :: string
  mn_bound :: bool

definition jobBotID :: "mention \<Rightarrow> string" where
  "jobBotID m = (if mn_owner m \<noteq> [] then mn_userID m else [])"

section \<open>Posts\<close>

definition replyAs :: "env \<Rightarrow> string \<Rightarrow> Post \<Rightarrow> string \<Rightarrow> unit io" where
  "replyAs E botUserID to msg = do {
     a \<leftarrow> api_for E botUserID;
     CreatePost E a (po_ChannelId to) (rootOf to) msg [] [];
     State_Monad.return ()
   }"

definition reply :: "env \<Rightarrow> Post \<Rightarrow> string \<Rightarrow> unit io" where
  "reply E to msg = replyAs E [] to msg"

definition audit :: "env \<Rightarrow> string \<Rightarrow> string \<Rightarrow> string \<Rightarrow> (string \<times> detail) list \<Rightarrow> unit io" where
  "audit E actor action jobID details = do {
     store_call (\<lambda>d. AppendAudit d (e_now E)
       \<lparr>ae_At = e_now E, ae_Actor = actor, ae_Action = action, ae_JobID = jobID, ae_Details = details\<rparr>);
     State_Monad.return ()
   }"

text \<open>
  \<^verbatim>\<open>edit\<close>: the newest text waits for the running timer, or starts one that fires when the interval
  since the last edit is over.
\<close>

definition edit_at :: "env \<Rightarrow> Job \<Rightarrow> string \<Rightarrow> editor \<Rightarrow> editor" where
  "edit_at E j text e =
     (case ed_timer e of
        Some t \<Rightarrow> e\<lparr>ed_pending := text\<rparr>
      | None \<Rightarrow>
          let delay = cf_EditInterval (e_cfg E) - (e_now E - ed_last e)
          in e\<lparr>ed_pending := text,
               ed_timer := Some (e_now E + (if delay < 0 then 0 else delay), jb_BotUserID j, jb_StatusPostID j)\<rparr>)"

definition fresh_editor :: editor where
  "fresh_editor = \<lparr>ed_pending = [], ed_timer = None, ed_last = zero_time\<rparr>"

definition edit :: "env \<Rightarrow> Job \<Rightarrow> string \<Rightarrow> unit io" where
  "edit E j text =
     (if jb_StatusPostID j = [] then State_Monad.return ()
      else modify (\<lambda>s. s\<lparr>bk_edits := (bk_edits s)(jb_ID j \<mapsto>
             edit_at E j text (case bk_edits s (jb_ID j) of None \<Rightarrow> fresh_editor | Some e \<Rightarrow> e))\<rparr>))"

text \<open>The timer's closure, run for the job's debouncer when its time has come.\<close>

definition fire_edit :: "env \<Rightarrow> string \<Rightarrow> unit io" where
  "fire_edit E jobID = do {
     ed \<leftarrow> reads (\<lambda>s. bk_edits s jobID);
     (case ed of
        None \<Rightarrow> State_Monad.return ()
      | Some e \<Rightarrow>
          (case ed_timer e of
             None \<Rightarrow> State_Monad.return ()
           | Some (due, botUserID, postID) \<Rightarrow>
               if e_now E < due then State_Monad.return ()
               else do {
                 modify (\<lambda>s. s\<lparr>bk_edits := (bk_edits s)(jobID \<mapsto> e\<lparr>ed_timer := None, ed_last := e_now E\<rparr>)\<rparr>);
                 a \<leftarrow> api_for E botUserID;
                 UpdatePost E a postID (ed_pending e);
                 State_Monad.return ()
               }))
   }"

definition finalEdit :: "env \<Rightarrow> Job \<Rightarrow> string \<Rightarrow> unit io" where
  "finalEdit E j text = do {
     modify (\<lambda>s. s\<lparr>bk_edits := (bk_edits s)(jb_ID j := None)\<rparr>);
     if jb_StatusPostID j = [] then State_Monad.return ()
     else do {
       a \<leftarrow> api_for E (jb_BotUserID j);
       UpdatePost E a (jb_StatusPostID j) text;
       State_Monad.return ()
     }
   }"

definition fail_job :: "env \<Rightarrow> Job \<Rightarrow> string \<Rightarrow> unit io" where
  "fail_job E j reason = do {
     r \<leftarrow> store_call (\<lambda>d. TransitionJob d (e_now E) (jb_ID j) ActiveStates JobFailed
                           (no_patch\<lparr>pt_Error := Some reason\<rparr>));
     case r of
       Inl _ \<Rightarrow> State_Monad.return ()
     | Inr _ \<Rightarrow> finalEdit E j (cross_mark @ '' '' @ reason)
   }"

section \<open>Cancelling\<close>

definition cancelJob :: "env \<Rightarrow> Job \<Rightarrow> string \<Rightarrow> (send_err + unit) io" where
  "cancelJob E j reason =
     (if jb_State j = JobQueued then do {
        r \<leftarrow> store_call (\<lambda>d. TransitionJob d (e_now E) (jb_ID j) [JobQueued] JobCancelled no_patch);
        case r of
          Inl e \<Rightarrow> State_Monad.return (Inl (ErrStore e))
        | Inr _ \<Rightarrow> do {
            finalEdit E j (prohibited @ '' Cancelled before the harness picked it up.'');
            State_Monad.return (Inr ())
          }
      }
      else do {
        u \<leftarrow> draw (e_ulid E);
        audit E (jb_MMUserID j) ''job.cancel_requested'' (jb_ID j) [(''reason'', DStr reason)];
        SendReliable E (jb_HarnessID j) (New u (e_now E) TypeJobCancel (jb_ID j) (PCancel reason))
      })"

definition handleCancel :: "env \<Rightarrow> Post \<Rightarrow> mention \<Rightarrow> unit io" where
  "handleCancel E p target = do {
     r \<leftarrow> store_read (\<lambda>d. ListJobs d (any_job\<lparr>jf_BotUserID := jobBotID target, jf_RootPostID := rootOf p,
            jf_MMUserID := po_UserId p, jf_States := ActiveStates, jf_Limit := 5\<rparr>));
     if slice r = [] then replyAs E (mn_userID target) p ''Nothing running in this thread for you.''
     else do {
       for_each (\<lambda>j. do { cancelJob E j ''user''; State_Monad.return () }) (slice r);
       replyAs E (mn_userID target) p ''Cancelling.''
     }
   }"

section \<open>Creating jobs\<close>

text \<open>\<^verbatim>\<open>pickHarness\<close>: an online harness before an offline one, then the most recently seen.\<close>

definition better_harness :: "broker \<Rightarrow> Harness \<Rightarrow> Harness \<Rightarrow> Harness" where
  "better_harness s best h =
     (if is_online s (hn_ID h) \<and> \<not> is_online s (hn_ID best) then h
      else if (case hn_LastSeenAt h of
                 None \<Rightarrow> False
               | Some t \<Rightarrow> (case hn_LastSeenAt best of None \<Rightarrow> True | Some u \<Rightarrow> u < t))
              \<and> is_online s (hn_ID h) = is_online s (hn_ID best) then h
      else best)"

definition pickHarness :: "string \<Rightarrow> Harness option io" where
  "pickHarness userID = do {
     r \<leftarrow> store_read (\<lambda>d. HarnessesByUser d userID);
     case slice r of
       [] \<Rightarrow> State_Monad.return None
     | h # hs \<Rightarrow> reads (\<lambda>s. Some (foldl (better_harness s) h hs))
   }"

definition MaxHistoryPosts :: nat where
  "MaxHistoryPosts = 60"

text \<open>
  The loop of \<^verbatim>\<open>threadHistory\<close>. The cache of user names is threaded through it, as the code does:
  a name is asked for once per user.
\<close>

definition history_skip :: "env \<Rightarrow> Post \<Rightarrow> Post \<Rightarrow> bool" where
  "history_skip E trigger p \<longleftrightarrow>
     po_Id p = po_Id trigger \<or> po_UserId p = cf_BotUserID (e_cfg E) \<or> po_FromBot p \<or> po_Type p \<noteq> []"

fun history_loop :: "env \<Rightarrow> api \<Rightarrow> Post \<Rightarrow> string \<Rightarrow> (string \<Rightarrow> string option) \<Rightarrow> Post list
    \<Rightarrow> HistoryPost list io" where
  "history_loop E a trigger botUsername names [] = State_Monad.return []"
| "history_loop E a trigger botUsername names (p # ps) =
     (if history_skip E trigger p then history_loop E a trigger botUsername names ps
      else do {
        b \<leftarrow> store_read (\<lambda>d. BotByUserID d (po_UserId p));
        if is_ok b \<or> (po_CreateAt trigger \<le> po_CreateAt p \<and> 0 < po_CreateAt trigger)
        then history_loop E a trigger botUsername names ps
        else do {
          name \<leftarrow> (case names (po_UserId p) of
                     Some n \<Rightarrow> State_Monad.return n
                   | None \<Rightarrow> do {
                       u \<leftarrow> GetUser E a (po_UserId p);
                       State_Monad.return (case u of None \<Rightarrow> po_UserId p | Some u \<Rightarrow> ur_Username u)
                     });
          rest \<leftarrow> history_loop E a trigger botUsername (names(po_UserId p \<mapsto> name)) ps;
          State_Monad.return (\<lparr>hp_Username = name, hp_At = po_CreateAt p,
                               hp_Text = stripMention (po_Message p) botUsername\<rparr> # rest)
        }
      })"

definition threadHistory :: "env \<Rightarrow> api \<Rightarrow> Post \<Rightarrow> string \<Rightarrow> string \<Rightarrow> HistoryPost list io" where
  "threadHistory E a trigger rootID botUsername =
     (if po_RootId trigger = [] then State_Monad.return []
      else do {
        posts \<leftarrow> GetThread E a rootID;
        case posts of
          None \<Rightarrow> State_Monad.return []
        | Some ps \<Rightarrow> do {
            out \<leftarrow> history_loop E a trigger botUsername (\<lambda>_. None) ps;
            State_Monad.return (drop (length out - MaxHistoryPosts) out)
          }
      })"

definition downloadAttachments :: "env \<Rightarrow> api \<Rightarrow> Post \<Rightarrow> File list io" where
  "downloadAttachments E a p = collect (\<lambda>i. do {
     fi \<leftarrow> GetFileInfo E a i;
     case fi of
       None \<Rightarrow> State_Monad.return []
     | Some fi \<Rightarrow>
         if MaxFileBytes < fi_Size fi then State_Monad.return []
         else do {
           data \<leftarrow> DownloadFile E a i;
           State_Monad.return (case data of
               None \<Rightarrow> []
             | Some bytes \<Rightarrow> [\<lparr>fl_Name = fi_Name fi, fl_Mime = fi_MimeType fi, fl_DataB64 = base64_encode bytes\<rparr>])
         }
   }) (po_FileIds p)"

definition harness_for :: "Post \<Rightarrow> mention \<Rightarrow> Harness option io" where
  "harness_for p target =
     (if mn_bound target then do {
        r \<leftarrow> store_read (\<lambda>d. HarnessByID d (mn_harnessID target));
        State_Monad.return (case r of
            Inl _ \<Rightarrow> None
          | Inr h \<Rightarrow> if hn_MMUserID h = po_UserId p then Some h else None)
      }
      else pickHarness (po_UserId p))"

definition new_job :: "env \<Rightarrow> Post \<Rightarrow> mention \<Rightarrow> Harness \<Rightarrow> bool \<Rightarrow> string \<Rightarrow> string \<Rightarrow> string \<Rightarrow> string \<Rightarrow> Job" where
  "new_job E p target harness online jobID statusPost workspace prompt =
     \<lparr>jb_ID = jobID, jb_HarnessID = hn_ID harness, jb_MMUserID = po_UserId p,
      jb_ChannelID = po_ChannelId p, jb_RootPostID = rootOf p, jb_TriggerPostID = po_Id p,
      jb_StatusPostID = statusPost, jb_BotUserID = jobBotID target, jb_Workspace = workspace,
      jb_Prompt = prompt, jb_State = (if online then JobDispatched else JobQueued), jb_LastSeq = 0,
      jb_ResultText = [], jb_Error = [], jb_CreatedAt = e_now E, jb_UpdatedAt = e_now E,
      jb_ExpiresAt = (if online then None else Some (e_now E + cf_QueueTTL (e_cfg E))),
      jb_FinishedAt = None\<rparr>"

definition dispatch_payload :: "env \<Rightarrow> Post \<Rightarrow> mention \<Rightarrow> User \<Rightarrow> File list \<Rightarrow> HistoryPost list
    \<Rightarrow> string \<Rightarrow> string \<Rightarrow> string \<Rightarrow> JobDispatch" where
  "dispatch_payload E p target user attachments history workspace agent prompt =
     \<lparr>jd_BotUserID = jobBotID target, jd_Workspace = workspace, jd_Agent = agent, jd_Prompt = prompt,
      jd_ChannelID = po_ChannelId p, jd_RootPostID = rootOf p, jd_TriggerPostID = po_Id p,
      jd_RequesterID = ur_Id user, jd_RequesterName = ur_Username user,
      jd_Attachments = attachments, jd_History = history,
      jd_MaxTurns = cf_DefaultMaxTurns (e_cfg E), jd_TimeoutMS = cf_JobTimeout (e_cfg E) div millisecond\<rparr>"

definition status_text :: "env \<Rightarrow> Harness \<Rightarrow> bool \<Rightarrow> string" where
  "status_text E harness online =
     (if online then hourglass @ '' Starting on '' @ quoted (hn_Name harness) @ ellipsis
      else sleep_sign @ '' '' @ quoted (hn_Name harness) @ '' is offline. Holding the job for ''
             @ Duration_String (cf_QueueTTL (e_cfg E)) @ ''.'')"

text \<open>From the harness and the user on: status post, job row, dispatch.\<close>

definition start_job :: "env \<Rightarrow> Post \<Rightarrow> mention \<Rightarrow> Harness \<Rightarrow> api \<Rightarrow> User \<Rightarrow> string \<Rightarrow> string \<Rightarrow> string \<Rightarrow> unit io" where
  "start_job E p target harness poster user workspace agent prompt = do {
     attachments \<leftarrow> downloadAttachments E poster p;
     history \<leftarrow> threadHistory E poster p (rootOf p) (mn_username target);
     online \<leftarrow> Online (hn_ID harness);
     post \<leftarrow> CreatePost E poster (po_ChannelId p) (rootOf p) (status_text E harness online) [] [];
     case post of
       None \<Rightarrow> State_Monad.return ()
     | Some postID \<Rightarrow> do {
         jobID \<leftarrow> draw (\<lambda>n. NewID (e_ulid E n) ''job'');
         let job = new_job E p target harness online jobID postID workspace prompt;
         r \<leftarrow> store_call (\<lambda>d. CreateJob d job);
         case r of
           Inl _ \<Rightarrow> State_Monad.return ()
         | Inr _ \<Rightarrow> do {
             u \<leftarrow> draw (e_ulid E);
             sent \<leftarrow> SendReliable E (hn_ID harness) (New u (e_now E) TypeJobDispatch jobID
                       (PDispatch (dispatch_payload E p target user attachments history workspace agent prompt)));
             case sent of
               Inl e \<Rightarrow> fail_job E job (''dispatch failed: '' @ send_err_text E e)
             | Inr _ \<Rightarrow> audit E (po_UserId p) ''job.created'' jobID
                 [(''harness'', DStr (hn_ID harness)), (''workspace'', DStr workspace), (''agent'', DStr agent),
                  (''history'', DInt (int (length history))), (''queued'', DBool (\<not> online))]
           }
       }
   }"

definition createJob_on :: "env \<Rightarrow> Post \<Rightarrow> string \<Rightarrow> mention \<Rightarrow> Harness \<Rightarrow> unit io" where
  "createJob_on E p text target harness = do {
     active \<leftarrow> store_read (\<lambda>d. ListJobs d (any_job\<lparr>jf_BotUserID := jobBotID target,
                 jf_MMUserID := po_UserId p, jf_RootPostID := rootOf p, jf_States := ActiveStates,
                 jf_Limit := 1\<rparr>));
     if slice active \<noteq> []
     then replyAs E (mn_userID target) p
            (''A job is already running in this thread. Say '' @ quoted (''@'' @ mn_username target @ '' cancel'')
               @ '' to stop it.'')
     else
       let (workspace, prompt0) = splitWorkspace text;
           (agent, prompt) = splitAgent (e_lower E) prompt0
       in if TrimSpace prompt = []
          then replyAs E (mn_userID target) p ''Tell me what to do after the mention.''
          else do {
            poster \<leftarrow> api_for E (jobBotID target);
            user \<leftarrow> GetUser E poster (po_UserId p);
            case user of
              None \<Rightarrow> State_Monad.return ()
            | Some user \<Rightarrow> start_job E p target harness poster user workspace agent prompt
          }
   }"

definition createJob :: "env \<Rightarrow> Post \<Rightarrow> string \<Rightarrow> mention \<Rightarrow> unit io" where
  "createJob E p text target = do {
     h \<leftarrow> harness_for p target;
     case h of
       None \<Rightarrow> replyAs E (mn_userID target) p
         (''You have no paired harness. Run '' @ quoted ''mhb harness init'' @ '' on your machine to set one up.'')
     | Some harness \<Rightarrow> createJob_on E p text target harness
   }"

section \<open>Inbound posts\<close>

definition newPairingCode :: "env \<Rightarrow> string \<Rightarrow> (unit res \<times> string) io" where
  "newPairingCode E userID = do {
     code \<leftarrow> draw (\<lambda>n. randomCode (e_random E n 8));
     r \<leftarrow> store_call (\<lambda>d. CreatePairing d (hashCode (e_sha E) (e_upper E) code) userID (e_now E + 10 * minute));
     State_Monad.return (r, code)
   }"

definition harness_line :: "env \<Rightarrow> bool \<Rightarrow> Harness \<Rightarrow> string" where
  "harness_line E online h =
     ''- '' @ quoted (hn_Name h) @ '' ('' @ hn_ID h @ '') '' @ (if online then ''online'' else ''offline'')
       @ '', last seen '' @ (case hn_LastSeenAt h of None \<Rightarrow> ''never'' | Some t \<Rightarrow> e_localtime E ''RFC822'' t)
       @ '', v'' @ hn_Version h @ nl"

definition job_line :: "env \<Rightarrow> Job \<Rightarrow> string" where
  "job_line E j =
     ''- '' @ jb_ID j @ '': '' @ job_state_string (jb_State j) @ '' since ''
       @ e_localtime E ''Kitchen'' (jb_CreatedAt j) @ nl"

definition statusText :: "env \<Rightarrow> string \<Rightarrow> string io" where
  "statusText E userID = do {
     r \<leftarrow> store_read (\<lambda>d. HarnessesByUser d userID);
     if slice r = []
     then State_Monad.return (''No paired harness. Send '' @ quoted ''pair'' @ '' to get a code.'')
     else do {
       lines \<leftarrow> reads (\<lambda>s. concat (map (\<lambda>h. harness_line E (is_online s (hn_ID h)) h) (slice r)));
       jobs \<leftarrow> store_read (\<lambda>d. ListJobs d (any_job\<lparr>jf_MMUserID := userID, jf_States := ActiveStates, jf_Limit := 10\<rparr>));
       State_Monad.return (lines @ (if slice jobs = [] then []
         else nl @ ''Active jobs:'' @ nl @ concat (map (job_line E) (slice jobs))))
     }
   }"

definition handleDM :: "env \<Rightarrow> Post \<Rightarrow> unit io" where
  "handleDM E p =
     (let fields = Fields (TrimSpace (po_Message p));
          cmd = (case fields of [] \<Rightarrow> [] | f # _ \<Rightarrow> ToLower (e_lower E) f)
      in if cmd = ''pair'' then
           (if e_admin E
            then reply E p (''Run '' @ quoted (''mhb harness init --broker '' @ cf_PublicURL (e_cfg E))
                   @ '' on your machine; it creates your own bot and pairs in one go.'')
            else do {
              (r, code) \<leftarrow> newPairingCode E (po_UserId p);
              case r of
                Inl _ \<Rightarrow> reply E p ''Could not create a pairing code, see broker logs.''
              | Inr _ \<Rightarrow> reply E p (''Run this on the machine that should execute your jobs (code valid for 10 minutes):''
                    @ nl @ tick @ tick @ tick @ nl @ ''mhb harness pair --broker '' @ cf_PublicURL (e_cfg E) @ '' '' @ code
                    @ nl @ tick @ tick @ tick)
            })
         else if cmd = ''status'' then do { t \<leftarrow> statusText E (po_UserId p); reply E p t }
         else reply E p (helpText (cf_BotUsername (e_cfg E))))"

text \<open>The commands of a mention, and what else it asks for.\<close>

definition run_mention :: "env \<Rightarrow> Post \<Rightarrow> mention \<Rightarrow> unit io" where
  "run_mention E p target =
     (let text = stripMention (po_Message p) (mn_username target);
          cmd = ToLower (e_lower E) (TrimSpace text)
      in if cmd = ''cancel'' \<or> cmd = ''stop'' then handleCancel E p target
         else if cmd = [] \<or> cmd = ''help'' then replyAs E (mn_userID target) p (helpText (mn_username target))
         else createJob E p text target)"

definition ChannelTypeDirect :: string where
  "ChannelTypeDirect = ''D''"

definition ignored_post :: "string \<Rightarrow> Post \<Rightarrow> bool" where
  "ignored_post botUserID p \<longleftrightarrow> po_UserId p = botUserID \<or> po_FromBot p \<or> po_Type p \<noteq> []"

text \<open>
  A reply in a thread continues the conversation when it addresses no other known bot and this
  bot has already worked for its author there.
\<close>

definition continues_thread :: "env \<Rightarrow> string \<Rightarrow> Post \<Rightarrow> bool io" where
  "continues_thread E botUserID p =
     (if po_RootId p = [] then State_Monad.return False
      else do {
        bots \<leftarrow> store_read ListBots;
        if \<not> is_ok bots then State_Monad.return False
        else if list_ex (\<lambda>b. bt_UserID b \<noteq> botUserID
                  \<and> ToLower (e_lower E) (bt_Username b) \<in> set (mentionedNames (e_lower E) (po_Message p))) (slice bots)
        then State_Monad.return False
        else do {
          previous \<leftarrow> store_read (\<lambda>d. ListJobs d (any_job\<lparr>jf_BotUserID := botUserID,
                        jf_MMUserID := po_UserId p, jf_RootPostID := po_RootId p, jf_Limit := 1\<rparr>));
          State_Monad.return (slice previous \<noteq> [])
        }
      })"

definition bot_mention :: "Bot \<Rightarrow> mention" where
  "bot_mention b =
     \<lparr>mn_userID = bt_UserID b, mn_username = bt_Username b, mn_owner = bt_MMUserID b,
      mn_ownerName = bt_MMUserID b, mn_harnessID = bt_HarnessID b, mn_bound = True\<rparr>"

definition bot_addressed :: "env \<Rightarrow> Bot \<Rightarrow> string \<Rightarrow> PostedEvent \<Rightarrow> Post \<Rightarrow> bool" where
  "bot_addressed E b botUserID ev p \<longleftrightarrow>
     ToLower (e_lower E) (bt_Username b) \<in> set (mentionedNames (e_lower E) (po_Message p))
     \<or> botUserID \<in> set (ev_Mentions ev)"

text \<open>\<^verbatim>\<open>HandleBotPost\<close> after the bot was found: routing, ownership, deduplication, commands.\<close>

definition bot_post :: "env \<Rightarrow> string \<Rightarrow> Bot \<Rightarrow> PostedEvent \<Rightarrow> Post \<Rightarrow> unit io" where
  "bot_post E botUserID b ev p = do {
     author \<leftarrow> store_read (\<lambda>d. BotByUserID d (po_UserId p));
     if is_ok author then State_Monad.return ()
     else do {
       goes \<leftarrow> (if bot_addressed E b botUserID ev p \<or> ev_ChannelType ev = ChannelTypeDirect
                then State_Monad.return True else continues_thread E botUserID p);
       if \<not> goes then State_Monad.return ()
       else if po_UserId p \<noteq> bt_MMUserID b then do {
         a \<leftarrow> api_for E botUserID;
         u \<leftarrow> GetUser E a (bt_MMUserID b);
         let ownerName = (case u of None \<Rightarrow> bt_MMUserID b | Some u \<Rightarrow> ur_Username u);
         replyAs E botUserID p (''Only @'' @ ownerName @ '' can run jobs on this machine.'');
         audit E (po_UserId p) ''job.forbidden'' [] [(''bot'', DStr (bt_Username b))]
       }
       else do {
         prior \<leftarrow> store_read (\<lambda>d. ListJobs d (any_job\<lparr>jf_BotUserID := botUserID,
                    jf_TriggerPostID := po_Id p, jf_Limit := 1\<rparr>));
         if \<not> is_ok prior \<or> slice prior \<noteq> [] then State_Monad.return ()
         else run_mention E p (bot_mention b)
       }
     }
   }"

definition HandleBotPost :: "env \<Rightarrow> string \<Rightarrow> PostedEvent \<Rightarrow> unit io" where
  "HandleBotPost E botUserID ev =
     (case ev_Post ev of
        None \<Rightarrow> State_Monad.return ()
      | Some p \<Rightarrow>
          if po_Id p = [] \<or> po_DeleteAt p \<noteq> 0 \<or> ignored_post botUserID p then State_Monad.return ()
          else do {
            rb \<leftarrow> store_read (\<lambda>d. BotByUserID d botUserID);
            case rb of
              Inl _ \<Rightarrow> State_Monad.return ()
            | Inr b \<Rightarrow> if e_newPoster E = None then State_Monad.return () else bot_post E botUserID b ev p
          })"

definition shared_mention :: "env \<Rightarrow> mention" where
  "shared_mention E =
     \<lparr>mn_userID = cf_BotUserID (e_cfg E), mn_username = cf_BotUsername (e_cfg E), mn_owner = [],
      mn_ownerName = [], mn_harnessID = [], mn_bound = False\<rparr>"

definition mentionedBot :: "env \<Rightarrow> PostedEvent \<Rightarrow> Post \<Rightarrow> mention option io" where
  "mentionedBot E ev p =
     (let names = mentionedNames (e_lower E) (po_Message p);
          shared = (if cf_BotUserID (e_cfg E) \<in> set (ev_Mentions ev) \<or> cf_BotUsername (e_cfg E) \<in> set names
                    then Some (shared_mention E) else None)
      in if names = [] then State_Monad.return shared
         else do {
           bots \<leftarrow> store_read ListBots;
           case find (\<lambda>b. bt_Username b \<in> set names) (slice bots) of
             None \<Rightarrow> State_Monad.return shared
           | Some b \<Rightarrow> do {
               u \<leftarrow> GetUser E (e_mm E) (bt_MMUserID b);
               State_Monad.return (Some
                 \<lparr>mn_userID = bt_UserID b, mn_username = bt_Username b, mn_owner = bt_MMUserID b,
                  mn_ownerName = (case u of None \<Rightarrow> [] | Some u \<Rightarrow> ur_Username u),
                  mn_harnessID = [], mn_bound = False\<rparr>)
             }
         })"

definition HandlePost :: "env \<Rightarrow> PostedEvent \<Rightarrow> unit io" where
  "HandlePost E ev =
     (case ev_Post ev of
        None \<Rightarrow> State_Monad.return ()
      | Some p \<Rightarrow>
          if ignored_post (cf_BotUserID (e_cfg E)) p then State_Monad.return ()
          else if ev_ChannelType ev = ChannelTypeDirect then handleDM E p
          else do {
            m \<leftarrow> mentionedBot E ev p;
            case m of
              None \<Rightarrow> State_Monad.return ()
            | Some target \<Rightarrow>
                if mn_owner target \<noteq> [] \<and> mn_owner target \<noteq> po_UserId p then do {
                  replyAs E (mn_userID target) p
                    (''Only '' @ (if mn_ownerName target = [] then ''its owner'' else ''@'' @ mn_ownerName target)
                       @ '' can run jobs on this machine.'');
                  audit E (po_UserId p) ''job.forbidden'' [] [(''bot'', DStr (mn_username target))]
                }
                else run_mention E p target
          })"

section \<open>Harness events\<close>

definition hello_job :: "env \<Rightarrow> Job list \<Rightarrow> HelloJob \<Rightarrow> WelcomeJob list io" where
  "hello_job E active hj =
     (case find (\<lambda>j. jb_ID j = hj_JobID hj) active of
        None \<Rightarrow> State_Monad.return
          [\<lparr>wj_JobID = hj_JobID hj, wj_Action = ActionAbort, wj_Reason = ''unknown or finished''\<rparr>]
      | Some j \<Rightarrow> do {
          (if jb_State j = JobQueued \<or> jb_State j = JobDispatched
           then do {
             store_call (\<lambda>d. TransitionJob d (e_now E) (jb_ID j) [JobQueued, JobDispatched] JobRunning no_patch);
             State_Monad.return ()
           }
           else State_Monad.return ());
          State_Monad.return [\<lparr>wj_JobID = hj_JobID hj, wj_Action = ActionResume, wj_Reason = []\<rparr>]
        })"

definition unreported_job :: "env \<Rightarrow> Job \<Rightarrow> unit io" where
  "unreported_job E j =
     (if jb_State j = JobRunning \<or> jb_State j = JobAwaitingApproval
      then fail_job E j ''the harness restarted and no longer has this job''
      else if jb_State j = JobQueued then do {
        r \<leftarrow> store_call (\<lambda>d. TransitionJob d (e_now E) (jb_ID j) [JobQueued] JobDispatched no_patch);
        if is_ok r then edit E j (hourglass @ '' Harness is back, starting'' @ ellipsis)
        else State_Monad.return ()
      }
      else State_Monad.return ())"

definition OnHello :: "env \<Rightarrow> Harness \<Rightarrow> Hello \<Rightarrow> WelcomeJob list io" where
  "OnHello E h hello = do {
     r \<leftarrow> store_read (\<lambda>d. ActiveJobsByHarness d (hn_ID h));
     let active = slice r;
     out \<leftarrow> collect (hello_job E active) (he_Jobs hello);
     for_each (unreported_job E) (filter (\<lambda>j. jb_ID j \<notin> hj_JobID ` set (he_Jobs hello)) active);
     State_Monad.return out
   }"

definition OnAck :: "env \<Rightarrow> Harness \<Rightarrow> string \<Rightarrow> string \<Rightarrow> Ack \<Rightarrow> unit io" where
  "OnAck E h ref jobID a =
     (if jobID = [] then State_Monad.return ()
      else if ak_OK a then do {
        r \<leftarrow> store_call (\<lambda>d. TransitionJob d (e_now E) jobID [JobDispatched] JobRunning no_patch);
        if is_ok r then do {
          j \<leftarrow> store_read (\<lambda>d. JobByID d jobID);
          case j of
            Inl _ \<Rightarrow> State_Monad.return ()
          | Inr j \<Rightarrow> edit E j (play_sign @ '' Running on '' @ quoted (hn_Name h) @ ellipsis)
        }
        else State_Monad.return ()
      }
      else do {
        j \<leftarrow> store_read (\<lambda>d. JobByID d jobID);
        case j of
          Inl _ \<Rightarrow> State_Monad.return ()
        | Inr j \<Rightarrow>
            if jb_HarnessID j \<noteq> hn_ID h then State_Monad.return ()
            else if jb_State j = JobDispatched then fail_job E j (''harness rejected the job: '' @ nackText a)
            else State_Monad.return ()
      })"

definition OnProgress :: "env \<Rightarrow> Harness \<Rightarrow> string \<Rightarrow> JobProgress \<Rightarrow> unit io" where
  "OnProgress E h jobID p = do {
     applied \<leftarrow> store_call (\<lambda>d. RecordProgress d (e_now E) jobID (jp_Seq p));
     if applied \<noteq> Inr True then State_Monad.return ()
     else do {
       j \<leftarrow> store_read (\<lambda>d. JobByID d jobID);
       case j of
         Inl _ \<Rightarrow> State_Monad.return ()
       | Inr j \<Rightarrow>
           if jb_HarnessID j \<noteq> hn_ID h then State_Monad.return ()
           else edit E j (renderProgress (e_maxLen E) (hn_Name h) p)
     }
   }"

definition approval_button :: "env \<Rightarrow> ApprovalRequest \<Rightarrow> string \<Rightarrow> string \<Rightarrow> Button" where
  "approval_button E r nonce decision =
     \<lparr>bn_URL = TrimRight (cf_PublicURL (e_cfg E)) ''/'' @ ''/callback/approval'',
      bn_ApprovalID = ar_ApprovalID r, bn_Decision = decision,
      bn_Sig = sign (e_mac E (cf_CallbackSecret (e_cfg E))) (ar_ApprovalID r) decision nonce\<rparr>"

definition approvalAttachment :: "env \<Rightarrow> ApprovalRequest \<Rightarrow> string \<Rightarrow> Attachment" where
  "approvalAttachment E r nonce =
     \<lparr>at_Title = ''Approval needed: '' @ ar_Tool r,
      at_Text = tick @ tick @ tick @ nl @ truncate_text (ar_Summary r) 1500 @ nl @ tick @ tick @ tick @ nl
                  @ ''in '' @ quoted (ar_CWD r),
      at_Fallback = ''Approval needed: '' @ ar_Tool r @ '' '' @ truncate_text (ar_Summary r) 100,
      at_Actions = [approval_button E r nonce DecisionAllow, approval_button E r nonce DecisionDeny]\<rparr>"

definition approval_row :: "env \<Rightarrow> string \<Rightarrow> ApprovalRequest \<Rightarrow> string \<Rightarrow> Approval" where
  "approval_row E jobID r nonce =
     \<lparr>av_ID = ar_ApprovalID r, av_JobID = jobID, av_Tool = ar_Tool r, av_Summary = ar_Summary r,
      av_Input = ar_Input r, av_Nonce = nonce, av_RequestedAt = e_now E,
      av_ExpiresAt = fromMS (ar_ExpiresAt r), av_Decision = [], av_DecidedBy = [], av_DecidedAt = None\<rparr>"

definition OnApprovalRequest :: "env \<Rightarrow> Harness \<Rightarrow> string \<Rightarrow> ApprovalRequest \<Rightarrow> Ack io" where
  "OnApprovalRequest E h jobID r = do {
     rj \<leftarrow> store_read (\<lambda>d. JobByID d jobID);
     case rj of
       Inl _ \<Rightarrow> State_Monad.return (nack NackUnknownJob [])
     | Inr j \<Rightarrow>
         if jb_HarnessID j \<noteq> hn_ID h then State_Monad.return (nack NackForbidden [])
         else if Terminal (jb_State j)
         then State_Monad.return (nack NackUnknownJob (''job is '' @ job_state_string (jb_State j)))
         else do {
           nonce \<leftarrow> draw (\<lambda>n. randomToken (e_random E n 16));
           c \<leftarrow> store_call (\<lambda>d. CreateApproval d (approval_row E jobID r nonce));
           case c of
             Inl e \<Rightarrow> State_Monad.return (if e = ErrConflict then ack_ok else nack ''store'' (e_errText E e))
           | Inr _ \<Rightarrow> do {
               store_call (\<lambda>d. TransitionJob d (e_now E) jobID [JobDispatched, JobRunning] JobAwaitingApproval no_patch);
               a \<leftarrow> api_for E (jb_BotUserID j);
               CreatePost E a (jb_ChannelID j) (jb_RootPostID j) [] [] [approvalAttachment E r nonce];
               edit E j (pause_sign @ '' Waiting for approval: **'' @ ar_Tool r @ ''** ''
                           @ quoted (truncate_text (ar_Summary r) 200));
               audit E (hn_ID h) ''approval.requested'' jobID
                 [(''approval'', DStr (ar_ApprovalID r)), (''tool'', DStr (ar_Tool r)), (''summary'', DStr (ar_Summary r))];
               State_Monad.return ack_ok
             }
         }
   }"

text \<open>The files of a result: those that decode and are not too large are uploaded.\<close>

definition upload_result_file :: "env \<Rightarrow> api \<Rightarrow> Job \<Rightarrow> File \<Rightarrow> string list io" where
  "upload_result_file E a j f =
     (case base64_decode (fl_DataB64 f) of
        None \<Rightarrow> State_Monad.return []
      | Some data \<Rightarrow>
          if MaxFileBytes < int (length data) then State_Monad.return []
          else do {
            r \<leftarrow> UploadFile E a (jb_ChannelID j) (fl_Name f) data;
            State_Monad.return (case r of None \<Rightarrow> [] | Some i \<Rightarrow> [i])
          })"

definition postResult :: "env \<Rightarrow> Job \<Rightarrow> Harness \<Rightarrow> JobResult \<Rightarrow> unit io" where
  "postResult E j h r = do {
     a \<leftarrow> api_for E (jb_BotUserID j);
     full \<leftarrow> (if result_too_long (e_maxLen E) (hn_Name h) r then do {
                u \<leftarrow> UploadFile E a (jb_ChannelID j) ''result.md'' (result_body r);
                State_Monad.return (case u of None \<Rightarrow> [] | Some i \<Rightarrow> [i])
              } else State_Monad.return []);
     files \<leftarrow> collect (upload_result_file E a j) (jr_Files r);
     finalEdit E j (result_message (e_maxLen E) (hn_Name h) r);
     if full @ files = [] then State_Monad.return ()
     else do {
       CreatePost E a (jb_ChannelID j) (jb_RootPostID j) (clip_sign @ '' Attachments'') (full @ files) [];
       State_Monad.return ()
     }
   }"

definition result_state :: "JobResult \<Rightarrow> JobState" where
  "result_state r =
     (if jr_Status r = StatusSucceeded then JobSucceeded
      else if jr_Status r = StatusCancelled then JobCancelled else JobFailed)"

definition result_patch :: "JobResult \<Rightarrow> JobPatch" where
  "result_patch r =
     no_patch\<lparr>pt_ResultText := Some (jr_Text r),
              pt_Error := (case jr_Error r of None \<Rightarrow> None | Some e \<Rightarrow> Some (je_Code e @ '': '' @ je_Message e))\<rparr>"

definition OnResult :: "env \<Rightarrow> Harness \<Rightarrow> string \<Rightarrow> JobResult \<Rightarrow> Ack io" where
  "OnResult E h jobID r = do {
     rj \<leftarrow> store_read (\<lambda>d. JobByID d jobID);
     case rj of
       Inl _ \<Rightarrow> State_Monad.return (nack NackUnknownJob [])
     | Inr j \<Rightarrow>
         if jb_HarnessID j \<noteq> hn_ID h then State_Monad.return (nack NackForbidden [])
         else if Terminal (jb_State j) \<and> jb_State j \<noteq> JobLost then State_Monad.return ack_ok
         else do {
           t \<leftarrow> store_call (\<lambda>d. TransitionJob d (e_now E) jobID (JobLost # ActiveStates) (result_state r) (result_patch r));
           case t of
             Inl e \<Rightarrow> State_Monad.return (nack ''store'' (e_errText E e))
           | Inr j \<Rightarrow> do {
               postResult E j h r;
               audit E (hn_ID h) ''job.finished'' jobID
                 [(''status'', DStr (jr_Status r)), (''turns'', DInt (us_Turns (jr_Usage r))),
                  (''cost_usd'', DRat (us_CostUSD (jr_Usage r)))];
               State_Monad.return ack_ok
             }
         }
   }"

definition OnDisconnect :: "env \<Rightarrow> Harness \<Rightarrow> unit io" where
  "OnDisconnect E h = do {
     r \<leftarrow> store_read (\<lambda>d. ListJobs d (any_job\<lparr>jf_HarnessID := hn_ID h,
            jf_States := [JobRunning, JobAwaitingApproval, JobDispatched]\<rparr>));
     for_each (\<lambda>j. edit E j (antenna @ '' '' @ quoted (hn_Name h) @ '' disconnected. Waiting up to ''
                 @ Duration_String (cf_GracePeriod (e_cfg E)) @ '' for it to come back.'')) (slice r)
   }"

definition core_handler :: "env \<Rightarrow> handler" where
  "core_handler E =
     \<lparr>h_OnHello = OnHello E, h_OnProgress = OnProgress E, h_OnResult = OnResult E,
      h_OnApprovalRequest = OnApprovalRequest E, h_OnAck = OnAck E, h_OnDisconnect = OnDisconnect E\<rparr>"

section \<open>Approvals by callback\<close>

text \<open>The context values of a click are the empty string when they are missing or no strings.\<close>

record CallbackRequest =
  cb_UserId :: string
  cb_UserName :: string
  cb_PostId :: string
  cb_Approval :: string
  cb_Decision :: string
  cb_Sig :: string

datatype callback_response = Ephemeral string | UpdateTo string string

definition decision_message :: "env \<Rightarrow> CallbackRequest \<Rightarrow> Job \<Rightarrow> string \<Rightarrow> Envelope" where
  "decision_message E req j ulid = New ulid (e_now E) TypeApprovalResponse (jb_ID j)
     (PApprovalResponse \<lparr>ap_ApprovalID = cb_Approval req, ap_Decision = cb_Decision req,
                         ap_DecidedBy = cb_UserName req, ap_DecidedAt = ms (e_now E)\<rparr>)"

text \<open>From the response to the harness on: the job runs again when nothing is pending any more.\<close>

definition after_decision :: "env \<Rightarrow> CallbackRequest \<Rightarrow> Job \<Rightarrow> Approval \<Rightarrow> callback_response io" where
  "after_decision E req j a = do {
     pending \<leftarrow> store_read (\<lambda>d. PendingApprovalsByJob d (jb_ID j));
     (if slice pending = [] then do {
        t \<leftarrow> store_call (\<lambda>d. TransitionJob d (e_now E) (jb_ID j) [JobAwaitingApproval] JobRunning no_patch);
        if is_ok t then edit E j (play_sign @ '' Running'' @ ellipsis) else State_Monad.return ()
      } else State_Monad.return ());
     audit E (cb_UserId req) ''approval.decided'' (jb_ID j)
       [(''approval'', DStr (cb_Approval req)), (''decision'', DStr (cb_Decision req)), (''tool'', DStr (av_Tool a))];
     State_Monad.return (UpdateTo (cb_PostId req)
       ((if cb_Decision req = DecisionDeny then no_entry @ '' Denied'' else check_mark @ '' Allowed'')
          @ '' by @'' @ cb_UserName req @ '': **'' @ av_Tool a @ ''** '' @ quoted (truncate_text (av_Summary a) 200)))
   }"

definition record_decision :: "env \<Rightarrow> CallbackRequest \<Rightarrow> Job \<Rightarrow> callback_response io" where
  "record_decision E req j = do {
     d \<leftarrow> store_call (\<lambda>d. DecideApproval d (cb_Approval req) (cb_Decision req) (cb_UserId req) (e_now E));
     case d of
       Inl e \<Rightarrow> State_Monad.return (Ephemeral
         (if e = ErrConflict then ''Already decided or expired.'' else ''Could not record the decision.''))
     | Inr a \<Rightarrow> do {
         u \<leftarrow> draw (e_ulid E);
         SendReliable E (jb_HarnessID j) (decision_message E req j u);
         after_decision E req j a
       }
   }"

definition HandleCallback :: "env \<Rightarrow> CallbackRequest \<Rightarrow> callback_response io" where
  "HandleCallback E req =
     (if cb_Approval req = [] \<or> (cb_Decision req \<noteq> DecisionAllow \<and> cb_Decision req \<noteq> DecisionDeny)
      then State_Monad.return (Ephemeral ''Malformed approval action.'')
      else do {
        ra \<leftarrow> store_read (\<lambda>d. ApprovalByID d (cb_Approval req));
        case ra of
          Inl _ \<Rightarrow> State_Monad.return (Ephemeral ''This approval no longer exists.'')
        | Inr a \<Rightarrow>
            if cb_Sig req \<noteq> sign (e_mac E (cf_CallbackSecret (e_cfg E))) (cb_Approval req) (cb_Decision req) (av_Nonce a)
            then do {
              audit E (cb_UserId req) ''approval.bad_signature'' (av_JobID a) [(''approval'', DStr (cb_Approval req))];
              State_Monad.return (Ephemeral ''Invalid approval signature.'')
            }
            else do {
              rj \<leftarrow> store_read (\<lambda>d. JobByID d (av_JobID a));
              case rj of
                Inl _ \<Rightarrow> State_Monad.return (Ephemeral ''The job for this approval is gone.'')
              | Inr j \<Rightarrow>
                  if cb_UserId req \<noteq> jb_MMUserID j then do {
                    audit E (cb_UserId req) ''approval.forbidden'' (jb_ID j) [(''approval'', DStr (cb_Approval req))];
                    State_Monad.return (Ephemeral ''Only the job owner can decide this.'')
                  }
                  else if Terminal (jb_State j)
                  then State_Monad.return (Ephemeral (''The job already finished ('' @ job_state_string (jb_State j) @ '').''))
                  else record_decision E req j
            }
      })"

section \<open>Pairing\<close>

record PairRequest =
  pq_Code :: string
  pq_Name :: string
  pq_Hostname :: string
  pq_Version :: string

record PairResponse =
  ps_HarnessID :: string
  ps_Token :: string
  ps_MMUserID :: string
  ps_Username :: string

datatype pair_err = ErrBadPairingCode | PairStore store_err

definition pair_name :: "PairRequest \<Rightarrow> string" where
  "pair_name req =
     (let name = TrimSpace (pq_Name req) in
      if name \<noteq> [] then name else if pq_Hostname req \<noteq> [] then pq_Hostname req else ''harness'')"

definition HandlePair :: "env \<Rightarrow> PairRequest \<Rightarrow> (pair_err + PairResponse) io" where
  "HandlePair E req = do {
     r \<leftarrow> store_call (\<lambda>d. ConsumePairing d (hashCode (e_sha E) (e_upper E) (pq_Code req)) (e_now E));
     case r of
       Inl e \<Rightarrow> State_Monad.return (Inl (if e = ErrNotFound then ErrBadPairingCode else PairStore e))
     | Inr userID \<Rightarrow> do {
         token \<leftarrow> draw (\<lambda>n. ''hrt_'' @ randomToken (e_random E n 32));
         hid \<leftarrow> draw (\<lambda>n. NewID (e_ulid E n) ''hrn'');
         c \<leftarrow> store_call (\<lambda>d. CreateHarness d
                \<lparr>hn_ID = hid, hn_MMUserID = userID, hn_Name = pair_name req, hn_TokenHash = tokenHash (e_sha E) token,
                 hn_Version = pq_Version req, hn_CreatedAt = e_now E, hn_LastSeenAt = None\<rparr>);
         case c of
           Inl e \<Rightarrow> State_Monad.return (Inl (PairStore e))
         | Inr _ \<Rightarrow> do {
             u \<leftarrow> GetUser E (e_mm E) userID;
             username \<leftarrow> (case u of
                 None \<Rightarrow> State_Monad.return []
               | Some u \<Rightarrow> do {
                   ch \<leftarrow> DirectChannel E (e_mm E) (cf_BotUserID (e_cfg E)) userID;
                   (case ch of
                      None \<Rightarrow> State_Monad.return ()
                    | Some ch \<Rightarrow> do {
                        CreatePost E (e_mm E) ch [] (''Paired harness '' @ quoted (pair_name req) @ '' ('' @ hid
                          @ ''). Mention @'' @ cf_BotUsername (e_cfg E) @ '' in any channel to use it.'') [] [];
                        State_Monad.return ()
                      });
                   State_Monad.return (ur_Username u)
                 });
             audit E userID ''harness.paired'' [] [(''harness'', DStr hid), (''name'', DStr (pair_name req))];
             State_Monad.return (Inr \<lparr>ps_HarnessID = hid, ps_Token = token, ps_MMUserID = userID, ps_Username = username\<rparr>)
           }
       }
   }"

section \<open>Sweeper\<close>

definition sweep_job :: "env \<Rightarrow> Job \<Rightarrow> unit io" where
  "sweep_job E j = do {
     online \<leftarrow> Online (jb_HarnessID j);
     if online then
       (if cf_JobTimeout (e_cfg E) + minute < e_now E - jb_CreatedAt j \<and> jb_State j \<noteq> JobAwaitingApproval
        then do { cancelJob E j ''timeout''; State_Monad.return () }
        else State_Monad.return ())
     else do {
       rh \<leftarrow> store_read (\<lambda>d. HarnessByID d (jb_HarnessID j));
       case rh of
         Inl _ \<Rightarrow> State_Monad.return ()
       | Inr h \<Rightarrow>
           if cf_GracePeriod (e_cfg E) < e_now E - (case hn_LastSeenAt h of None \<Rightarrow> hn_CreatedAt h | Some t \<Rightarrow> t)
           then do {
             t \<leftarrow> store_call (\<lambda>d. TransitionJob d (e_now E) (jb_ID j) ActiveStates JobLost (no_patch\<lparr>pt_Error :=
                    Some (''lost: harness offline for more than '' @ Duration_String (cf_GracePeriod (e_cfg E)))\<rparr>));
             if is_ok t
             then finalEdit E j (antenna @ '' Lost contact with '' @ quoted (hn_Name h)
                    @ ''. If it comes back and finishes, the result still lands here.'')
             else State_Monad.return ()
           }
           else State_Monad.return ()
     }
   }"

definition Sweep :: "env \<Rightarrow> unit io" where
  "Sweep E = do {
     store_call (\<lambda>d. PurgeOutbox d (e_now E - cf_OutboxRetention (e_cfg E)));
     expired \<leftarrow> store_call (\<lambda>d. ExpireQueuedJobs d (e_now E));
     for_each (\<lambda>j. finalEdit E j (sleep_sign @ '' Expired: the harness did not come online within ''
                 @ Duration_String (cf_QueueTTL (e_cfg E)) @ ''.'')) (slice expired);
     jobs \<leftarrow> store_read (\<lambda>d. ListJobs d (any_job\<lparr>
               jf_States := [JobDispatched, JobRunning, JobAwaitingApproval], jf_Limit := 1000\<rparr>));
     for_each (sweep_job E) (slice jobs)
   }"

end
