(* ===== verification/Onboarding.thy ===== *)
theory Onboarding
  imports Core
begin

text \<open>
  \<^verbatim>\<open>internal/broker/core/onboarding.go\<close>: the device flow that pairs a machine, the slash command
  that claims it, and the creation of a bot with its memberships and webhooks through the
  team's installation. The installation belongs to the environment: it answers every request
  from the requests sent so far. The texts of errors are part of the model, they are the
  answers the user sees.
\<close>

section \<open>Installations\<close>

record Channel =
  cn_TeamId :: string
  cn_Type :: string

record installation =
  p_installed :: "string \<Rightarrow> bool"
  p_GetChannel :: "mm_call list \<Rightarrow> string \<Rightarrow> string \<Rightarrow> Channel option"
  p_GetUser :: "mm_call list \<Rightarrow> string \<Rightarrow> string \<Rightarrow> User option"
  p_account :: "mm_call list \<Rightarrow> string option"
  p_token :: "mm_call list \<Rightarrow> string option"
  p_done :: "mm_call list \<Rightarrow> bool"
  p_incoming :: "mm_call list \<Rightarrow> bool \<times> (string \<times> string) option"
  p_outgoing :: "mm_call list \<Rightarrow> bool \<times> (string \<times> string) option"

definition prov_send :: "string \<Rightarrow> prov_op \<Rightarrow> (mm_call list \<Rightarrow> 'a) \<Rightarrow> 'a io" where
  "prov_send team op f = State (\<lambda>s. let l = bk_posts s @ [MMProvision team op] in (f l, s\<lparr>bk_posts := l\<rparr>))"

definition prov_read :: "(mm_call list \<Rightarrow> 'a) \<Rightarrow> 'a io" where
  "prov_read f = reads (\<lambda>s. f (bk_posts s))"

definition ErrInitDisabled :: string where
  "ErrInitDisabled = ''onboarding is unavailable; ask an administrator to install the Mattermost integration''"

definition ErrInitUnknown :: string where
  "ErrInitUnknown = ''unknown or expired init code''"

definition installed :: "env \<Rightarrow> installation \<Rightarrow> string \<Rightarrow> bool" where
  "installed E P team \<longleftrightarrow> e_admin E \<and> team \<noteq> [] \<and> p_installed P team"

section \<open>Bot names\<close>

definition maxBotNameLength :: nat where
  "maxBotNameLength = 22"

definition name_start :: "char \<Rightarrow> bool" where
  "name_start c \<longleftrightarrow> 97 \<le> byte c \<and> byte c \<le> 122"

definition name_rest :: "char \<Rightarrow> bool" where
  "name_rest c \<longleftrightarrow> name_start c \<or> (48 \<le> byte c \<and> byte c \<le> 57) \<or> c \<in> {CHR ''.'', CHR ''_'', CHR ''-''}"

text \<open>The expression \<^verbatim>\<open>^[a-z][a-z0-9._-]{2,21}$\<close>.\<close>

definition botUsername_ok :: "string \<Rightarrow> bool" where
  "botUsername_ok s \<longleftrightarrow>
     (case s of [] \<Rightarrow> False | c # cs \<Rightarrow> name_start c \<and> list_all name_rest cs \<and> 2 \<le> length cs \<and> length cs \<le> 21)"

definition defaultBotName :: "(rune \<Rightarrow> rune) \<Rightarrow> string \<Rightarrow> string" where
  "defaultBotName lower username =
     TrimRight (take maxBotNameLength (''harness-'' @ ToLower lower username)) ''._-''"

text \<open>The name of a bot whose owner asked for none: \<open>suffix\<close> is a random token of three bytes.\<close>

definition generatedBotName :: "(rune \<Rightarrow> rune) \<Rightarrow> string \<Rightarrow> string \<Rightarrow> string" where
  "generatedBotName lower username suffix =
     TrimRight (take (maxBotNameLength - 7) (defaultBotName lower username)) ''._-'' @ ''-'' @ suffix"

definition bot_name_rule :: string where
  "bot_name_rule = ''bot name must be 3-22 lowercase letters, digits, . _ or -, starting with a letter''"

section \<open>Device flow\<close>

record InitStart =
  is_Code :: string
  is_PollToken :: string
  is_ExpiresAt :: time
  is_Command :: string

record InitResult =
  ir_HarnessID :: string
  ir_Token :: string
  ir_MMUserID :: string
  ir_Username :: string
  ir_BotUsername :: string

definition InitCodeTTL :: duration where
  "InitCodeTTL = 10 * minute"

definition init_request :: "env \<Rightarrow> string \<Rightarrow> string \<Rightarrow> string \<Rightarrow> string \<Rightarrow> InitRequest" where
  "init_request E code pollToken botName harnessName =
     \<lparr>in_CodeHash = hashCode (e_sha E) (e_upper E) code, in_BotName = botName, in_HarnessName = harnessName,
      in_CreatedAt = e_now E, in_ExpiresAt = e_now E + InitCodeTTL, in_ClaimedAt = None, in_HarnessID = [],
      in_HarnessToken = [], in_FetchedAt = None, in_BotUserID = [], in_PollTokenHash = tokenHash (e_sha E) pollToken\<rparr>"

definition StartInit :: "env \<Rightarrow> string \<Rightarrow> string \<Rightarrow> (string + InitStart) io" where
  "StartInit E botName0 harnessName =
     (if \<not> e_admin E then State_Monad.return (Inl ErrInitDisabled)
      else
        let botName = ToLower (e_lower E) (TrimSpace botName0) in
        if botName \<noteq> [] \<and> \<not> botUsername_ok botName then State_Monad.return (Inl bot_name_rule)
        else do {
          code \<leftarrow> draw (\<lambda>n. randomCode (e_random E n 8));
          pollToken \<leftarrow> draw (\<lambda>n. randomToken (e_random E n 32));
          r \<leftarrow> store_call (\<lambda>d. CreateInit d (init_request E code pollToken botName harnessName));
          State_Monad.return (case r of
              Inl e \<Rightarrow> Inl (e_errText E e)
            | Inr _ \<Rightarrow> Inr \<lparr>is_Code = code, is_PollToken = pollToken, is_ExpiresAt = e_now E + InitCodeTTL,
                             is_Command = ''/harness init '' @ code\<rparr>)
        })"

datatype poll_err = InitUnknown | InitPending | InitConsumed | PollStore store_err

text \<open>The names that decorate the answer: missing ones stay empty.\<close>

definition init_result :: "env \<Rightarrow> installation \<Rightarrow> InitRequest \<Rightarrow> Harness \<Rightarrow> InitResult io" where
  "init_result E P r h = do {
     b \<leftarrow> store_read (\<lambda>d. BotByUserID d (in_BotUserID r));
     case b of
       Inl _ \<Rightarrow> State_Monad.return \<lparr>ir_HarnessID = hn_ID h, ir_Token = in_HarnessToken r, ir_MMUserID = hn_MMUserID h,
                                    ir_Username = [], ir_BotUsername = []\<rparr>
     | Inr b \<Rightarrow> do {
         user \<leftarrow> (if installed E P (bt_TeamID b)
                  then prov_read (\<lambda>l. p_GetUser P l (bt_TeamID b) (hn_MMUserID h))
                  else State_Monad.return None);
         State_Monad.return \<lparr>ir_HarnessID = hn_ID h, ir_Token = in_HarnessToken r, ir_MMUserID = hn_MMUserID h,
                             ir_Username = (case user of None \<Rightarrow> [] | Some u \<Rightarrow> ur_Username u),
                             ir_BotUsername = bt_Username b\<rparr>
       }
   }"

definition PollInit :: "env \<Rightarrow> installation \<Rightarrow> string \<Rightarrow> string \<Rightarrow> (poll_err + InitResult) io" where
  "PollInit E P code pollToken = do {
     let hash = hashCode (e_sha E) (e_upper E) code;
     req \<leftarrow> store_read (\<lambda>d. InitByCode d hash);
     case req of
       Inl e \<Rightarrow> State_Monad.return (Inl (if e = ErrNotFound then InitUnknown else PollStore e))
     | Inr req \<Rightarrow>
         if pollToken = [] \<or> in_PollTokenHash req = [] \<or> tokenHash (e_sha E) pollToken \<noteq> in_PollTokenHash req
         then State_Monad.return (Inl InitUnknown)
         else do {
           r \<leftarrow> store_call (\<lambda>d. FetchInit d hash (e_now E));
           case r of
             Inl e \<Rightarrow> State_Monad.return (Inl (if e = ErrNotFound then InitUnknown
                                               else if e = ErrConflict then InitConsumed else PollStore e))
           | Inr r \<Rightarrow>
               if \<not> Claimed r then State_Monad.return (Inl InitPending)
               else do {
                 h \<leftarrow> store_read (\<lambda>d. HarnessByID d (in_HarnessID r));
                 case h of
                   Inl e \<Rightarrow> State_Monad.return (Inl (PollStore e))
                 | Inr h \<Rightarrow> do { res \<leftarrow> init_result E P r h; State_Monad.return (Inr res) }
               }
         }
   }"

section \<open>Bots\<close>

record CommandRequest =
  cr_UserID :: string
  cr_ChannelID :: string
  cr_TeamID :: string
  cr_Text :: string

definition rollbackBot :: "installation \<Rightarrow> string \<Rightarrow> Bot \<Rightarrow> unit io" where
  "rollbackBot P team b = do {
     (if bt_OutgoingHookID b \<noteq> [] then prov_send team (DeleteOutgoingWebhook (bt_OutgoingHookID b)) (\<lambda>_. ())
      else State_Monad.return ());
     (if bt_IncomingHookID b \<noteq> [] then prov_send team (DeleteIncomingWebhook (bt_IncomingHookID b)) (\<lambda>_. ())
      else State_Monad.return ());
     (if bt_UserID b \<noteq> [] then do {
        prov_send team (DisableBot (bt_UserID b)) (\<lambda>_. ());
        store_call (\<lambda>d. DeleteBot d (bt_UserID b));
        State_Monad.return ()
      } else State_Monad.return ())
   }"

definition abort :: "installation \<Rightarrow> string \<Rightarrow> Bot \<Rightarrow> string \<Rightarrow> (string + Bot) io" where
  "abort P team b msg = do { rollbackBot P team b; State_Monad.return (Inl msg) }"

definition in_team_channel :: "CommandRequest \<Rightarrow> Channel \<Rightarrow> bool" where
  "in_team_channel args ch \<longleftrightarrow> cn_TeamId ch = cr_TeamID args \<and> (cn_Type ch = ''O'' \<or> cn_Type ch = ''P'')"

text \<open>From the webhooks on: both must be there, the incoming one must belong to the bot.\<close>

definition attach_hooks :: "env \<Rightarrow> installation \<Rightarrow> CommandRequest \<Rightarrow> Bot \<Rightarrow> (string + Bot) io" where
  "attach_hooks E P args b = do {
     let team = cr_TeamID args;
     inc \<leftarrow> prov_send team (CreateIncomingWebhook (bt_UserID b) (cr_ChannelID args)) (p_incoming P);
     let b1 = b\<lparr>bt_IncomingHookID := (case snd inc of None \<Rightarrow> [] | Some (i, _) \<Rightarrow> i)\<rparr>;
     if fst inc \<or> bt_IncomingHookID b1 = [] \<or> map_option snd (snd inc) \<noteq> Some (bt_UserID b)
     then abort P team b1 ''could not create incoming webhook owned by the bot; check installation permissions''
     else do {
       out \<leftarrow> prov_send team (CreateOutgoingWebhook (bt_Username b)
                (TrimRight (cf_PublicURL (e_cfg E)) ''/'' @ ''/webhooks/mattermost/'' @ bt_UserID b)) (p_outgoing P);
       let b2 = b1\<lparr>bt_OutgoingHookID := (case snd out of None \<Rightarrow> [] | Some (i, _) \<Rightarrow> i),
                   bt_OutgoingToken := (case snd out of None \<Rightarrow> [] | Some (_, t) \<Rightarrow> t)\<rparr>;
       if fst out \<or> bt_OutgoingHookID b2 = [] \<or> bt_OutgoingToken b2 = []
       then abort P team b2 ''could not create outgoing webhook''
       else do {
         r \<leftarrow> store_call (\<lambda>d. CreateBot d b2);
         case r of
           Inl _ \<Rightarrow> abort P team b2 ''could not save bot configuration''
         | Inr _ \<Rightarrow> State_Monad.return (Inr b2)
       }
     }
   }"

text \<open>From the account on: every failure undoes what was created before it.\<close>

definition equip_bot :: "env \<Rightarrow> installation \<Rightarrow> CommandRequest \<Rightarrow> Bot \<Rightarrow> (string + Bot) io" where
  "equip_bot E P args b0 = do {
     let team = cr_TeamID args;
     tok \<leftarrow> prov_send team (CreateBotToken (bt_UserID b0)) (p_token P);
     let b = b0\<lparr>bt_Token := (case tok of None \<Rightarrow> [] | Some t \<Rightarrow> t)\<rparr>;
     if bt_Token b = [] then abort P team b ''could not create bot access token''
     else do {
       ok \<leftarrow> prov_send team (AddTeamMember (bt_UserID b)) (p_done P);
       if \<not> ok then abort P team b ''could not add bot to this team''
       else do {
         ok \<leftarrow> prov_send team (AddChannelMember (cr_ChannelID args) (bt_UserID b)) (p_done P);
         if \<not> ok then abort P team b ''could not add bot to this channel'' else attach_hooks E P args b
       }
     }
   }"

definition new_bot :: "env \<Rightarrow> CommandRequest \<Rightarrow> string \<Rightarrow> string \<Rightarrow> string \<Rightarrow> Bot" where
  "new_bot E args account username harnessID =
     \<lparr>bt_UserID = account, bt_MMUserID = cr_UserID args, bt_Username = username, bt_Token = [],
      bt_CreatedAt = e_now E, bt_HarnessID = harnessID, bt_TeamID = cr_TeamID args,
      bt_ChannelID = cr_ChannelID args, bt_IncomingHookID = [], bt_OutgoingHookID = [], bt_OutgoingToken = []\<rparr>"

definition create_account :: "env \<Rightarrow> installation \<Rightarrow> CommandRequest \<Rightarrow> string \<Rightarrow> string \<Rightarrow> string \<Rightarrow> (string + Bot) io" where
  "create_account E P args owner username harnessID =
     (if \<not> botUsername_ok username then State_Monad.return (Inl bot_name_rule)
      else do {
        taken \<leftarrow> store_read (\<lambda>d. BotByUsername d username);
        case taken of
          Inr _ \<Rightarrow> State_Monad.return (Inl ''that bot name is already taken; choose another name'')
        | Inl e \<Rightarrow>
            if e \<noteq> ErrNotFound then State_Monad.return (Inl ''could not check bot name'')
            else do {
              account \<leftarrow> prov_send (cr_TeamID args) (CreateBotAccount username (owner @ [CHR 0x27] @ ''s harness'')
                  (''Runs coding-agent jobs for '' @ owner @ '' through the mhb broker'')) (p_account P);
              case account of
                None \<Rightarrow> State_Monad.return
                  (Inl ''could not create bot; check installation permissions and choose an unused bot name'')
              | Some account \<Rightarrow>
                  if account = [] then State_Monad.return
                    (Inl ''could not create bot; check installation permissions and choose an unused bot name'')
                  else equip_bot E P args (new_bot E args account username harnessID)
            }
      })"

definition provisionBot :: "env \<Rightarrow> installation \<Rightarrow> CommandRequest \<Rightarrow> string \<Rightarrow> string \<Rightarrow> (string + Bot) io" where
  "provisionBot E P args requested harnessID =
     (if cr_UserID args = [] then State_Monad.return (Inl ''missing command owner'')
      else do {
        channel \<leftarrow> prov_read (\<lambda>l. p_GetChannel P l (cr_TeamID args) (cr_ChannelID args));
        case channel of
          None \<Rightarrow> State_Monad.return (Inl ''could not read this channel'')
        | Some ch \<Rightarrow>
            if \<not> in_team_channel args ch
            then State_Monad.return (Inl ''create bots in a public or private team channel'')
            else do {
              owner \<leftarrow> prov_read (\<lambda>l. p_GetUser P l (cr_TeamID args) (cr_UserID args));
              case owner of
                None \<Rightarrow> State_Monad.return (Inl ''could not look up your Mattermost account'')
              | Some owner \<Rightarrow> do {
                  let name = ToLower (e_lower E) (TrimSpace requested);
                  username \<leftarrow> (if name \<noteq> [] then State_Monad.return name
                    else draw (\<lambda>n. generatedBotName (e_lower E) (ur_Username owner) (randomToken (e_random E n 3))));
                  create_account E P args (ur_Username owner) username harnessID
                }
            }
      })"

section \<open>Commands\<close>

definition claim_harness :: "env \<Rightarrow> CommandRequest \<Rightarrow> InitRequest \<Rightarrow> string \<Rightarrow> string \<Rightarrow> Harness" where
  "claim_harness E args req harnessID token =
     \<lparr>hn_ID = harnessID, hn_MMUserID = cr_UserID args,
      hn_Name = (let name = TrimSpace (in_HarnessName req) in if name = [] then ''harness'' else name),
      hn_TokenHash = tokenHash (e_sha E) token, hn_Version = [], hn_CreatedAt = e_now E, hn_LastSeenAt = None\<rparr>"

definition complete_claim :: "env \<Rightarrow> installation \<Rightarrow> CommandRequest \<Rightarrow> string \<Rightarrow> InitRequest \<Rightarrow> Bot \<Rightarrow> (string + string) io" where
  "complete_claim E P args code req b = do {
     token \<leftarrow> draw (\<lambda>n. ''hrt_'' @ randomToken (e_random E n 32));
     hid \<leftarrow> draw (\<lambda>n. NewID (e_ulid E n) ''hrn'');
     let h = claim_harness E args req hid token;
     r \<leftarrow> store_call (\<lambda>d. CompleteInit d (hashCode (e_sha E) (e_upper E) code) (e_now E) h (bt_UserID b) token);
     case r of
       Inl _ \<Rightarrow> do {
         rollbackBot P (cr_TeamID args) b;
         State_Monad.return (Inl ''could not complete pairing; try again with a new bot name'')
       }
     | Inr _ \<Rightarrow> do {
         audit E (cr_UserID args) ''harness.init'' [] [(''harness'', DStr hid), (''bot'', DStr (bt_Username b))];
         State_Monad.return (Inr (''Paired '' @ quoted (hn_Name h) @ '' ('' @ quoted hid @ ''). Your bot @'' @ bt_Username b
           @ '' is ready in this channel. Mention it to run jobs on this machine. Use ''
           @ quoted (''/harness join '' @ bt_Username b) @ '' in another channel to add it there.''))
       }
   }"

definition claimInit :: "env \<Rightarrow> installation \<Rightarrow> CommandRequest \<Rightarrow> string \<Rightarrow> string \<Rightarrow> (string + string) io" where
  "claimInit E P args code requested = do {
     req \<leftarrow> store_read (\<lambda>d. InitByCode d (hashCode (e_sha E) (e_upper E) code));
     case req of
       Inl e \<Rightarrow> State_Monad.return (Inl (if e = ErrNotFound then ErrInitUnknown else ''could not read pairing request''))
     | Inr req \<Rightarrow>
         if in_ExpiresAt req \<le> e_now E then State_Monad.return (Inl ErrInitUnknown)
         else if Claimed req then State_Monad.return (Inl ''this code was already used'')
         else if \<not> installed E P (cr_TeamID args) then State_Monad.return (Inl ErrInitDisabled)
         else do {
           bot' \<leftarrow> provisionBot E P args (if requested = [] then in_BotName req else requested) [];
           case bot' of
             Inl e \<Rightarrow> State_Monad.return (Inl e)
           | Inr b \<Rightarrow> complete_claim E P args code req b
         }
   }"

definition createBoundBot :: "env \<Rightarrow> installation \<Rightarrow> CommandRequest \<Rightarrow> string \<Rightarrow> string \<Rightarrow> (string + string) io" where
  "createBoundBot E P args name harnessID = do {
     rh \<leftarrow> store_read (\<lambda>d. HarnessByID d harnessID);
     case rh of
       Inl _ \<Rightarrow> State_Monad.return (Inl (''harness not found among your paired machines; use '' @ quoted ''/harness status''))
     | Inr h \<Rightarrow>
         if hn_MMUserID h \<noteq> cr_UserID args
         then State_Monad.return (Inl (''harness not found among your paired machines; use '' @ quoted ''/harness status''))
         else if \<not> installed E P (cr_TeamID args) then State_Monad.return (Inl ErrInitDisabled)
         else do {
           bot' \<leftarrow> provisionBot E P args name (hn_ID h);
           case bot' of
             Inl e \<Rightarrow> State_Monad.return (Inl e)
           | Inr b \<Rightarrow> do {
               audit E (cr_UserID args) ''bot.created'' [] [(''harness'', DStr (hn_ID h)), (''bot'', DStr (bt_Username b))];
               State_Monad.return (Inr (''Created @'' @ bt_Username b @ '', bound to '' @ quoted (hn_Name h)
                 @ '' ('' @ quoted (hn_ID h) @ ''), in this channel.''))
             }
         }
   }"

definition joinChannel :: "env \<Rightarrow> installation \<Rightarrow> CommandRequest \<Rightarrow> string \<Rightarrow> (string + string) io" where
  "joinChannel E P args name = do {
     rb \<leftarrow> store_read (\<lambda>d. BotByUsername d (TrimPrefix (ToLower (e_lower E) name) ''@''));
     case rb of
       Inl _ \<Rightarrow> State_Monad.return (Inl (''bot not found among your bots; use '' @ quoted ''/harness status''))
     | Inr b \<Rightarrow>
         if bt_MMUserID b \<noteq> cr_UserID args
         then State_Monad.return (Inl (''bot not found among your bots; use '' @ quoted ''/harness status''))
         else if bt_TeamID b \<noteq> cr_TeamID args
         then State_Monad.return (Inl (''use a channel in the bot'' @ [CHR 0x27] @ ''s installed team''))
         else if \<not> installed E P (cr_TeamID args) then State_Monad.return (Inl ErrInitDisabled)
         else do {
           channel \<leftarrow> prov_read (\<lambda>l. p_GetChannel P l (cr_TeamID args) (cr_ChannelID args));
           case channel of
             None \<Rightarrow> State_Monad.return (Inl ''could not read this channel'')
           | Some ch \<Rightarrow>
               if \<not> in_team_channel args ch
               then State_Monad.return (Inl (''use '' @ quoted ''/harness join <bot-name>'' @ '' in a public or private team channel''))
               else do {
                 ok \<leftarrow> prov_send (cr_TeamID args) (AddChannelMember (cr_ChannelID args) (bt_UserID b)) (p_done P);
                 State_Monad.return (if \<not> ok then Inl ''could not add bot to this channel''
                   else Inr (''@'' @ bt_Username b @ '' is now in this channel.''))
               }
         }
   }"

definition status_line :: "bool \<Rightarrow> Bot list \<Rightarrow> Harness \<Rightarrow> string" where
  "status_line online bs h =
     ''- '' @ quoted (hn_Name h) @ '' ('' @ quoted (hn_ID h) @ ''): '' @ (if online then ''online'' else ''offline'')
       @ concat (map (\<lambda>b. dot_sep @ ''@'' @ bt_Username b) (filter (\<lambda>b. bt_HarnessID b = hn_ID h) bs)) @ nl"

definition onboardingStatusText :: "string \<Rightarrow> string io" where
  "onboardingStatusText userID = do {
     hs \<leftarrow> store_read (\<lambda>d. HarnessesByUser d userID);
     case hs of
       Inl _ \<Rightarrow> State_Monad.return ''Could not read your harnesses.''
     | Inr hs \<Rightarrow> do {
         bs \<leftarrow> store_read (\<lambda>d. BotsByOwner d userID);
         case bs of
           Inl _ \<Rightarrow> State_Monad.return ''Could not read your bots.''
         | Inr bs \<Rightarrow>
             if hs = [] then State_Monad.return
               (''No paired harness. Run '' @ quoted ''mhb harness init'' @ '' on your machine, then paste the command here.'')
             else reads (\<lambda>s. concat (map (\<lambda>h. status_line (is_online s (hn_ID h)) bs h) hs))
       }
   }"

definition commandHelp :: string where
  "commandHelp =
     ''Commands: '' @ quoted ''/harness init <code> [bot-name]'' @ '' pairs a machine and creates a bot; ''
     @ quoted ''/harness bot create <name> <harness-id>'' @ '' adds a bot; ''
     @ quoted ''/harness join <bot-name>'' @ '' brings it into this channel; ''
     @ quoted ''/harness status'' @ '' lists your bots and harnesses. Start pairing with ''
     @ quoted ''mhb harness init'' @ '' on your machine.''"

text \<open>The answer of a command is always ephemeral; only its text matters.\<close>

definition command_answer :: "(string + string) io \<Rightarrow> string io" where
  "command_answer m = do {
     r \<leftarrow> m;
     State_Monad.return (case r of Inl e \<Rightarrow> ''Command failed: '' @ e | Inr t \<Rightarrow> t)
   }"

definition HandleCommand :: "env \<Rightarrow> installation \<Rightarrow> CommandRequest \<Rightarrow> string io" where
  "HandleCommand E P args =
     (case Fields (cr_Text args) of
        [] \<Rightarrow> State_Monad.return commandHelp
      | cmd0 # rest \<Rightarrow>
          let cmd = ToLower (e_lower E) cmd0 in
          if cmd = ''init'' then
            (case rest of
               [] \<Rightarrow> State_Monad.return (''Run '' @ quoted (''mhb harness init --broker '' @ cf_PublicURL (e_cfg E))
                       @ '' on the machine that will run your coding agents. Then paste its ''
                       @ quoted ''/harness init <code>'' @ '' command here. Add a bot name with ''
                       @ quoted ''/harness init <code> <bot-name>'' @ ''.'')
             | [code] \<Rightarrow> command_answer (claimInit E P args code [])
             | [code, name] \<Rightarrow> command_answer (claimInit E P args code name)
             | _ \<Rightarrow> State_Monad.return (''Usage: '' @ quoted ''/harness init <code> [bot-name]'' @ ''.''))
          else if cmd = ''bot'' then
            (case rest of
               [sub, name, harnessID] \<Rightarrow>
                 if ToLower (e_lower E) sub \<noteq> ''create''
                 then State_Monad.return (''Usage: '' @ quoted ''/harness bot create <name> <harness-id>'' @ ''.'')
                 else command_answer (createBoundBot E P args name harnessID)
             | _ \<Rightarrow> State_Monad.return (''Usage: '' @ quoted ''/harness bot create <name> <harness-id>'' @ ''.''))
          else if cmd = ''join'' then
            (case rest of
               [name] \<Rightarrow> command_answer (joinChannel E P args name)
             | _ \<Rightarrow> State_Monad.return (''Usage: '' @ quoted ''/harness join <bot-name>'' @ ''.''))
          else if cmd = ''status'' then onboardingStatusText (cr_UserID args)
          else State_Monad.return commandHelp)"

section \<open>Lemmas\<close>

lemma run_prov_send [simp]:
  "run_state (prov_send team op f) s =
     (f (bk_posts s @ [MMProvision team op]), s\<lparr>bk_posts := bk_posts s @ [MMProvision team op]\<rparr>)"
  by (simp add: prov_send_def Let_def)

lemma run_prov_read [simp]: "run_state (prov_read f) s = (f (bk_posts s), s)"
  by (simp add: prov_read_def)

end
