(* ===== verification/Bot_Events.thy ===== *)
theory Bot_Events
  imports Onboarding "HOL-Library.AList"
begin

text \<open>
  How the posts meant for a user's bot reach the core: \<^verbatim>\<open>internal/broker/bots/manager.go\<close> keeps one
  event connection per bound bot, and \<^verbatim>\<open>internal/cli/webhook.go\<close> serves Mattermost's outgoing
  webhooks. The answers of Mattermost to the webhook's own questions belong to the environment.
\<close>

section \<open>Outgoing webhooks\<close>

record WebhookPayload =
  wp_Token :: string
  wp_PostID :: string
  wp_TeamID :: string
  wp_ChannelID :: string
  wp_UserID :: string

text \<open>
  A request: its media type, and what its body decodes to as JSON and as a form. The body is
  limited to 64 KiB; a longer one does not decode.
\<close>

record webhook_request =
  wr_ContentType :: string
  wr_json :: "WebhookPayload option"
  wr_form :: "WebhookPayload option"

text \<open>What Mattermost answers to the bot with this token: an error, nothing, or the object.\<close>

record webhook_api =
  wa_GetPost :: "mm_call list \<Rightarrow> string \<Rightarrow> string \<Rightarrow> unit + Post option"
  wa_GetChannel :: "mm_call list \<Rightarrow> string \<Rightarrow> string \<Rightarrow> unit + Channel option"

definition webhook_payload :: "webhook_request \<Rightarrow> int + WebhookPayload" where
  "webhook_payload r =
     (if wr_ContentType r = ''application/json''
      then (case wr_json r of None \<Rightarrow> Inl 400 | Some p \<Rightarrow> Inr p)
      else if wr_ContentType r = ''application/x-www-form-urlencoded''
      then (case wr_form r of None \<Rightarrow> Inl 400 | Some p \<Rightarrow> Inr p)
      else Inl 415)"

definition post_matches :: "Bot \<Rightarrow> WebhookPayload \<Rightarrow> Post \<Rightarrow> bool" where
  "post_matches b w p \<longleftrightarrow> po_Id p = wp_PostID w \<and> po_UserId p = bt_MMUserID b \<and> po_ChannelId p = wp_ChannelID w \<and>
     po_DeleteAt p = 0"

definition webhook_event :: "Post \<Rightarrow> Channel \<Rightarrow> PostedEvent" where
  "webhook_event p ch = \<lparr>ev_Post = Some p, ev_ChannelType = cn_Type ch, ev_Mentions = []\<rparr>"

text \<open>The status code of the answer. The post is the one the server has, not the one in the request.\<close>

definition webhook_post :: "env \<Rightarrow> webhook_api \<Rightarrow> Bot \<Rightarrow> WebhookPayload \<Rightarrow> int io" where
  "webhook_post E A b w = do {
     post \<leftarrow> reads (\<lambda>s. wa_GetPost A (bk_posts s) (bt_Token b) (wp_PostID w));
     case post of
       Inl _ \<Rightarrow> State_Monad.return 502
     | Inr None \<Rightarrow> State_Monad.return 403
     | Inr (Some p) \<Rightarrow>
         if \<not> post_matches b w p then State_Monad.return 403
         else do {
           channel \<leftarrow> reads (\<lambda>s. wa_GetChannel A (bk_posts s) (bt_Token b) (po_ChannelId p));
           case channel of
             Inl _ \<Rightarrow> State_Monad.return 502
           | Inr None \<Rightarrow> State_Monad.return 403
           | Inr (Some ch) \<Rightarrow>
               if cn_TeamId ch \<noteq> bt_TeamID b \<or> cn_Type ch \<noteq> ''O'' then State_Monad.return 403
               else do { HandleBotPost E (bt_UserID b) (webhook_event p ch); State_Monad.return 200 }
         }
   }"

definition outgoingHandler :: "env \<Rightarrow> webhook_api \<Rightarrow> string \<Rightarrow> webhook_request \<Rightarrow> int io" where
  "outgoingHandler E A botID r =
     (case webhook_payload r of
        Inl code \<Rightarrow> State_Monad.return code
      | Inr w \<Rightarrow> do {
          rb \<leftarrow> store_read (\<lambda>d. BotByUserID d botID);
          case rb of
            Inl _ \<Rightarrow> State_Monad.return 401
          | Inr b \<Rightarrow>
              if bt_HarnessID b = [] \<or> bt_OutgoingToken b = [] \<or> wp_Token w \<noteq> bt_OutgoingToken b
              then State_Monad.return 401
              else if wp_PostID w = [] \<or> wp_TeamID w \<noteq> bt_TeamID b \<or> wp_UserID w \<noteq> bt_MMUserID b
              then State_Monad.return 403
              else webhook_post E A b w
        })"

section \<open>Event connections\<close>

text \<open>
  \<open>mg_active\<close>: the connection of a bot and the token it was opened with. A connection is numbered
  when it is started; cancelling its context ends it, now or during its next reconnect.
\<close>

record manager =
  mg_active :: "(string \<times> string \<times> nat) list"
  mg_started :: "(nat \<times> string \<times> string) list"
  mg_cancelled :: "nat list"

definition wanted :: "Bot \<Rightarrow> bool" where
  "wanted b \<longleftrightarrow> bt_HarnessID b \<noteq> [] \<and> bt_Token b \<noteq> []"

definition start_connection :: "Bot \<Rightarrow> manager \<Rightarrow> manager" where
  "start_connection b m =
     (let c = length (mg_started m) in
      m\<lparr>mg_active := AList.update (bt_UserID b) (bt_Token b, c) (mg_active m),
        mg_started := mg_started m @ [(c, bt_UserID b, bt_Token b)]\<rparr>)"

definition cancel_connection :: "nat \<Rightarrow> manager \<Rightarrow> manager" where
  "cancel_connection c m = m\<lparr>mg_cancelled := c # mg_cancelled m\<rparr>"

definition ensure_connection :: "Bot \<Rightarrow> manager \<Rightarrow> manager" where
  "ensure_connection b m =
     (case map_of (mg_active m) (bt_UserID b) of
        Some (token, c) \<Rightarrow>
          if token = bt_Token b then m else start_connection b (cancel_connection c m)
      | None \<Rightarrow> start_connection b m)"

definition drop_removed :: "string list \<Rightarrow> manager \<Rightarrow> manager" where
  "drop_removed desired m =
     m\<lparr>mg_cancelled := map (snd \<circ> snd) (filter (\<lambda>(i, _). i \<notin> set desired) (mg_active m)) @ mg_cancelled m,
       mg_active := filter (\<lambda>(i, _). i \<in> set desired) (mg_active m)\<rparr>"

text \<open>One round of the loop of \<^verbatim>\<open>Run\<close>, and its end.\<close>

definition reconcile :: "Bot list res \<Rightarrow> manager \<Rightarrow> manager" where
  "reconcile listed m =
     (case listed of
        Inl _ \<Rightarrow> m
      | Inr bs \<Rightarrow> drop_removed (map bt_UserID (filter wanted bs)) (fold ensure_connection (filter wanted bs) m))"

definition stop_all :: "manager \<Rightarrow> manager" where
  "stop_all m = m\<lparr>mg_cancelled := map (snd \<circ> snd) (mg_active m) @ mg_cancelled m\<rparr>"

definition empty_manager :: manager where
  "empty_manager = \<lparr>mg_active = [], mg_started = [], mg_cancelled = []\<rparr>"

section \<open>Webhooks are authentic\<close>

text \<open>
  C21. A webhook cannot invent a post: a request either is refused and changes nothing, or it carries
  the token of a bound bot, and the event it causes is a post that the server has under this id, by
  the owner of the bot, not deleted, in an open channel of the bot's team. The bot is then told
  exactly as if the post had come from its own event connection.
\<close>

theorem webhook_authentic:
  assumes "run_state (outgoingHandler E A botID r) s = (code, s')"
  shows "code \<in> {400, 401, 403, 415, 502} \<and> s' = s \<or>
    (\<exists>b w p ch. code = 200 \<and> webhook_payload r = Inr w \<and> BotByUserID (bk_db s) botID = Inr b \<and>
       bt_HarnessID b \<noteq> [] \<and> wp_Token w \<noteq> [] \<and> wp_Token w = bt_OutgoingToken b \<and>
       wa_GetPost A (bk_posts s) (bt_Token b) (wp_PostID w) = Inr (Some p) \<and> po_Id p = wp_PostID w \<and>
       po_UserId p = bt_MMUserID b \<and> po_DeleteAt p = 0 \<and>
       wa_GetChannel A (bk_posts s) (bt_Token b) (po_ChannelId p) = Inr (Some ch) \<and>
       cn_TeamId ch = bt_TeamID b \<and> cn_Type ch = ''O'' \<and>
       s' = snd (run_state (HandleBotPost E (bt_UserID b) \<lparr>ev_Post = Some p, ev_ChannelType = ''O'', ev_Mentions = []\<rparr>) s))"
  using assms
  by (auto simp: outgoingHandler_def webhook_payload_def webhook_post_def post_matches_def webhook_event_def case_prod_unfold
      split: if_splits sum.splits option.splits)

section \<open>Connections follow the bots\<close>

definition manager_ok :: "manager \<Rightarrow> bool" where
  "manager_ok m \<longleftrightarrow> distinct (map fst (mg_active m)) \<and> map fst (mg_started m) = [0..<length (mg_started m)] \<and>
     set (mg_cancelled m) \<subseteq> fst ` set (mg_started m) \<and>
     (\<forall>u t c. map_of (mg_active m) u = Some (t, c) \<longleftrightarrow> (c, u, t) \<in> set (mg_started m) \<and> c \<notin> set (mg_cancelled m))"

text \<open>The event connections that are open: one for this bot with this token.\<close>

definition live :: "manager \<Rightarrow> (nat \<times> string \<times> string) set" where
  "live m = {(c, u, t) \<in> set (mg_started m). c \<notin> set (mg_cancelled m)}"

lemma started_unique:
  "manager_ok m \<Longrightarrow> (c, x) \<in> set (mg_started m) \<Longrightarrow> (c, y) \<in> set (mg_started m) \<Longrightarrow> x = y"
  unfolding manager_ok_def by (metis distinct_upt eq_key_imp_eq_value)

lemma started_less: "manager_ok m \<Longrightarrow> (c, x) \<in> set (mg_started m) \<Longrightarrow> c < length (mg_started m)"
proof -
  assume "manager_ok m" "(c, x) \<in> set (mg_started m)"
  then have "c \<in> set (map fst (mg_started m))" "map fst (mg_started m) = [0..<length (mg_started m)]"
    by (force, simp add: manager_ok_def)
  then show ?thesis by (metis atLeastLessThan_upt ord_class.atLeastLessThan_iff)
qed

lemma live_active: "manager_ok m \<Longrightarrow> (c, u, t) \<in> live m \<longleftrightarrow> map_of (mg_active m) u = Some (t, c)"
  by (simp add: live_def manager_ok_def)

lemma ensure_ok:
  assumes "manager_ok m"
  shows "manager_ok (ensure_connection b m)"
    and "map_of (mg_active (ensure_connection b m)) = (if map_option fst (map_of (mg_active m) (bt_UserID b)) = Some (bt_Token b)
       then map_of (mg_active m) else (map_of (mg_active m))(bt_UserID b \<mapsto> (bt_Token b, length (mg_started m))))"
proof -
  let ?u = "bt_UserID b" and ?n = "length (mg_started m)"
  show "map_of (mg_active (ensure_connection b m)) = (if map_option fst (map_of (mg_active m) ?u) = Some (bt_Token b)
       then map_of (mg_active m) else (map_of (mg_active m))(?u \<mapsto> (bt_Token b, ?n)))"
    by (auto simp: ensure_connection_def start_connection_def cancel_connection_def Let_def update_conv' split: option.split)
  have iff: "map_of (mg_active m) u = Some (t, c) \<longleftrightarrow> (c, u, t) \<in> set (mg_started m) \<and> c \<notin> set (mg_cancelled m)" for u t c
    using assms by (simp add: manager_ok_def)
  have ok: "distinct (map fst (mg_active m))" "map fst (mg_started m) = [0..<length (mg_started m)]"
      "set (mg_cancelled m) \<subseteq> fst ` set (mg_started m)"
    using assms by (simp_all add: manager_ok_def)
  have new: "manager_ok (m\<lparr>mg_cancelled := cs @ mg_cancelled m, mg_active := AList.update ?u (bt_Token b, ?n) (mg_active m),
      mg_started := mg_started m @ [(?n, ?u, bt_Token b)]\<rparr>)"
    if cs: "set cs = snd ` set_option (map_of (mg_active m) ?u)" for cs
  proof -
    have old: "c \<in> set cs" if "(c, ?u, t) \<in> set (mg_started m)" "c \<notin> set (mg_cancelled m)" for c t
      using iff [of ?u t c] that cs by simp
    have sub: "\<exists>t. (c, ?u, t) \<in> set (mg_started m)" if c: "c \<in> set cs" for c
    proof -
      obtain t where "map_of (mg_active m) ?u = Some (t, c)" using c cs by auto
      then show ?thesis using iff by blast
    qed
    have other: "c \<notin> set cs" if "(c, u, t) \<in> set (mg_started m)" "u \<noteq> ?u" for c u t
      using sub started_unique [OF assms that(1)] that(2) by blast
    have less: "c \<noteq> ?n" if "(c, x) \<in> set (mg_started m)" for c x
      using started_less [OF assms that] by simp
    have "?n \<notin> fst ` set (mg_started m)" using less by force
    then have fresh: "?n \<notin> set (mg_cancelled m)" "?n \<notin> set cs"
      using sub [of ?n] ok(3) by force+
    have "map_of (AList.update ?u (bt_Token b, ?n) (mg_active m)) u = Some (t, c) \<longleftrightarrow>
      (c, u, t) \<in> set (mg_started m @ [(?n, ?u, bt_Token b)]) \<and> c \<notin> set (cs @ mg_cancelled m)" for u t c
      using old [of c t] other [of c u t] fresh iff [of u t c] less [of c "(u, t)"]
      by (cases "u = ?u"; cases "c = ?n") (auto simp: update_conv')
    moreover have "map fst (mg_started m @ [(?n, ?u, bt_Token b)]) = [0..<length (mg_started m @ [(?n, ?u, bt_Token b)])]"
      using ok(2) by simp
    moreover have "set (cs @ mg_cancelled m) \<subseteq> fst ` set (mg_started m @ [(?n, ?u, bt_Token b)])"
      using sub ok(3) by force
    ultimately show ?thesis using ok(1) by (simp add: manager_ok_def distinct_update)
  qed
  show "manager_ok (ensure_connection b m)"
  proof (cases "map_of (mg_active m) ?u")
    case None
    then show ?thesis using new [of "[]"] by (simp add: ensure_connection_def start_connection_def Let_def)
  next
    case (Some tc)
    then show ?thesis using assms new [of "[snd tc]"]
      by (cases tc) (simp add: ensure_connection_def start_connection_def cancel_connection_def Let_def)
  qed
qed

lemma ensure_all_ok: "manager_ok m \<Longrightarrow> manager_ok (fold ensure_connection bs m)"
  by (induction bs arbitrary: m) (simp_all add: ensure_ok(1))

text \<open>A connection is left alone by the other bots, and by its own when the token is the same.\<close>

lemma ensure_all_kept:
  assumes "manager_ok m" "\<And>b. b \<in> set bs \<Longrightarrow> bt_UserID b = u \<Longrightarrow> map_option fst (map_of (mg_active m) u) = Some (bt_Token b)"
  shows "map_of (mg_active (fold ensure_connection bs m)) u = map_of (mg_active m) u"
  using assms
proof (induction bs arbitrary: m)
  case (Cons x bs)
  have same: "map_of (mg_active (ensure_connection x m)) u = map_of (mg_active m) u"
    using Cons.prems(2) [of x] ensure_ok(2) [OF Cons.prems(1), of x] by auto
  then show ?case using Cons.IH [OF ensure_ok(1) [OF Cons.prems(1)]] Cons.prems(2) by simp
qed simp

lemma ensure_all_opened:
  assumes "manager_ok m" "distinct (map bt_UserID bs)" "b \<in> set bs"
  shows "map_option fst (map_of (mg_active (fold ensure_connection bs m)) (bt_UserID b)) = Some (bt_Token b)"
  using assms
proof (induction bs arbitrary: m)
  case (Cons x bs)
  let ?m = "ensure_connection x m"
  have ok: "manager_ok ?m" using ensure_ok(1) Cons.prems(1) .
  show ?case
  proof (cases "b = x")
    case True
    then have "map_of (mg_active (fold ensure_connection bs ?m)) (bt_UserID b) = map_of (mg_active ?m) (bt_UserID b)"
      using Cons.prems(2) by (intro ensure_all_kept [OF ok]) (auto simp: rev_image_eqI)
    then show ?thesis using True ensure_ok(2) [OF Cons.prems(1), of x] by simp
  next
    case False
    then show ?thesis using Cons.IH [OF ok] Cons.prems by simp
  qed
qed simp

lemma map_of_filter_fst: "map_of (filter (\<lambda>(i, _). i \<in> A) al) u = (if u \<in> A then map_of al u else None)"
  by (induction al) auto

lemma drop_removed_active:
  "map_of (mg_active (drop_removed ids m)) u = (if u \<in> set ids then map_of (mg_active m) u else None)"
  by (simp add: drop_removed_def map_of_filter_fst)

lemma drop_removed_ok:
  assumes "manager_ok m"
  shows "manager_ok (drop_removed ids m)"
proof -
  have iff: "map_of (mg_active m) u = Some (t, c) \<longleftrightarrow> (c, u, t) \<in> set (mg_started m) \<and> c \<notin> set (mg_cancelled m)" for u t c
    using assms by (simp add: manager_ok_def)
  have dist: "distinct (map fst (mg_active m))" using assms by (simp add: manager_ok_def)
  let ?gone = "map (snd \<circ> snd) (filter (\<lambda>(i, _). i \<notin> set ids) (mg_active m))"
  have gone: "c \<in> set ?gone \<longleftrightarrow> (\<exists>u t. u \<notin> set ids \<and> map_of (mg_active m) u = Some (t, c))" for c
    using dist by (force simp: map_of_eq_Some_iff)
  have "map_of (mg_active (drop_removed ids m)) u = Some (t, c) \<longleftrightarrow>
      (c, u, t) \<in> set (mg_started m) \<and> c \<notin> set (?gone @ mg_cancelled m)" for u t c
  proof -
    have "c \<notin> set ?gone" if "(c, u, t) \<in> set (mg_started m)" "u \<in> set ids"
      using that gone [of c] iff started_unique [OF assms that(1)] by blast
    then show ?thesis using iff [of u t c] gone [of c] by (auto simp: drop_removed_active)
  qed
  moreover have "set ?gone \<subseteq> fst ` set (mg_started m)" using gone iff by force
  ultimately show ?thesis
    using assms dist unfolding manager_ok_def by (simp add: drop_removed_def distinct_map_filter)
qed

lemma reconcile_ok: "manager_ok m \<Longrightarrow> manager_ok (reconcile l m)"
  by (simp add: reconcile_def drop_removed_ok ensure_all_ok split: sum.split)

lemma reconcile_opened:
  assumes "manager_ok m" "distinct (map bt_UserID bs)"
  shows "map_option fst (map_of (mg_active (reconcile (Inr bs) m)) u) = Some t \<longleftrightarrow>
    (\<exists>b \<in> set bs. wanted b \<and> bt_UserID b = u \<and> bt_Token b = t)"
proof -
  have "distinct (map bt_UserID (filter wanted bs))" using assms(2) by (simp add: distinct_map_filter)
  note opened = ensure_all_opened [OF assms(1) this]
  show ?thesis using opened by (force simp: reconcile_def drop_removed_active split: if_splits)
qed

lemma reconcile_kept:
  assumes "manager_ok m" "map_of (mg_active m) u = Some (t, c)" "map_option fst (map_of (mg_active (reconcile (Inr bs) m)) u) = Some t"
    and "distinct (map bt_UserID bs)"
  shows "map_of (mg_active (reconcile (Inr bs) m)) u = Some (t, c)"
proof -
  obtain b where b: "b \<in> set bs" "wanted b" "bt_UserID b = u" "bt_Token b = t"
    using assms(3) reconcile_opened [OF assms(1,4)] by blast
  have "inj_on bt_UserID (set bs)" using assms(4) by (simp add: distinct_map)
  then have same: "b' = b" if "b' \<in> set bs" "bt_UserID b' = u" for b'
    using that b(1,3) by (auto dest: inj_onD)
  have "map_of (mg_active (fold ensure_connection (filter wanted bs) m)) u = map_of (mg_active m) u"
  proof (rule ensure_all_kept [OF assms(1)])
    fix b' assume "b' \<in> set (filter wanted bs)" "bt_UserID b' = u"
    then have "b' = b" using same by simp
    then show "map_option fst (map_of (mg_active m) u) = Some (bt_Token b')" using b(4) assms(2) by simp
  qed
  then show ?thesis using b assms(2) by (auto simp: reconcile_def drop_removed_active)
qed

lemma manager_reached_ok: "manager_ok (fold reconcile ls empty_manager)"
proof -
  have "manager_ok empty_manager" by (simp add: manager_ok_def empty_manager_def)
  moreover have "manager_ok m \<Longrightarrow> manager_ok (fold reconcile ls m)" for m
    by (induction ls arbitrary: m) (simp_all add: reconcile_ok)
  ultimately show ?thesis by blast
qed

lemma ListBots_distinct: "db_ok d \<Longrightarrow> ListBots d = Inr bs \<Longrightarrow> distinct (map bt_UserID bs) \<and> set bs = set (bots d)"
proof -
  assume "db_ok d" "ListBots d = Inr bs"
  then have "bs = sort_key (\<lambda>b. ms (bt_CreatedAt b)) (bots d)" "distinct (map bt_UserID (bots d))"
    by (auto simp: ListBots_def db_ok_def keys_unique_def split: if_splits)
  then show ?thesis by (simp add: distinct_map)
qed

text \<open>
  C23. The event connections follow the table of bots: after any number of rounds, whatever the rounds
  before saw and however many of them failed to read the table, a round that reads it leaves
  exactly one open connection for every bot that is bound to a harness and has a token, opened
  with its current token, and none for any other; a bot whose token did not change keeps the
  connection it had. When the manager stops, all are closed.
\<close>

theorem connections_follow_bots:
  assumes "m = fold reconcile history empty_manager" "db_ok d" "ListBots d = Inr bs" "m' = reconcile (ListBots d) m"
  shows "(\<lambda>(_, u, t). (u, t)) ` live m' = {(bt_UserID b, bt_Token b) | b. b \<in> set (bots d) \<and> bt_HarnessID b \<noteq> [] \<and> bt_Token b \<noteq> []} \<and>
    (\<forall>c c' u t t'. (c, u, t) \<in> live m' \<longrightarrow> (c', u, t') \<in> live m' \<longrightarrow> c = c') \<and>
    (\<forall>c c' u t. (c, u, t) \<in> live m \<longrightarrow> (c', u, t) \<in> live m' \<longrightarrow> c' = c) \<and> live (stop_all m') = {}"
proof -
  have ok: "manager_ok m" "manager_ok m'" using assms(1,4) manager_reached_ok reconcile_ok by auto
  have dist: "distinct (map bt_UserID bs)" "set bs = set (bots d)" using ListBots_distinct [OF assms(2,3)] by auto
  have live': "(c, u, t) \<in> live m' \<longleftrightarrow> map_of (mg_active m') u = Some (t, c)" for c u t by (rule live_active [OF ok(2)])
  have "(u, t) \<in> (\<lambda>(_, u, t). (u, t)) ` live m' \<longleftrightarrow> (\<exists>c. (c, u, t) \<in> live m')" for u t
    by force
  then have "(u, t) \<in> (\<lambda>(_, u, t). (u, t)) ` live m' \<longleftrightarrow> map_option fst (map_of (mg_active m') u) = Some t" for u t
    unfolding live' by (cases "map_of (mg_active m') u") auto
  moreover have "map_option fst (map_of (mg_active m') u) = Some t \<longleftrightarrow>
      (\<exists>b \<in> set (bots d). wanted b \<and> bt_UserID b = u \<and> bt_Token b = t)" for u t
    using reconcile_opened [OF ok(1) dist(1)] dist(2) assms(3,4) by simp
  ultimately have "(\<lambda>(_, u, t). (u, t)) ` live m' = {(bt_UserID b, bt_Token b) | b. b \<in> set (bots d) \<and> bt_HarnessID b \<noteq> [] \<and> bt_Token b \<noteq> []}"
    by (auto simp: wanted_def set_eq_iff)
  moreover have "c' = c" if "(c, u, t) \<in> live m" "(c', u, t) \<in> live m'" for c c' u t
    using that live_active [OF ok(1)] live' reconcile_kept [OF ok(1) _ _ dist(1)] assms(3,4) by fastforce
  moreover have "live (stop_all m') = {}"
  proof -
    have "c \<in> snd ` snd ` set (mg_active m')" if "(c, u, t) \<in> live m'" for c u t
      using that live' map_of_SomeD by (force simp: image_iff)
    then show ?thesis by (force simp: live_def stop_all_def image_comp)
  qed
  ultimately show ?thesis using live' by auto
qed

end
