(* ===== verification/Core_Calls.thy ===== *)
theory Core_Calls
  imports Bot_Events
begin

text \<open>
  Reasoning about whole handlers from their calls. The broker as a transition system: every entry
  point of the program is a step, and so are the failures of its environment (a statement of the
  database, a connection). The locale \<open>broker_relation\<close> collects what a relation on databases has
  to satisfy for the single store calls of the core, and derives it for every handler and every
  run; the invariants of the broker are interpretations of it.
\<close>

section \<open>The lifecycle\<close>

text \<open>
  The states a job in state \<^term>\<open>s\<close> can be in later: the reflexive and transitive closure of the
  transitions the handlers make. A lost job can still receive its result.
\<close>

fun legal :: "JobState \<Rightarrow> JobState \<Rightarrow> bool" where
  "legal JobQueued t = True"
| "legal JobDispatched t = (t \<noteq> JobQueued \<and> t \<noteq> JobExpired)"
| "legal JobRunning t = (t \<notin> {JobQueued, JobDispatched, JobExpired})"
| "legal JobAwaitingApproval t = (t \<notin> {JobQueued, JobDispatched, JobExpired})"
| "legal JobLost t = (t \<in> {JobLost, JobSucceeded, JobFailed, JobCancelled})"
| "legal s t = (s = t)"

lemma legal_refl [simp]: "legal s s"
  by (cases s) simp_all

lemma legal_trans: "legal s t \<Longrightarrow> legal t u \<Longrightarrow> legal s u"
  by (cases s; cases t; cases u) simp_all

lemma legal_active: "legal s t \<Longrightarrow> \<not> Terminal t \<Longrightarrow> \<not> Terminal s"
  by (cases s; cases t) simp_all

lemma legal_from_active: "\<forall>s \<in> set ActiveStates. legal s t" if "t \<in> {JobFailed, JobLost, JobSucceeded, JobCancelled}"
  using that by (auto simp: ActiveStates_def)

lemma result_state_legal:
  "\<forall>s \<in> set (JobLost # ActiveStates). legal s (result_state r)" "result_state r \<noteq> JobQueued"
  by (auto simp: result_state_def ActiveStates_def)

lemma core_handler_simps [simp]:
  "h_OnHello (core_handler E) = OnHello E" "h_OnProgress (core_handler E) = OnProgress E"
  "h_OnResult (core_handler E) = OnResult E"
  "h_OnApprovalRequest (core_handler E) = OnApprovalRequest E"
  "h_OnAck (core_handler E) = OnAck E" "h_OnDisconnect (core_handler E) = OnDisconnect E"
  by (simp_all add: core_handler_def)

section \<open>Steps\<close>

inductive broker_step :: "broker \<Rightarrow> broker \<Rightarrow> bool" where
  BotPost: "broker_step s (snd (run_state (HandleBotPost E b ev) s))"
| SharedPost: "broker_step s (snd (run_state (HandlePost E ev) s))"
| Webhook: "broker_step s (snd (run_state (outgoingHandler E A botID whr) s))"
| Callback: "broker_step s (snd (run_state (HandleCallback E req) s))"
| Pair: "broker_step s (snd (run_state (HandlePair E preq) s))"
| InitStarted: "broker_step s (snd (run_state (StartInit E botName harnessName) s))"
| InitPolled: "broker_step s (snd (run_state (PollInit E P code token) s))"
| Command: "broker_step s (snd (run_state (HandleCommand E P args) s))"
| Swept: "broker_step s (snd (run_state (Sweep E) s))"
| EditTimer: "broker_step s (snd (run_state (fire_edit E i) s))"
| HelloFrom: "broker_step s (snd (run_state (serve_hello E (core_handler E) h c first) s))"
| MessageFrom: "broker_step s (snd (run_state (handle E (core_handler E) h c env) s))"
| Disconnected: "broker_step s (snd (run_state (serve_end (core_handler E) h c) s))"
| DatabaseFault: "broker_step s (s\<lparr>bk_db := (bk_db s)\<lparr>sqlFault := f\<rparr>\<rparr>)"
| ConnectionFault: "broker_step s (s\<lparr>bk_broken := g\<rparr>)"

inductive_cases broker_stepE: "broker_step s s'"

section \<open>Relations between the states of the broker\<close>

text \<open>
  What a relation has to satisfy for the single calls of the core, so that it can be proved of every
  handler: it holds when neither the database nor the frames change, for every well-typed frame that
  is sent, for a stored message that is sent again, and for every store call but the creation of a job.
\<close>

definition outbox_frame :: "env \<Rightarrow> OutboxMessage \<Rightarrow> Envelope" where
  "outbox_frame E m = \<lparr>en_ID = ob_ID m, en_Type = ob_Type m, en_JobID = ob_JobID m, en_Ref = [],
     en_TS = ms (e_now E), en_Payload = ob_Payload m\<rparr>"

locale handler_relation = step_relation R for R :: "broker \<Rightarrow> broker \<Rightarrow> bool" +
  assumes r_quiet: "bk_db s' = bk_db s \<Longrightarrow> bk_frames s' = bk_frames s \<Longrightarrow> R s s'"
    and r_send: "typed env \<Longrightarrow> R s (s\<lparr>bk_frames := bk_frames s @ [(cn, env)]\<rparr>)"
    and r_resend: "m \<in> set (outbox (bk_db s)) \<Longrightarrow> R s (s\<lparr>bk_frames := bk_frames s @ [(cn, outbox_frame E m)]\<rparr>)"
    and r_fault: "R s (s\<lparr>bk_db := (bk_db s)\<lparr>sqlFault := f\<rparr>\<rparr>)"
    and k_Enqueue: "payload_type (ob_Payload m) = Some (ob_Type m) \<Longrightarrow> keeps R (store_call (\<lambda>d. Enqueue d m))"
    and k_AppendAudit: "keeps R (store_call (\<lambda>d. AppendAudit d t e))"
    and k_AckOutbox: "keeps R (store_call (\<lambda>d. AckOutbox d i t))"
    and k_PurgeOutbox: "keeps R (store_call (\<lambda>d. PurgeOutbox d t))"
    and k_TouchHarness: "keeps R (store_call (\<lambda>d. TouchHarness d i t v))"
    and k_CreateApproval: "keeps R (store_call (\<lambda>d. CreateApproval d a))"
    and k_DecideApproval: "keeps R (store_call (\<lambda>d. DecideApproval d i dec who t))"
    and k_CreatePairing: "keeps R (store_call (\<lambda>d. CreatePairing d c who t))"
    and k_ConsumePairing: "keeps R (store_call (\<lambda>d. ConsumePairing d c t))"
    and k_CreateHarness: "keeps R (store_call (\<lambda>d. CreateHarness d h))"
    and k_RecordProgress: "keeps R (store_call (\<lambda>d. RecordProgress d t i n))"
    and k_ExpireQueuedJobs: "keeps R (store_call (\<lambda>d. ExpireQueuedJobs d t))"
    and k_CreateInit: "keeps R (store_call (\<lambda>d. CreateInit d r))"
    and k_FetchInit: "keeps R (store_call (\<lambda>d. FetchInit d c t))"
    and k_CompleteInit: "keeps R (store_call (\<lambda>d. CompleteInit d c t h i tok))"
    and k_CreateBot: "keeps R (store_call (\<lambda>d. CreateBot d b))"
    and k_DeleteBot: "keeps R (store_call (\<lambda>d. DeleteBot d i))"
    and transition_keeps: "\<forall>s \<in> set from. legal s to \<Longrightarrow> pt_StatusPostID p = None \<Longrightarrow> to \<noteq> JobQueued \<Longrightarrow>
      keeps R (store_call (\<lambda>d. TransitionJob d t i from to p))"
begin

lemmas stores_keep [life_intro] = k_AppendAudit k_AckOutbox k_PurgeOutbox k_TouchHarness k_CreateApproval k_DecideApproval k_CreatePairing k_ConsumePairing k_CreateHarness k_RecordProgress k_ExpireQueuedJobs k_CreateInit k_FetchInit k_CompleteInit k_CreateBot k_DeleteBot

lemma quiet_keeps:
  "(\<And>s. bk_db (snd (run_state m s)) = bk_db s) \<Longrightarrow> (\<And>s. bk_frames (snd (run_state m s)) = bk_frames s) \<Longrightarrow> keeps R m"
  by (intro keepsI r_quiet)

lemma modify_keeps: "(\<And>s. bk_db (f s) = bk_db s) \<Longrightarrow> (\<And>s. bk_frames (f s) = bk_frames s) \<Longrightarrow> keeps R (modify f)"
  by (intro quiet_keeps) simp_all

lemma effects_keep [life_intro]:
  "keeps R (draw f)"
  "keeps R (conn_close n code)"
  "keeps R (store_read r)"
  "keeps R (Online i)"
  by (intro quiet_keeps; simp)+

lemma conn_send_keeps [life_intro]: "typed env \<Longrightarrow> keeps R (conn_send n env)"
  by (intro keepsI) (simp add: r_send rel_refl)

lemma Send_keeps [life_intro]: "typed env \<Longrightarrow> keeps R (Send i env)"
  unfolding Send_def by (intro body_keeps conn_send_keeps)

lemma mattermost_keeps [life_intro]:
  "keeps R (CreatePost E a ch r m fs ats)"
  "keeps R (UpdatePost E a i m)"
  "keeps R (UploadFile E a ch n data)"
  "keeps R (GetUser E a i)"
  "keeps R (GetThread E a i)"
  "keeps R (GetFileInfo E a i)"
  "keeps R (DownloadFile E a i)"
  "keeps R (DirectChannel E a i u)"
  by (intro quiet_keeps; simp add: mm_defs mm_read_defs)+

lemma provision_keeps [life_intro]:
  "keeps R (prov_send team op f)" "keeps R (prov_read g)"
  by (intro quiet_keeps; simp)+

lemmas keeps_steps = body_keeps modify_keeps transition_keeps

lemma SendReliable_keeps [life_intro]: "typed env \<Longrightarrow> keeps R (SendReliable E i env)"
  unfolding SendReliable_def by (intro keeps_steps life_intro k_Enqueue) (simp_all add: typed_def outbox_row_def)

lemma api_for_keeps [life_intro]: "keeps R (api_for E i)"
  unfolding api_for_def by (intro keeps_steps life_intro)

lemma replyAs_keeps [life_intro]: "keeps R (replyAs E i p m)"
  unfolding replyAs_def by (intro keeps_steps life_intro)

lemma reply_keeps [life_intro]: "keeps R (reply E p m)"
  unfolding reply_def by (intro life_intro)

lemma audit_keeps [life_intro]: "keeps R (audit E a b c d)"
  unfolding audit_def by (intro keeps_steps life_intro)

lemma edit_keeps [life_intro]: "keeps R (edit E j t)"
  unfolding edit_def by (intro keeps_steps; simp)

lemma finalEdit_keeps [life_intro]: "keeps R (finalEdit E j t)"
  unfolding finalEdit_def by (intro keeps_steps life_intro; simp)

lemma fire_edit_keeps [life_intro]: "keeps R (fire_edit E i)"
  unfolding fire_edit_def by (intro keeps_steps life_intro; simp)

lemma fail_keeps [life_intro]: "keeps R (fail_job E j r)"
  unfolding fail_job_def
  by (intro keeps_steps life_intro; simp add: legal_from_active no_patch_def)

lemma cancelJob_keeps [life_intro]: "keeps R (cancelJob E j r)"
  unfolding cancelJob_def by (intro keeps_steps life_intro; simp add: no_patch_def)

lemma handleCancel_keeps [life_intro]: "keeps R (handleCancel E p m)"
  unfolding handleCancel_def by (intro keeps_steps life_intro)

lemma pickHarness_keeps [life_intro]: "keeps R (pickHarness u)"
  unfolding pickHarness_def by (intro keeps_steps life_intro)

lemma harness_for_keeps [life_intro]: "keeps R (harness_for p m)"
  unfolding harness_for_def by (intro keeps_steps life_intro)

lemma history_loop_keeps [life_intro]: "keeps R (history_loop E a t b names ps)"
proof (induction ps arbitrary: names)
  case (Cons p ps)
  show ?case unfolding history_loop.simps by (intro keeps_steps life_intro Cons.IH)
qed (simp add: return_keeps)

lemma threadHistory_keeps [life_intro]: "keeps R (threadHistory E a t r b)"
  unfolding threadHistory_def by (intro keeps_steps life_intro)

lemma downloadAttachments_keeps [life_intro]: "keeps R (downloadAttachments E a p)"
  unfolding downloadAttachments_def by (intro keeps_steps life_intro)

lemma continues_thread_keeps [life_intro]: "keeps R (continues_thread E b p)"
  unfolding continues_thread_def by (intro keeps_steps life_intro)

end

section \<open>Onboarding\<close>

context handler_relation
begin

lemma StartInit_keeps [life_intro]: "keeps R (StartInit E b n)"
  unfolding StartInit_def Let_def by (intro keeps_steps life_intro)

lemma init_result_keeps [life_intro]: "keeps R (init_result E P r h)"
  unfolding init_result_def by (intro keeps_steps life_intro)

lemma PollInit_keeps [life_intro]: "keeps R (PollInit E P c t)"
  unfolding PollInit_def Let_def by (intro keeps_steps life_intro)

lemma rollbackBot_keeps [life_intro]: "keeps R (rollbackBot P t b)"
  unfolding rollbackBot_def by (intro keeps_steps life_intro)

lemma abort_keeps [life_intro]: "keeps R (abort P t b m)"
  unfolding abort_def by (intro keeps_steps life_intro)

lemma attach_hooks_keeps [life_intro]: "keeps R (attach_hooks E P args b)"
  unfolding attach_hooks_def Let_def by (intro keeps_steps life_intro)

lemma equip_bot_keeps [life_intro]: "keeps R (equip_bot E P args b)"
  unfolding equip_bot_def Let_def by (intro keeps_steps life_intro)

lemma create_account_keeps [life_intro]: "keeps R (create_account E P args o' u h)"
  unfolding create_account_def by (intro keeps_steps life_intro)

lemma provisionBot_keeps [life_intro]: "keeps R (provisionBot E P args n h)"
  unfolding provisionBot_def Let_def by (intro keeps_steps life_intro)

lemma complete_claim_keeps [life_intro]: "keeps R (complete_claim E P args c r b)"
  unfolding complete_claim_def Let_def by (intro keeps_steps life_intro)

lemma claimInit_keeps [life_intro]: "keeps R (claimInit E P args c n)"
  unfolding claimInit_def by (intro keeps_steps life_intro)

lemma createBoundBot_keeps [life_intro]: "keeps R (createBoundBot E P args n h)"
  unfolding createBoundBot_def by (intro keeps_steps life_intro)

lemma joinChannel_keeps [life_intro]: "keeps R (joinChannel E P args n)"
  unfolding joinChannel_def by (intro keeps_steps life_intro)

lemma onboardingStatusText_keeps [life_intro]: "keeps R (onboardingStatusText u)"
  unfolding onboardingStatusText_def by (intro keeps_steps life_intro)

lemma command_answer_keeps: "keeps R m \<Longrightarrow> keeps R (command_answer m)"
  unfolding command_answer_def by (intro keeps_steps)

lemma HandleCommand_keeps [life_intro]: "keeps R (HandleCommand E P args)"
  unfolding HandleCommand_def Let_def by (intro keeps_steps life_intro command_answer_keeps)

end

section \<open>Whole handlers\<close>

locale whole_relation = handler_relation +
  assumes createJob_keeps [life_intro]: "keeps R (createJob E p text target)"
begin

lemma newPairingCode_keeps [life_intro]: "keeps R (newPairingCode E u)"
  unfolding newPairingCode_def by (intro keeps_steps life_intro)

lemma statusText_keeps [life_intro]: "keeps R (statusText E u)"
  unfolding statusText_def by (intro keeps_steps life_intro)

lemma handleDM_keeps [life_intro]: "keeps R (handleDM E p)"
  unfolding handleDM_def Let_def by (intro keeps_steps life_intro)

lemma run_mention_keeps [life_intro]: "keeps R (run_mention E p m)"
  unfolding run_mention_def Let_def by (intro keeps_steps life_intro)

lemma bot_post_keeps [life_intro]: "keeps R (bot_post E i b ev p)"
  unfolding bot_post_def Let_def by (intro keeps_steps life_intro)

lemma HandleBotPost_keeps [life_intro]: "keeps R (HandleBotPost E b ev)"
  unfolding HandleBotPost_def by (intro keeps_steps life_intro)

lemma outgoingHandler_keeps [life_intro]: "keeps R (outgoingHandler E A i r)"
  unfolding outgoingHandler_def webhook_post_def by (intro keeps_steps life_intro)

lemma mentionedBot_keeps [life_intro]: "keeps R (mentionedBot E ev p)"
  unfolding mentionedBot_def Let_def by (intro keeps_steps life_intro)

lemma HandlePost_keeps [life_intro]: "keeps R (HandlePost E ev)"
  unfolding HandlePost_def by (intro keeps_steps life_intro)

lemma hello_job_keeps [life_intro]: "keeps R (hello_job E act hj)"
  unfolding hello_job_def by (intro keeps_steps life_intro; simp add: no_patch_def)

lemma unreported_job_keeps [life_intro]: "keeps R (unreported_job E j)"
  unfolding unreported_job_def by (intro keeps_steps life_intro; simp add: no_patch_def)

lemma OnHello_keeps [life_intro]: "keeps R (OnHello E h hello)"
  unfolding OnHello_def Let_def by (intro keeps_steps life_intro)

lemma OnAck_keeps [life_intro]: "keeps R (OnAck E h r i a)"
  unfolding OnAck_def by (intro keeps_steps life_intro; simp add: no_patch_def)

lemma OnProgress_keeps [life_intro]: "keeps R (OnProgress E h i p)"
  unfolding OnProgress_def by (intro keeps_steps life_intro)

lemma OnApprovalRequest_keeps [life_intro]: "keeps R (OnApprovalRequest E h i r)"
  unfolding OnApprovalRequest_def by (intro keeps_steps life_intro; simp add: no_patch_def)

lemma upload_result_file_keeps [life_intro]: "keeps R (upload_result_file E a j f)"
  unfolding upload_result_file_def by (intro keeps_steps life_intro)

lemma postResult_keeps [life_intro]: "keeps R (postResult E j h r)"
  unfolding postResult_def by (intro keeps_steps life_intro)

lemma OnResult_keeps [life_intro]: "keeps R (OnResult E h i r)"
  unfolding OnResult_def
  by (intro keeps_steps life_intro result_state_legal; simp add: result_patch_def no_patch_def)

lemma OnDisconnect_keeps [life_intro]: "keeps R (OnDisconnect E h)"
  unfolding OnDisconnect_def by (intro keeps_steps life_intro)

lemma after_decision_keeps [life_intro]: "keeps R (after_decision E req j a)"
  unfolding after_decision_def decision_message_def by (intro keeps_steps life_intro; simp add: no_patch_def)

lemma record_decision_keeps [life_intro]: "keeps R (record_decision E req j)"
  unfolding record_decision_def decision_message_def by (intro keeps_steps life_intro)

lemma HandleCallback_keeps [life_intro]: "keeps R (HandleCallback E req)"
  unfolding HandleCallback_def by (intro keeps_steps life_intro)

lemma HandlePair_keeps [life_intro]: "keeps R (HandlePair E req)"
  unfolding HandlePair_def by (intro keeps_steps life_intro)

lemma sweep_job_keeps [life_intro]: "keeps R (sweep_job E j)"
  unfolding sweep_job_def
  by (intro keeps_steps life_intro; simp add: legal_from_active no_patch_def)

lemma Sweep_keeps [life_intro]: "keeps R (Sweep E)"
  unfolding Sweep_def by (intro keeps_steps life_intro)

text \<open>A flush sends rows of the table, which it does not change.\<close>

lemma flush_rel: "set rows \<subseteq> set (outbox (bk_db s)) \<Longrightarrow> R s (snd (run_state (flush_messages E c rows) s))"
proof (induction rows arbitrary: s)
  case (Cons m rows)
  let ?s = "s\<lparr>bk_frames := bk_frames s @ [(c, outbox_frame E m)]\<rparr>"
  have "R s ?s" "R ?s (snd (run_state (flush_messages E c rows) ?s))"
    using Cons r_resend by simp_all
  then show ?case by (auto simp: outbox_frame_def rel_refl intro: rel_trans)
qed (simp add: rel_refl)

lemma flushOutbox_keeps [life_intro]: "keeps R (flushOutbox E h c)"
  by (intro keepsI) (auto simp: flushOutbox_def PendingOutbox_def outbox_pending_def rel_refl intro!: flush_rel split: sum.split)

lemma register_keeps [life_intro]: "keeps R (register_conn h c)"
  unfolding register_conn_def by (intro keeps_steps life_intro; simp)

lemma serve_end_keeps [life_intro]: "keeps R (serve_end (core_handler E) h c)"
  unfolding serve_end_def core_handler_simps by (intro keeps_steps life_intro; simp)

lemma reply_to_keeps [life_intro]: "payload_type p = Some t \<Longrightarrow> keeps R (reply_to E c t env p)"
  unfolding reply_to_def by (intro keeps_steps life_intro)

lemma serve_hello_keeps [life_intro]: "keeps R (serve_hello E (core_handler E) h c first)"
  unfolding serve_hello_def core_handler_simps by (intro keeps_steps life_intro)

lemma handle_keeps [life_intro]: "keeps R (handle E (core_handler E) h c env)"
  unfolding handle_def core_handler_simps by (intro keeps_steps life_intro)

lemma connection_rel: "R s (s\<lparr>bk_broken := g\<rparr>)"
  by (intro r_quiet) simp_all

lemma step_rel: "broker_step s s' \<Longrightarrow> R s s'"
  by (induction rule: broker_step.induct)
    (simp_all add: r_fault connection_rel keepsD [OF HandleBotPost_keeps] keepsD [OF HandlePost_keeps]
      keepsD [OF HandleCallback_keeps] keepsD [OF HandlePair_keeps] keepsD [OF Sweep_keeps]
      keepsD [OF fire_edit_keeps] keepsD [OF serve_hello_keeps] keepsD [OF handle_keeps]
      keepsD [OF serve_end_keeps] keepsD [OF StartInit_keeps] keepsD [OF PollInit_keeps]
      keepsD [OF HandleCommand_keeps] keepsD [OF outgoingHandler_keeps])

lemma steps_rel: "broker_step\<^sup>*\<^sup>* s s' \<Longrightarrow> R s s'"
  by (induction rule: rtranclp_induct) (auto intro: rel_refl rel_trans dest: step_rel)

end

section \<open>Relations between databases\<close>

definition lift_rel :: "(db \<Rightarrow> db \<Rightarrow> bool) \<Rightarrow> broker \<Rightarrow> broker \<Rightarrow> bool" where
  "lift_rel Q s s' \<longleftrightarrow> Q (bk_db s) (bk_db s')"

text \<open>The calls of the core other than the creation of a job.\<close>

locale db_relation = step_relation "lift_rel Q" for Q :: "db \<Rightarrow> db \<Rightarrow> bool" +
  assumes q_audit: "Q d (snd (AppendAudit d t e))"
    and q_enqueue: "Q d (snd (Enqueue d m))"
    and q_ack: "Q d (snd (AckOutbox d i t))"
    and q_purge: "Q d (snd (PurgeOutbox d t))"
    and q_touch: "Q d (snd (TouchHarness d i t v))"
    and q_approval: "Q d (snd (CreateApproval d a))"
    and q_decide: "Q d (snd (DecideApproval d i dec who t))"
    and q_pairing: "Q d (snd (CreatePairing d c who t))"
    and q_consume: "Q d (snd (ConsumePairing d c t))"
    and q_harness: "Q d (snd (CreateHarness d h))"
    and q_progress: "Q d (snd (RecordProgress d t i n))"
    and q_init: "Q d (snd (CreateInit d r))"
    and q_fetch: "Q d (snd (FetchInit d c t))"
    and q_complete: "Q d (snd (CompleteInit d c t h i tok))"
    and q_bot: "Q d (snd (CreateBot d b))"
    and q_unbot: "Q d (snd (DeleteBot d i))"
    and q_expire: "Q d (snd (ExpireQueuedJobs d t))"
    and q_transition: "\<forall>s \<in> set from. legal s to \<Longrightarrow> pt_StatusPostID p = None \<Longrightarrow> to \<noteq> JobQueued \<Longrightarrow>
      Q d (snd (TransitionJob d t i from to p))"
    and q_fault: "Q d (d\<lparr>sqlFault := f\<rparr>)"
begin

lemma q_refl: "Q d d"
  using rel_refl [of "s\<lparr>bk_db := d\<rparr>" for s] by (simp add: lift_rel_def)

lemma store_keeps: "(\<And>d. Q d (snd (f d))) \<Longrightarrow> keeps (lift_rel Q) (store_call f)"
  by (intro keepsI) (simp add: lift_rel_def)

end

sublocale db_relation \<subseteq> handler_relation "lift_rel Q"
proof
  show "bk_db s' = bk_db s \<Longrightarrow> lift_rel Q s s'" for s s' by (simp add: lift_rel_def q_refl)
qed (simp_all add: lift_rel_def q_refl q_fault,
    (intro store_keeps q_audit q_enqueue q_ack q_purge q_touch q_approval q_decide q_pairing q_consume q_harness
      q_progress q_expire q_init q_fetch q_complete q_bot q_unbot q_transition; assumption)+)

locale broker_relation = db_relation +
  assumes q_create: "keeps (lift_rel Q) (createJob E p text target)"

sublocale broker_relation \<subseteq> whole_relation "lift_rel Q"
  by unfold_locales (rule q_create)

end
