(* ===== verification/Core_Life.thy ===== *)
theory Core_Life
  imports Core_Calls
begin

text \<open>
  The lifecycle of jobs under the broker's handlers. Every handler changes the database only by
  store calls (so everything proved for sequences of store calls holds of the broker), moves a
  job only along the edges of its lifecycle, keeps its identity and its progress number, and
  keeps the two facts the sweeper relies on: a job is finished exactly when its state is
  terminal, and a queued job has a deadline.
\<close>

section \<open>Jobs over time\<close>

definition same_job :: "Job \<Rightarrow> Job \<Rightarrow> bool" where
  "same_job j k \<longleftrightarrow>
     jb_ID k = jb_ID j \<and> jb_HarnessID k = jb_HarnessID j \<and> jb_MMUserID k = jb_MMUserID j \<and>
     jb_ChannelID k = jb_ChannelID j \<and> jb_RootPostID k = jb_RootPostID j \<and>
     jb_TriggerPostID k = jb_TriggerPostID j \<and> jb_StatusPostID k = jb_StatusPostID j \<and>
     jb_BotUserID k = jb_BotUserID j \<and> jb_Workspace k = jb_Workspace j \<and>
     jb_Prompt k = jb_Prompt j \<and> jb_CreatedAt k = jb_CreatedAt j"

definition job_moves :: "Job \<Rightarrow> Job \<Rightarrow> bool" where
  "job_moves j k \<longleftrightarrow> same_job j k \<and> legal (jb_State j) (jb_State k) \<and> jb_LastSeq j \<le> jb_LastSeq k"

definition job_fine :: "Job \<Rightarrow> bool" where
  "job_fine j \<longleftrightarrow>
     (Terminal (jb_State j) \<longleftrightarrow> jb_FinishedAt j \<noteq> None) \<and>
     (jb_State j = JobQueued \<longrightarrow> jb_ExpiresAt j \<noteq> None)"

definition jobs_fine :: "db \<Rightarrow> bool" where
  "jobs_fine d \<longleftrightarrow> (\<forall>j \<in> set (jobs d). job_fine j)"

definition life :: "db \<Rightarrow> db \<Rightarrow> bool" where
  "life d d' \<longleftrightarrow>
     (\<forall>i j. job_map d i = Some j \<longrightarrow> (\<exists>k. job_map d' i = Some k \<and> job_moves j k)) \<and>
     (jobs_fine d \<longrightarrow> jobs_fine d')"

definition life_rel :: "db \<Rightarrow> db \<Rightarrow> bool" where
  "life_rel d d' \<longleftrightarrow> db_step\<^sup>*\<^sup>* d d' \<and> life d d'"

lemma job_moves_refl [simp]: "job_moves j j"
  by (simp add: job_moves_def same_job_def)

lemma job_moves_trans: "job_moves i j \<Longrightarrow> job_moves j k \<Longrightarrow> job_moves i k"
  by (auto simp: job_moves_def same_job_def intro: legal_trans)

lemma life_refl [simp]: "life d d"
  by (auto simp: life_def)

lemma life_trans: "life c d \<Longrightarrow> life d e \<Longrightarrow> life c e"
  unfolding life_def by (meson job_moves_trans)

section \<open>Store calls and the lifecycle\<close>

lemma life_same_jobs: "jobs d' = jobs d \<Longrightarrow> life d d'"
  by (simp add: life_def job_map_def jobs_fine_def)

lemma life_update_jobs:
  assumes "\<And>j. q j \<Longrightarrow> job_moves j (f j)" "\<And>j. q j \<Longrightarrow> job_fine j \<Longrightarrow> job_fine (f j)"
  shows "life d (d\<lparr>jobs := rows_update q f (jobs d)\<rparr>)"
proof -
  have "jb_ID (f j) = jb_ID j" if "q j" for j
    using assms(1) [OF that] by (simp add: job_moves_def same_job_def)
  then have "lookup_by jb_ID (rows_update q f (jobs d)) i =
      map_option (\<lambda>j. if q j then f j else j) (lookup_by jb_ID (jobs d) i)" for i
    by (rule lookup_by_rows_update)
  then show ?thesis
    using assms by (auto simp: life_def job_map_def jobs_fine_def dest!: rows_update_memD)
qed

lemma job_moves_patch:
  "legal (jb_State j) to \<Longrightarrow> pt_StatusPostID p = None \<Longrightarrow> job_moves j (patch_job t to p j)"
  by (simp add: job_moves_def same_job_def patch_job_def)

lemma job_fine_patch:
  assumes "legal (jb_State j) to" "to \<noteq> JobQueued" "job_fine j"
  shows "job_fine (patch_job t to p j)"
  using assms legal_active [OF assms(1)] by (auto simp: job_fine_def patch_job_def)

lemma life_TransitionJob:
  assumes "\<forall>s \<in> set from. legal s to" "pt_StatusPostID p = None" "to \<noteq> JobQueued"
  shows "life d (snd (TransitionJob d t i from to p))"
proof -
  let ?q = "\<lambda>j. jb_ID j = i \<and> jb_State j \<in> set from"
  have "life d (d\<lparr>jobs := rows_update ?q (patch_job t to p) (jobs d)\<rparr>)"
    using assms by (intro life_update_jobs) (auto intro: job_moves_patch job_fine_patch)
  then show ?thesis by (simp add: life_def job_map_def jobs_fine_def jobs_TransitionJob)
qed

lemma life_RecordProgress: "life d (snd (RecordProgress d t i n))"
proof -
  let ?q = "\<lambda>j. jb_ID j = i \<and> (jb_LastSeq j < n \<and> jb_State j \<in> {JobRunning, JobAwaitingApproval})"
  have "life d (d\<lparr>jobs := rows_update ?q
      (\<lambda>j. j\<lparr>jb_LastSeq := n, jb_UpdatedAt := stored_time t\<rparr>) (jobs d)\<rparr>)"
    by (rule life_update_jobs) (auto simp: job_moves_def same_job_def job_fine_def)
  then show ?thesis by (simp add: RecordProgress_def Let_def)
qed

lemma life_ExpireQueuedJobs: "life d (snd (ExpireQueuedJobs d t))"
proof -
  have "life d (d\<lparr>jobs := rows_update (queue_expired t) (expire_job t) (jobs d)\<rparr>)"
    by (rule life_update_jobs)
      (auto simp: job_moves_def same_job_def job_fine_def expire_job_def queue_expired_def)
  then show ?thesis by (simp add: ExpireQueuedJobs_def)
qed

lemma life_CreateJob:
  assumes "job_fine (stored_job j)"
  shows "life d (snd (CreateJob d j))"
proof (cases "snd (CreateJob d j) = d")
  case False
  then have *: "jobs (snd (CreateJob d j)) = jobs d @ [stored_job j]" "jb_ID j \<notin> jb_ID ` set (jobs d)"
    by (auto simp: CreateJob_def split: if_splits)
  then have "job_map (snd (CreateJob d j)) i = Some k" if "job_map d i = Some k" for i k
    using that by (simp add: job_map_def lookup_by_append)
  with * assms show ?thesis by (auto simp: life_def jobs_fine_def)
qed simp

lemma new_job_fine: "job_fine (stored_job (new_job E p m h online i post ws pr))"
  by (simp add: job_fine_def new_job_def stored_job_def)

lemma life_rel_single: "db_step d d' \<Longrightarrow> life d d' \<Longrightarrow> life_rel d d'"
  by (simp add: life_rel_def r_into_rtranclp)

lemma life_rel_trans: "life_rel c d \<Longrightarrow> life_rel d e \<Longrightarrow> life_rel c e"
  by (auto simp: life_rel_def intro: life_trans)

interpretation br: db_relation life_rel
proof
  show "lift_rel life_rel s s" for s by (simp add: lift_rel_def life_rel_def)
  show "lift_rel life_rel s u" if "lift_rel life_rel s t" "lift_rel life_rel t u" for s t u
    using that by (auto simp: lift_rel_def intro: life_rel_trans)
qed (intro life_rel_single db_step.intros life_RecordProgress life_ExpireQueuedJobs life_TransitionJob;
    simp add: life_same_jobs store_frame)+

lemma createJob_life: "keeps (lift_rel life_rel) (createJob E p text target)"
proof -
  have "keeps (lift_rel life_rel) (store_call (\<lambda>d. CreateJob d (new_job E p m h on i post ws pr)))"
    for m h on i post ws pr
    by (intro br.store_keeps life_rel_single db_step.CreateJob life_CreateJob new_job_fine)
  note create = this
  show ?thesis
    unfolding createJob_def createJob_on_def start_job_def Let_def by (intro br.keeps_steps life_intro create)
qed

interpretation br: broker_relation life_rel
  by unfold_locales (rule createJob_life)

section \<open>Runs\<close>

lemma broker_steps_store: "broker_step\<^sup>*\<^sup>* s s' \<Longrightarrow> db_step\<^sup>*\<^sup>* (bk_db s) (bk_db s')"
  using br.steps_rel by (auto simp: lift_rel_def life_rel_def)

lemma broker_steps_life: "broker_step\<^sup>*\<^sup>* s s' \<Longrightarrow> life (bk_db s) (bk_db s')"
  using br.steps_rel by (auto simp: lift_rel_def life_rel_def)

text \<open>
  C1. The lifecycle of a job: over any run of the broker, whatever fails on the way, a job keeps
  its identity (owner, harness, bot, thread, prompt and status post), its progress number never
  decreases, and its state only moves forward along the lifecycle. In particular a job that
  succeeded, failed, was cancelled or expired stays so, and only a lost job can leave its terminal
  state, by receiving its result.
\<close>

theorem job_lifecycle:
  assumes "broker_step\<^sup>*\<^sup>* s s'" "job_map (bk_db s) i = Some j"
  shows "\<exists>k. job_map (bk_db s') i = Some k \<and> same_job j k \<and> jb_LastSeq j \<le> jb_LastSeq k \<and>
             legal (jb_State j) (jb_State k) \<and>
             (Terminal (jb_State j) \<and> jb_State j \<noteq> JobLost \<longrightarrow> jb_State k = jb_State j)"
proof -
  have "life (bk_db s) (bk_db s')" using assms(1) by (rule broker_steps_life)
  then obtain k where "job_map (bk_db s') i = Some k" "job_moves j k"
    using assms(2) by (auto simp: life_def)
  then show ?thesis by (cases "jb_State j") (auto simp: job_moves_def)
qed

lemma jobs_fine_empty: "jobs_fine (bk_db empty_broker)"
  by (simp add: jobs_fine_def empty_broker_def empty_db_def)

text \<open>
  C10. The invariant of the broker: in every state it reaches from an empty database, keys are
  unique and references resolve, a bot and a triggering post have at most one job, a bot is bound
  only to a harness of its owner, a job is finished exactly when its state is terminal, and every
  queued job has a deadline, so that the sweeper can expire it.
\<close>

theorem broker_invariant:
  assumes "broker_step\<^sup>*\<^sup>* empty_broker s"
  shows "db_ok (bk_db s) \<and> (\<forall>j \<in> set (jobs (bk_db s)).
      (Terminal (jb_State j) \<longleftrightarrow> jb_FinishedAt j \<noteq> None) \<and>
      (jb_State j = JobQueued \<longrightarrow> jb_ExpiresAt j \<noteq> None))"
proof -
  have "db_ok (bk_db s)"
    using broker_steps_store [OF assms] by (auto simp: empty_broker_def intro: db_steps_ok)
  moreover have "jobs_fine (bk_db s)"
    using broker_steps_life [OF assms] jobs_fine_empty by (simp add: life_def)
  ultimately show ?thesis by (simp add: jobs_fine_def job_fine_def)
qed

end
