(* ===== verification/Hub_Props.thy ===== *)
theory Hub_Props
  imports Core_Life
begin

text \<open>
  What the hub promises: reliable messages are stored before they are sent, a handshake delivers
  everything that is still unacknowledged, in order, and the version check orders versions as
  numbers.
\<close>

section \<open>Reliable sending\<close>

lemma run_SendReliable:
  assumes "NeedsAck (en_Type env)"
  shows "run_state (SendReliable E h env) s =
    (let (r, d) = Enqueue (bk_db s) (outbox_row h (e_now E) env); t = s\<lparr>bk_db := d\<rparr> in
     case r of
       Inl e \<Rightarrow> if e = ErrConflict
               then (if fst (run_state (Send h env) t) = Inl ErrOffline then (Inr (), t)
                     else run_state (Send h env) t)
               else (Inl (ErrStore e), t)
     | Inr _ \<Rightarrow> (if fst (run_state (Send h env) t) = Inl ErrOffline then (Inr (), t)
                 else run_state (Send h env) t))"
  using assms
  by (auto simp: SendReliable_def Let_def split: prod.split sum.split option.split)

text \<open>
  A reliable message is stored before it is pushed: when \<^verbatim>\<open>SendReliable\<close> accepts a message with
  a new id, it is unacknowledged in the outbox, and it was written to the harness's connection
  exactly when the harness is online.
\<close>

theorem send_reliable_durable:
  assumes "run_state (SendReliable E h env) s = (Inr (), s')"
    and "en_ID env \<notin> ob_ID ` set (outbox (bk_db s))"
  shows "stored_outbox (outbox_row h (e_now E) env) \<in> unacked (bk_db s') \<and>
         bk_frames s' = bk_frames s @ (case bk_conns s h of None \<Rightarrow> [] | Some c \<Rightarrow> [(c, env)])"
proof -
  have ack: "NeedsAck (en_Type env)"
    using assms(1) by (rule_tac ccontr) (simp add: SendReliable_def)
  let ?m = "outbox_row h (e_now E) env"
  have fault: "\<not> sqlFault (bk_db s) InsertOutbox"
    using assms(1) unfolding run_SendReliable [OF ack] by (auto simp: Enqueue_def)
  then have "Enqueue (bk_db s) ?m = (Inr (), snd (Enqueue (bk_db s) ?m))"
    using assms(2) by (simp add: Enqueue_def outbox_row_def)
  moreover have "stored_outbox ?m \<in> unacked (snd (Enqueue (bk_db s) ?m))"
    using fault assms(2) by (intro unacked_Enqueue_new) (simp_all add: outbox_row_def)
  ultimately show ?thesis
    using assms(1) unfolding run_SendReliable [OF ack]
    by (auto simp: Let_def conn_up_def split: prod.splits option.splits if_splits)
qed

section \<open>Delivery after a reconnect\<close>

lemma run_flush_messages:
  "conn_up s c \<Longrightarrow> run_state (flush_messages E c rows) s =
     (Inr (), s\<lparr>bk_frames := bk_frames s @ map (\<lambda>m. (c, outbox_frame E m)) rows\<rparr>)"
  by (induction rows arbitrary: s) (simp_all add: outbox_frame_def conn_up_def)

lemma flush_messages_down:
  "\<not> conn_up s c \<Longrightarrow> run_state (flush_messages E c rows) s =
     (if rows = [] then Inr () else Inl ErrWire, s)"
  by (cases rows) simp_all

lemma run_flushOutbox:
  assumes "run_state (flushOutbox E h c) s = (Inr (), s')"
  shows "s' = s\<lparr>bk_frames := bk_frames s @ map (\<lambda>m. (c, outbox_frame E m)) (outbox_pending (outbox (bk_db s)) h)\<rparr>"
  using assms run_flush_messages [of s c E] flush_messages_down [of s c E]
  by (cases "conn_up s c") (auto simp: flushOutbox_def PendingOutbox_def split: if_splits)

lemma set_outbox_pending:
  "set (outbox_pending (outbox d) h) = {m \<in> unacked d. ob_HarnessID m = h}"
  by (auto simp: outbox_pending_def unacked_def)

lemma serve_hello_flushes:
  assumes "run_state (serve_hello E H harness c first) s = (True, s')"
  obtains t where "run_state (flushOutbox E (hn_ID harness) c) t = (Inr (), s')"
  using assms
  by (auto simp: serve_hello_def split: option.splits if_splits prod.splits sum.splits)

text \<open>
  C18. A handshake delivers everything outstanding: when the read loop of a connection starts,
  every unacknowledged message of its harness has been written to that connection, as the last
  frames and in the order of creation time and id, whatever the handler of the hello does.
\<close>

theorem handshake_delivers_outbox:
  assumes "run_state (serve_hello E H harness c first) s = (True, s')"
  shows "\<exists>before. bk_frames s' = before @
      map (\<lambda>m. (c, outbox_frame E m)) (outbox_pending (outbox (bk_db s')) (hn_ID harness)) \<and>
    set (outbox_pending (outbox (bk_db s')) (hn_ID harness)) = {m \<in> unacked (bk_db s'). ob_HarnessID m = hn_ID harness}"
proof -
  obtain t where "run_state (flushOutbox E (hn_ID harness) c) t = (Inr (), s')"
    using assms by (rule serve_hello_flushes)
  from run_flushOutbox [OF this] show ?thesis by (auto simp: set_outbox_pending)
qed

section \<open>Versions\<close>

lemma byte_digit_char [simp]: "d < 10 \<Longrightarrow> byte (digit_char d) = 48 + d"
  by (simp add: digit_char_def)

lemma nat_digits_bytes: "c \<in> set (nat_digits n) \<Longrightarrow> 48 \<le> byte c \<and> byte c \<le> 57"
  by (induction n rule: nat_digits.induct) (subst (asm) (2) nat_digits.simps, auto split: if_splits)

lemma nat_digits_no_dot: "CHR ''.'' \<notin> set (nat_digits n)"
  using nat_digits_bytes [of "CHR ''.''" n] by (auto simp: byte_def)

lemma atoi_runes_digits:
  assumes "0 \<le> k" "k * 10 ^ length (nat_digits n) + int n < 2 ^ 63"
  shows "atoi_runes k (map byte (nat_digits n) @ rs) = atoi_runes (k * 10 ^ length (nat_digits n) + int n) rs"
  using assms
proof (induction n arbitrary: rs rule: nat_digits.induct)
  case (1 n)
  show ?case
  proof (cases "n < 10")
    case True
    then have "nat_digits n = [digit_char n]" by (simp add: nat_digits.simps)
    with True 1 show ?thesis by (simp add: wrap64_id)
  next
    case False
    define l where "l = length (nat_digits (n div 10))"
    have ds: "nat_digits n = nat_digits (n div 10) @ [digit_char (n mod 10)]"
      using False by (simp add: nat_digits.simps [of n])
    have val: "(k * 10 ^ l + int (n div 10)) * 10 + int (n mod 10) = k * 10 ^ Suc l + int n"
      using div_mult_mod_eq [of "int n" 10] by (simp add: zdiv_int zmod_int algebra_simps)
    have "0 \<le> k * 10 ^ l" using 1 by simp
    then have bounds: "k * 10 ^ l + int (n div 10) < 2 ^ 63" "k * 10 ^ Suc l + int n < 2 ^ 63"
      using 1(3) val by (simp_all add: ds l_def [symmetric])
    then have "atoi_runes k (map byte (nat_digits n) @ rs) =
        atoi_runes (k * 10 ^ l + int (n div 10)) (byte (digit_char (n mod 10)) # rs)"
      using 1(1) [OF False 1(2)] by (simp add: ds l_def)
    also have "\<dots> = atoi_runes (wrap64 (k * 10 ^ Suc l + int n)) rs"
    proof -
      have "n mod 10 < 10" by simp
      then have "byte (digit_char (n mod 10)) = 48 + n mod 10" "\<not> 57 < 48 + n mod 10" by simp_all
      then show ?thesis by (simp only: atoi_runes.simps val [symmetric]) simp
    qed
    also have "wrap64 (k * 10 ^ Suc l + int n) = k * 10 ^ Suc l + int n"
      using bounds \<open>0 \<le> k * 10 ^ l\<close> by (intro wrap64_id) simp_all
    finally show ?thesis by (simp add: ds l_def)
  qed
qed

lemma atoi_nat_digits:
  assumes "n < 2 ^ 63"
  shows "atoi (nat_digits n) = int n"
proof -
  have "runes (nat_digits n) = map byte (nat_digits n)"
    by (rule runes_ascii) (use nat_digits_bytes in fastforce)
  moreover have "int n < 2 ^ 63" using assms by (metis of_nat_less_iff of_nat_numeral of_nat_power)
  ultimately show ?thesis
    using atoi_runes_digits [of 0 n "[]"] by (simp add: atoi_def)
qed

definition dotted :: "nat \<times> nat \<times> nat \<Rightarrow> string" where
  "dotted = (\<lambda>(x, y, z). nat_digits x @ ''.'' @ nat_digits y @ ''.'' @ nat_digits z)"

lemma version_parts:
  assumes "x < 2 ^ 63" "y < 2 ^ 63" "z < 2 ^ 63"
  shows "version_part (dotted (x, y, z)) 0 = int x" "version_part (dotted (x, y, z)) 1 = int y"
    "version_part (dotted (x, y, z)) 2 = int z"
proof -
  have "split_at (CHR ''.'') (dotted (x, y, z)) = [nat_digits x, nat_digits y, nat_digits z]"
    by (simp add: dotted_def split_at_append split_at_plain nat_digits_no_dot)
  then show "version_part (dotted (x, y, z)) 0 = int x" "version_part (dotted (x, y, z)) 1 = int y"
    "version_part (dotted (x, y, z)) 2 = int z"
    using assms by (simp_all add: version_part_def atoi_nat_digits)
qed

text \<open>
  The minimum-version check compares versions as numbers, component by component: on dotted
  decimal versions within 63 bits \<^verbatim>\<open>versionLess\<close> is the lexicographic order of the components, so
  1.9.0 is older than 1.10.0.
\<close>

theorem versionLess_numeric:
  assumes "x < 2 ^ 63" "y < 2 ^ 63" "z < 2 ^ 63" "x' < 2 ^ 63" "y' < 2 ^ 63" "z' < 2 ^ 63"
  shows "versionLess (dotted (x, y, z)) (dotted (x', y', z')) \<longleftrightarrow>
         x < x' \<or> (x = x' \<and> (y < y' \<or> (y = y' \<and> z < z')))"
  using version_parts [OF assms(1-3)] version_parts [OF assms(4-6)]
  by (auto simp: versionLess_def)

end
