(* ===== verification/Core_Props.thy ===== *)
theory Core_Props
  imports Core_Life
begin

text \<open>
  What the handlers of the core do, branch by branch: results are taken once, only the owner
  decides an approval, and a user's bot runs jobs only for its owner and only on its machine.
\<close>

section \<open>Posts and audit entries leave the jobs alone\<close>

definition jobs_rel :: "broker \<Rightarrow> broker \<Rightarrow> bool" where
  "jobs_rel s s' \<longleftrightarrow>
     jobs (bk_db s') = jobs (bk_db s) \<and> sqlFault (bk_db s') = sqlFault (bk_db s) \<and>
     approvals (bk_db s') = approvals (bk_db s) \<and> outbox (bk_db s') = outbox (bk_db s)"

interpretation jr: step_relation jobs_rel
  by unfold_locales (simp_all add: jobs_rel_def)

lemma jobs_rel_no_store: "(\<And>s. bk_db (snd (run_state m s)) = bk_db s) \<Longrightarrow> keeps jobs_rel m"
  by (intro keepsI) (simp add: jobs_rel_def)

lemma jobs_rel_effects:
  "keeps jobs_rel (CreatePost E a ch r m fs ats)" "keeps jobs_rel (UpdatePost E a i m)"
  "keeps jobs_rel (UploadFile E a ch n data)" "keeps jobs_rel (GetUser E a i)"
  "keeps jobs_rel (draw f)" "keeps jobs_rel (store_read g)"
  by (intro jobs_rel_no_store; simp add: mm_defs mm_read_defs)+

lemma jobs_rel_modify: "(\<And>s. bk_db (f s) = bk_db s) \<Longrightarrow> keeps jobs_rel (modify f)"
  by (intro jobs_rel_no_store) simp

lemma run_audit:
  "run_state (audit E actor action jobID details) s =
     ((), s\<lparr>bk_db := snd (AppendAudit (bk_db s) (e_now E)
       \<lparr>ae_At = e_now E, ae_Actor = actor, ae_Action = action, ae_JobID = jobID, ae_Details = details\<rparr>)\<rparr>)"
  by (simp add: audit_def)

lemma audit_jobs_rel: "keeps jobs_rel (audit E a b c d)"
  by (intro keepsI) (simp add: audit_def jobs_rel_def store_frame)

lemma api_for_jobs_rel: "keeps jobs_rel (api_for E i)"
  unfolding api_for_def by (intro jr.body_keeps jobs_rel_effects)

lemmas jobs_rel_steps = jr.body_keeps jobs_rel_effects jobs_rel_modify api_for_jobs_rel audit_jobs_rel

lemma replyAs_jobs_rel: "keeps jobs_rel (replyAs E i p m)"
  unfolding replyAs_def by (intro jobs_rel_steps)

lemma edit_jobs_rel: "keeps jobs_rel (edit E j t)"
  unfolding edit_def by (intro jobs_rel_steps; simp)

lemma finalEdit_jobs_rel: "keeps jobs_rel (finalEdit E j t)"
  unfolding finalEdit_def by (intro jobs_rel_steps; simp)

lemma postResult_jobs_rel: "keeps jobs_rel (postResult E j h r)"
  unfolding postResult_def upload_result_file_def by (intro jobs_rel_steps finalEdit_jobs_rel)

section \<open>Results\<close>

definition healthy :: "broker \<Rightarrow> bool" where
  "healthy s \<longleftrightarrow> (\<forall>op. \<not> sqlFault (bk_db s) op)"

lemma healthy_jobs_rel: "jobs_rel s s' \<Longrightarrow> healthy s' = healthy s"
  by (simp add: jobs_rel_def healthy_def)

lemma job_map_jobs_rel: "jobs_rel s s' \<Longrightarrow> job_map (bk_db s') = job_map (bk_db s)"
  by (simp add: jobs_rel_def job_map_def)

lemma JobByID_healthy:
  "healthy s \<Longrightarrow> JobByID (bk_db s) i = (case job_map (bk_db s) i of None \<Rightarrow> Inl ErrNotFound | Some j \<Rightarrow> Inr j)"
  by (simp add: JobByID_job_map healthy_def)

lemma transition_healthy:
  assumes "db_ok (bk_db s)" "healthy s" "from \<noteq> []" "job_map (bk_db s) i = Some j" "jb_State j \<in> set from"
  obtains d where "TransitionJob (bk_db s) t i from to p = (Inr (patch_job t to p j), d)"
    "job_map d = (job_map (bk_db s))(i \<mapsto> patch_job t to p j)" "sqlFault d = sqlFault (bk_db s)"
    "approvals d = approvals (bk_db s)" "outbox d = outbox (bk_db s)"
proof -
  have "fst (TransitionJob (bk_db s) t i from to p) = Inr (patch_job t to p j)"
    using assms by (simp add: fst_TransitionJob healthy_def cas_job_def)
  moreover have "job_map (snd (TransitionJob (bk_db s) t i from to p)) = (job_map (bk_db s))(i \<mapsto> patch_job t to p j)"
    using assms by (simp add: job_map_cas healthy_def cas_job_def)
  ultimately show ?thesis
    using that [of "snd (TransitionJob (bk_db s) t i from to p)"] by (simp add: store_frame prod_eq_iff)
qed

lemma result_state_done: "Terminal (result_state r) \<and> result_state r \<noteq> JobLost"
  by (simp add: result_state_def)

lemma OnResult_taken:
  assumes "healthy s" "job_map (bk_db s) i = Some j" "jb_HarnessID j = hn_ID h"
    and "Terminal (jb_State j)" "jb_State j \<noteq> JobLost"
  shows "run_state (OnResult E h i r) s = (ack_ok, s)"
  using assms by (simp add: OnResult_def JobByID_healthy)

lemma OnResult_takes:
  assumes "db_ok (bk_db s)" "healthy s" "job_map (bk_db s) i = Some j" "jb_HarnessID j = hn_ID h"
    and "\<not> Terminal (jb_State j) \<or> jb_State j = JobLost"
    and "run_state (OnResult E h i r) s = (a, s1)"
  shows "a = ack_ok \<and>
    (\<exists>k. job_map (bk_db s1) i = Some k \<and> jb_State k = result_state r \<and> jb_ResultText k = jr_Text r
         \<and> jb_FinishedAt k = Some (stored_time (e_now E)) \<and> jb_HarnessID k = hn_ID h) \<and> healthy s1"
proof -
  let ?p = "patch_job (e_now E) (result_state r) (result_patch r) j"
  have mem: "jb_State j \<in> set (JobLost # ActiveStates)" "JobLost # ActiveStates \<noteq> []"
    using assms(5) ActiveStates_iff by auto
  obtain d where d: "TransitionJob (bk_db s) (e_now E) i (JobLost # ActiveStates) (result_state r) (result_patch r) = (Inr ?p, d)"
    "job_map d = (job_map (bk_db s))(i \<mapsto> ?p)" "sqlFault d = sqlFault (bk_db s)"
    using transition_healthy [OF assms(1,2) mem(2) assms(3) mem(1)] by metis
  let ?s = "s\<lparr>bk_db := d\<rparr>"
  let ?s2 = "snd (run_state (postResult E ?p h r) ?s)"
  have "run_state (OnResult E h i r) s = (ack_ok, snd (run_state (audit E (hn_ID h) ''job.finished'' i
      [(''status'', DStr (jr_Status r)), (''turns'', DInt (us_Turns (jr_Usage r))),
       (''cost_usd'', DRat (us_CostUSD (jr_Usage r)))]) ?s2))"
    using assms(2-5) d(1) by (auto simp: OnResult_def JobByID_healthy split: prod.split)
  then have a: "a = ack_ok" and s1: "jobs_rel ?s s1"
    using assms(6) keepsD [OF postResult_jobs_rel, of ?s E ?p h r] keepsD [OF audit_jobs_rel, of ?s2]
      jr.rel_trans by auto
  have k: "job_map (bk_db s1) i = Some ?p" using job_map_jobs_rel [OF s1] d(2) by simp
  have "healthy s1" using healthy_jobs_rel [OF s1] assms(2) d(3) by (simp add: healthy_def)
  with a k show ?thesis using assms(4) by (auto simp: patch_job_def result_patch_def result_state_done)
qed

text \<open>
  C9. Results are taken exactly once. A result for a live or lost job of the sending harness is
  acknowledged, and the job then carries the reported state and text; every later result for the
  job, from a resend after a lost acknowledgement or not, is acknowledged again and changes
  nothing at all.
\<close>

theorem result_taken_once:
  assumes "db_ok (bk_db s)" "healthy s" "job_map (bk_db s) i = Some j" "jb_HarnessID j = hn_ID h"
    and "\<not> Terminal (jb_State j) \<or> jb_State j = JobLost"
    and "run_state (OnResult E h i r) s = (a, s1)"
  shows "a = ack_ok \<and>
    (\<exists>k. job_map (bk_db s1) i = Some k \<and> jb_State k = result_state r \<and> jb_ResultText k = jr_Text r
         \<and> jb_FinishedAt k = Some (stored_time (e_now E))) \<and>
    run_state (OnResult E' h i r') s1 = (ack_ok, s1)"
  using OnResult_takes [OF assms] OnResult_taken [of s1 i _ h E' r'] result_state_done by metis

text \<open>
  A harness can only report on its own jobs: results and approval requests for a job of
  another harness, or for no job at all, are refused and change nothing.
\<close>

theorem foreign_reports_refused:
  assumes "healthy s" "\<forall>j. job_map (bk_db s) i = Some j \<longrightarrow> jb_HarnessID j \<noteq> hn_ID h"
  shows "\<exists>code. code \<in> {NackUnknownJob, NackForbidden} \<and>
    run_state (OnResult E h i r) s = (nack code [], s) \<and>
    run_state (OnApprovalRequest E h i q) s = (nack code [], s)"
  using assms
  by (cases "job_map (bk_db s) i") (auto simp: OnResult_def OnApprovalRequest_def JobByID_healthy)

section \<open>Approvals\<close>

definition mail_rel :: "broker \<Rightarrow> broker \<Rightarrow> bool" where
  "mail_rel s s' \<longleftrightarrow>
     approvals (bk_db s') = approvals (bk_db s) \<and> outbox (bk_db s') = outbox (bk_db s)"

interpretation mr: step_relation mail_rel
  by unfold_locales (simp_all add: mail_rel_def)

lemma jobs_mail_rel: "keeps jobs_rel m \<Longrightarrow> keeps mail_rel m"
  by (erule keeps_impl) (simp add: jobs_rel_def mail_rel_def)

lemma transition_mail_rel: "keeps mail_rel (store_call (\<lambda>d. TransitionJob d t i from to p))"
  by (intro keepsI) (simp add: mail_rel_def store_frame)

lemmas mail_rel_steps = mr.body_keeps jobs_mail_rel [OF edit_jobs_rel] jobs_mail_rel [OF audit_jobs_rel]
  jobs_mail_rel [OF jobs_rel_effects(6)] transition_mail_rel

lemma after_decision_mail: "keeps mail_rel (after_decision E req j a)"
  unfolding after_decision_def by (intro mail_rel_steps)

lemma after_decision_answer:
  "\<exists>msg. fst (run_state (after_decision E req j a) s) = UpdateTo (cb_PostId req) msg"
  by (simp add: after_decision_def split: prod.split)

definition click_valid :: "env \<Rightarrow> broker \<Rightarrow> CallbackRequest \<Rightarrow> Approval \<Rightarrow> Job \<Rightarrow> bool" where
  "click_valid E s req a j \<longleftrightarrow>
     cb_Approval req \<noteq> [] \<and> cb_Decision req \<in> {DecisionAllow, DecisionDeny} \<and>
     approval_map (bk_db s) (cb_Approval req) = Some a \<and>
     cb_Sig req = sign (e_mac E (cf_CallbackSecret (e_cfg E))) (cb_Approval req) (cb_Decision req) (av_Nonce a) \<and>
     job_map (bk_db s) (av_JobID a) = Some j \<and> cb_UserId req = jb_MMUserID j \<and> \<not> Terminal (jb_State j)"

lemma ApprovalByID_map: "ApprovalByID d i = Inr a \<Longrightarrow> approval_map d i = Some a"
  by (simp add: ApprovalByID_def scan_row_def approval_map_def split: if_splits option.splits)

lemma JobByID_map: "JobByID d i = Inr j \<Longrightarrow> job_map d i = Some j"
  by (simp add: JobByID_def scan_row_def job_map_def split: if_splits option.splits)

lemma callback_refused:
  assumes "\<nexists>a j. click_valid E s req a j"
  shows "approvals (bk_db (snd (run_state (HandleCallback E req) s))) = approvals (bk_db s)"
proof (cases "ApprovalByID (bk_db s) (cb_Approval req)")
  case (Inl e)
  then show ?thesis by (simp add: HandleCallback_def)
next
  case (Inr a)
  note a = Inr
  show ?thesis
  proof (cases "JobByID (bk_db s) (av_JobID a)")
    case (Inl e)
    then show ?thesis using a by (simp add: HandleCallback_def run_audit store_frame)
  next
    case (Inr j)
    then have "\<not> click_valid E s req a j" using assms by blast
    then show ?thesis
      using a Inr ApprovalByID_map [OF a] JobByID_map [OF Inr]
      by (auto simp: HandleCallback_def click_valid_def run_audit store_frame)
  qed
qed

lemma callback_accepted:
  assumes "click_valid E s req a j"
  shows "run_state (HandleCallback E req) s = run_state (record_decision E req j) s \<or>
         snd (run_state (HandleCallback E req) s) = s"
proof -
  have "approval_map (bk_db s) (cb_Approval req) = Some a" "job_map (bk_db s) (av_JobID a) = Some j"
    using assms by (simp_all add: click_valid_def)
  then have "ApprovalByID (bk_db s) (cb_Approval req) = Inr a \<or> ApprovalByID (bk_db s) (cb_Approval req) = Inl ErrDriver"
      "JobByID (bk_db s) (av_JobID a) = Inr j \<or> JobByID (bk_db s) (av_JobID a) = Inl ErrDriver"
    by (simp_all add: ApprovalByID_def JobByID_def approval_map_def job_map_def scan_row_def)
  then show ?thesis using assms by (elim disjE) (simp_all add: HandleCallback_def click_valid_def)
qed

lemma record_decision_approvals:
  "approvals (bk_db (snd (run_state (record_decision E req j) s))) =
   approvals (snd (DecideApproval (bk_db s) (cb_Approval req) (cb_Decision req) (cb_UserId req) (e_now E)))"
proof -
  have send: "approvals (bk_db (snd (run_state (SendReliable E h env) t))) = approvals (bk_db t)" for h env t
    by (simp add: SendReliable_def store_frame split: option.split sum.split prod.split)
  have after: "approvals (bk_db (snd (run_state (after_decision E req j a) t))) = approvals (bk_db t)" for a t
    using keepsD [OF after_decision_mail] by (simp add: mail_rel_def)
  show ?thesis
    by (simp add: record_decision_def case_prod_unfold send after split: sum.split)
qed

text \<open>
  C3. Only the job's owner decides an approval: a click changes an approval only if it carries the
  signature for this approval, decision and nonce, comes from the owner of the job, decides allow
  or deny, the job is not finished, and the approval is undecided and not expired.
\<close>

theorem only_owner_decides:
  assumes "db_ok (bk_db s)"
    and "approvals (bk_db (snd (run_state (HandleCallback E req) s))) \<noteq> approvals (bk_db s)"
  shows "\<exists>a j. approval_map (bk_db s) (cb_Approval req) = Some a \<and>
    Pending a \<and> ms (e_now E) < ms (av_ExpiresAt a) \<and>
    cb_Sig req = sign (e_mac E (cf_CallbackSecret (e_cfg E))) (cb_Approval req) (cb_Decision req) (av_Nonce a) \<and>
    cb_Decision req \<in> {DecisionAllow, DecisionDeny} \<and>
    job_map (bk_db s) (av_JobID a) = Some j \<and> cb_UserId req = jb_MMUserID j \<and> \<not> Terminal (jb_State j)"
proof -
  let ?i = "cb_Approval req" and ?d = "bk_db s"
  obtain a j where v: "click_valid E s req a j" using callback_refused assms(2) by blast
  then have "run_state (HandleCallback E req) s = run_state (record_decision E req j) s"
    using callback_accepted [OF v] assms(2) by auto
  then have changed: "approvals (snd (DecideApproval ?d ?i (cb_Decision req) (cb_UserId req) (e_now E))) \<noteq> approvals ?d"
    using assms(2) record_decision_approvals by simp
  then obtain b where "b \<in> set (approvals ?d)" "av_ID b = ?i" "Pending b" "ms (e_now E) < ms (av_ExpiresAt b)"
    unfolding approvals_DecideApproval by (metis (mono_tags, lifting) rows_update_id)
  moreover from this have "b = a"
    using v assms(1) lookup_by_in_set [of av_ID "approvals ?d" b]
    by (simp add: click_valid_def approval_map_def db_ok_def keys_unique_def)
  ultimately show ?thesis using v unfolding click_valid_def by blast
qed

end
