(* ===== verification/Core_Owner.thy ===== *)
theory Core_Owner
  imports Core_Life
begin

text \<open>
  Whose machine runs a job. Every job runs on a harness of the user who asked for it: the
  invariant of the whole broker, interpreted from \<open>broker_relation\<close>. A user's bot creates jobs
  only for its owner, on the harness it is bound to, and once per post.
\<close>

section \<open>Jobs run on machines of their owners\<close>

definition owners :: "db \<Rightarrow> (string \<times> string) set" where
  "owners d = owned_by ` set (harnesses d)"

definition job_owner :: "Job \<Rightarrow> string \<times> string" where
  "job_owner j = (jb_HarnessID j, jb_MMUserID j)"

definition own :: "db \<Rightarrow> db \<Rightarrow> bool" where
  "own d d' \<longleftrightarrow> owners d \<subseteq> owners d' \<and>
     (job_owner ` set (jobs d) \<subseteq> owners d \<longrightarrow> job_owner ` set (jobs d') \<subseteq> owners d')"

lemma own_frame:
  "harnesses d' = harnesses d \<Longrightarrow> job_owner ` set (jobs d') = job_owner ` set (jobs d) \<Longrightarrow> own d d'"
  by (simp add: own_def owners_def)

lemma own_trans: "own c d \<Longrightarrow> own d e \<Longrightarrow> own c e"
  unfolding own_def by blast

lemma job_owner_updates [simp]:
  "job_owner (patch_job t to p j) = job_owner j" "job_owner (expire_job t j) = job_owner j"
  "job_owner (stored_job j) = job_owner j"
  "job_owner (j\<lparr>jb_LastSeq := n, jb_UpdatedAt := t\<rparr>) = job_owner j"
  by (simp_all add: job_owner_def)

lemma own_TouchHarness: "own d (snd (TouchHarness d i t v))"
proof -
  have "owned_by ` set (rows_update (\<lambda>h. hn_ID h = i)
      (\<lambda>h. h\<lparr>hn_LastSeenAt := Some (stored_time t), hn_Version := v\<rparr>) (harnesses d)) = owned_by ` set (harnesses d)"
    by (rule image_rows_update) (simp add: owned_by_def)
  then show ?thesis by (simp add: own_def owners_def TouchHarness_def)
qed

lemma own_CreateHarness: "own d (snd (CreateHarness d h))"
  by (auto simp: own_def owners_def CreateHarness_def)

lemma own_CompleteInit: "own d (snd (CompleteInit d c t h i tok))"
proof -
  have "set (harnesses d) \<subseteq> set (harnesses (snd (CompleteInit d c t h i tok)))"
    by (simp add: CompleteInit_def complete_tables_def split: sum.split) auto
  then have "owners d \<subseteq> owners (snd (CompleteInit d c t h i tok))"
    unfolding owners_def by (rule image_mono)
  then show ?thesis by (simp add: own_def store_frame subset_trans)
qed

interpretation ow: db_relation own
proof
  show "lift_rel own s s" for s by (simp add: lift_rel_def own_def)
  show "lift_rel own s u" if "lift_rel own s t" "lift_rel own t u" for s t u
    using that by (auto simp: lift_rel_def intro: own_trans)
  show "own d (snd (TransitionJob d t i from to p))" for d t i "from" to p
    by (intro own_frame) (simp_all add: store_frame jobs_TransitionJob image_rows_update)
  show "own d (snd (RecordProgress d t i n))" for d t i n
    by (intro own_frame) (simp_all add: store_frame jobs_RecordProgress image_rows_update)
  show "own d (snd (ExpireQueuedJobs d t))" for d t
    by (intro own_frame) (simp_all add: store_frame ExpireQueuedJobs_def image_rows_update)
qed (rule own_TouchHarness own_CreateHarness own_CompleteInit own_frame; simp add: store_frame)+

lemma better_harness_mem: "better_harness s a b \<in> {a, b}"
  by (simp add: better_harness_def)

lemma foldl_better_mem: "foldl (better_harness s) h hs \<in> set (h # hs)"
proof (induction hs arbitrary: h)
  case (Cons g hs)
  have "foldl (better_harness s) (better_harness s h g) hs \<in> set (better_harness s h g # hs)"
    by (rule Cons.IH)
  then show ?case using better_harness_mem [of s h g] by (elim insertE) auto
qed simp

lemma harness_for_state: "snd (run_state (harness_for p m) s) = s"
  by (simp add: harness_for_def pickHarness_def split: list.split)

lemma HarnessByID_mem: "HarnessByID d i = Inr h \<Longrightarrow> h \<in> set (harnesses d) \<and> hn_ID h = i"
  by (auto simp: HarnessByID_def scan_row_def dest: lookup_by_SomeD split: if_splits option.splits)

lemma BotByUserID_mem: "BotByUserID d i = Inr b \<Longrightarrow> b \<in> set (bots d) \<and> bt_UserID b = i"
  by (auto simp: BotByUserID_def scan_row_def dest: lookup_by_SomeD split: if_splits option.splits)

lemma harness_for_owner:
  assumes "fst (run_state (harness_for p m) s) = Some h"
  shows "(hn_ID h, po_UserId p) \<in> owners (bk_db s)"
proof (cases "mn_bound m")
  case True
  then have "HarnessByID (bk_db s) (mn_harnessID m) = Inr h" "hn_MMUserID h = po_UserId p"
    using assms by (auto simp: harness_for_def split: sum.splits if_splits)
  then show ?thesis using HarnessByID_mem by (force simp: owners_def owned_by_def)
next
  case False
  then obtain g gs where gs: "slice (HarnessesByUser (bk_db s) (po_UserId p)) = g # gs"
      "h = foldl (better_harness s) g gs"
    using assms by (auto simp: harness_for_def pickHarness_def split: list.splits)
  then have "h \<in> set (slice (HarnessesByUser (bk_db s) (po_UserId p)))"
    using foldl_better_mem [of s g gs] by simp
  then have "h \<in> set (harnesses (bk_db s))" "hn_MMUserID h = po_UserId p"
    by (auto simp: slice_def HarnessesByUser_def split: if_splits)
  then show ?thesis by (force simp: owners_def owned_by_def)
qed

interpretation og: guarded_relation "lift_rel own" "\<lambda>s. o' \<in> owners (bk_db s)" for o'
  by unfold_locales (auto simp: lift_rel_def own_def)

lemma own_CreateJob: "job_owner j \<in> owners d \<Longrightarrow> own d (snd (CreateJob d j))"
  by (auto simp: own_def owners_def CreateJob_def)

lemma createJob_on_own:
  "keeps_on (\<lambda>s. (hn_ID h, po_UserId p) \<in> owners (bk_db s)) (lift_rel own) (createJob_on E p text m h)"
proof -
  let ?F = "\<lambda>s. (hn_ID h, po_UserId p) \<in> owners (bk_db s)"
  have create: "keeps_on ?F (lift_rel own) (store_call (\<lambda>d. CreateJob d (new_job E p m h on i post ws pr)))"
    for on i post ws pr
    by (intro keeps_onI) (simp add: lift_rel_def own_CreateJob new_job_def job_owner_def)
  show ?thesis
    unfolding createJob_on_def start_job_def Let_def
    by (intro og.bind_keeps_on keeps_on_cases create keeps_on_keeps life_intro ow.return_keeps)
qed

lemma createJob_own: "keeps (lift_rel own) (createJob E p text m)"
proof (rule keepsI)
  fix s
  have same: "run_state (harness_for p m) s = (fst (run_state (harness_for p m) s), s)"
    using harness_for_state by (simp add: prod_eq_iff)
  show "lift_rel own s (snd (run_state (createJob E p text m) s))"
  proof (cases "fst (run_state (harness_for p m) s)")
    case None
    then show ?thesis
      using same keepsD [OF ow.replyAs_keeps] by (simp add: createJob_def)
  next
    case (Some h)
    then show ?thesis
      using same keeps_onD [OF createJob_on_own harness_for_owner [OF Some]] by (simp add: createJob_def)
  qed
qed

interpretation ow: broker_relation own
  by unfold_locales (rule createJob_own)

text \<open>
  C2. Nobody runs code on somebody else's machine: in every state the broker reaches, every job
  runs on a registered harness that belongs to the user who asked for the job.
\<close>

theorem jobs_run_on_own_machines:
  assumes "broker_step\<^sup>*\<^sup>* empty_broker s" "j \<in> set (jobs (bk_db s))"
  shows "\<exists>h \<in> set (harnesses (bk_db s)). hn_ID h = jb_HarnessID j \<and> hn_MMUserID h = jb_MMUserID j"
proof -
  have "own (bk_db empty_broker) (bk_db s)"
    using ow.steps_rel [OF assms(1)] by (simp add: lift_rel_def)
  then have "job_owner ` set (jobs (bk_db s)) \<subseteq> owners (bk_db s)"
    by (simp add: own_def empty_broker_def empty_db_def)
  with assms(2) show ?thesis by (force simp: job_owner_def owners_def owned_by_def)
qed

section \<open>A user's bot\<close>

definition job_key :: "Job \<Rightarrow> string \<times> string \<times> string \<times> string \<times> string" where
  "job_key j = (jb_ID j, jb_MMUserID j, jb_HarnessID j, jb_BotUserID j, jb_TriggerPostID j)"

text \<open>Every new job satisfies \<^term>\<open>P\<close>.\<close>

definition creates :: "(string \<times> string \<times> string \<times> string \<times> string \<Rightarrow> bool) \<Rightarrow> db \<Rightarrow> db \<Rightarrow> bool" where
  "creates P d d' \<longleftrightarrow> job_key ` set (jobs d') \<subseteq> job_key ` set (jobs d) \<union> Collect P"

lemma job_key_updates [simp]:
  "job_key (patch_job t to p j) = job_key j" "job_key (expire_job t j) = job_key j"
  "job_key (stored_job j) = job_key j"
  "job_key (j\<lparr>jb_LastSeq := n, jb_UpdatedAt := t\<rparr>) = job_key j"
  by (simp_all add: job_key_def)

lemma creates_frame: "job_key ` set (jobs d') = job_key ` set (jobs d) \<Longrightarrow> creates P d d'"
  by (simp add: creates_def)

lemma creates_new:
  assumes "creates P d d'" "j \<in> set (jobs d')" "jb_ID j \<notin> jb_ID ` set (jobs d)"
  shows "P (job_key j)"
proof -
  have "job_key j \<in> job_key ` set (jobs d) \<union> Collect P"
    using assms(1,2) unfolding creates_def by (meson imageI subsetD)
  moreover have "job_key j \<notin> job_key ` set (jobs d)"
    using assms(3) by (auto simp: job_key_def)
  ultimately show ?thesis by simp
qed

interpretation cr: db_relation "creates P" for P
proof
  show "lift_rel (creates P) s s" for s by (simp add: lift_rel_def creates_def)
  show "lift_rel (creates P) s u" if "lift_rel (creates P) s t" "lift_rel (creates P) t u" for s t u
    using that unfolding lift_rel_def creates_def by blast
  show "creates P d (snd (TransitionJob d t i from to p))" for d t i "from" to p
    by (intro creates_frame) (simp add: jobs_TransitionJob image_rows_update)
  show "creates P d (snd (RecordProgress d t i n))" for d t i n
    by (intro creates_frame) (simp add: jobs_RecordProgress image_rows_update)
  show "creates P d (snd (ExpireQueuedJobs d t))" for d t
    by (intro creates_frame) (simp add: ExpireQueuedJobs_def image_rows_update)
qed (rule creates_frame; simp add: store_frame)+

lemma createJob_creates:
  assumes "mn_bound target" "\<And>i. P (i, po_UserId p, mn_harnessID target, jobBotID target, po_Id p)"
  shows "keeps (lift_rel (creates P)) (createJob E p text target)"
proof -
  have create: "keeps (lift_rel (creates P)) (store_call (\<lambda>d. CreateJob d (new_job E p target h on i post ws pr)))"
    if "hn_ID h = mn_harnessID target" for h on i post ws pr
  proof (rule cr.store_keeps)
    fix d
    let ?j = "new_job E p target h on i post ws pr"
    have "P (job_key ?j)" using assms(2) that by (simp add: job_key_def new_job_def)
    then show "creates P d (snd (CreateJob d ?j))" by (auto simp: creates_def CreateJob_def)
  qed
  have on: "keeps (lift_rel (creates P)) (createJob_on E p text target h)"
    if "hn_ID h = mn_harnessID target" for h
    unfolding createJob_on_def start_job_def Let_def
    by (intro cr.keeps_steps life_intro create that)
  have "case fst (run_state (harness_for p target) s) of None \<Rightarrow> True | Some h \<Rightarrow> hn_ID h = mn_harnessID target" for s
    using assms(1) HarnessByID_mem [of "bk_db s" "mn_harnessID target"]
    by (auto simp: harness_for_def split: sum.split)
  then show ?thesis
    unfolding createJob_def
    by (intro cr.bind_keeps_returned [where V = "\<lambda>x. case x of None \<Rightarrow> True | Some h \<Rightarrow> hn_ID h = mn_harnessID target"]
        keeps_option on life_intro) auto
qed

lemma bot_post_creates:
  assumes "\<And>i. po_UserId p = bt_MMUserID b \<Longrightarrow>
      P (i, bt_MMUserID b, bt_HarnessID b, jobBotID (bot_mention b), po_Id p)"
  shows "keeps (lift_rel (creates P)) (bot_post E botUserID b ev p)"
proof -
  have "keeps (lift_rel (creates P)) (run_mention E p (bot_mention b))" if "po_UserId p = bt_MMUserID b"
    unfolding run_mention_def Let_def
    by (intro cr.keeps_steps life_intro createJob_creates)
      (use assms that in \<open>simp_all add: bot_mention_def\<close>)
  then show ?thesis
    unfolding bot_post_def Let_def by (intro cr.keeps_steps life_intro) simp_all
qed

text \<open>
  C17. A user's bot works for its owner only: every job that a post delivered by a bot's connection
  creates was asked for by the owner of that bot, runs on the harness the bot is bound to, is
  answered by that bot, and is triggered by that post.
\<close>

theorem bot_works_for_owner:
  assumes "s' = snd (run_state (HandleBotPost E botUserID ev) s)"
    and "j \<in> set (jobs (bk_db s'))" "jb_ID j \<notin> jb_ID ` set (jobs (bk_db s))"
  shows "\<exists>b p. BotByUserID (bk_db s) botUserID = Inr b \<and> ev_Post ev = Some p \<and>
    po_UserId p = bt_MMUserID b \<and> jb_MMUserID j = bt_MMUserID b \<and> jb_HarnessID j = bt_HarnessID b \<and>
    (bt_MMUserID b \<noteq> [] \<longrightarrow> jb_BotUserID j = botUserID) \<and> jb_TriggerPostID j = po_Id p"
proof -
  have "s' \<noteq> s" using assms(2,3) by auto
  then obtain p b where p: "ev_Post ev = Some p" "BotByUserID (bk_db s) botUserID = Inr b"
      and run: "s' = snd (run_state (bot_post E botUserID b ev p) s)"
    using assms(1) by (auto simp: HandleBotPost_def split: option.splits sum.splits if_splits)
  let ?P = "\<lambda>(i, u, h, b', t). po_UserId p = bt_MMUserID b \<and> u = bt_MMUserID b \<and> h = bt_HarnessID b \<and>
      b' = jobBotID (bot_mention b) \<and> t = po_Id p"
  have "creates ?P (bk_db s) (bk_db s')"
    using keepsD [OF bot_post_creates [of p b ?P E botUserID ev], of s] run by (simp add: lift_rel_def)
  then have "?P (job_key j)" using assms(2,3) by (rule creates_new)
  moreover have "bt_UserID b = botUserID" using BotByUserID_mem [OF p(2)] by simp
  ultimately show ?thesis
    using p by (intro exI [of _ b] exI [of _ p]) (simp add: job_key_def jobBotID_def bot_mention_def)
qed

lemma list_one_some:
  assumes "\<not> sqlFault d SelectJobs" "j \<in> set (jobs d)" "job_matches f j" "jf_Limit f = 1"
  shows "slice (ListJobs d f) \<noteq> []"
proof -
  have "j \<in> set (sort_key (\<lambda>j. - ms (jb_CreatedAt j)) (filter (job_matches f) (jobs d)))"
    using assms by simp
  then have "sort_key (\<lambda>j. - ms (jb_CreatedAt j)) (filter (job_matches f) (jobs d)) \<noteq> []"
    by (metis empty_iff empty_set)
  then show ?thesis using assms by (simp add: slice_def ListJobs_def take_eq_Nil_pos)
qed

text \<open>
  A post is handled once per bot: the websocket and the webhook may both deliver the same post,
  in any order and after a restart. Once the bot has a job for the post, delivering it again
  changes nothing at all when it comes from the owner.
\<close>

theorem bot_post_once:
  assumes "\<not> sqlFault (bk_db s) SelectJobs" "BotByUserID (bk_db s) botUserID = Inr b"
    and "ev_Post ev = Some p" "po_UserId p = bt_MMUserID b"
    and "j \<in> set (jobs (bk_db s))" "jb_BotUserID j = botUserID" "jb_TriggerPostID j = po_Id p"
  shows "run_state (HandleBotPost E botUserID ev) s = ((), s)"
proof -
  let ?f = "any_job\<lparr>jf_BotUserID := botUserID, jf_TriggerPostID := po_Id p, jf_Limit := 1\<rparr>"
  have "slice (ListJobs (bk_db s) ?f) \<noteq> []"
    using assms by (intro list_one_some [OF assms(1,5)]) (simp_all add: job_matches_def any_job_def)
  moreover have "snd (run_state (continues_thread E botUserID p) s) = s"
    by (simp add: continues_thread_def)
  ultimately have "run_state (bot_post E botUserID b ev p) s = ((), s)"
    using assms(4) by (auto simp: bot_post_def case_prod_unfold)
  then show ?thesis using assms(2,3) by (simp add: HandleBotPost_def)
qed

end
