(* ===== verification/Witnesses.thy ===== *)
theory Witnesses
  imports Hub_Props Core_Props Core_Owner "HOL-Library.Code_Target_Nat"
begin

text \<open>
  The properties at work: each theorem with hypotheses applied to a concrete database, message or
  request in which they hold. One harness of one user, a bot bound to it, a job and an approval.
\<close>

section \<open>A small installation\<close>

definition w_harness :: Harness where
  "w_harness = \<lparr>hn_ID = ''h1'', hn_MMUserID = ''u1'', hn_Name = ''laptop'', hn_TokenHash = ''t1'',
     hn_Version = ''1.0.0'', hn_CreatedAt = 0, hn_LastSeenAt = None\<rparr>"

definition w_job :: "JobState \<Rightarrow> Job" where
  "w_job st = \<lparr>jb_ID = ''j1'', jb_HarnessID = ''h1'', jb_MMUserID = ''u1'', jb_ChannelID = ''c1'',
     jb_RootPostID = ''p1'', jb_TriggerPostID = ''p1'', jb_StatusPostID = ''s1'', jb_BotUserID = ''b1'',
     jb_Workspace = [], jb_Prompt = ''go'', jb_State = st, jb_LastSeq = 0, jb_ResultText = [],
     jb_Error = [], jb_CreatedAt = 0, jb_UpdatedAt = 0, jb_ExpiresAt = Some (5 * minute),
     jb_FinishedAt = None\<rparr>"

definition w_approval :: Approval where
  "w_approval = \<lparr>av_ID = ''a1'', av_JobID = ''j1'', av_Tool = ''Bash'', av_Summary = ''ls'',
     av_Input = ''null'', av_Nonce = ''00'', av_RequestedAt = 0, av_ExpiresAt = minute,
     av_Decision = [], av_DecidedBy = [], av_DecidedAt = None\<rparr>"

definition w_bot :: Bot where
  "w_bot = \<lparr>bt_UserID = ''b1'', bt_MMUserID = ''u1'', bt_Username = ''mybot'', bt_Token = ''tok'',
     bt_CreatedAt = 0, bt_HarnessID = ''h1'', bt_TeamID = ''T'', bt_ChannelID = ''c1'',
     bt_IncomingHookID = [], bt_OutgoingHookID = [], bt_OutgoingToken = []\<rparr>"

definition w_pairing :: Pairing where
  "w_pairing = \<lparr>pr_CodeHash = ''c'', pr_MMUserID = ''u1'', pr_ExpiresAt = minute, pr_UsedAt = None\<rparr>"

definition w_init :: "time option \<Rightarrow> InitRequest" where
  "w_init claimed = \<lparr>in_CodeHash = ''c'', in_BotName = [], in_HarnessName = [], in_CreatedAt = 0,
     in_ExpiresAt = minute, in_ClaimedAt = claimed, in_HarnessID = ''h1'', in_HarnessToken = ''secret'',
     in_FetchedAt = None, in_BotUserID = ''b1'', in_PollTokenHash = ''q''\<rparr>"

definition w_db :: "JobState \<Rightarrow> db" where
  "w_db st = empty_db\<lparr>harnesses := [w_harness], jobs := [w_job st], approvals := [w_approval],
     bots := [w_bot], pairings := [w_pairing], init_requests := [w_init (Some 0)]\<rparr>"

definition w_broker :: "JobState \<Rightarrow> broker" where
  "w_broker st = empty_broker\<lparr>bk_db := w_db st\<rparr>"

definition w_cfg :: Config where
  "w_cfg = defaults \<lparr>cf_BotUserID = ''shared'', cf_BotUsername = ''mhb'', cf_PublicURL = ''http://x'',
     cf_CallbackSecret = ''k'', cf_CommandToken = [], cf_QueueTTL = 0, cf_GracePeriod = 0,
     cf_ApprovalTTL = 0, cf_JobTimeout = 0, cf_DefaultMaxTurns = 0, cf_EditInterval = 0,
     cf_OutboxRetention = 0\<rparr>"

definition w_env :: "time \<Rightarrow> env" where
  "w_env now = \<lparr>e_cfg = w_cfg, e_mm = SharedAPI, e_newPoster = Some (\<lambda>t. Some (BotAPI t)),
     e_admin = False, e_now = now, e_minVersion = [], e_heartbeat = 15 * second,
     e_lower = id, e_upper = id, e_sha = id, e_mac = (\<lambda>k m. m), e_maxLen = 4000,
     e_ulid = (\<lambda>n. replicate n (CHR ''u'')), e_random = (\<lambda>n k. replicate k (char_of n)),
     e_localtime = (\<lambda>l t. []), e_errText = (\<lambda>e. []), e_wireText = [], e_decodeText = [],
     e_GetUser = (\<lambda>log a i. Some \<lparr>ur_Id = i, ur_Username = i\<rparr>), e_GetThread = (\<lambda>log a i. None),
     e_GetFileInfo = (\<lambda>log a i. None), e_DownloadFile = (\<lambda>log a i. None),
     e_DirectChannel = (\<lambda>log a b u. None), e_answer = (\<lambda>log. Some ''post'')\<rparr>"

lemmas w_rows = w_harness_def w_job_def w_approval_def w_bot_def w_pairing_def w_init_def
lemmas w_tables = w_db_def empty_db_def

lemma w_db_ok: "db_ok (w_db st)"
  by (simp add: db_ok_def keys_unique_def refs_ok_def unique_triggers_def bots_bound_def owned_by_def
      w_tables w_rows)

lemma w_db_faultless [simp]: "\<not> sqlFault (w_db st) op"
  by (simp add: w_tables)

lemma w_maps [simp]:
  "job_map (w_db st) ''j1'' = Some (w_job st)" "approval_map (w_db st) ''a1'' = Some w_approval"
  by (simp_all add: job_map_def approval_map_def w_tables w_rows)

lemma w_broker_db [simp]: "bk_db (w_broker st) = w_db st"
  by (simp add: w_broker_def)

lemma w_healthy [simp]: "healthy (w_broker st)"
  by (simp add: healthy_def)

definition w_message :: OutboxMessage where
  "w_message = \<lparr>ob_ID = ''m1'', ob_HarnessID = ''h1'', ob_JobID = ''j1'', ob_Type = TypeJobCancel,
     ob_Payload = PCancel ''user'', ob_CreatedAt = 0, ob_AckedAt = None\<rparr>"

definition w_mail_broker :: broker where
  "w_mail_broker = empty_broker\<lparr>bk_db := snd (Enqueue (w_db JobSucceeded) w_message)\<rparr>"

section \<open>Store\<close>


theorem transition_first_wins_witness:
  "job_map (fold run_transition [(0, ''j1'', [JobRunning], JobSucceeded, no_patch),
      (1, ''j1'', [JobRunning], JobFailed, no_patch)] (w_db JobRunning)) ''j1'' =
   Some (patch_job 0 JobSucceeded no_patch (w_job JobRunning))"
  by (rule transition_first_wins) (simp_all add: w_rows)

theorem decision_is_final_witness:
  "\<exists>a d. DecideApproval (w_db JobRunning) ''a1'' ''allow'' ''u1'' 0 = (Inr a, d) \<and>
     approval_map d ''a1'' = Some a \<and> (\<exists>e. fst (DecideApproval d ''a1'' ''deny'' ''u1'' 0) = Inl e)"
proof -
  let ?d = "snd (DecideApproval (w_db JobRunning) ''a1'' ''allow'' ''u1'' 0)"
  let ?a = "decide_row ''allow'' ''u1'' 0 w_approval"
  have "fst (DecideApproval (w_db JobRunning) ''a1'' ''allow'' ''u1'' 0) = Inr ?a"
    by (simp add: fst_DecideApproval [OF w_db_ok] Pending_def w_approval_def ms_def minute_def
        second_def millisecond_def)
  then have eq: "DecideApproval (w_db JobRunning) ''a1'' ''allow'' ''u1'' 0 = (Inr ?a, ?d)"
    by (simp add: prod_eq_iff)
  show ?thesis
    using decision_is_final [OF w_db_ok eq _ rtranclp.rtrancl_refl, of "''deny''" "''u1''" 0] eq by auto
qed

theorem pairing_code_single_use_witness:
  "\<exists>d. ConsumePairing (w_db JobRunning) ''c'' 0 = (Inr ''u1'', d) \<and> (\<exists>e. ConsumePairing d ''c'' 1 = (Inl e, d))"
proof -
  let ?d = "snd (ConsumePairing (w_db JobRunning) ''c'' 0)"
  have eq: "ConsumePairing (w_db JobRunning) ''c'' 0 = (Inr ''u1'', ?d)"
    by (simp add: ConsumePairing_def pairing_usable_def w_tables w_rows ms_def minute_def second_def
        millisecond_def)
  show ?thesis using pairing_code_single_use [OF w_db_ok eq, of ?d 1] eq by auto
qed

theorem init_token_fetched_once_witness:
  "\<exists>r d. FetchInit (w_db JobRunning) ''c'' 0 = (Inr r, d) \<and> in_HarnessToken r = ''secret'' \<and>
     (\<exists>e. fst (FetchInit d ''c'' 1) = Inl e)"
proof -
  let ?d = "snd (FetchInit (w_db JobRunning) ''c'' 0)"
  let ?r = "(w_init (Some 0))\<lparr>in_FetchedAt := Some 0\<rparr>"
  have eq: "FetchInit (w_db JobRunning) ''c'' 0 = (Inr ?r, ?d)"
    by (simp add: FetchInit_def InitByCode_def scan_row_def Claimed_def w_tables w_rows minute_def
        second_def millisecond_def rows_affected_def)
  have "Claimed ?r" by (simp add: Claimed_def w_init_def)
  from init_token_fetched_once [OF w_db_ok eq this, of ?d 1] eq
  have "\<exists>e. fst (FetchInit ?d ''c'' 1) = Inl e" by simp
  with eq show ?thesis by (intro exI [of _ ?r] exI [of _ ?d]) (simp add: w_init_def)
qed

theorem progress_accepted_once_witness:
  "\<exists>d. RecordProgress (w_db JobRunning) 0 ''j1'' 3 = (Inr True, d) \<and>
       fst (RecordProgress d 0 ''j1'' 3) \<noteq> Inr True"
proof -
  let ?d = "snd (RecordProgress (w_db JobRunning) 0 ''j1'' 3)"
  have eq: "RecordProgress (w_db JobRunning) 0 ''j1'' 3 = (Inr True, ?d)"
    by (simp add: RecordProgress_def Let_def rows_affected_def w_tables w_rows)
  show ?thesis using progress_accepted_once [OF w_db_ok eq, of ?d 3 0] eq by auto
qed

theorem expire_queued_exact_witness:
  "\<exists>js d. ExpireQueuedJobs (w_db JobQueued) (6 * minute) = (Inr js, d) \<and>
     ''j1'' \<in> jb_ID ` set js \<and> fst (ExpireQueuedJobs d (6 * minute)) = Inr []"
proof -
  let ?d = "snd (ExpireQueuedJobs (w_db JobQueued) (6 * minute))"
  let ?js = "[expire_job (6 * minute) (w_job JobQueued)]"
  have eq: "ExpireQueuedJobs (w_db JobQueued) (6 * minute) = (Inr ?js, ?d)"
    by (simp add: ExpireQueuedJobs_def queue_expired_def w_tables w_rows ms_def minute_def second_def
        millisecond_def)
  show ?thesis
    using expire_queued_exact [OF w_db_ok eq] eq by (intro exI [of _ ?js] exI [of _ ?d]) (simp add: w_rows)
qed

theorem outbox_at_least_once_witness:
  "\<exists>rows. PendingOutbox (snd (PurgeOutbox (fold (op_run (\<lambda>m d. snd (Enqueue d m)) (\<lambda>k d. snd (AckOutbox d k 5)))
       [AckOp ''m2''] (snd (Enqueue (w_db JobRunning) w_message))) 9)) ''h1'' = Inr rows
     \<and> stored_outbox w_message \<in> set rows"
proof -
  let ?d1 = "fold (op_run (\<lambda>m d. snd (Enqueue d m)) (\<lambda>k d. snd (AckOutbox d k 5)))
       [AckOp ''m2''] (snd (Enqueue (w_db JobRunning) w_message))"
  have "\<not> sqlFault (snd (PurgeOutbox ?d1 9)) SelectOutbox" by (simp add: store_frame)
  from outbox_at_least_once [OF _ _ _ _ refl refl this] show ?thesis
    by (simp add: w_message_def w_tables)
qed

definition w_db_unbound :: db where
  "w_db_unbound = empty_db\<lparr>bots := [w_bot\<lparr>bt_HarnessID := []\<rparr>], init_requests := [w_init None]\<rparr>"

lemma w_db_unbound_ok: "db_ok w_db_unbound"
  by (simp add: db_ok_def keys_unique_def refs_ok_def unique_triggers_def bots_bound_def
      w_db_unbound_def empty_db_def w_rows)

theorem complete_init_atomic_witness:
  "\<exists>d. CompleteInit w_db_unbound ''c'' 0 w_harness ''b1'' ''secret'' = (Inr (), d) \<and>
     lookup_by hn_ID (harnesses d) ''h1'' = Some w_harness"
proof -
  let ?d = "snd (CompleteInit w_db_unbound ''c'' 0 w_harness ''b1'' ''secret'')"
  have eq: "CompleteInit w_db_unbound ''c'' 0 w_harness ''b1'' ''secret'' = (Inr (), ?d)"
    by (simp add: CompleteInit_def scan_row_def Claimed_def w_db_unbound_def empty_db_def w_rows
        minute_def second_def millisecond_def)
  from complete_init_atomic [OF w_db_unbound_ok eq] eq
  have "lookup_by hn_ID (harnesses ?d) (hn_ID w_harness) = Some (stored_harness w_harness)" by simp
  with eq show ?thesis
    by (intro exI [of _ ?d]) (simp add: w_harness_def stored_harness_def stored_time_def ms_def fromMS_def)
qed

theorem bot_never_rebound_witness:
  "\<exists>b' \<in> set (bots (snd (UpdateBot (w_db JobRunning) w_bot))). bt_HarnessID b' = ''h1''"
proof -
  let ?b = "w_bot"
  have "?b \<in> set (bots (snd (UpdateBot (w_db JobRunning) w_bot)))"
    by (simp add: UpdateBot_def Let_def checkBotHarness_def HarnessByID_def scan_row_def w_tables w_rows)
  moreover have "w_bot \<in> set (bots (w_db JobRunning))" by (simp add: w_tables)
  ultimately have "bt_HarnessID ?b = bt_HarnessID w_bot"
    using bot_never_rebound [OF w_db_ok db_step.UpdateBot] by (auto simp: w_bot_def)
  with \<open>?b \<in> set (bots (snd (UpdateBot (w_db JobRunning) w_bot)))\<close> show ?thesis by (intro bexI [of _ ?b]) (simp_all add: w_bot_def)
qed

section \<open>Texts and versions\<close>

definition w_result :: JobResult where
  "w_result = \<lparr>jr_Status = StatusSucceeded, jr_Text = ''ok'', jr_Error = None, jr_Files = [],
     jr_Usage = \<lparr>us_Turns = 1, us_DurationMS = 5, us_CostUSD = 0\<rparr>\<rparr>"

theorem truncate_exact_witness:
  "runes (truncate_text ''hello'' 2) = take 2 (runes ''hello'') @ [8230]"
  using truncate_exact [of 2 "''hello''"] by (simp add: runeLen_def rune_count_ascii byte_def)

lemma decode_rune_width_pos: "0 < snd (decode_rune (c # cs))"
  by (auto simp: decode_rune.simps(2) Let_def split: list.splits prod.splits if_splits)

lemma rune_count_le: "rune_count s \<le> length s"
proof (induction s rule: chunks.induct)
  case (2 c cs)
  obtain r w where w: "decode_rune (c # cs) = (r, w)" by force
  then have "rune_count (drop w (c # cs)) \<le> Suc (length cs) - w" using 2 by force
  then show ?case
    using w decode_rune_width_pos [of c cs] decode_rune_width_le [of c cs]
    by (simp add: chunks.simps(2) rune_count_def)
qed simp

lemmas w_text = play_sign_def check_mark_def dot_sep_def encode_def encode_rune_def itoa_def Duration_String_def
  Duration_Round_def wrap64_def tick_def valid_rune_def second_def millisecond_def

definition w_progress :: JobProgress where
  "w_progress = \<lparr>jp_Seq = 1, jp_Phase = PhaseRunning, jp_Text = ''working'', jp_CurrentTool = ''Bash'', jp_Turns = 2\<rparr>"

theorem progress_fits_witness: "runeLen (renderProgress 4000 ''laptop'' w_progress) \<le> 4000"
proof (rule progress_fits)
  have "length (progress_head ''laptop'' w_progress) \<le> 3900"
    by (simp add: progress_head_def w_progress_def quoted_def w_text nat_digits.simps)
  then show "runeLen (progress_head ''laptop'' w_progress) \<le> 4000 - 100"
    using rune_count_le [of "progress_head ''laptop'' w_progress"] by (simp add: runeLen_def)
qed

theorem result_fits_witness: "runeLen (result_message 4000 ''laptop'' w_result) \<le> 4000"
proof (rule result_fits)
  have "length (result_meta ''laptop'' w_result) \<le> 3700"
    by (simp add: result_meta_def w_result_def quoted_def result_head_def w_text nat_digits.simps)
  then show "runeLen (result_meta ''laptop'' w_result) \<le> 4000 - 300"
    using rune_count_le [of "result_meta ''laptop'' w_result"] by (simp add: runeLen_def)
qed

theorem sign_input_unambiguous_witness:
  "\<exists>a d n. sign_input a d n = ''a|1|allow|00'' \<and> a = ''a|1'' \<and> d = ''allow'' \<and> n = ''00''"
  using sign_input_unambiguous [of DecisionAllow DecisionAllow "''a|1''" "[CHR 0x00]" "''a|1''" "[CHR 0x00]"]
  by (intro exI) (auto simp: sign_input_def)

theorem versionLess_numeric_witness: "versionLess (dotted (1, 9, 0)) (dotted (1, 10, 0))"
  using versionLess_numeric [of 1 9 0 1 10 0] by simp

section \<open>Hub\<close>

definition w_cancel :: Envelope where
  "w_cancel = New ''m1'' 0 TypeJobCancel ''j1'' (PCancel ''user'')"

theorem send_reliable_durable_witness:
  "\<exists>s'. run_state (SendReliable (w_env 0) ''h1'' w_cancel) (w_broker JobRunning) = (Inr (), s') \<and>
     stored_outbox (outbox_row ''h1'' 0 w_cancel) \<in> unacked (bk_db s')"
proof -
  let ?s = "snd (run_state (SendReliable (w_env 0) ''h1'' w_cancel) (w_broker JobRunning))"
  have eq: "run_state (SendReliable (w_env 0) ''h1'' w_cancel) (w_broker JobRunning) = (Inr (), ?s)"
    by (simp add: SendReliable_def w_cancel_def New_def NeedsAck_def Enqueue_def w_broker_def empty_broker_def
        w_tables)
  from send_reliable_durable [OF eq] eq show ?thesis
    by (intro exI [of _ ?s]) (simp add: w_tables w_env_def)
qed

definition w_hello :: Envelope where
  "w_hello = New ''m2'' 0 TypeHello [] (PHello \<lparr>he_HarnessVersion = ''1.0.0'', he_Hostname = [], he_Workspaces = [], he_MaxJobs = 1,
     he_Jobs = []\<rparr>)"

theorem handshake_delivers_outbox_witness:
  "\<exists>s'. run_state (serve_hello (w_env 0) (core_handler (w_env 0)) w_harness 0 (Some w_hello)) w_mail_broker = (True, s') \<and>
     (0, outbox_frame (w_env 0) (stored_outbox w_message)) \<in> set (bk_frames s')"
proof -
  let ?s = "snd (run_state (serve_hello (w_env 0) (core_handler (w_env 0)) w_harness 0 (Some w_hello)) w_mail_broker)"
  have "fst (run_state (serve_hello (w_env 0) (core_handler (w_env 0)) w_harness 0 (Some w_hello)) w_mail_broker)"
    by code_simp
  then have eq: "run_state (serve_hello (w_env 0) (core_handler (w_env 0)) w_harness 0 (Some w_hello)) w_mail_broker = (True, ?s)"
    by (simp add: prod_eq_iff)
  from handshake_delivers_outbox [OF eq] obtain before where
    "bk_frames ?s = before @ map (\<lambda>m. (0, outbox_frame (w_env 0) m)) (outbox_pending (outbox (bk_db ?s)) ''h1'')"
    by (auto simp: w_harness_def)
  moreover have "outbox_pending (outbox (bk_db ?s)) ''h1'' = [stored_outbox w_message]"
    by code_simp
  ultimately show ?thesis using eq by (intro exI [of _ ?s]) simp
qed

section \<open>Core\<close>

theorem job_lifecycle_witness:
  "\<exists>k. job_map (bk_db (snd (run_state (Sweep (w_env (6 * minute))) (w_broker JobQueued)))) ''j1'' = Some k \<and>
     same_job (w_job JobQueued) k \<and> legal JobQueued (jb_State k)"
  using job_lifecycle [OF r_into_rtranclp [of broker_step, OF Swept [of "w_broker JobQueued" "w_env (6 * minute)"]], of "''j1''" "w_job JobQueued"]
  by (auto simp: w_job_def)

theorem result_taken_once_witness:
  "\<exists>s1. run_state (OnResult (w_env 0) w_harness ''j1'' w_result) (w_broker JobRunning) = (ack_ok, s1) \<and>
     run_state (OnResult (w_env 1) w_harness ''j1'' w_result) s1 = (ack_ok, s1)"
proof -
  obtain a s1 where run: "run_state (OnResult (w_env 0) w_harness ''j1'' w_result) (w_broker JobRunning) = (a, s1)"
    by fastforce
  have "jb_HarnessID (w_job JobRunning) = hn_ID w_harness" "\<not> Terminal (jb_State (w_job JobRunning))"
    by (simp_all add: w_rows)
  with result_taken_once [OF _ w_healthy _ _ _ run, of "w_job JobRunning" "w_env 1" w_result] run
  show ?thesis by (simp add: w_db_ok)
qed

theorem foreign_reports_refused_witness:
  "\<exists>code. run_state (OnResult (w_env 0) (w_harness\<lparr>hn_ID := ''h2''\<rparr>) ''j1'' w_result) (w_broker JobRunning) =
     (nack code [], w_broker JobRunning)"
  using foreign_reports_refused [OF w_healthy, of JobRunning "''j1''" "w_harness\<lparr>hn_ID := ''h2''\<rparr>" "w_env 0" w_result]
  by (auto simp: w_rows)

definition w_click :: CallbackRequest where
  "w_click = \<lparr>cb_UserId = ''u1'', cb_UserName = ''u1'', cb_PostId = ''s2'', cb_Approval = ''a1'',
     cb_Decision = DecisionAllow, cb_Sig = sign id ''a1'' DecisionAllow ''00''\<rparr>"

theorem only_owner_decides_witness:
  "\<exists>a j. approval_map (w_db JobRunning) ''a1'' = Some a \<and> job_map (w_db JobRunning) (av_JobID a) = Some j \<and>
     cb_UserId w_click = jb_MMUserID j"
proof -
  have "map av_Decision (approvals (bk_db (snd (run_state (HandleCallback (w_env 0) w_click) (w_broker JobRunning))))) = [DecisionAllow]"
    by code_simp
  then have "approvals (bk_db (snd (run_state (HandleCallback (w_env 0) w_click) (w_broker JobRunning))))
      \<noteq> approvals (bk_db (w_broker JobRunning))"
    by (auto simp: w_tables w_rows)
  from only_owner_decides [OF _ this] show ?thesis
    by (auto simp: w_db_ok w_click_def)
qed

definition w_post :: "string \<Rightarrow> string \<Rightarrow> Post" where
  "w_post i text = \<lparr>po_Id = i, po_UserId = ''u1'', po_ChannelId = ''c1'', po_RootId = [], po_Message = text,
     po_Type = [], po_FromBot = False, po_DeleteAt = 0, po_CreateAt = 1, po_FileIds = []\<rparr>"

definition w_dm :: PostedEvent where
  "w_dm = \<lparr>ev_Post = Some (w_post ''p0'' ''pair''), ev_ChannelType = ''D'', ev_Mentions = []\<rparr>"

definition w_invited :: broker where
  "w_invited = snd (run_state (HandlePost (w_env 0) w_dm) empty_broker)"

definition w_pair :: PairRequest where
  "w_pair = \<lparr>pq_Code = randomCode (e_random (w_env 0) 0 8), pq_Name = ''laptop'', pq_Hostname = [], pq_Version = []\<rparr>"

definition w_paired :: broker where
  "w_paired = snd (run_state (HandlePair (w_env 0) w_pair) w_invited)"

definition w_mention :: PostedEvent where
  "w_mention = \<lparr>ev_Post = Some (w_post ''p1'' ''@mhb go''), ev_ChannelType = ''O'', ev_Mentions = [''shared'']\<rparr>"

definition w_working :: broker where
  "w_working = snd (run_state (HandlePost (w_env 0) w_mention) w_paired)"

lemma w_working_reached: "broker_step\<^sup>*\<^sup>* empty_broker w_working"
proof -
  have "broker_step empty_broker w_invited" "broker_step w_invited w_paired" "broker_step w_paired w_working"
    unfolding w_invited_def w_paired_def w_working_def by (rule SharedPost Pair)+
  then show ?thesis by (meson converse_rtranclp_into_rtranclp rtranclp.rtrancl_refl)
qed

lemmas w_create = run_mention_def createJob_def harness_for_def createJob_on_def ListJobs_def slice_def api_for_def
  mm_read_defs start_job_def downloadAttachments_def threadHistory_def mm_defs CreateJob_def SendReliable_def
  run_audit store_frame jobBotID_def is_online_def NeedsAck_def New_def Enqueue_def trigger_taken_def new_job_def
  Let_def case_prod_unfold ignored_post_def

lemmas w_clock = ms_def stored_time_def fromMS_def minute_def second_def millisecond_def

lemma w_texts:
  "Fields (TrimSpace ''pair'') = [''pair'']" "ToLower id ''pair'' = ''pair''"
  "mentionedNames id ''@mhb go'' = [''mhb'']" "stripMention ''@mhb go'' ''mhb'' = ''go''"
  "ToLower id ''go'' = ''go''" "TrimSpace ''go'' = ''go''"
  "splitWorkspace ''go'' = ([], ''go'')" "splitAgent id ''go'' = ([], ''go'')"
  by code_simp+

lemma w_bot_texts:
  "mentionedNames id ''@mybot go'' = [''mybot'']" "stripMention ''@mybot go'' ''mybot'' = ''go''"
  "ToLower id ''mybot'' = ''mybot''"
  by code_simp+

lemma w_newPoster: "e_newPoster (w_env t) = Some (\<lambda>t. Some (BotAPI t))"
  by (simp add: w_env_def)

lemma w_env_simps [simp]:
  "e_cfg (w_env t) = w_cfg" "e_lower (w_env t) = id" "e_now (w_env t) = t" "e_mm (w_env t) = SharedAPI"
  "e_admin (w_env t) = False" "e_answer (w_env t) l = Some ''post''"
  "e_GetUser (w_env t) l a i = Some \<lparr>ur_Id = i, ur_Username = i\<rparr>" "e_DirectChannel (w_env t) l a i u = None"
  "e_ulid (w_env t) n = replicate n (CHR ''u'')"
  by (simp_all add: w_env_def)

lemma w_cfg_simps [simp]: "cf_BotUserID w_cfg = ''shared''" "cf_BotUsername w_cfg = ''mhb''"
  by (simp_all add: w_cfg_def defaults_def)

lemma w_invited_db: "bk_db w_invited = snd (CreatePairing empty_db
    (hashCode (e_sha (w_env 0)) (e_upper (w_env 0)) (pq_Code w_pair)) ''u1'' (10 * minute))" and
  w_invited_conns: "bk_conns w_invited = (\<lambda>_. None)"
  by (simp_all add: w_invited_def HandlePost_def w_dm_def ignored_post_def w_post_def ChannelTypeDirect_def handleDM_def
     w_texts Let_def case_prod_unfold newPairingCode_def reply_def replyAs_def api_for_def mm_defs empty_broker_def w_pair_def CreatePairing_def empty_db_def)

lemma w_paired_frame:
  "jobs (bk_db w_paired) = []" "bots (bk_db w_paired) = []" "sqlFault (bk_db w_paired) = (\<lambda>_. False)"
  "outbox (bk_db w_paired) = []" "bk_conns w_paired = (\<lambda>_. None)"
  "\<exists>h. harnesses (bk_db w_paired) = [h] \<and> hn_MMUserID h = ''u1''"
  by (simp_all add: w_paired_def HandlePair_def w_invited_db w_invited_conns CreatePairing_def empty_db_def
      ConsumePairing_def pairing_usable_def CreateHarness_def mm_read_defs run_audit store_frame
      stored_harness_def w_clock)

lemma w_working_job: "\<exists>j. jobs (bk_db w_working) = [j]"
proof -
  obtain h where hs: "harnesses (bk_db w_paired) = [h]" "hn_MMUserID h = ''u1''"
    using w_paired_frame(6) by blast
  then have pick: "run_state (pickHarness ''u1'') w_paired = (Some h, w_paired)"
    by (simp add: pickHarness_def HarnessesByUser_def w_paired_frame slice_def)
  have target: "run_state (mentionedBot (w_env 0) w_mention (w_post ''p1'' ''@mhb go'')) w_paired = (Some (shared_mention (w_env 0)), w_paired)"
    by (simp add: mentionedBot_def w_texts ListBots_def w_paired_frame w_post_def w_mention_def Let_def slice_def)
  show ?thesis
    using hs pick target
    by (simp add: w_working_def HandlePost_def w_mention_def w_post_def ChannelTypeDirect_def w_texts
        shared_mention_def w_paired_frame w_create)
qed

theorem jobs_run_on_own_machines_witness:
  "\<exists>j h. j \<in> set (jobs (bk_db w_working)) \<and> h \<in> set (harnesses (bk_db w_working)) \<and>
     hn_ID h = jb_HarnessID j \<and> hn_MMUserID h = jb_MMUserID j"
  using w_working_job jobs_run_on_own_machines [OF w_working_reached] by fastforce

definition w_event :: PostedEvent where
  "w_event = \<lparr>ev_Post = Some (w_post ''p1'' ''@mybot go''), ev_ChannelType = ''O'', ev_Mentions = []\<rparr>"

definition w_idle :: broker where
  "w_idle = empty_broker\<lparr>bk_db := empty_db\<lparr>harnesses := [w_harness], bots := [w_bot]\<rparr>\<rparr>"

lemma w_idle_job: "\<exists>j. jobs (bk_db (snd (run_state (HandleBotPost (w_env 0) ''b1'' w_event) w_idle))) = [j]"
  by (simp add: HandleBotPost_def w_event_def w_idle_def empty_db_def empty_broker_def w_post_def
      BotByUserID_def HarnessByID_def scan_row_def w_rows bot_post_def is_ok_def bot_addressed_def w_bot_texts
      bot_mention_def w_newPoster w_texts w_create)

theorem bot_works_for_owner_witness:
  "\<exists>j \<in> set (jobs (bk_db (snd (run_state (HandleBotPost (w_env 0) ''b1'' w_event) w_idle)))).
     jb_MMUserID j = ''u1'' \<and> jb_HarnessID j = ''h1''"
proof -
  obtain j where j: "jobs (bk_db (snd (run_state (HandleBotPost (w_env 0) ''b1'' w_event) w_idle))) = [j]"
    using w_idle_job by blast
  then have "jb_MMUserID j = ''u1'' \<and> jb_HarnessID j = ''h1''"
    using bot_works_for_owner [OF refl, of j "w_env 0" "''b1''" w_event w_idle]
    by (auto simp: w_idle_def empty_db_def BotByUserID_def scan_row_def w_rows)
  with j show ?thesis by simp
qed

theorem bot_post_once_witness:
  "run_state (HandleBotPost (w_env 0) ''b1'' w_event) (w_broker JobRunning) = ((), w_broker JobRunning)"
  by (rule bot_post_once [where b = w_bot and p = "w_post ''p1'' ''@mybot go''" and j = "w_job JobRunning"])
    (simp_all add: BotByUserID_def scan_row_def w_tables w_rows w_event_def w_post_def)

theorem broker_invariant_witness: "db_ok (bk_db w_working) \<and> (\<exists>j. jobs (bk_db w_working) = [j])"
  using broker_invariant [OF w_working_reached] w_working_job by blast

end
