(* ===== verification/Go_Json.thy ===== *)
theory Go_Json
  imports Go_Fmt
begin

text \<open>
  What the harness uses of \<^verbatim>\<open>encoding/json\<close> and \<^verbatim>\<open>path/filepath\<close>: string literals as
  \<^verbatim>\<open>json.Marshal\<close> writes them, decoded values, and the lexical path functions on Unix. A decoded
  text is a value of \<open>json\<close>; the order of an object's members is that of the text, and a name that
  occurs twice counts with its last member, as in \<^verbatim>\<open>json.Unmarshal\<close>.
\<close>

section \<open>String literals\<close>

definition hex_rune :: "nat \<Rightarrow> rune" where
  "hex_rune d = (if d < 10 then 48 + d else 87 + d)"

text \<open>
  Control characters and the three HTML characters have escapes, and so have the two line
  separators; everything else stands for itself.
\<close>

definition json_escape :: "rune \<Rightarrow> rune list" where
  "json_escape r =
     (if r = 34 \<or> r = 92 then [92, r]
      else if r = 8 then [92, 98]
      else if r = 12 then [92, 102]
      else if r = 10 then [92, 110]
      else if r = 13 then [92, 114]
      else if r = 9 then [92, 116]
      else if r < 32 \<or> r = 38 \<or> r = 60 \<or> r = 62
        then [92, 117, 48, 48, hex_rune (r div 16), hex_rune (r mod 16)]
      else if r = 8232 \<or> r = 8233 then [92, 117, 50, 48, 50, hex_rune (r mod 16)]
      else [r])"

text \<open>A byte that is no UTF-8 is written as the escape of the replacement character.\<close>

definition json_chunk :: "rune \<times> string \<Rightarrow> rune list" where
  "json_chunk c =
     (if fst c = RuneError \<and> length (snd c) = 1 then [92, 117, 102, 102, 102, 100] else json_escape (fst c))"

definition json_body :: "string \<Rightarrow> rune list" where
  "json_body s = concat (map json_chunk (chunks s))"

definition json_quote :: "string \<Rightarrow> string" where
  "json_quote s = encode (34 # json_body s @ [34])"

definition valid_utf8 :: "string \<Rightarrow> bool" where
  "valid_utf8 s \<longleftrightarrow> list_all (\<lambda>(r, bs). bs = encode_rune r) (chunks s)"

section \<open>Values\<close>

datatype json =
    JNull
  | JBool bool
  | JNum rat
  | JStr string
  | JArr "json list"
  | JObj "(string \<times> json) list"

definition member :: "(string \<times> json) list \<Rightarrow> string \<Rightarrow> json option" where
  "member kvs k = map_of (rev kvs) k"

section \<open>Paths\<close>

text \<open>\<^verbatim>\<open>filepath.Clean\<close>: the components without \<^verbatim>\<open>.\<close>, and \<^verbatim>\<open>..\<close> resolved where it can be.\<close>

definition clean_step :: "bool \<Rightarrow> string list \<Rightarrow> string \<Rightarrow> string list" where
  "clean_step rooted stack c =
     (if c = [] \<or> c = ''.'' then stack
      else if c = ''..'' then
        (case stack of
           [] \<Rightarrow> if rooted then [] else [''..'']
         | d # ds \<Rightarrow> if d = ''..'' then ''..'' # stack else ds)
      else c # stack)"

definition path_clean :: "string \<Rightarrow> string" where
  "path_clean p =
     (let rooted = HasPrefix p ''/'';
          out = (if rooted then ''/'' else []) @ Join (rev (foldl (clean_step rooted) [] (split_at (CHR ''/'') p))) ''/''
      in if out = [] then ''.'' else out)"

definition path_join :: "string list \<Rightarrow> string" where
  "path_join elems =
     (let es = dropWhile (\<lambda>e. e = []) elems in if es = [] then [] else path_clean (Join es ''/''))"

text \<open>\<^verbatim>\<open>filepath.Base\<close>\<close>

definition path_base :: "string \<Rightarrow> string" where
  "path_base p =
     (if p = [] then ''.''
      else let q = rev (takeWhile (\<lambda>c. c \<noteq> CHR ''/'') (dropWhile (\<lambda>c. c = CHR ''/'') (rev p)))
           in if q = [] then ''/'' else q)"

definition path_is_abs :: "string \<Rightarrow> bool" where
  "path_is_abs p = HasPrefix p ''/''"

section \<open>Lemmas\<close>

lemma hex_rune_inject [simp]: "a < 16 \<Longrightarrow> b < 16 \<Longrightarrow> hex_rune a = hex_rune b \<longleftrightarrow> a = b"
  by (auto simp: hex_rune_def)

lemma hex_rune_range: "d < 16 \<Longrightarrow> hex_rune d < 128"
  by (simp add: hex_rune_def)

lemma div_mod_16: "(r::nat) div 16 = s div 16 \<Longrightarrow> r mod 16 = s mod 16 \<Longrightarrow> r = s"
  by (metis div_mult_mod_eq)

lemma json_escape_not_quote: "json_escape r @ xs \<noteq> 34 # ys"
  by (simp add: json_escape_def)

text \<open>The four shapes of an escape.\<close>

definition short_code :: "rune \<Rightarrow> rune option" where
  "short_code r = map_of [(34, 34), (92, 92), (8, 98), (12, 102), (10, 110), (13, 114), (9, 116)] r"

definition long_code :: "rune \<Rightarrow> bool" where
  "long_code r \<longleftrightarrow> r < 32 \<or> r = 38 \<or> r = 60 \<or> r = 62"

lemma short_code_inject: "short_code r = Some c \<Longrightarrow> short_code s = Some c \<Longrightarrow> r = s"
  by (simp add: short_code_def split: if_splits)

lemma short_code_range: "short_code r \<noteq> Some 117"
  by (simp add: short_code_def)

lemma json_escape_shapes:
  "short_code r = Some c \<Longrightarrow> json_escape r = [92, c]"
  "short_code r = None \<Longrightarrow> long_code r \<Longrightarrow>
     json_escape r = [92, 117, 48, 48, hex_rune (r div 16), hex_rune (r mod 16)]"
  "r = 8232 \<or> r = 8233 \<Longrightarrow> json_escape r = [92, 117, 50, 48, 50, hex_rune (r mod 16)]"
  "short_code r = None \<Longrightarrow> \<not> long_code r \<Longrightarrow> r \<noteq> 8232 \<Longrightarrow> r \<noteq> 8233 \<Longrightarrow> json_escape r = [r] \<and> r \<noteq> 92"
  by (auto simp: json_escape_def short_code_def long_code_def split: if_splits)

lemma json_escape_cases:
  obtains (short) c where "short_code r = Some c" "json_escape r = [92, c]" "c \<noteq> 117"
  | (long) "r < 256" "json_escape r = [92, 117, 48, 48, hex_rune (r div 16), hex_rune (r mod 16)]"
  | (sep) "r = 8232 \<or> r = 8233" "json_escape r = [92, 117, 50, 48, 50, hex_rune (r mod 16)]"
  | (plain) "json_escape r = [r]" "r \<noteq> 92"
proof (cases "short_code r")
  case None
  then show ?thesis using json_escape_shapes(2-4) [of r] long sep plain
    by (cases "long_code r"; cases "r = 8232 \<or> r = 8233") (auto simp: long_code_def)
next
  case (Some c)
  then show ?thesis using json_escape_shapes(1) short short_code_range by metis
qed

lemma json_escape_prefix_free: "json_escape r @ xs = json_escape s @ ys \<Longrightarrow> r = s \<and> xs = ys"
proof (cases r rule: json_escape_cases)
  case r: short
  assume "json_escape r @ xs = json_escape s @ ys"
  then show ?thesis using r short_code_inject by (cases s rule: json_escape_cases) auto
next
  case r: long
  assume "json_escape r @ xs = json_escape s @ ys"
  then show ?thesis using r div_mod_16 [of r s] by (cases s rule: json_escape_cases) auto
next
  case r: sep
  assume "json_escape r @ xs = json_escape s @ ys"
  then show ?thesis using r by (cases s rule: json_escape_cases) auto
next
  case r: plain
  assume "json_escape r @ xs = json_escape s @ ys"
  then show ?thesis using r by (cases s rule: json_escape_cases) auto
qed

lemma json_escape_unique:
  "concat (map json_escape rs) @ 34 # xs = concat (map json_escape ss) @ 34 # ys \<Longrightarrow> rs = ss \<and> xs = ys"
proof (induction rs arbitrary: ss)
  case Nil
  then show ?case using json_escape_not_quote by (cases ss) (force dest: sym)+
next
  case (Cons r rs)
  then show ?case
  proof (cases ss)
    case Nil
    then show ?thesis using Cons.prems json_escape_not_quote [of r] by simp
  next
    case (Cons s ss')
    then have "r = s" "concat (map json_escape rs) @ 34 # xs = concat (map json_escape ss') @ 34 # ys"
      using Cons.prems json_escape_prefix_free [of r _ s] by force+
    then show ?thesis using Cons.IH [of ss'] Cons by simp
  qed
qed

lemma hex_rune_valid: "d < 16 \<Longrightarrow> valid_rune (hex_rune d)"
  by (simp add: hex_rune_def valid_rune_def)

lemma json_escape_valid: "valid_rune r \<Longrightarrow> x \<in> set (json_escape r) \<Longrightarrow> valid_rune x"
proof (cases r rule: json_escape_cases)
  case (short c)
  then have "c < 128" by (simp add: short_code_def split: if_splits)
  moreover assume "x \<in> set (json_escape r)"
  ultimately show ?thesis using short by (auto simp: valid_rune_def)
qed (auto simp: valid_rune_small intro: hex_rune_valid)

lemma encode_RuneError_length: "length (encode_rune RuneError) = 3"
  by (simp add: encode_rune_def RuneError_def valid_rune_def)

lemma valid_utf8_body:
  assumes "valid_utf8 s"
  shows "json_body s = concat (map json_escape (runes s))"
proof -
  have "json_chunk c = json_escape (fst c)" if "c \<in> set (chunks s)" for c
    using assms that encode_RuneError_length
    by (force simp: valid_utf8_def list_all_iff json_chunk_def)
  then show ?thesis by (simp add: json_body_def runes_def comp_def cong: map_cong)
qed

lemma valid_utf8_encode: "valid_utf8 s \<Longrightarrow> encode (runes s) = s"
proof -
  assume v: "valid_utf8 s"
  have "encode (runes s) = chunk_bytes (chunks s)"
    using v by (force simp: encode_def runes_def chunk_bytes_def valid_utf8_def list_all_iff intro!: arg_cong [where f = concat])
  then show ?thesis by simp
qed

lemma encode_inject:
  "\<forall>r \<in> set rs. valid_rune r \<Longrightarrow> \<forall>r \<in> set ss. valid_rune r \<Longrightarrow> encode rs = encode ss \<longleftrightarrow> rs = ss"
  by (metis runes_encode)

lemma json_body_valid: "valid_utf8 s \<Longrightarrow> x \<in> set (json_body s) \<Longrightarrow> valid_rune x"
  by (auto simp: valid_utf8_body dest: runes_valid json_escape_valid)

lemma path_base_no_slash: "path_base p \<noteq> ''/'' \<Longrightarrow> CHR ''/'' \<notin> set (path_base p)"
  by (auto simp: path_base_def Let_def dest: set_takeWhileD split: if_splits)

end
