(* ===== verification/Harness_Files.thy ===== *)
theory Harness_Files
  imports Protocol Contracts Go_Json "HOL-Library.AList" "HOL-Library.Char_ord" "HOL-Library.List_Lexorder"
begin

text \<open>
  The two files a harness keeps across restarts: \<^verbatim>\<open>sessions/sessions.go\<close>, which maps a
  conversation to the agent session that continues it, and \<^verbatim>\<open>client/outbox.go\<close>, the messages the
  broker has not acknowledged. Both are a map in memory and a JSON file that is replaced as a
  whole. A file is modelled by the map its text denotes; every step of a flush may fail.
\<close>

section \<open>Files\<close>

type_synonym 'v gomap = "(string \<times> 'v) list"

datatype 'a disk_file = Missing | Unreadable | Garbage | Holds 'a

datatype fs_op = FsMkdir | FsMarshal | FsWrite | FsRename

datatype file_err = FileErr fs_op | ReadErr | DecodeErr

record 'a json_file =
  jf_m :: 'a
  jf_disk :: "'a disk_file"

definition open_json :: "'a \<Rightarrow> 'a disk_file \<Rightarrow> file_err + 'a json_file" where
  "open_json init disk =
     (case disk of
        Missing \<Rightarrow> Inr \<lparr>jf_m = init, jf_disk = Missing\<rparr>
      | Unreadable \<Rightarrow> Inl ReadErr
      | Garbage \<Rightarrow> Inl DecodeErr
      | Holds m \<Rightarrow> Inr \<lparr>jf_m = m, jf_disk = Holds m\<rparr>)"

text \<open>\<^verbatim>\<open>flush\<close>: the new text goes to a temporary file, and the rename replaces the old one.\<close>

definition flush_json :: "(fs_op \<Rightarrow> bool) \<Rightarrow> 'a json_file \<Rightarrow> (file_err + unit) \<times> 'a json_file" where
  "flush_json fails f =
     (case find fails [FsMkdir, FsMarshal, FsWrite, FsRename] of
        Some op \<Rightarrow> (Inl (FileErr op), f)
      | None \<Rightarrow> (Inr (), f\<lparr>jf_disk := Holds (jf_m f)\<rparr>))"

section \<open>Sessions\<close>

record Entry =
  se_SessionID :: string
  se_Workspace :: string
  se_Agent :: string
  se_UpdatedAt :: time

type_synonym sessions = "Entry gomap json_file"

definition session_key :: "string \<Rightarrow> string \<Rightarrow> string" where
  "session_key botUserID rootPostID = ''['' @ json_quote botUserID @ '','' @ json_quote rootPostID @ '']''"

definition sessions_Open :: "Entry gomap disk_file \<Rightarrow> file_err + sessions" where
  "sessions_Open disk = open_json [] disk"

definition sessions_Get :: "sessions \<Rightarrow> string \<Rightarrow> string \<Rightarrow> Entry option" where
  "sessions_Get s botUserID rootPostID = map_of (jf_m s) (session_key botUserID rootPostID)"

definition sessions_Put :: "(fs_op \<Rightarrow> bool) \<Rightarrow> time \<Rightarrow> string \<Rightarrow> string \<Rightarrow> string \<Rightarrow> string \<Rightarrow> string \<Rightarrow> sessions
    \<Rightarrow> (file_err + unit) \<times> sessions" where
  "sessions_Put fails now botUserID rootPostID sessionID workspace agent s =
     flush_json fails (s\<lparr>jf_m := AList.update (session_key botUserID rootPostID)
       \<lparr>se_SessionID = sessionID, se_Workspace = workspace, se_Agent = agent, se_UpdatedAt = now\<rparr> (jf_m s)\<rparr>)"

definition sessions_Delete :: "(fs_op \<Rightarrow> bool) \<Rightarrow> string \<Rightarrow> string \<Rightarrow> sessions \<Rightarrow> (file_err + unit) \<times> sessions" where
  "sessions_Delete fails botUserID rootPostID s =
     flush_json fails (s\<lparr>jf_m := AList.delete (session_key botUserID rootPostID) (jf_m s)\<rparr>)"

section \<open>Outbox\<close>

type_synonym outbox = "Envelope gomap json_file"

definition OpenOutbox :: "Envelope gomap disk_file \<Rightarrow> file_err + outbox" where
  "OpenOutbox disk = open_json [] disk"

definition outbox_Add :: "(fs_op \<Rightarrow> bool) \<Rightarrow> Envelope \<Rightarrow> outbox \<Rightarrow> (file_err + unit) \<times> outbox" where
  "outbox_Add fails env ob = flush_json fails (ob\<lparr>jf_m := AList.update (en_ID env) env (jf_m ob)\<rparr>)"

definition outbox_Ack :: "(fs_op \<Rightarrow> bool) \<Rightarrow> string \<Rightarrow> outbox \<Rightarrow> (file_err + unit) \<times> outbox" where
  "outbox_Ack fails i ob =
     (if map_of (jf_m ob) i = None then (Inr (), ob)
      else flush_json fails (ob\<lparr>jf_m := AList.delete i (jf_m ob)\<rparr>))"

definition outbox_Pending :: "outbox \<Rightarrow> Envelope list" where
  "outbox_Pending ob = sort_key en_ID (map snd (jf_m ob))"

text \<open>What the map always is: at most one envelope per key, stored under its own id.\<close>

definition outbox_ok :: "outbox \<Rightarrow> bool" where
  "outbox_ok ob \<longleftrightarrow> distinct (map fst (jf_m ob)) \<and> list_all (\<lambda>(i, env). en_ID env = i) (jf_m ob)"

section \<open>Lemmas\<close>

lemma jf_m_flush [simp]: "jf_m (snd (flush_json fails f)) = jf_m f"
  by (simp add: flush_json_def split: option.split)

lemma flush_ok: "fst (flush_json fails f) = Inr () \<Longrightarrow> jf_disk (snd (flush_json fails f)) = Holds (jf_m f)"
  unfolding flush_json_def by (cases "find fails [FsMkdir, FsMarshal, FsWrite, FsRename]") simp_all

lemma flush_failed: "fst (flush_json fails f) = Inl e \<Longrightarrow> snd (flush_json fails f) = f"
  unfolding flush_json_def by (cases "find fails [FsMkdir, FsMarshal, FsWrite, FsRename]") simp_all

lemma flush_reopen:
  "case flush_json fails f of
     (Inr _, f') \<Rightarrow> open_json init (jf_disk f') = Inr f'
   | (Inl _, f') \<Rightarrow> f' = f"
  unfolding flush_json_def open_json_def
  by (cases "find fails [FsMkdir, FsMarshal, FsWrite, FsRename]") simp_all

text \<open>Conversations have different keys.\<close>

lemma json_quote_sep:
  assumes "valid_utf8 a" "valid_utf8 b" "valid_utf8 c" "valid_utf8 d"
    and "session_key a b = session_key c d"
  shows "a = c \<and> b = d"
proof -
  let ?k = "\<lambda>a b. 91 # 34 # json_body a @ 34 # 44 # 34 # json_body b @ 34 # [93]"
  have chars: "char_of (91::nat) = CHR ''[''" "char_of (44::nat) = CHR '',''" "char_of (93::nat) = CHR '']''"
    using char_of_byte [of "CHR ''[''"] char_of_byte [of "CHR '',''"] char_of_byte [of "CHR '']''"]
    by (simp_all add: byte_def)
  have enc: "session_key a b = encode (?k a b)" for a b
    by (simp add: session_key_def json_quote_def encode_def encode_rune_def valid_rune_def chars)
  have valid: "\<forall>r \<in> set (?k a b). valid_rune r" if "valid_utf8 a" "valid_utf8 b" for a b
    using json_body_valid that by (auto simp: valid_rune_def)
  have "?k a b = ?k c d"
    using assms(5) valid [OF assms(1,2)] valid [OF assms(3,4)] unfolding enc by (simp only: encode_inject)
  then have "concat (map json_escape (runes a)) @ 34 # 44 # 34 # json_body b @ 34 # [93] =
      concat (map json_escape (runes c)) @ 34 # 44 # 34 # json_body d @ 34 # [93]"
    by (simp add: valid_utf8_body assms(1,3))
  from json_escape_unique [OF this]
  have "runes a = runes c" and rest: "json_body b @ 34 # [93] = json_body d @ 34 # [93]" by simp_all
  moreover from rest have "concat (map json_escape (runes b)) @ 34 # [93] = concat (map json_escape (runes d)) @ 34 # [93]"
    by (simp only: valid_utf8_body assms(2,4))
  from json_escape_unique [OF this] have "runes b = runes d" by simp
  ultimately show ?thesis by (metis assms(1-4) valid_utf8_encode)
qed

definition conversation_ok :: "string \<times> string \<Rightarrow> bool" where
  "conversation_ok c \<longleftrightarrow> valid_utf8 (fst c) \<and> valid_utf8 (snd c)"

lemma session_key_inject:
  "conversation_ok c \<Longrightarrow> conversation_ok d \<Longrightarrow>
   session_key (fst c) (snd c) = session_key (fst d) (snd d) \<longleftrightarrow> c = d"
  using json_quote_sep [of "fst c" "snd c" "fst d" "snd d"] by (auto simp: conversation_ok_def prod_eq_iff)

definition put_entry :: "(fs_op \<Rightarrow> bool) \<Rightarrow> string \<times> string \<Rightarrow> Entry \<Rightarrow> sessions \<Rightarrow> sessions" where
  "put_entry fails c e s = snd (sessions_Put fails (se_UpdatedAt e) (fst c) (snd c) (se_SessionID e) (se_Workspace e) (se_Agent e) s)"

definition delete_entry :: "(fs_op \<Rightarrow> bool) \<Rightarrow> string \<times> string \<Rightarrow> sessions \<Rightarrow> sessions" where
  "delete_entry fails c s = snd (sessions_Delete fails (fst c) (snd c) s)"

interpretation sess: keyed_store "\<lambda>s c. sessions_Get s (fst c) (snd c)" "put_entry fails" "delete_entry fails"
    conversation_ok for fails
  by unfold_locales (simp_all add: sessions_Get_def put_entry_def sessions_Put_def delete_entry_def
      sessions_Delete_def session_key_inject update_conv' delete_conv' map_of_delete)

text \<open>The outbox.\<close>

definition held :: "outbox \<Rightarrow> Envelope set" where
  "held ob = {env. map_of (jf_m ob) (en_ID env) = Some env}"

interpretation cob: outbox_contract "\<lambda>env ob. snd (outbox_Add fails env ob)" "\<lambda>i ob. snd (outbox_Ack fails i ob)"
    held en_ID "\<lambda>ob env. True" id "\<lambda>ob. True" for fails
  by unfold_locales (auto simp: held_def outbox_Add_def outbox_Ack_def update_conv' delete_conv' split: if_splits)

lemma set_Pending [simp]: "set (outbox_Pending ob) = snd ` set (jf_m ob)"
  by (simp add: outbox_Pending_def)

lemma held_Pending: "held ob \<subseteq> set (outbox_Pending ob)"
  by (force simp: held_def dest: map_of_SomeD)

lemma Pending_held: "outbox_ok ob \<Longrightarrow> set (outbox_Pending ob) = held ob"
  using held_Pending [of ob]
  by (force simp: outbox_ok_def held_def list_all_iff intro: map_of_is_SomeI)

lemma set_AList_update: "set (AList.update k v al) \<subseteq> insert (k, v) (set al)"
  by (induction al) auto

lemma set_AList_delete: "set (AList.delete k al) \<subseteq> set al"
  by (auto simp: AList.delete_eq)

lemma outbox_ok_Add: "outbox_ok ob \<Longrightarrow> outbox_ok (snd (outbox_Add fails env ob))"
  using set_AList_update [of "en_ID env" env "jf_m ob"]
  by (auto simp: outbox_ok_def outbox_Add_def list_all_iff distinct_update)

lemma outbox_ok_Ack: "outbox_ok ob \<Longrightarrow> outbox_ok (snd (outbox_Ack fails i ob))"
  using set_AList_delete [of i "jf_m ob"]
  by (auto simp: outbox_ok_def outbox_Ack_def list_all_iff distinct_delete)

section \<open>Properties\<close>

text \<open>
  Threads do not share sessions: the session of a conversation is the one of its last run, and
  no write or deletion for any other bot or thread shows, however the ids are spelled, as long as
  they are text.
\<close>

theorem session_isolated:
  assumes "conversation_ok c" "\<forall>kv \<in> set kvs. conversation_ok (fst kv) \<and> fst kv \<noteq> c"
  shows "sessions_Get (fold (sess.update fails) kvs (put_entry fails c e s)) (fst c) (snd c) = Some e"
proof -
  have "put_entry fails c e s = sess.update fails (c, Some e) s" by (simp add: sess.update_def)
  then show ?thesis using sess.last_write_wins [OF assms, of fails "Some e" s] by simp
qed

text \<open>
  A restart finds what was saved: when \<^verbatim>\<open>Put\<close> or \<^verbatim>\<open>Add\<close> report success, opening the file again
  gives the map they left in memory, and when they fail the file still holds what it held.
\<close>

theorem files_survive_restart:
  "(case sessions_Put fails now b r i w a s of
      (Inr _, s') \<Rightarrow> sessions_Open (jf_disk s') = Inr s' \<and> sessions_Get s' b r \<noteq> None
    | (Inl _, s') \<Rightarrow> jf_disk s' = jf_disk s) \<and>
   (case outbox_Add fails env ob of
      (Inr _, ob') \<Rightarrow> OpenOutbox (jf_disk ob') = Inr ob' \<and> env \<in> set (outbox_Pending ob')
    | (Inl _, ob') \<Rightarrow> jf_disk ob' = jf_disk ob)"
proof -
  have "env \<in> set (outbox_Pending (snd (outbox_Add fails env ob)))"
    using cob.add_adds [OF TrueI] held_Pending by fastforce
  moreover have "sessions_Get (snd (sessions_Put fails now b r i w a s)) b r \<noteq> None"
    by (simp add: sessions_Get_def sessions_Put_def update_conv')
  ultimately show ?thesis
    using flush_reopen [of "s\<lparr>jf_m := AList.update (session_key b r)
        \<lparr>se_SessionID = i, se_Workspace = w, se_Agent = a, se_UpdatedAt = now\<rparr> (jf_m s)\<rparr>" "[]" fails]
      flush_reopen [of "ob\<lparr>jf_m := AList.update (en_ID env) env (jf_m ob)\<rparr>" "[]" fails]
    by (simp add: sessions_Put_def outbox_Add_def sessions_Open_def OpenOutbox_def case_prod_unfold split: sum.splits)
qed

end
