(* ===== verification/Agents.thy ===== *)
theory Agents
  imports Go_Json Core_Text
begin

text \<open>
  The coding agents of \<^verbatim>\<open>internal/harness/agent\<close>: what a job run is asked for and what it
  returns, the command lines of the Claude and Codex command line tools, and the parsers of
  their event streams. The processes themselves belong to the environment: the lines they write,
  their exit and the state of the job's context are arguments. A line is the value its JSON text
  decodes to, or \<^term>\<open>None\<close> when it does not decode.
\<close>

section \<open>Runs\<close>

abbreviation "AgentClaude \<equiv> ''claude''"
abbreviation "AgentCodex \<equiv> ''codex''"

record Options =
  op_Dir :: string
  op_Prompt :: string
  op_ResumeID :: string
  op_MaxTurns :: int
  op_Model :: string
  op_SystemPrompt :: string
  op_PermissionMCPConfigPath :: string
  op_PermissionTool :: string
  op_AllowedTools :: "string list"
  op_DisallowedTools :: "string list"

record Event =
  av_SessionID :: string
  av_Text :: string
  av_CurrentTool :: string
  av_Turns :: int

record Result =
  rs_Status :: string
  rs_Text :: string
  rs_SessionID :: string
  rs_Turns :: int
  rs_CostUSD :: rat
  rs_DurationMS :: int
  rs_ErrCode :: string
  rs_ErrMessage :: string

section \<open>Claude\<close>

definition claude_args :: "Options \<Rightarrow> string list" where
  "claude_args opt =
     [''-p'', op_Prompt opt, ''--output-format'', ''stream-json'', ''--verbose'',
      ''--permission-mode'', ''default'', ''--permission-prompts'', ''host'']
     @ (if op_MaxTurns opt > 0 then [''--max-turns'', itoa (op_MaxTurns opt)] else [])
     @ (if op_ResumeID opt \<noteq> [] then [''--resume'', op_ResumeID opt] else [])
     @ (if op_PermissionMCPConfigPath opt \<noteq> []
        then [''--mcp-config'', op_PermissionMCPConfigPath opt, ''--strict-mcp-config''] else [])
     @ (if op_PermissionTool opt \<noteq> [] then [''--permission-prompt-tool'', op_PermissionTool opt] else [])
     @ (if op_AllowedTools opt \<noteq> [] then [''--allowedTools'', Join (op_AllowedTools opt) '',''] else [])
     @ (if op_DisallowedTools opt \<noteq> [] then [''--disallowedTools'', Join (op_DisallowedTools opt) '',''] else [])
     @ (if op_SystemPrompt opt \<noteq> [] then [''--append-system-prompt'', op_SystemPrompt opt] else [])
     @ (if op_Model opt \<noteq> [] then [''--model'', op_Model opt] else [])"

record claude_content =
  cc_Type :: string
  cc_Text :: string
  cc_Name :: string

record claude_line =
  cl_Type :: string
  cl_Subtype :: string
  cl_Session :: string
  cl_Content :: "claude_content list"
  cl_IsError :: bool
  cl_Result :: string
  cl_NumTurns :: int
  cl_CostUSD :: rat
  cl_DurationMS :: int

record claude_state =
  cs_sessionID :: string
  cs_texts :: "string list"
  cs_tool :: string
  cs_turns :: int
  cs_sawResult :: bool
  cs_isError :: bool
  cs_subtype :: string
  cs_resultText :: string
  cs_cost :: rat
  cs_durationMS :: int

definition claude_start :: claude_state where
  "claude_start = \<lparr>cs_sessionID = [], cs_texts = [], cs_tool = [], cs_turns = 0, cs_sawResult = False,
     cs_isError = False, cs_subtype = [], cs_resultText = [], cs_cost = 0, cs_durationMS = 0\<rparr>"

definition paragraphs :: "string list \<Rightarrow> string" where
  "paragraphs texts = TrimSpace (Join texts (nl @ nl))"

definition claude_snapshot :: "claude_state \<Rightarrow> string" where
  "claude_snapshot st = paragraphs (cs_texts st)"

definition claude_finalText :: "claude_state \<Rightarrow> string" where
  "claude_finalText st =
     (if cs_sawResult st \<and> cs_resultText st \<noteq> [] \<and> \<not> cs_isError st then cs_resultText st
      else claude_snapshot st)"

definition claude_event :: "claude_state \<Rightarrow> Event" where
  "claude_event st = \<lparr>av_SessionID = cs_sessionID st, av_Text = claude_snapshot st,
     av_CurrentTool = cs_tool st, av_Turns = cs_turns st\<rparr>"

definition claude_content_step :: "claude_state \<Rightarrow> claude_content \<Rightarrow> claude_state" where
  "claude_content_step st c =
     (if cc_Type c = ''text'' then
        (if TrimSpace (cc_Text c) \<noteq> [] then st\<lparr>cs_texts := cs_texts st @ [cc_Text c]\<rparr> else st)
      else if cc_Type c = ''tool_use'' then st\<lparr>cs_tool := cc_Name c, cs_turns := cs_turns st + 1\<rparr>
      else st)"

text \<open>One line of the stream: the new state and the events it emits.\<close>

definition claude_line_step :: "claude_line \<Rightarrow> claude_state \<Rightarrow> claude_state \<times> Event list" where
  "claude_line_step l st0 =
     (let st = (if cl_Session l \<noteq> [] then st0\<lparr>cs_sessionID := cl_Session l\<rparr> else st0) in
      if cl_Type l = ''system'' then (st, if cl_Subtype l = ''init'' then [claude_event st] else [])
      else if cl_Type l = ''assistant'' then
        (let st' = foldl claude_content_step (st\<lparr>cs_tool := []\<rparr>) (cl_Content l) in (st', [claude_event st']))
      else if cl_Type l = ''result'' then
        (st\<lparr>cs_sawResult := True, cs_isError := cl_IsError l, cs_subtype := cl_Subtype l,
            cs_resultText := cl_Result l,
            cs_turns := (if cl_NumTurns l > 0 then cl_NumTurns l else cs_turns st),
            cs_cost := cl_CostUSD l, cs_durationMS := cl_DurationMS l\<rparr>, [])
      else (st, []))"

fun claude_parse_from :: "claude_state \<Rightarrow> claude_line option list \<Rightarrow> claude_state \<times> Event list" where
  "claude_parse_from st [] = (st, [])"
| "claude_parse_from st (None # ls) = claude_parse_from st ls"
| "claude_parse_from st (Some l # ls) =
     (let (st', es) = claude_line_step l st; (st'', es') = claude_parse_from st' ls in (st'', es @ es'))"

definition claude_parse :: "claude_line option list \<Rightarrow> claude_state \<times> Event list" where
  "claude_parse ls = claude_parse_from claude_start ls"

text \<open>
  The result after the process has exited. \<open>ctxErr\<close>: the text of the context's error when it was
  cancelled or timed out; \<open>waitErr\<close>: the text of the error of \<^verbatim>\<open>cmd.Wait\<close>.
\<close>

definition claude_result :: "string option \<Rightarrow> string option \<Rightarrow> string \<Rightarrow> claude_state \<Rightarrow> Result" where
  "claude_result ctxErr waitErr stderr st =
     (let res = \<lparr>rs_Status = StatusFailed, rs_Text = claude_finalText st, rs_SessionID = cs_sessionID st,
                 rs_Turns = cs_turns st, rs_CostUSD = cs_cost st, rs_DurationMS = cs_durationMS st,
                 rs_ErrCode = [], rs_ErrMessage = []\<rparr>
      in case ctxErr of
           Some e \<Rightarrow> res\<lparr>rs_Status := StatusCancelled, rs_ErrCode := ''cancelled'', rs_ErrMessage := e\<rparr>
         | None \<Rightarrow>
             if cs_sawResult st \<and> \<not> cs_isError st then res\<lparr>rs_Status := StatusSucceeded\<rparr>
             else if cs_sawResult st then res\<lparr>rs_ErrCode := cs_subtype st, rs_ErrMessage := cs_resultText st\<rparr>
             else
               let msg = TrimSpace stderr;
                   msg = (if msg = [] then (case waitErr of None \<Rightarrow> [] | Some w \<Rightarrow> w) else msg);
                   msg = (if msg = [] then ''claude exited without a result message'' else msg)
               in res\<lparr>rs_ErrCode := ''claude_exit'', rs_ErrMessage := msg\<rparr>)"

definition claude_Run :: "string option \<Rightarrow> string option \<Rightarrow> string \<Rightarrow> claude_line option list \<Rightarrow> Result \<times> Event list" where
  "claude_Run ctxErr waitErr stderr ls =
     (let (st, es) = claude_parse ls in (claude_result ctxErr waitErr stderr st, es))"

section \<open>Codex\<close>

definition codex_args :: "string \<Rightarrow> Options \<Rightarrow> string list" where
  "codex_args sandbox opt =
     (let prompt = (if op_SystemPrompt opt \<noteq> [] then op_SystemPrompt opt @ nl @ nl @ op_Prompt opt else op_Prompt opt)
      in [''exec'']
         @ (if op_ResumeID opt \<noteq> [] then [''resume'', op_ResumeID opt] else [])
         @ [''--json'', ''--skip-git-repo-check'', ''--color'', ''never'', ''-C'', op_Dir opt, ''-s'', sandbox]
         @ (if op_Model opt \<noteq> [] then [''-m'', op_Model opt] else [])
         @ [prompt])"

record codex_line =
  cx_Type :: string
  cx_ThreadID :: string
  cx_ItemType :: string
  cx_ItemText :: string
  cx_ItemMessage :: string
  cx_ErrorMessage :: string

record codex_state =
  xs_threadID :: string
  xs_messages :: "string list"
  xs_tool :: string
  xs_turns :: int
  xs_completed :: bool
  xs_failed :: string
  xs_errors :: "string list"

definition codex_start :: codex_state where
  "codex_start = \<lparr>xs_threadID = [], xs_messages = [], xs_tool = [], xs_turns = 0, xs_completed = False,
     xs_failed = [], xs_errors = []\<rparr>"

definition codex_snapshot :: "codex_state \<Rightarrow> string" where
  "codex_snapshot st = paragraphs (xs_messages st)"

definition codex_finalText :: "codex_state \<Rightarrow> string" where
  "codex_finalText st = (if xs_messages st = [] then [] else TrimSpace (last (xs_messages st)))"

definition codex_event :: "codex_state \<Rightarrow> Event" where
  "codex_event st = \<lparr>av_SessionID = xs_threadID st, av_Text = codex_snapshot st,
     av_CurrentTool = xs_tool st, av_Turns = xs_turns st\<rparr>"

definition codex_line_step :: "codex_line \<Rightarrow> codex_state \<Rightarrow> codex_state \<times> Event list" where
  "codex_line_step l st =
     (if cx_Type l = ''thread.started'' then
        (let st' = st\<lparr>xs_threadID := cx_ThreadID l\<rparr> in (st', [codex_event st']))
      else if cx_Type l = ''item.started'' then
        (if cx_ItemType l = ''command_execution'' then
           (let st' = st\<lparr>xs_tool := ''shell'', xs_turns := xs_turns st + 1\<rparr> in (st', [codex_event st']))
         else (st, []))
      else if cx_Type l = ''item.completed'' then
        (if cx_ItemType l = ''agent_message'' then
           (let st' = st\<lparr>xs_tool := [], xs_messages := xs_messages st @
                  (if TrimSpace (cx_ItemText l) \<noteq> [] then [cx_ItemText l] else [])\<rparr>
            in (st', [codex_event st']))
         else if cx_ItemType l = ''command_execution'' then (st\<lparr>xs_tool := []\<rparr>, [])
         else if cx_ItemType l = ''error'' then (st\<lparr>xs_errors := xs_errors st @ [cx_ItemMessage l]\<rparr>, [])
         else (st, []))
      else if cx_Type l = ''turn.completed'' then (st\<lparr>xs_completed := True\<rparr>, [])
      else if cx_Type l = ''turn.failed'' then
        (st\<lparr>xs_failed := (if cx_ErrorMessage l = [] then ''turn failed'' else cx_ErrorMessage l)\<rparr>, [])
      else (st, []))"

fun codex_parse_from :: "codex_state \<Rightarrow> codex_line option list \<Rightarrow> codex_state \<times> Event list" where
  "codex_parse_from st [] = (st, [])"
| "codex_parse_from st (None # ls) = codex_parse_from st ls"
| "codex_parse_from st (Some l # ls) =
     (let (st', es) = codex_line_step l st; (st'', es') = codex_parse_from st' ls in (st'', es @ es'))"

definition codex_parse :: "codex_line option list \<Rightarrow> codex_state \<times> Event list" where
  "codex_parse ls = codex_parse_from codex_start ls"

definition codex_result :: "string option \<Rightarrow> string option \<Rightarrow> string \<Rightarrow> int \<Rightarrow> codex_state \<Rightarrow> Result" where
  "codex_result ctxErr waitErr stderr elapsedMS st =
     (let res = \<lparr>rs_Status = StatusFailed, rs_Text = codex_finalText st, rs_SessionID = xs_threadID st,
                 rs_Turns = xs_turns st, rs_CostUSD = 0, rs_DurationMS = elapsedMS,
                 rs_ErrCode = [], rs_ErrMessage = []\<rparr>
      in case ctxErr of
           Some e \<Rightarrow> res\<lparr>rs_Status := StatusCancelled, rs_ErrCode := ''cancelled'', rs_ErrMessage := e\<rparr>
         | None \<Rightarrow>
             if xs_failed st \<noteq> [] then res\<lparr>rs_ErrCode := ''turn_failed'', rs_ErrMessage := xs_failed st\<rparr>
             else if xs_completed st \<and> waitErr = None then res\<lparr>rs_Status := StatusSucceeded\<rparr>
             else
               let msg = TrimSpace stderr;
                   msg = (if msg = [] \<and> xs_errors st \<noteq> [] then Join (xs_errors st) ''; '' else msg);
                   msg = (if msg = [] then (case waitErr of None \<Rightarrow> [] | Some w \<Rightarrow> w) else msg);
                   msg = (if msg = [] then ''codex exited without completing the turn'' else msg)
               in res\<lparr>rs_ErrCode := ''codex_exit'', rs_ErrMessage := msg\<rparr>)"

definition codex_Run :: "string option \<Rightarrow> string option \<Rightarrow> string \<Rightarrow> int \<Rightarrow> codex_line option list \<Rightarrow> Result \<times> Event list" where
  "codex_Run ctxErr waitErr stderr elapsedMS ls =
     (let (st, es) = codex_parse ls in (codex_result ctxErr waitErr stderr elapsedMS st, es))"

section \<open>Limited standard error\<close>

text \<open>
  \<^verbatim>\<open>limitedWriter\<close>: the buffer and the room left. The first component is the count that \<^verbatim>\<open>Write\<close>
  reports to its caller.
\<close>

record limited =
  lw_buf :: string
  lw_n :: int

definition limited_Write :: "string \<Rightarrow> limited \<Rightarrow> int \<times> limited" where
  "limited_Write p l =
     (if lw_n l \<le> 0 then (int (length p), l)
      else let q = (if int (length p) > lw_n l then take (nat (lw_n l)) p else p)
           in (int (length q), \<lparr>lw_buf = lw_buf l @ q, lw_n = lw_n l - int (length q)\<rparr>))"

text \<open>
  The goroutine of \<^verbatim>\<open>os/exec\<close> that copies standard error is an \<^verbatim>\<open>io.Copy\<close>: it stops with
  \<^verbatim>\<open>io.ErrShortWrite\<close> when a write reports fewer bytes than it was given, and \<^verbatim>\<open>cmd.Wait\<close> returns
  that error when the process itself succeeded.
\<close>

fun copy_stderr :: "string list \<Rightarrow> limited \<Rightarrow> bool \<times> limited" where
  "copy_stderr [] l = (True, l)"
| "copy_stderr (p # ps) l =
     (let (n, l') = limited_Write p l in if n < int (length p) then (False, l') else copy_stderr ps l')"

definition wait_error :: "string option \<Rightarrow> string list \<Rightarrow> string option" where
  "wait_error exitErr writes =
     (case exitErr of
        Some e \<Rightarrow> Some e
      | None \<Rightarrow> if fst (copy_stderr writes \<lparr>lw_buf = [], lw_n = 65536\<rparr>) then None else Some ''short write'')"

section \<open>Registry\<close>

text \<open>
  An agent of the registry as the daemon sees it: whether its tool calls go through the
  permission bridge.
\<close>

type_synonym Registry = "(string \<times> bool) list"

definition Registry_Get :: "Registry \<Rightarrow> string \<Rightarrow> bool option" where
  "Registry_Get r name = map_of r name"

text \<open>\<open>q\<close> is the \<^verbatim>\<open>%q\<close> of \<^verbatim>\<open>fmt\<close>.\<close>

definition unknown_agent_text :: "(string \<Rightarrow> string) \<Rightarrow> string \<Rightarrow> string" where
  "unknown_agent_text q name = ''agent: unknown agent: '' @ q name"

section \<open>Properties\<close>

lemma claude_parse_snoc:
  "fst (claude_parse_from st (ls @ [x])) =
     (case x of None \<Rightarrow> fst (claude_parse_from st ls)
      | Some l \<Rightarrow> fst (claude_line_step l (fst (claude_parse_from st ls))))"
proof (induction ls arbitrary: st)
  case Nil
  show ?case by (cases x) (simp_all add: case_prod_unfold Let_def)
next
  case (Cons y ls)
  then show ?case by (cases y; cases x) (simp_all add: case_prod_unfold Let_def)
qed

lemma content_keeps_result:
  "cs_sawResult (claude_content_step st c) = cs_sawResult st"
  "cs_isError (claude_content_step st c) = cs_isError st"
  by (simp_all add: claude_content_step_def)

lemma contents_keep_result:
  "cs_sawResult (foldl claude_content_step st cs) = cs_sawResult st"
  "cs_isError (foldl claude_content_step st cs) = cs_isError st"
  by (induction cs arbitrary: st) (simp_all add: content_keeps_result)

lemma line_result:
  "cs_sawResult (fst (claude_line_step l st)) = (cl_Type l = ''result'' \<or> cs_sawResult st)"
  "cs_isError (fst (claude_line_step l st)) = (if cl_Type l = ''result'' then cl_IsError l else cs_isError st)"
  by (simp_all add: claude_line_step_def Let_def contents_keep_result)

text \<open>The last message of type \<^verbatim>\<open>result\<close> of a stream.\<close>

definition last_result :: "claude_line option list \<Rightarrow> claude_line option" where
  "last_result ls = find (\<lambda>l. cl_Type l = ''result'') (rev (List.map_filter id ls))"

lemma last_result_simps:
  "last_result [] = None" "last_result (ls @ [None]) = last_result ls"
  "last_result (ls @ [Some l]) = (if cl_Type l = ''result'' then Some l else last_result ls)"
  by (simp_all add: last_result_def map_filter_def)

lemma claude_parse_result:
  "case last_result ls of
     None \<Rightarrow> \<not> cs_sawResult (fst (claude_parse ls))
   | Some l \<Rightarrow> cs_sawResult (fst (claude_parse ls)) \<and> cs_isError (fst (claude_parse ls)) = cl_IsError l"
  unfolding claude_parse_def
proof (induction ls rule: rev_induct)
  case Nil
  show ?case by (simp add: last_result_simps claude_start_def)
next
  case (snoc x ls)
  then show ?case
    by (cases x) (auto simp: last_result_simps claude_parse_snoc line_result split: option.splits)
qed

text \<open>
  The verdict of a Claude run is that of the last result message in its output: a run that was
  not cancelled succeeds exactly when that message reports no error, whatever else the output
  contains, lines that do not parse included. A run without a result message fails, and a
  cancelled one is reported as cancelled.
\<close>

theorem claude_verdict:
  "rs_Status (fst (claude_Run ctxErr waitErr stderr ls)) =
    (if ctxErr \<noteq> None then StatusCancelled
     else case last_result ls of
         None \<Rightarrow> StatusFailed
       | Some l \<Rightarrow> if cl_IsError l then StatusFailed else StatusSucceeded)"
  using claude_parse_result [of ls]
  by (auto simp: claude_Run_def claude_result_def Let_def case_prod_unfold split: option.split)

lemma copy_stderr_buf:
  "lw_buf (snd (copy_stderr ps l)) = lw_buf l @ take (nat (lw_n l)) (concat ps)"
proof (induction ps arbitrary: l)
  case (Cons p ps)
  show ?case
  proof (cases "lw_n l \<le> 0 \<or> int (length p) \<le> lw_n l")
    case True
    then show ?thesis
      using Cons.IH by (auto simp: limited_Write_def Let_def nat_diff_distrib)
  next
    case False
    then have "min (length p) (nat (lw_n l)) < length p" by linarith
    with False show ?thesis by (simp add: limited_Write_def Let_def)
  qed
qed simp


end
