(* ===== verification/Harness_Config.thy ===== *)
theory Harness_Config
  imports Harness_Files Agents
begin

text \<open>
  \<^verbatim>\<open>internal/harness/config.go\<close>, and what \<^verbatim>\<open>pair.go\<close> and \<^verbatim>\<open>initflow.go\<close> do to the configuration.
  A configuration file is modelled by what decoding its text does to a configuration: it
  overwrites the fields it names and keeps the others, which is how the program merges a file
  into the defaults. Directories come from the environment as arguments.
\<close>

section \<open>Configurations\<close>

record HarnessConfig =
  hc_BrokerURL :: string
  hc_HarnessID :: string
  hc_Token :: string
  hc_OwnerMMUserID :: string
  hc_Name :: string
  hc_Workspaces :: "string gomap"
  hc_DefaultWorkspace :: string
  hc_Agent :: string
  hc_CodexBin :: string
  hc_CodexSandbox :: string
  hc_AllowedTools :: "string list"
  hc_DisallowedTools :: "string list"
  hc_MaxJobs :: int
  hc_DefaultMaxTurns :: int
  hc_ApprovalTimeoutMin :: int
  hc_ClaudeBin :: string
  hc_Model :: string

definition DefaultConfig :: "string \<Rightarrow> HarnessConfig" where
  "DefaultConfig home =
     \<lparr>hc_BrokerURL = [], hc_HarnessID = [], hc_Token = [], hc_OwnerMMUserID = [], hc_Name = [],
      hc_Workspaces = [], hc_DefaultWorkspace = path_join [home, ''.harness''], hc_Agent = ''claude'',
      hc_CodexBin = ''codex'', hc_CodexSandbox = ''workspace-write'',
      hc_AllowedTools = [''Read'', ''Grep'', ''Glob'', ''LS'', ''WebSearch'', ''WebFetch''],
      hc_DisallowedTools = [], hc_MaxJobs = 1, hc_DefaultMaxTurns = 40, hc_ApprovalTimeoutMin = 30,
      hc_ClaudeBin = ''claude'', hc_Model = []\<rparr>"

text \<open>\<open>env\<close>: the variable \<^verbatim>\<open>MM_HARNESS_CONFIG_DIR\<close>; \<open>userConfig\<close>: \<^verbatim>\<open>os.UserConfigDir\<close>; \<open>home\<close>: \<^verbatim>\<open>HOME\<close>.\<close>

definition ConfigDir :: "string \<Rightarrow> string option \<Rightarrow> string \<Rightarrow> string" where
  "ConfigDir env userConfig home =
     (if env \<noteq> [] then env
      else path_join [case userConfig of Some b \<Rightarrow> b | None \<Rightarrow> path_join [home, ''.config''], ''mm-harness''])"

definition ConfigPath :: "string \<Rightarrow> string" where
  "ConfigPath configDir = path_join [configDir, ''config.json'']"

definition StateDir :: "string \<Rightarrow> string \<Rightarrow> string" where
  "StateDir env configDir = (if env \<noteq> [] then env else path_join [configDir, ''state''])"

datatype config_err =
    ErrIncomplete
  | ErrNotAbsolute string
  | ErrNotDirectory string
  | ErrMaxJobs
  | ErrDefaultWorkspace
  | ErrAgentName string

fun check_workspaces :: "(string \<Rightarrow> bool) \<Rightarrow> string gomap \<Rightarrow> config_err option" where
  "check_workspaces isDir [] = None"
| "check_workspaces isDir ((name, dir) # ws) =
     (if \<not> path_is_abs dir then Some (ErrNotAbsolute name)
      else if \<not> isDir dir then Some (ErrNotDirectory name)
      else check_workspaces isDir ws)"

definition Validate :: "(string \<Rightarrow> bool) \<Rightarrow> HarnessConfig \<Rightarrow> config_err option" where
  "Validate isDir c =
     (if hc_BrokerURL c = [] \<or> hc_Token c = [] \<or> hc_OwnerMMUserID c = [] \<or> hc_HarnessID c = []
      then Some ErrIncomplete
      else case check_workspaces isDir (hc_Workspaces c) of
          Some e \<Rightarrow> Some e
        | None \<Rightarrow>
            if hc_MaxJobs c \<le> 0 then Some ErrMaxJobs
            else if hc_DefaultWorkspace c = [] \<or> \<not> path_is_abs (hc_DefaultWorkspace c) then Some ErrDefaultWorkspace
            else if hc_Agent c = ''claude'' \<or> hc_Agent c = ''codex'' then None
            else Some (ErrAgentName (hc_Agent c)))"

definition WSURL :: "HarnessConfig \<Rightarrow> string" where
  "WSURL c =
     (let u = TrimRight (hc_BrokerURL c) ''/'' in
      (if HasPrefix u ''https://'' then ''wss://'' @ TrimPrefix u ''https://''
       else if HasPrefix u ''http://'' then ''ws://'' @ TrimPrefix u ''http://''
       else u) @ ''/harness/v2'')"

definition WorkspaceNames :: "HarnessConfig \<Rightarrow> string list" where
  "WorkspaceNames c = map fst (hc_Workspaces c)"

section \<open>The configuration file\<close>

type_synonym config_file = "(HarnessConfig \<Rightarrow> HarnessConfig) disk_file"

datatype load_err = NoConfig | LoadRead | LoadParse | Invalid config_err

definition LoadConfig :: "string \<Rightarrow> (string \<Rightarrow> bool) \<Rightarrow> config_file \<Rightarrow> load_err option \<times> HarnessConfig" where
  "LoadConfig home isDir f =
     (case f of
        Missing \<Rightarrow> (Some NoConfig, DefaultConfig home)
      | Unreadable \<Rightarrow> (Some LoadRead, DefaultConfig home)
      | Garbage \<Rightarrow> (Some LoadParse, DefaultConfig home)
      | Holds upd \<Rightarrow>
          let cfg = upd (DefaultConfig home) in (map_option Invalid (Validate isDir cfg), cfg))"

text \<open>The text \<^verbatim>\<open>SaveConfig\<close> writes names every field but an empty model.\<close>

definition config_text :: "HarnessConfig \<Rightarrow> HarnessConfig \<Rightarrow> HarnessConfig" where
  "config_text cfg old = cfg\<lparr>hc_Model := (if hc_Model cfg = [] then hc_Model old else hc_Model cfg)\<rparr>"

definition SaveConfig :: "(fs_op \<Rightarrow> bool) \<Rightarrow> HarnessConfig \<Rightarrow> config_file \<Rightarrow> (file_err + unit) \<times> config_file" where
  "SaveConfig fails cfg f =
     (case find fails [FsMkdir, FsMarshal, FsWrite, FsRename] of
        Some op \<Rightarrow> (Inl (FileErr op), f)
      | None \<Rightarrow> (Inr (), Holds (config_text cfg)))"

definition existing_config :: "string \<Rightarrow> config_file \<Rightarrow> HarnessConfig" where
  "existing_config home f = (case f of Holds upd \<Rightarrow> upd (DefaultConfig home) | _ \<Rightarrow> DefaultConfig home)"

text \<open>
  The end of \<^verbatim>\<open>Pair\<close> and \<^verbatim>\<open>ApplyInit\<close>: the credentials of the broker's answer go into the
  existing configuration.
\<close>

definition apply_credentials :: "(fs_op \<Rightarrow> bool) \<Rightarrow> string \<Rightarrow> string \<Rightarrow> string \<Rightarrow> string \<Rightarrow> string \<Rightarrow> string
    \<Rightarrow> config_file \<Rightarrow> (file_err + unit) \<times> HarnessConfig \<times> config_file" where
  "apply_credentials fails home brokerURL harnessID token owner name f =
     (let cfg = (existing_config home f)\<lparr>hc_BrokerURL := TrimRight brokerURL ''/'', hc_HarnessID := harnessID,
                  hc_Token := token, hc_OwnerMMUserID := owner, hc_Name := name\<rparr>;
          (r, f') = SaveConfig fails cfg f
      in (r, cfg, f'))"

definition pair_config_name :: "string \<Rightarrow> string \<Rightarrow> string" where
  "pair_config_name name host = (if name = [] then host else name)"

section \<open>Redaction\<close>

text \<open>
  \<^verbatim>\<open>RedactConfig\<close> on the members of the decoded object, and the token \<^verbatim>\<open>LoadConfig\<close> reads from
  them: \<^verbatim>\<open>encoding/json\<close> matches field names without regard to case (\<open>fold\<close>), later members
  overwriting earlier ones.
\<close>

definition RedactConfig :: "json gomap \<Rightarrow> json gomap" where
  "RedactConfig m = (if map_of m ''token'' = None then m else AList.update ''token'' (JStr ''redacted'') m)"

fun decoded_token :: "(string \<Rightarrow> string) \<Rightarrow> json gomap \<Rightarrow> string \<Rightarrow> string" where
  "decoded_token lower [] t = t"
| "decoded_token lower ((k, v) # kvs) t =
     decoded_token lower kvs (case v of JStr s \<Rightarrow> if lower k = ''token'' then s else t | _ \<Rightarrow> t)"

section \<open>Properties\<close>

lemma check_workspaces_None:
  "check_workspaces isDir ws = None \<longleftrightarrow> (\<forall>(n, d) \<in> set ws. path_is_abs d \<and> isDir d)"
  by (induction isDir ws rule: check_workspaces.induct) auto


text \<open>
  Redaction removes the value of \<^verbatim>\<open>token\<close> and keeps every other member, but a configuration whose
  member is spelled with other capitals, which the program reads as the token too, is printed
  with the token in clear.
\<close>

theorem redaction_leaks_capitals:
  assumes "lower ''Token'' = ''token''"
  shows "(\<forall>v. map_of m ''token'' = Some v \<longrightarrow> map_of (RedactConfig m) ''token'' = Some (JStr ''redacted'')) \<and>
    (\<forall>k. k \<noteq> ''token'' \<longrightarrow> map_of (RedactConfig m) k = map_of m k) \<and>
    (\<forall>secret. decoded_token lower (RedactConfig [(''Token'', JStr secret)]) [] = secret)"
  using assms by (auto simp: RedactConfig_def update_conv')

end
