(* ===== verification/Daemon_Inv.thy ===== *)
theory Daemon_Inv
  imports Daemon
begin

text \<open>
  The daemon as a transition system and its invariant: never more jobs than configured, the
  table and the job objects agree, the channels of pending approvals are open, belong to one job
  and carry only answers to their own approval. The steps are the atomic ones: a message of the
  broker is handled as a whole.
\<close>

section \<open>Steps\<close>

inductive daemon_step :: "HarnessConfig \<Rightarrow> daemon \<Rightarrow> daemon \<Rightarrow> bool" for cfg where
  Connect: "h_cfg E = cfg \<Longrightarrow> daemon_step cfg s (snd (run_state (session_open E first) s))"
| Message: "h_cfg E = cfg \<Longrightarrow> daemon_step cfg s (snd (run_state (client_handle E env) s))"
| Disconnect: "daemon_step cfg s (snd (run_state session_close s))"
| Ping: "daemon_step cfg s (snd (run_state (send_ping E) s))"
| Pong: "daemon_step cfg s (snd (run_state await_pong s))"
| Prepare: "daemon_step cfg s (snd (run_state (run_prepare E p d) s))"
| Tick: "daemon_step cfg s (snd (run_state (run_tick E p e) s))"
| End: "daemon_step cfg s (snd (run_state (run_end E p outcome t) s))"
| Ask: "daemon_step cfg s (snd (run_state (decide_begin E req) s))"
| Wake: "daemon_step cfg s (snd (run_state (decide_wake req w k) s))"
| Timeout: "daemon_step cfg s (snd (run_state (update_job p (\<lambda>j. j\<lparr>jo_cancelled := True\<rparr>)) s))"
| Link: "daemon_step cfg s (s\<lparr>dm_broken := b\<rparr>)"

inductive_cases daemon_stepE: "daemon_step cfg s s'"

definition fresh_daemon :: "sessions \<Rightarrow> outbox \<Rightarrow> daemon \<Rightarrow> bool" where
  "fresh_daemon se ob s \<longleftrightarrow> dm_sessions s = se \<and> dm_outbox s = ob \<and> dm_jobs s = [] \<and>
     (\<forall>p. jo_approvals (dm_objs s p) = []) \<and> (\<forall>c. ch_buf (dm_chans s c) = None) \<and> \<not> dm_panicked s"

section \<open>Invariant\<close>

definition table_ok :: "HarnessConfig \<Rightarrow> daemon \<Rightarrow> bool" where
  "table_ok cfg s \<longleftrightarrow> distinct (map fst (dm_jobs s)) \<and> length (dm_jobs s) \<le> nat (hc_MaxJobs cfg) \<and>
     (\<forall>(i, p) \<in> set (dm_jobs s). p < dm_nextJob s \<and> jo_id (dm_objs s p) = i)"

definition approvals_of :: "daemon \<Rightarrow> (nat \<times> string \<times> nat) set" where
  "approvals_of s = {(p, a, c). (a, c) \<in> set (jo_approvals (dm_objs s p))}"

definition channels_ok :: "daemon \<Rightarrow> bool" where
  "channels_ok s \<longleftrightarrow>
     (\<forall>p a c. (p, a, c) \<in> approvals_of s \<longrightarrow>
        c < dm_nextChan s \<and> ch_approval (dm_chans s c) = a \<and> \<not> ch_closed (dm_chans s c)) \<and>
     (\<forall>p a p' a' c. (p, a, c) \<in> approvals_of s \<longrightarrow> (p', a', c) \<in> approvals_of s \<longrightarrow> p = p')"

definition buffers_ok :: "daemon \<Rightarrow> bool" where
  "buffers_ok s \<longleftrightarrow> (\<forall>c r. ch_buf (dm_chans s c) = Some r \<longrightarrow> ap_ApprovalID r = ch_approval (dm_chans s c))"

definition daemon_ok :: "HarnessConfig \<Rightarrow> daemon \<Rightarrow> bool" where
  "daemon_ok cfg s \<longleftrightarrow> table_ok cfg s \<and> channels_ok s \<and> buffers_ok s \<and> \<not> dm_panicked s \<and> outbox_ok (dm_outbox s)"

text \<open>What a step may do: keep the invariant, and never change what an existing channel is for.\<close>

definition drel :: "HarnessConfig \<Rightarrow> daemon \<Rightarrow> daemon \<Rightarrow> bool" where
  "drel cfg s s' \<longleftrightarrow> (daemon_ok cfg s \<longrightarrow> daemon_ok cfg s') \<and> dm_nextChan s \<le> dm_nextChan s' \<and>
     (\<forall>c < dm_nextChan s. ch_approval (dm_chans s' c) = ch_approval (dm_chans s c))"

interpretation dr: step_relation "drel cfg" for cfg
  by unfold_locales (auto simp: drel_def)

section \<open>Single operations\<close>

lemma channels_subset:
  assumes "channels_ok s" "approvals_of s' \<subseteq> approvals_of s" "dm_nextChan s \<le> dm_nextChan s'"
    and "\<And>p a c. (p, a, c) \<in> approvals_of s' \<Longrightarrow>
      ch_approval (dm_chans s' c) = ch_approval (dm_chans s c) \<and> ch_closed (dm_chans s' c) = ch_closed (dm_chans s c)"
  shows "channels_ok s'"
proof -
  have "c < dm_nextChan s' \<and> ch_approval (dm_chans s' c) = a \<and> \<not> ch_closed (dm_chans s' c)"
    if "(p, a, c) \<in> approvals_of s'" for p a c
  proof -
    have "(p, a, c) \<in> approvals_of s" using that assms(2) by blast
    then have "c < dm_nextChan s \<and> ch_approval (dm_chans s c) = a \<and> \<not> ch_closed (dm_chans s c)"
      using assms(1) unfolding channels_ok_def by blast
    then show ?thesis using assms(3) assms(4) [OF that] by simp
  qed
  moreover have "p = p'" if "(p, a, c) \<in> approvals_of s'" "(p', a', c) \<in> approvals_of s'" for p a p' a' c
    using that assms(1,2) unfolding channels_ok_def by blast
  ultimately show ?thesis unfolding channels_ok_def by blast
qed

text \<open>The parts of the state the invariant does not look at.\<close>

lemma drel_frame:
  assumes "dm_jobs s' = dm_jobs s" "dm_objs s' = dm_objs s" "dm_nextJob s' = dm_nextJob s" "dm_chans s' = dm_chans s"
    "dm_nextChan s' = dm_nextChan s" "dm_panicked s' = dm_panicked s" "outbox_ok (dm_outbox s) \<Longrightarrow> outbox_ok (dm_outbox s')"
  shows "drel cfg s s'"
  using assms by (simp add: drel_def daemon_ok_def table_ok_def channels_ok_def buffers_ok_def approvals_of_def)

lemma keeps_frame:
  assumes "\<And>s. dm_jobs (f s) = dm_jobs s \<and> dm_objs (f s) = dm_objs s \<and> dm_nextJob (f s) = dm_nextJob s \<and>
      dm_chans (f s) = dm_chans s \<and> dm_nextChan (f s) = dm_nextChan s \<and> dm_panicked (f s) = dm_panicked s \<and>
      (outbox_ok (dm_outbox s) \<longrightarrow> outbox_ok (dm_outbox (f s)))"
  shows "keeps (drel cfg) (modify f)"
  by (intro keepsI drel_frame) (simp_all add: assms)

named_theorems daemon_intro \<open>preservation rules of the daemon's operations\<close>

lemma simple_keep [daemon_intro]:
  "keeps (drel cfg) (fresh f)" "keeps (drel cfg) (wire_send env)" "keeps (drel cfg) (client_Send env)"
  "keeps (drel cfg) session_close"
  by (intro keepsI drel_frame; simp add: session_close_def)+

lemma update_job_keeps:
  assumes "\<And>j. jo_id (f j) = jo_id j" "\<And>j. set (jo_approvals (f j)) \<subseteq> set (jo_approvals j)"
  shows "keeps (drel cfg) (update_job p f)"
proof (rule keepsI)
  fix s
  let ?s = "snd (run_state (update_job p f) s)"
  have sub: "approvals_of ?s \<subseteq> approvals_of s"
    using assms(2) [of "dm_objs s p"] by (auto simp: approvals_of_def split: if_splits)
  have "table_ok cfg s \<Longrightarrow> table_ok cfg ?s" using assms(1) by (auto simp: table_ok_def)
  moreover have "channels_ok s \<Longrightarrow> channels_ok ?s" using sub by (elim channels_subset) simp_all
  ultimately show "drel cfg s ?s" by (simp add: drel_def daemon_ok_def buffers_ok_def)
qed

lemma set_delete: "set (AList.delete k al) \<subseteq> set al"
  by (rule set_AList_delete)

lemma job_updates_keep [daemon_intro]:
  "keeps (drel cfg) (setPhase p ph)"
  "keeps (drel cfg) (update_job p (\<lambda>j. j\<lparr>jo_seq := jo_seq j + 1\<rparr>))"
  "keeps (drel cfg) (update_job p (\<lambda>j. j\<lparr>jo_cancelled := True\<rparr>))"
  "keeps (drel cfg) (decide_end p a)"
  unfolding setPhase_def decide_end_def by (intro update_job_keeps; simp add: set_delete Let_def)+

lemma outbox_add_keeps [daemon_intro]:
  "keeps (drel cfg) (State (\<lambda>s. let (r, ob) = outbox_Add fails env (dm_outbox s) in (r, s\<lparr>dm_outbox := ob\<rparr>)))"
  by (intro keepsI drel_frame) (simp_all add: case_prod_unfold Let_def outbox_ok_Add)

lemma client_SendReliable_keeps [daemon_intro]: "keeps (drel cfg) (client_SendReliable E env)"
  unfolding client_SendReliable_def by (intro dr.body_keeps daemon_intro)

lemma sendProgress_keeps [daemon_intro]: "keeps (drel cfg) (sendProgress E p t tool n r)"
  unfolding sendProgress_def by (intro dr.body_keeps daemon_intro)

lemma close_approvals_keeps [daemon_intro]: "keeps (drel cfg) (close_approvals p)"
proof (rule keepsI)
  fix s
  let ?s = "snd (run_state (close_approvals p) s)"
  have sub: "approvals_of ?s = {(q, a, c) \<in> approvals_of s. q \<noteq> p}"
    by (auto simp: approvals_of_def close_approvals_def Let_def split: if_splits)
  have chan: "ch_approval (dm_chans ?s c) = ch_approval (dm_chans s c)" "ch_buf (dm_chans ?s c) = ch_buf (dm_chans s c)"
    "ch_closed (dm_chans ?s c) \<longleftrightarrow> ch_closed (dm_chans s c) \<or> (\<exists>a. (p, a, c) \<in> approvals_of s)" for c
    by (auto simp: approvals_of_def close_approvals_def Let_def image_iff)
  have same: "dm_nextChan ?s = dm_nextChan s" "dm_panicked ?s = dm_panicked s" "dm_outbox ?s = dm_outbox s"
    "dm_jobs ?s = dm_jobs s" "dm_nextJob ?s = dm_nextJob s" "jo_id (dm_objs ?s q) = jo_id (dm_objs s q)" for q
    by (simp_all add: close_approvals_def Let_def)
  have "channels_ok ?s" if ok: "channels_ok s"
  proof (rule channels_subset [OF ok])
    show "ch_approval (dm_chans ?s c) = ch_approval (dm_chans s c) \<and> ch_closed (dm_chans ?s c) = ch_closed (dm_chans s c)"
      if "(q, a, c) \<in> approvals_of ?s" for q a c
      using that ok unfolding sub chan channels_ok_def by blast
  qed (auto simp: sub same)
  moreover have "buffers_ok s \<Longrightarrow> buffers_ok ?s" unfolding buffers_ok_def chan by simp
  moreover have "table_ok cfg s \<Longrightarrow> table_ok cfg ?s" unfolding table_ok_def same by simp
  ultimately show "drel cfg s ?s" by (simp add: drel_def daemon_ok_def same chan)
qed

lemma register_approval_keeps [daemon_intro]: "keeps (drel cfg) (register_approval p a)"
proof (rule keepsI)
  fix s
  let ?s = "snd (run_state (register_approval p a) s)" and ?c = "dm_nextChan s"
  have sub: "approvals_of ?s \<subseteq> insert (p, a, ?c) (approvals_of s)"
    using set_AList_update [of a ?c "jo_approvals (dm_objs s p)"]
    by (auto simp: approvals_of_def register_approval_def Let_def split: if_splits)
  have same: "dm_panicked ?s = dm_panicked s" "dm_outbox ?s = dm_outbox s" "dm_nextChan ?s = Suc ?c"
    "dm_jobs ?s = dm_jobs s" "dm_nextJob ?s = dm_nextJob s" "jo_id (dm_objs ?s q) = jo_id (dm_objs s q)"
    "c \<noteq> ?c \<Longrightarrow> dm_chans ?s c = dm_chans s c" "dm_chans ?s ?c = \<lparr>ch_approval = a, ch_buf = None, ch_closed = False\<rparr>" for q c
    by (simp_all add: register_approval_def Let_def)
  have "channels_ok ?s" if ok: "channels_ok s"
  proof -
    have old: "c \<noteq> ?c" if "(q, b, c) \<in> approvals_of s" for q b c
      using ok that unfolding channels_ok_def by blast
    have use: "c < Suc ?c \<and> ch_approval (dm_chans ?s c) = b \<and> \<not> ch_closed (dm_chans ?s c)"
      if "(q, b, c) \<in> approvals_of ?s" for q b c
    proof (cases "c = ?c")
      case True
      then have "(q, b, c) = (p, a, ?c)" using that sub old by blast
      then show ?thesis by (simp add: same)
    next
      case False
      then have "(q, b, c) \<in> approvals_of s" using that sub by blast
      then have "c < ?c \<and> ch_approval (dm_chans s c) = b \<and> \<not> ch_closed (dm_chans s c)"
        using ok unfolding channels_ok_def by blast
      then show ?thesis using False by (simp add: same)
    qed
    have one: "q = q'" if "(q, b, c) \<in> approvals_of ?s" "(q', b', c) \<in> approvals_of ?s" for q q' b b' c
    proof (cases "c = ?c")
      case True
      then show ?thesis using that sub old by blast
    next
      case False
      then have "(q, b, c) \<in> approvals_of s" "(q', b', c) \<in> approvals_of s" using that sub by blast+
      then show ?thesis using ok unfolding channels_ok_def by blast
    qed
    show ?thesis unfolding channels_ok_def same using use one by blast
  qed
  moreover have "buffers_ok s \<Longrightarrow> buffers_ok ?s"
    unfolding buffers_ok_def by (metis chan.select_convs(2) option.distinct(1) same(7,8))
  moreover have "table_ok cfg s \<Longrightarrow> table_ok cfg ?s" unfolding table_ok_def same by simp
  ultimately show "drel cfg s ?s" by (simp add: drel_def daemon_ok_def same)
qed

lemma receive_keeps [daemon_intro]: "keeps (drel cfg) (receive c)"
proof (rule keepsI)
  fix s
  let ?s = "snd (run_state (receive c) s)"
  have sub: "approvals_of ?s \<subseteq> approvals_of s" by (simp add: approvals_of_def receive_def)
  have chan: "ch_approval (dm_chans ?s k) = ch_approval (dm_chans s k)" "ch_closed (dm_chans ?s k) = ch_closed (dm_chans s k)"
    "ch_buf (dm_chans ?s k) = Some r \<Longrightarrow> ch_buf (dm_chans s k) = Some r" for k r
    by (auto simp: receive_def split: if_splits)
  have "channels_ok s \<Longrightarrow> channels_ok ?s" using sub chan by (elim channels_subset) (simp_all add: receive_def)
  moreover have "buffers_ok s \<Longrightarrow> buffers_ok ?s" using chan unfolding buffers_ok_def by metis
  moreover have "table_ok cfg s \<Longrightarrow> table_ok cfg ?s" by (simp add: table_ok_def receive_def)
  moreover have "dm_panicked ?s = dm_panicked s" "dm_outbox ?s = dm_outbox s" "dm_nextChan ?s = dm_nextChan s"
    by (simp_all add: receive_def)
  ultimately show "drel cfg s ?s" by (simp add: drel_def daemon_ok_def chan)
qed

text \<open>A response goes to the channel of a pending approval, which is open.\<close>

lemma OnApprovalResponse_keeps [daemon_intro]: "keeps (drel cfg) (OnApprovalResponse E i r)"
proof (rule keepsI)
  fix s
  show "drel cfg s (snd (run_state (OnApprovalResponse E i r) s))"
  proof (cases "find_channel i (ap_ApprovalID r) s")
    case None
    then show ?thesis by (simp add: OnApprovalResponse_def dr.rel_refl)
  next
    case (Some c)
    let ?s = "snd (run_state (chan_send c r) s)"
    obtain p where p: "(p, ap_ApprovalID r, c) \<in> approvals_of s"
      using Some by (auto simp: find_channel_def approvals_of_def dest: map_of_SomeD split: option.splits)
    have chan: "ch_approval (dm_chans ?s k) = ch_approval (dm_chans s k)" "ch_closed (dm_chans ?s k) = ch_closed (dm_chans s k)"
      "ch_buf (dm_chans ?s k) = Some x \<Longrightarrow> ch_buf (dm_chans s k) = Some x \<or> (k = c \<and> x = r)" for k x
      by (auto simp: chan_send_def split: if_splits)
    have same: "dm_jobs ?s = dm_jobs s" "dm_objs ?s = dm_objs s" "dm_nextJob ?s = dm_nextJob s"
      "dm_nextChan ?s = dm_nextChan s" "dm_outbox ?s = dm_outbox s"
      "\<not> ch_closed (dm_chans s c) \<Longrightarrow> dm_panicked ?s = dm_panicked s"
      by (simp_all add: chan_send_def)
    have open_for: "ch_approval (dm_chans s c) = ap_ApprovalID r \<and> \<not> ch_closed (dm_chans s c)" if "channels_ok s"
      using p that unfolding channels_ok_def by blast
    have "channels_ok s \<Longrightarrow> channels_ok ?s"
      using chan same by (elim channels_subset) (simp_all add: approvals_of_def)
    moreover have "buffers_ok ?s" if "channels_ok s" "buffers_ok s"
      using chan open_for [OF that(1)] that(2) unfolding buffers_ok_def by metis
    moreover have "table_ok cfg s \<Longrightarrow> table_ok cfg ?s" by (simp add: table_ok_def same)
    ultimately have "drel cfg s ?s" using open_for by (simp add: drel_def daemon_ok_def same chan)
    then show ?thesis using Some by (simp add: OnApprovalResponse_def case_prod_unfold)
  qed
qed

lemma AList_update_new: "map_of al k = None \<Longrightarrow> AList.update k v al = al @ [(k, v)]"
  by (induction al) (auto split: if_splits)

lemma start_run_ok:
  assumes "map_of (dm_jobs s) i = None" "int (length (dm_jobs s)) < hc_MaxJobs cfg" "jo_id j = i" "jo_approvals j = []"
  shows "drel cfg s (snd (run_state (start_run i j) s))"
proof -
  let ?s = "snd (run_state (start_run i j) s)"
  have upd: "AList.update i (dm_nextJob s) (dm_jobs s) = dm_jobs s @ [(i, dm_nextJob s)]"
    using assms(1) by (rule AList_update_new)
  have "approvals_of ?s \<subseteq> approvals_of s"
    using assms(4) by (auto simp: approvals_of_def start_run_def split: if_splits)
  then have "channels_ok s \<Longrightarrow> channels_ok ?s" by (elim channels_subset) (simp_all add: start_run_def)
  moreover have "table_ok cfg s \<Longrightarrow> table_ok cfg ?s"
    using assms by (auto simp: table_ok_def start_run_def upd map_of_eq_None_iff)
  ultimately show ?thesis by (simp add: drel_def daemon_ok_def buffers_ok_def start_run_def)
qed

lemma OnDispatch_keeps: "h_cfg E = cfg \<Longrightarrow> keeps (drel cfg) (OnDispatch E i d)"
proof (rule keepsI)
  fix s
  assume cfg: "h_cfg E = cfg"
  show "drel cfg s (snd (run_state (OnDispatch E i d) s))"
    using cfg start_run_ok [of s i cfg]
    by (auto simp: OnDispatch_def Let_def case_prod_unfold dr.rel_refl started_job_def split: option.split)
qed

section \<open>Whole operations\<close>

lemma jobs_delete_keeps: "keeps (drel cfg) (modify (\<lambda>s. s\<lparr>dm_jobs := AList.delete (f s) (dm_jobs s)\<rparr>))"
proof (rule keepsI)
  fix s
  have "length (AList.delete (f s) (dm_jobs s)) \<le> length (dm_jobs s)" by (rule length_delete_le)
  then show "drel cfg s (snd (run_state (modify (\<lambda>s. s\<lparr>dm_jobs := AList.delete (f s) (dm_jobs s)\<rparr>)) s))"
    using set_delete [of "f s" "dm_jobs s"]
    by (auto simp: drel_def daemon_ok_def table_ok_def channels_ok_def buffers_ok_def approvals_of_def distinct_delete)
qed

lemma run_end_keeps [daemon_intro]: "keeps (drel cfg) (run_end E p outcome t)"
  unfolding run_end_def finish_def Let_def
  by (intro dr.body_keeps daemon_intro keeps_frame jobs_delete_keeps) simp

lemma writeAttachments_keeps [daemon_intro]: "keeps (drel cfg) (writeAttachments E dir fs)"
proof (induction fs)
  case (Cons f fs)
  show ?case unfolding writeAttachments.simps Let_def
    by (intro dr.body_keeps daemon_intro keeps_frame Cons.IH) simp
qed (simp add: dr.return_keeps)

lemma run_prepare_keeps [daemon_intro]: "keeps (drel cfg) (run_prepare E p d)"
  unfolding run_prepare_def job_prompt_def Let_def
  by (intro dr.body_keeps daemon_intro keeps_frame) simp

lemma run_tick_keeps [daemon_intro]: "keeps (drel cfg) (run_tick E p e)"
  unfolding run_tick_def by (intro dr.body_keeps daemon_intro)

lemma decide_begin_keeps [daemon_intro]: "keeps (drel cfg) (decide_begin E req)"
  unfolding decide_begin_def Let_def by (intro dr.body_keeps daemon_intro)

lemma decide_wake_keeps [daemon_intro]: "keeps (drel cfg) (decide_wake req w k)"
  unfolding decide_wake_def by (cases k; simp only: wake.case) (intro dr.body_keeps daemon_intro)+

lemma cancel_job_keeps [daemon_intro]: "keeps (drel cfg) (cancel_job i)"
  unfolding cancel_job_def by (intro dr.body_keeps daemon_intro)

lemma OnCancel_keeps [daemon_intro]: "keeps (drel cfg) (OnCancel E i reason)"
  unfolding OnCancel_def by (intro dr.body_keeps daemon_intro)

lemma OnWelcome_keeps [daemon_intro]: "keeps (drel cfg) (OnWelcome E w)"
  unfolding OnWelcome_def by (intro dr.body_keeps daemon_intro)

lemma client_reply_keeps [daemon_intro]: "keeps (drel cfg) (client_reply E t env p)"
  unfolding client_reply_def by (intro dr.body_keeps daemon_intro)

lemma client_handle_keeps: "h_cfg E = cfg \<Longrightarrow> keeps (drel cfg) (client_handle E env)"
  unfolding client_handle_def
  by (intro dr.body_keeps daemon_intro OnDispatch_keeps keeps_frame) (simp_all add: outbox_ok_Ack)

lemma send_all_keeps [daemon_intro]: "keeps (drel cfg) (send_all es)"
proof (induction es)
  case (Cons m es)
  show ?case unfolding send_all.simps by (intro dr.body_keeps daemon_intro Cons.IH)
qed (simp add: dr.return_keeps)

lemma session_open_keeps [daemon_intro]: "keeps (drel cfg) (session_open E first)"
  unfolding session_open_def by (intro dr.body_keeps daemon_intro keeps_frame) simp_all

lemma ping_keeps [daemon_intro]: "keeps (drel cfg) (send_ping E)" "keeps (drel cfg) await_pong"
  unfolding send_ping_def await_pong_def by (intro dr.body_keeps daemon_intro keeps_frame; simp)+

lemma step_drel: "daemon_step cfg s s' \<Longrightarrow> drel cfg s s'"
proof (induction rule: daemon_step.induct)
  case (Link s b)
  show ?case by (rule drel_frame) simp_all
qed (erule keepsD [OF client_handle_keeps] | rule keepsD, rule daemon_intro)+

lemma steps_drel: "(daemon_step cfg)\<^sup>*\<^sup>* s s' \<Longrightarrow> drel cfg s s'"
  by (induction rule: rtranclp_induct) (auto intro: dr.rel_refl dr.rel_trans step_drel)

lemma fresh_daemon_ok: "fresh_daemon se ob s \<Longrightarrow> outbox_ok ob \<Longrightarrow> daemon_ok cfg s"
  by (auto simp: fresh_daemon_def daemon_ok_def table_ok_def channels_ok_def buffers_ok_def approvals_of_def)

end
