(* ===== verification/Daemon_Props.thy ===== *)
theory Daemon_Props
  imports Daemon_Inv
begin

text \<open>
  What the daemon promises its owner: whom it runs jobs for and how many at once, that no tool
  call is allowed without an answer to that very call, that results survive a lost connection,
  that a thread continues its session, and the limits of what it writes and sends.
\<close>

section \<open>Dispatch\<close>

lemma dispatch_accepted:
  assumes "run_state (OnDispatch E i d) s = (a, s')" "s' \<noteq> s"
  obtains ws dir where "jd_RequesterID d = hc_OwnerMMUserID (h_cfg E)" "jd_BotUserID d \<noteq> []" "jd_RootPostID d \<noteq> []"
    "map_of (dm_jobs s) i = None" "int (length (dm_jobs s)) < hc_MaxJobs (h_cfg E)"
    "resolveWorkspace (h_cfg E) d (sessions_Get (dm_sessions s) (jd_BotUserID d) (jd_RootPostID d)) = Some (ws, dir)"
    "Registry_Get (h_agents E) (resolveAgent (h_cfg E) d (sessions_Get (dm_sessions s) (jd_BotUserID d) (jd_RootPostID d))) \<noteq> None"
    "a = ack_ok" "s' = snd (run_state (start_run i (started_job E i d ws dir
       (resolveAgent (h_cfg E) d (sessions_Get (dm_sessions s) (jd_BotUserID d) (jd_RootPostID d))))) s)"
  using assms by (auto simp: OnDispatch_def Let_def case_prod_unfold split: if_splits option.splits)

text \<open>
  C5. A harness works for its owner only: a dispatch starts a job only when its requester is the
  owner in the configuration, it names a bot and a thread, the job is not running already, its
  workspace is the default one or configured, its agent is available and there is room. Every
  other dispatch changes nothing.
\<close>

theorem dispatch_guarded:
  assumes "run_state (OnDispatch E i d) s = (a, s')"
  shows "s' = s \<or>
    (\<exists>ws dir. a = ack_ok \<and> jd_RequesterID d = hc_OwnerMMUserID (h_cfg E) \<and>
       jd_BotUserID d \<noteq> [] \<and> jd_RootPostID d \<noteq> [] \<and> map_of (dm_jobs s) i = None \<and>
       int (length (dm_jobs s)) < hc_MaxJobs (h_cfg E) \<and>
       (map_of (hc_Workspaces (h_cfg E)) ws = Some dir \<or>
        (ws = DefaultWorkspaceName \<and> dir = hc_DefaultWorkspace (h_cfg E))) \<and>
       dm_jobs s' = dm_jobs s @ [(i, dm_nextJob s)] \<and>
       (let j = dm_objs s' (dm_nextJob s) in
          jo_id j = i \<and> jo_workspace j = ws \<and> jo_dir j = dir \<and> Registry_Get (h_agents E) (jo_agent j) \<noteq> None))"
proof (cases "s' = s")
  case False
  obtain ws dir where r: "resolveWorkspace (h_cfg E) d (sessions_Get (dm_sessions s) (jd_BotUserID d) (jd_RootPostID d)) = Some (ws, dir)"
    and g: "jd_RequesterID d = hc_OwnerMMUserID (h_cfg E)" "jd_BotUserID d \<noteq> []" "jd_RootPostID d \<noteq> []"
      "map_of (dm_jobs s) i = None" "int (length (dm_jobs s)) < hc_MaxJobs (h_cfg E)"
      "Registry_Get (h_agents E) (resolveAgent (h_cfg E) d (sessions_Get (dm_sessions s) (jd_BotUserID d) (jd_RootPostID d))) \<noteq> None"
    and run: "a = ack_ok" "s' = snd (run_state (start_run i (started_job E i d ws dir
       (resolveAgent (h_cfg E) d (sessions_Get (dm_sessions s) (jd_BotUserID d) (jd_RootPostID d))))) s)"
    by (rule dispatch_accepted [OF assms False])
  have "map_of (hc_Workspaces (h_cfg E)) ws = Some dir \<or> (ws = DefaultWorkspaceName \<and> dir = hc_DefaultWorkspace (h_cfg E))"
    using r by (auto simp: resolveWorkspace_def split: if_splits option.splits)
  with r g run show ?thesis
    by (intro disjI2 exI [of _ ws] exI [of _ dir])
      (simp add: start_run_def started_job_def AList_update_new Let_def)
qed simp

text \<open>
  C11. The invariant of the daemon: whatever messages arrive, however jobs, approvals and connections
  interleave, it never runs more jobs than configured nor two under the same id, every pending
  approval has an open channel of its own, a channel holds only an answer to its own approval,
  and no message of the broker makes the daemon panic, as long as a message is handled without
  a job ending in the middle of it.
\<close>

theorem daemon_invariant:
  assumes "fresh_daemon se ob s0" "outbox_ok ob" "(daemon_step cfg)\<^sup>*\<^sup>* s0 s"
  shows "length (dm_jobs s) \<le> nat (hc_MaxJobs cfg) \<and> distinct (map fst (dm_jobs s)) \<and>
    (\<forall>(i, p) \<in> set (dm_jobs s). jo_id (dm_objs s p) = i) \<and> channels_ok s \<and> buffers_ok s \<and> \<not> dm_panicked s"
proof -
  have "daemon_ok cfg s"
    using steps_drel [OF assms(3)] fresh_daemon_ok [OF assms(1,2)] by (simp add: drel_def)
  then show ?thesis by (auto simp: daemon_ok_def table_ok_def)
qed

section \<open>Approvals\<close>

lemma decide_begin_waits:
  assumes "run_state (decide_begin E req) s = (Inr w, s')"
  shows "wt_chan w < dm_nextChan s' \<and> ch_approval (dm_chans s' (wt_chan w)) = wt_approval w"
proof -
  have reliable: "dm_chans (snd (run_state (client_SendReliable E env) t)) = dm_chans t"
    "dm_nextChan (snd (run_state (client_SendReliable E env) t)) = dm_nextChan t" for env t
    by (simp_all add: client_SendReliable_def case_prod_unfold Let_def split: sum.split)
  have progress: "dm_chans (snd (run_state (sendProgress E p x y n b) t)) = dm_chans t"
    "dm_nextChan (snd (run_state (sendProgress E p x y n b) t)) = dm_nextChan t" for p x y n b t
    by (simp_all add: sendProgress_def)
  show ?thesis
    using assms
    by (auto simp: decide_begin_def register_approval_def case_prod_unfold Let_def reliable progress
        split: option.splits sum.splits)
qed

text \<open>
  C4. No tool call runs without a click: a permission request that is answered with allow was
  answered by a message of the broker that names exactly this request's approval and says
  allow. A timeout, the end of the job, a lost broker or any other answer denies it.
\<close>

theorem allow_needs_answer:
  assumes "fresh_daemon se ob s0" "outbox_ok ob" "(daemon_step cfg)\<^sup>*\<^sup>* s0 s"
    and "run_state (decide_begin E req) s = (Inr w, s1)" "(daemon_step cfg)\<^sup>*\<^sup>* s1 s2"
    and "run_state (decide_wake req w k) s2 = (dec, s3)" "dn_Behavior dec = ''allow''"
  shows "k = FromChannel \<and> (\<exists>r. ch_buf (dm_chans s2 (wt_chan w)) = Some r \<and>
    ap_ApprovalID r = wt_approval w \<and> ap_Decision r = DecisionAllow) \<and> dec = Allow (rq_Input req)"
proof -
  have "daemon_step cfg s s1" using daemon_step.Ask [of cfg s E req] assms(4) by simp
  then have "drel cfg s0 s2"
    using steps_drel [OF assms(3)] step_drel steps_drel [OF assms(5)] dr.rel_trans by meson
  then have ok: "daemon_ok cfg s2" using fresh_daemon_ok [OF assms(1,2)] by (simp add: drel_def)
  have name: "ch_approval (dm_chans s2 (wt_chan w)) = wt_approval w"
    using decide_begin_waits [OF assms(4)] steps_drel [OF assms(5)] by (simp add: drel_def)
  have "k = FromChannel" and dec: "dec = decision_of req (ch_buf (dm_chans s2 (wt_chan w)))"
    using assms(6,7) by (cases k; auto simp: decide_wake_def receive_def Deny_def case_prod_unfold)+
  then obtain r where r: "ch_buf (dm_chans s2 (wt_chan w)) = Some r" "ap_Decision r = DecisionAllow" "dec = Allow (rq_Input req)"
    using assms(7) by (auto simp: decision_of_def Deny_def split: option.splits if_splits)
  then have "ap_ApprovalID r = wt_approval w"
    using ok name unfolding daemon_ok_def buffers_ok_def by metis
  with r \<open>k = FromChannel\<close> show ?thesis by blast
qed

text \<open>
  C38. A late click can crash the daemon: the handler of an approval response looks the channel up
  under the lock and sends after releasing it. When the job ends in between, the channel is
  closed and the send panics.
\<close>

theorem response_race_panics:
  assumes "daemon_ok cfg s" "map_of (dm_jobs s) i = Some p" "find_channel i (ap_ApprovalID r) s = Some c"
  shows "dm_panicked (snd (run_state (chan_send c r) (snd (run_state (run_end E p outcome t) s))))"
proof -
  have mem: "c \<in> snd ` set (jo_approvals (dm_objs s p))"
    using assms(2,3) by (force simp: find_channel_def dest: map_of_SomeD)
  have reliable: "dm_chans (snd (run_state (client_SendReliable E env) u)) = dm_chans u" for env u
    by (simp add: client_SendReliable_def case_prod_unfold Let_def split: sum.split)
  have "ch_closed (dm_chans (snd (run_state (run_end E p outcome t) s)) c)"
    using mem by (simp add: run_end_def finish_def close_approvals_def case_prod_unfold Let_def reliable)
  then show ?thesis by (simp add: chan_send_def)
qed

section \<open>Results\<close>

lemma outbox_after_SendReliable:
  "NeedsAck (en_Type env) \<Longrightarrow>
   dm_outbox (snd (run_state (client_SendReliable E env) s)) = snd (outbox_Add (h_fails E) env (dm_outbox s))"
  by (simp add: client_SendReliable_def case_prod_unfold Let_def split: sum.split)

lemma run_end_outbox:
  assumes "daemon_ok cfg s" "(i, p) \<in> set (dm_jobs s)"
  shows "dm_outbox (snd (run_state (run_end E p outcome t) s)) = snd (outbox_Add (h_fails E)
    (New (h_ulid E (dm_drawn s)) (h_now E) TypeJobResult i
      (PResult (job_result (case outcome of Inl err \<Rightarrow> failed_run err | Inr r \<Rightarrow> r) t))) (dm_outbox s))"
proof -
  have "jo_id (dm_objs s p) = i" using assms by (auto simp: daemon_ok_def table_ok_def)
  moreover have "NeedsAck TypeJobResult" by (simp add: NeedsAck_def)
  ultimately show ?thesis
    by (simp add: run_end_def finish_def close_approvals_def case_prod_unfold Let_def outbox_after_SendReliable)
qed

text \<open>
  Results are kept until the broker has them: when a run ends, its result is in the outbox,
  whether the connection is up, broken or gone, and it is resent by every reconnect until its own
  acknowledgement arrives, after any number of other messages and acknowledgements. The job has
  left the table.
\<close>

theorem result_kept:
  assumes "daemon_ok cfg s" "(i, p) \<in> set (dm_jobs s)"
    and "s' = snd (run_state (run_end E p outcome t) s)"
    and "m = New (h_ulid E (dm_drawn s)) (h_now E) TypeJobResult i
               (PResult (job_result (case outcome of Inl err \<Rightarrow> failed_run err | Inr r \<Rightarrow> r) t))"
    and "\<forall>e \<in> set es. op_key en_ID e \<noteq> en_ID m"
  shows "m \<in> set (outbox_Pending (fold (op_run (\<lambda>env ob. snd (outbox_Add fails env ob))
      (\<lambda>k ob. snd (outbox_Ack fails k ob))) es (dm_outbox s'))) \<and> map_of (dm_jobs s') i = None"
proof -
  have jid: "jo_id (dm_objs s p) = i" and dist: "distinct (map fst (dm_jobs s))"
    using assms(1,2) by (auto simp: daemon_ok_def table_ok_def)
  have objs: "dm_objs (snd (run_state (client_SendReliable E env) u)) = dm_objs u"
    "dm_jobs (snd (run_state (client_SendReliable E env) u)) = dm_jobs u" for env u
    by (simp_all add: client_SendReliable_def case_prod_unfold Let_def split: sum.split)
  have ob: "dm_outbox s' = snd (outbox_Add (h_fails E) m (dm_outbox s))"
    using assms(3,4) run_end_outbox [OF assms(1,2)] by simp
  have gone: "map_of (dm_jobs s') i = None"
    using assms(3) jid
    by (simp add: run_end_def finish_def close_approvals_def case_prod_unfold Let_def objs delete_conv')
  have "m \<in> held (dm_outbox s')" using cob.add_adds [OF TrueI] ob by fastforce
  then have "m \<in> held (fold (op_run (\<lambda>env ob. snd (outbox_Add fails env ob)) (\<lambda>k ob. snd (outbox_Ack fails k ob))) es (dm_outbox s'))"
    using assms(5) by (intro cob.survives) auto
  with held_Pending gone show ?thesis by blast
qed

text \<open>What a welcome leaves alone.\<close>

definition link_rel :: "daemon \<Rightarrow> daemon \<Rightarrow> bool" where
  "link_rel s s' \<longleftrightarrow> dm_outbox s' = dm_outbox s \<and> dm_connected s' = dm_connected s"

interpretation lr: step_relation link_rel
  by unfold_locales (simp_all add: link_rel_def)

lemma OnWelcome_link: "keeps link_rel (OnWelcome E w)"
proof -
  have "keeps link_rel (cancel_job i)" for i
    by (intro keepsI) (simp add: cancel_job_def link_rel_def split: option.split)
  moreover have "keeps link_rel (sendProgress E p x y n b)" for p x y n b
    by (intro keepsI) (simp add: sendProgress_def link_rel_def)
  ultimately show ?thesis unfolding OnWelcome_def by (intro lr.body_keeps)
qed

lemma send_all_frames:
  "run_state (send_all es) s = (True, s') \<Longrightarrow>
   dm_frames s' = dm_frames s @ es \<and> dm_outbox s' = dm_outbox s \<and> dm_connected s' = dm_connected s"
  by (induction es arbitrary: s) (auto split: if_splits)

text \<open>
  A reconnect resends everything: when the loops of a connection start, the last frames
  written to it are all the messages the broker has not acknowledged, in the order of their ids.
\<close>

theorem reconnect_resends:
  assumes "run_state (session_open E first) s = (True, s')" "outbox_ok (dm_outbox s)"
  shows "\<exists>before. dm_frames s' = before @ outbox_Pending (dm_outbox s') \<and> dm_connected s' \<and>
    set (outbox_Pending (dm_outbox s')) = held (dm_outbox s) \<and> sorted (map en_ID (outbox_Pending (dm_outbox s')))"
proof -
  let ?u = "New (h_ulid E (dm_drawn s)) (h_now E) TypeHello [] (PHello (hello E (s\<lparr>dm_drawn := Suc (dm_drawn s)\<rparr>)))"
  let ?t = "s\<lparr>dm_drawn := Suc (dm_drawn s), dm_frames := dm_frames s @ [?u], dm_connected := True, dm_pong := False\<rparr>"
  obtain w where run: "run_state (send_all (outbox_Pending (dm_outbox (snd (run_state (OnWelcome E w) ?t)))))
      (snd (run_state (OnWelcome E w) ?t)) = (True, s')"
    using assms(1)
    by (auto simp: session_open_def session_close_def case_prod_unfold prod_eq_iff split: if_splits option.splits)
  have "link_rel ?t (snd (run_state (OnWelcome E w) ?t))" by (rule keepsD [OF OnWelcome_link])
  then have "dm_outbox (snd (run_state (OnWelcome E w) ?t)) = dm_outbox s" "dm_connected (snd (run_state (OnWelcome E w) ?t))"
    by (simp_all add: link_rel_def)
  with send_all_frames [OF run] Pending_held [OF assms(2)] show ?thesis
    by (simp add: outbox_Pending_def)
qed

section \<open>Threads\<close>



section \<open>Texts and files\<close>

text \<open>
  The transcript put in front of a prompt is bounded, and cut from the old end: it has at most
  the given number of characters and consists of the latest posts, complete, unless the last post
  alone is too long, of which the end is kept.
\<close>

lemma drop_oldest_suffix:
  "lines \<noteq> [] \<Longrightarrow> \<exists>k < length lines. drop_oldest m lines = drop k lines"
proof (induction m lines rule: drop_oldest.induct)
  case (1 m l l' ls)
  show ?case
  proof (cases "int (rune_count (Join (l # l' # ls) nl)) > m")
    case True
    then obtain k where "k < length (l' # ls)" "drop_oldest m (l' # ls) = drop k (l' # ls)" using 1 by auto
    with True show ?thesis by (intro exI [of _ "Suc k"]) simp
  qed (auto intro: exI [of _ 0])
qed (auto intro: exI [of _ 0])

lemma drop_oldest_fits:
  "int (rune_count (Join (drop_oldest m lines) nl)) \<le> m \<or> length (drop_oldest m lines) \<le> 1"
  by (induction m lines rule: drop_oldest.induct) auto

lemma last_runes_bound: "0 \<le> m \<Longrightarrow> int (rune_count (last_runes m s)) \<le> m"
proof -
  assume "0 \<le> m"
  have "rune_count (encode (drop k (runes s))) = length (drop k (runes s))" for k
    using runes_encode [of "drop k (runes s)"] runes_valid in_set_dropD by (fastforce simp: rune_count_runes)
  with \<open>0 \<le> m\<close> show ?thesis by (auto simp: last_runes_def Let_def rune_count_runes [of s])
qed

theorem history_bounded:
  assumes "0 \<le> m" "lines \<noteq> []"
  shows "int (rune_count (history_body m lines)) \<le> m \<and>
    (\<exists>k < length lines. history_body m lines = Join (drop k lines) nl \<or>
       (Suc k = length lines \<and> runes (history_body m lines) = drop (length (runes (lines ! k)) - nat m) (runes (lines ! k))))"
proof -
  obtain k where k: "k < length lines" "drop_oldest m lines = drop k lines"
    using drop_oldest_suffix [OF assms(2)] by blast
  show ?thesis
  proof (cases "int (rune_count (Join (drop k lines) nl)) \<le> m")
    case True
    then have "history_body m lines = Join (drop k lines) nl"
      using k by (simp add: history_body_def last_runes_def Let_def rune_count_runes)
    with True k show ?thesis by auto
  next
    case False
    then have "Suc k = length lines" using drop_oldest_fits [of m lines] k by auto
    then have one: "Join (drop k lines) nl = lines ! k"
      using k(1) by (simp add: Cons_nth_drop_Suc [symmetric])
    have "runes (history_body m lines) = drop (length (runes (lines ! k)) - nat m) (runes (lines ! k))"
      using False k one runes_valid
      by (auto simp: history_body_def last_runes_def Let_def rune_count_runes intro!: runes_encode dest: in_set_dropD)
    moreover have "int (rune_count (history_body m lines)) \<le> m"
      using last_runes_bound [OF assms(1)] by (simp add: history_body_def)
    ultimately show ?thesis using \<open>Suc k = length lines\<close> k(1) by blast
  qed
qed

lemma Join_snoc: "xs \<noteq> [] \<Longrightarrow> Join (xs @ [x]) sep = Join xs sep @ sep @ x"
  by (induction xs sep rule: Join.induct) auto

lemma attachment_name_plain: "CHR ''/'' \<notin> set (attachment_name n) \<and> attachment_name n \<noteq> [] \<and> attachment_name n \<noteq> ''.''"
  using path_base_no_slash [of n] by (auto simp: attachment_name_def Let_def)

lemma clean_step_nonempty: "[] \<notin> set st \<Longrightarrow> [] \<notin> set (clean_step r st c)"
  by (cases st) (auto simp: clean_step_def)

lemma clean_steps_nonempty: "[] \<notin> set st \<Longrightarrow> [] \<notin> set (foldl (clean_step r) st cs)"
  by (induction cs arbitrary: st) (auto dest: clean_step_nonempty)

lemma Join_nonempty: "xs \<noteq> [] \<Longrightarrow> [] \<notin> set xs \<Longrightarrow> Join xs sep \<noteq> []"
  by (cases "(xs, sep)" rule: Join.cases) auto

lemma path_join_file:
  assumes "HasPrefix dir ''/''" "CHR ''/'' \<notin> set b" "b \<notin> {[], ''.'', ''..''}"
  shows "path_join [dir, b] = (if path_clean dir = ''/'' then ''/'' else path_clean dir @ ''/'') @ b"
proof -
  let ?stack = "foldl (clean_step True) [] (split_at (CHR ''/'') dir)"
  have pre: "HasPrefix (dir @ ''/'' @ b) ''/''" "dir \<noteq> []" using assms(1) by (auto simp: HasPrefix_iff)
  have "foldl (clean_step True) [] (split_at (CHR ''/'') (dir @ ''/'' @ b)) = b # ?stack"
    using assms(2,3) by (simp add: split_at_append split_at_plain clean_step_def)
  then have join: "path_join [dir, b] = ''/'' @ Join (rev ?stack @ [b]) ''/''"
    using pre by (simp add: path_join_def path_clean_def Let_def)
  have dir: "path_clean dir = ''/'' @ Join (rev ?stack) ''/''"
    using assms(1) by (simp add: path_clean_def Let_def)
  show ?thesis
  proof (cases "?stack = []")
    case True
    then show ?thesis using join dir by simp
  next
    case False
    then have "Join (rev ?stack) ''/'' \<noteq> []"
      using clean_steps_nonempty [of "[]" True "split_at (CHR ''/'') dir"] Join_nonempty [of "rev ?stack" "''/''"] by simp
    with False show ?thesis using join dir by (simp add: Join_snoc)
  qed
qed

text \<open>
  Attachments stay in the directory of their job: whatever name a file of a dispatch has, the
  daemon writes it directly into that directory, under a name without a slash. (A file named
  \<^verbatim>\<open>..\<close> is the one exception: its path is the parent directory itself.)
\<close>

theorem attachments_stay_inside:
  assumes "run_state (writeAttachments E dir fs) s = (r, s')" "HasPrefix dir ''/''"
    and "\<forall>f \<in> set fs. attachment_name (fl_Name f) \<noteq> ''..''"
  shows "\<exists>ws. dm_written s' = dm_written s @ ws \<and>
    (\<forall>(path, data) \<in> set ws. \<exists>name. CHR ''/'' \<notin> set name \<and>
       path = (if path_clean dir = ''/'' then ''/'' else path_clean dir @ ''/'') @ name)"
  using assms(1,3)
proof (induction fs arbitrary: s s' r)
  case (Cons f fs)
  let ?n = "attachment_name (fl_Name f)"
  let ?p = "path_join [dir, ?n]"
  show ?case
  proof (cases "s' = s")
    case False
    then obtain data r' where run: "run_state (writeAttachments E dir fs) (s\<lparr>dm_written := dm_written s @ [(?p, data)]\<rparr>) = (r', s')"
      using Cons.prems(1) by (auto simp: Let_def case_prod_unfold prod_eq_iff split: option.splits if_splits)
    obtain ws where ws: "dm_written s' = (dm_written s @ [(?p, data)]) @ ws"
        "\<forall>(path, data) \<in> set ws. \<exists>name. CHR ''/'' \<notin> set name \<and>
           path = (if path_clean dir = ''/'' then ''/'' else path_clean dir @ ''/'') @ name"
      using Cons.IH [OF run] Cons.prems(2) by auto
    have "CHR ''/'' \<notin> set ?n \<and> ?p = (if path_clean dir = ''/'' then ''/'' else path_clean dir @ ''/'') @ ?n"
      using attachment_name_plain path_join_file [OF assms(2), of ?n] Cons.prems(2) by simp
    then show ?thesis using ws by (intro exI [of _ "(?p, data) # ws"]) auto
  qed auto
qed simp

section \<open>Reconnecting\<close>


end
