(* ===== verification/Daemon_Witnesses.thy ===== *)
theory Daemon_Witnesses
  imports Daemon_Props "HOL-Library.Code_Target_Nat"
begin

text \<open>
  The properties of the harness at work: each theorem with hypotheses applied to a daemon with one
  workspace and one agent, a dispatch of its owner, and the files of that daemon.
\<close>

section \<open>A harness\<close>

definition w_hcfg :: HarnessConfig where
  "w_hcfg = (DefaultConfig ''/home/u'')\<lparr>hc_BrokerURL := ''http://x'', hc_HarnessID := ''h1'', hc_Token := ''t'',
     hc_OwnerMMUserID := ''u1'', hc_Workspaces := [(''repo'', ''/src/repo'')]\<rparr>"

definition w_henv :: henv where
  "w_henv = \<lparr>h_cfg = w_hcfg, h_agents = [(''claude'', True)], h_stateDir = ''/state'', h_bin = ''mhb'',
     h_permPath = ''/state/permission.sock'', h_hostname = ''laptop'', h_version = ''1.0.0'', h_now = 0,
     h_ulid = (\<lambda>n. replicate n (CHR ''u'')), h_fails = (\<lambda>_. False), h_writeOK = (\<lambda>_. True), h_writeErr = [],
     h_utc = (\<lambda>_. []), h_parse = (\<lambda>_. None), h_q = id, h_sendErr = [], h_decodeErr = []\<rparr>"

definition w_dispatch :: JobDispatch where
  "w_dispatch = \<lparr>jd_BotUserID = ''b1'', jd_Workspace = ''repo'', jd_Agent = ''claude'', jd_Prompt = ''go'',
     jd_ChannelID = ''c1'', jd_RootPostID = ''p1'', jd_TriggerPostID = ''p1'', jd_RequesterID = ''u1'',
     jd_RequesterName = ''ann'', jd_Attachments = [], jd_History = [], jd_MaxTurns = 0, jd_TimeoutMS = 0\<rparr>"

definition w_daemon :: daemon where
  "w_daemon = \<lparr>dm_sessions = \<lparr>jf_m = [], jf_disk = Missing\<rparr>, dm_outbox = \<lparr>jf_m = [], jf_disk = Missing\<rparr>,
     dm_connected = False, dm_broken = False, dm_frames = [], dm_pong = False, dm_jobs = [],
     dm_objs = (\<lambda>_. started_job w_henv [] w_dispatch [] [] []), dm_nextJob = 0,
     dm_chans = (\<lambda>_. \<lparr>ch_approval = [], ch_buf = None, ch_closed = False\<rparr>), dm_nextChan = 0,
     dm_written = [], dm_drawn = 0, dm_panicked = False\<rparr>"

definition w_started :: daemon where
  "w_started = snd (run_state (OnDispatch w_henv ''j1'' w_dispatch) w_daemon)"

lemmas w_daemon_defs = w_hcfg_def w_henv_def w_dispatch_def w_daemon_def

lemma w_dispatch_run: "run_state (OnDispatch w_henv ''j1'' w_dispatch) w_daemon = (ack_ok, w_started)"
  "dm_jobs w_started = [(''j1'', 0)]"
  by (simp_all add: w_started_def OnDispatch_def w_daemon_defs DefaultConfig_def resolveWorkspace_def Let_def
      resolveAgent_def Registry_Get_def start_run_def)

lemma w_started_new: "w_started \<noteq> w_daemon"
proof -
  have "dm_jobs w_daemon = []" by (simp add: w_daemon_def)
  then show ?thesis using w_dispatch_run(2) by auto
qed

lemma w_fresh: "fresh_daemon (dm_sessions w_daemon) (dm_outbox w_daemon) w_daemon"
  by (simp add: fresh_daemon_def w_daemon_def started_job_def)

lemma w_outbox_ok: "outbox_ok (dm_outbox w_daemon)"
  by (simp add: outbox_ok_def w_daemon_def)

section \<open>Files and configuration\<close>

theorem session_isolated_witness:
  "sessions_Get (fold (sess.update (\<lambda>_. False)) [((''b1'', ''p2''), None), ((''b2'', ''p1''), None)]
     (put_entry (\<lambda>_. False) (''b1'', ''p1'') \<lparr>se_SessionID = ''x'', se_Workspace = [], se_Agent = [], se_UpdatedAt = 0\<rparr>
        (dm_sessions w_daemon))) ''b1'' ''p1'' =
   Some \<lparr>se_SessionID = ''x'', se_Workspace = [], se_Agent = [], se_UpdatedAt = 0\<rparr>"
proof -
  have "conversation_ok (''b1'', ''p1'')" "conversation_ok (''b1'', ''p2'')" "conversation_ok (''b2'', ''p1'')"
    by code_simp+
  then show ?thesis by (intro session_isolated [of "(''b1'', ''p1'')", simplified]) auto
qed

definition w_codex_done :: codex_line where
  "w_codex_done = \<lparr>cx_Type = ''turn.completed'', cx_ThreadID = [], cx_ItemType = [], cx_ItemText = [],
     cx_ItemMessage = [], cx_ErrorMessage = []\<rparr>"



theorem redaction_leaks_capitals_witness:
  "decoded_token (map (\<lambda>c. if c = CHR ''T'' then CHR ''t'' else c)) (RedactConfig [(''Token'', JStr ''s3cret'')]) [] = ''s3cret''"
  using redaction_leaks_capitals [of "map (\<lambda>c. if c = CHR ''T'' then CHR ''t'' else c)" "[]"] by simp

section \<open>Jobs\<close>

theorem dispatch_guarded_witness: "dm_jobs w_started = [(''j1'', 0)] \<and> jd_RequesterID w_dispatch = hc_OwnerMMUserID (h_cfg w_henv)"
  using dispatch_guarded [OF w_dispatch_run(1)] w_started_new w_dispatch_run(2) by auto

definition w_request :: Request where
  "w_request = \<lparr>rq_JobID = ''j1'', rq_ToolName = ''Bash'', rq_Input = ''{}'', rq_ToolUseID = []\<rparr>"

definition w_running :: daemon where
  "w_running = snd (run_state (client_handle w_henv (New ''d'' 0 TypeJobDispatch ''j1'' (PDispatch w_dispatch))) w_daemon)"

definition w_asked :: daemon where
  "w_asked = snd (run_state (decide_begin w_henv w_request) w_running)"

definition w_answer :: ApprovalResponse where
  "w_answer = \<lparr>ap_ApprovalID = ''apr_u'', ap_Decision = DecisionAllow, ap_DecidedBy = ''ann'', ap_DecidedAt = 0\<rparr>"

definition w_clicked :: daemon where
  "w_clicked = snd (run_state (client_handle w_henv (New ''a'' 0 TypeApprovalResponse ''j1'' (PApprovalResponse w_answer))) w_asked)"

definition w_wait :: waiting where
  "w_wait = \<lparr>wt_job = 0, wt_approval = ''apr_u'', wt_chan = 0, wt_expires = 30 * minute\<rparr>"

lemma w_running_reached: "(daemon_step w_hcfg)\<^sup>*\<^sup>* w_daemon w_running"
  unfolding w_running_def by (intro r_into_rtranclp daemon_step.Message) (simp add: w_henv_def)

lemma w_clicked_reached: "(daemon_step w_hcfg)\<^sup>*\<^sup>* w_asked w_clicked"
  unfolding w_clicked_def by (intro r_into_rtranclp daemon_step.Message) (simp add: w_henv_def)

lemma w_running_table: "dm_jobs w_running = [(''j1'', 0)]"
  using w_dispatch_run by (simp add: w_running_def client_handle_def New_def client_reply_def w_daemon_defs split: if_splits)

theorem daemon_invariant_witness: "dm_jobs w_running = [(''j1'', 0)] \<and> jo_id (dm_objs w_running 0) = ''j1'' \<and> \<not> dm_panicked w_running"
  using daemon_invariant [OF w_fresh w_outbox_ok w_running_reached] w_running_table by simp

section \<open>Approvals\<close>

lemma w_ask_run: "run_state (decide_begin w_henv w_request) w_running = (Inr w_wait, w_asked)"
proof -
  have "fst (run_state (decide_begin w_henv w_request) w_running) = Inr w_wait" by code_simp
  then show ?thesis by (simp add: w_asked_def prod_eq_iff)
qed

theorem allow_needs_answer_witness:
  "\<exists>s3. run_state (decide_wake w_request w_wait FromChannel) w_clicked = (Allow ''{}'', s3) \<and>
     (\<exists>r. ch_buf (dm_chans w_clicked 0) = Some r \<and> ap_ApprovalID r = ''apr_u'' \<and> ap_Decision r = DecisionAllow)"
proof -
  let ?s3 = "snd (run_state (decide_wake w_request w_wait FromChannel) w_clicked)"
  have "fst (run_state (decide_wake w_request w_wait FromChannel) w_clicked) = Allow ''{}''" by code_simp
  then have run: "run_state (decide_wake w_request w_wait FromChannel) w_clicked = (Allow ''{}'', ?s3)"
    by (simp add: prod_eq_iff)
  moreover have "\<exists>r. ch_buf (dm_chans w_clicked 0) = Some r \<and> ap_ApprovalID r = ''apr_u'' \<and> ap_Decision r = DecisionAllow"
    using allow_needs_answer [OF w_fresh w_outbox_ok w_running_reached w_ask_run w_clicked_reached run]
    by (simp add: Allow_def w_wait_def)
  ultimately show ?thesis by blast
qed

lemma w_asked_ok: "daemon_ok w_hcfg w_asked"
proof -
  have "daemon_step w_hcfg w_running w_asked" unfolding w_asked_def by (rule daemon_step.Ask)
  then have "(daemon_step w_hcfg)\<^sup>*\<^sup>* w_daemon w_asked" using w_running_reached by simp
  then show ?thesis using steps_drel fresh_daemon_ok [OF w_fresh w_outbox_ok] by (auto simp: drel_def)
qed

lemma w_asked_table: "map_of (dm_jobs w_asked) ''j1'' = Some 0" "find_channel ''j1'' (ap_ApprovalID w_answer) w_asked = Some 0"
  by code_simp+

theorem response_race_panics_witness:
  "dm_panicked (snd (run_state (chan_send 0 w_answer) (snd (run_state (run_end w_henv 0 (Inl ''killed'') 0) w_asked))))"
  by (rule response_race_panics [OF w_asked_ok w_asked_table])

section \<open>Results and sessions\<close>

theorem result_kept_witness:
  "\<exists>m. m \<in> set (outbox_Pending (dm_outbox (snd (run_state (run_end w_henv 0 (Inl ''killed'') 0) w_asked)))) \<and> en_JobID m = ''j1''"
proof -
  have "(''j1'', 0) \<in> set (dm_jobs w_asked)" by (rule map_of_SomeD [OF w_asked_table(1)])
  from result_kept [OF w_asked_ok this refl refl, of "[]" w_henv "Inl ''killed''" 0 "\<lambda>_. False"]
  show ?thesis by (intro exI conjI) (auto simp: New_def)
qed

definition w_welcome :: Envelope where
  "w_welcome = New ''w'' 0 TypeWelcome []
     (PWelcome \<lparr>we_HarnessID = ''h1'', we_HeartbeatIntervalMS = 15000, we_ServerTime = 0, we_Jobs = []\<rparr>)"

theorem reconnect_resends_witness:
  "\<exists>s'. run_state (session_open w_henv (Some w_welcome)) w_asked = (True, s') \<and>
     (\<exists>before. dm_frames s' = before @ outbox_Pending (dm_outbox s')) \<and> held (dm_outbox w_asked) \<noteq> {}"
proof -
  let ?s' = "snd (run_state (session_open w_henv (Some w_welcome)) w_asked)"
  have "fst (run_state (session_open w_henv (Some w_welcome)) w_asked)" by code_simp
  then have run: "run_state (session_open w_henv (Some w_welcome)) w_asked = (True, ?s')" by (simp add: prod_eq_iff)
  have ok: "outbox_ok (dm_outbox w_asked)" using w_asked_ok by (simp add: daemon_ok_def)
  have "outbox_Pending (dm_outbox ?s') \<noteq> []" by code_simp
  then have "held (dm_outbox w_asked) \<noteq> {}" using reconnect_resends [OF run ok] by (metis set_empty)
  with reconnect_resends [OF run ok] run show ?thesis by metis
qed

definition w_result :: Result where
  "w_result = (failed_run [])\<lparr>rs_Status := StatusSucceeded, rs_SessionID := ''sess'', rs_ErrCode := []\<rparr>"



section \<open>Limits\<close>

theorem history_bounded_witness: "int (rune_count (history_body 5 [''old post'', ''new''])) \<le> 5"
  using history_bounded [of 5 "[''old post'', ''new'']"] by simp

theorem attachments_stay_inside_witness:
  "\<exists>name data. CHR ''/'' \<notin> set name \<and>
     dm_written (snd (run_state (writeAttachments w_henv ''/state/jobs/j1.attachments''
        [\<lparr>fl_Name = ''../../etc/passwd'', fl_Mime = [], fl_DataB64 = []\<rparr>]) w_daemon)) =
     [(''/state/jobs/j1.attachments/'' @ name, data)]"
proof -
  let ?fs = "[\<lparr>fl_Name = ''../../etc/passwd'', fl_Mime = [], fl_DataB64 = []\<rparr>]"
  let ?r = "run_state (writeAttachments w_henv ''/state/jobs/j1.attachments'' ?fs) w_daemon"
  have names: "\<forall>f \<in> set ?fs. attachment_name (fl_Name f) \<noteq> ''..''" by code_simp
  have clean: "path_clean ''/state/jobs/j1.attachments'' = ''/state/jobs/j1.attachments''" by code_simp
  have "length (dm_written (snd ?r)) = 1" by code_simp
  then obtain path data where one: "dm_written (snd ?r) = [(path, data)]" by (auto simp: length_Suc_conv)
  have "dm_written w_daemon = []" by (simp add: w_daemon_def)
  with attachments_stay_inside [of w_henv "''/state/jobs/j1.attachments''" ?fs w_daemon "fst ?r" "snd ?r", OF _ _ names] one clean
  show ?thesis by auto
qed


end
