(* ===== verification/System.thy ===== *)
theory System
  imports Hub_Props Core_Props Core_Owner Daemon_Props
begin

text \<open>
  The broker and a harness together. The two programs share the envelopes of the protocol and
  nothing else: what one writes to the connection, the other handles. Here a dispatch and a
  result travel from one to the other and their acknowledgements back.
\<close>

section \<open>What the handlers leave alone\<close>

definition wire_rel :: "broker \<Rightarrow> broker \<Rightarrow> bool" where
  "wire_rel s s' \<longleftrightarrow> bk_frames s' = bk_frames s \<and> bk_broken s' = bk_broken s \<and> bk_closed s' = bk_closed s"

interpretation wr: step_relation wire_rel
  by unfold_locales (simp_all add: wire_rel_def)

lemma wire_rel_effects:
  "keeps wire_rel (CreatePost E a ch r m fs ats)" "keeps wire_rel (UpdatePost E a i m)"
  "keeps wire_rel (UploadFile E a ch n data)" "keeps wire_rel (draw f)" "keeps wire_rel (store_read g)"
  "keeps wire_rel (store_call f')"
  by (intro keepsI; simp add: mm_defs wire_rel_def)+

lemma wire_rel_modify:
  "(\<And>s. bk_frames (f s) = bk_frames s \<and> bk_broken (f s) = bk_broken s \<and> bk_closed (f s) = bk_closed s) \<Longrightarrow> keeps wire_rel (modify f)"
  by (intro keepsI) (simp add: wire_rel_def)

lemmas wire_rel_steps = wr.body_keeps wire_rel_effects wire_rel_modify

lemma OnResult_wire: "keeps wire_rel (OnResult E h i r)"
  unfolding OnResult_def postResult_def upload_result_file_def finalEdit_def audit_def api_for_def
  by (intro wire_rel_steps; simp)

section \<open>Acknowledgements\<close>

lemma ack_outbox_frame:
  "db_ok d \<Longrightarrow> db_ok (snd (AckOutbox d i t))" "job_map (snd (AckOutbox d i t)) = job_map d"
  "sqlFault (snd (AckOutbox d i t)) = sqlFault d"
  by (simp_all add: store_frame job_map_def db_ok_AckOutbox)

lemma ack_starts_job:
  assumes "db_ok (bk_db s)" "healthy s" "job_map (bk_db s) i = Some j" "jb_State j = JobDispatched" "i \<noteq> []"
  shows "\<exists>k. job_map (bk_db (snd (run_state (OnAck E h r i ack_ok) s))) i = Some k \<and> jb_State k = JobRunning"
proof -
  obtain d where d: "TransitionJob (bk_db s) (e_now E) i [JobDispatched] JobRunning no_patch = (Inr (patch_job (e_now E) JobRunning no_patch j), d)"
    "job_map d = (job_map (bk_db s))(i \<mapsto> patch_job (e_now E) JobRunning no_patch j)"
    using transition_healthy [OF assms(1,2) _ assms(3), of "[JobDispatched]"] assms(4) by (metis list.distinct(1) list.set_intros(1))
  have "jobs_rel (s\<lparr>bk_db := d\<rparr>) (snd (run_state (OnAck E h r i ack_ok) s))"
    using assms(5) d(1) keepsD [OF edit_jobs_rel] by (simp add: OnAck_def ack_ok_def is_ok_def jr.rel_refl split: sum.split)
  from job_map_jobs_rel [OF this] d(2) show ?thesis by (simp add: patch_job_def)
qed

lemma nack_fails_job:
  assumes "db_ok (bk_db s)" "healthy s" "job_map (bk_db s) i = Some j" "jb_State j = JobDispatched" "i \<noteq> []"
    and "jb_HarnessID j = hn_ID h" "\<not> ak_OK a"
  shows "\<exists>k. job_map (bk_db (snd (run_state (OnAck E h r i a) s))) i = Some k \<and> jb_State k = JobFailed"
proof -
  let ?p = "no_patch\<lparr>pt_Error := Some (''harness rejected the job: '' @ nackText a)\<rparr>"
  have active: "ActiveStates \<noteq> []" "jb_State j \<in> set ActiveStates" using assms(4) by (simp_all add: ActiveStates_def)
  have "jb_ID j = i" using assms(3) by (auto simp: job_map_def dest: lookup_by_SomeD)
  moreover obtain d where d: "TransitionJob (bk_db s) (e_now E) i ActiveStates JobFailed ?p = (Inr (patch_job (e_now E) JobFailed ?p j), d)"
    "job_map d = (job_map (bk_db s))(i \<mapsto> patch_job (e_now E) JobFailed ?p j)"
    using transition_healthy [OF assms(1,2) _ assms(3), of ActiveStates] active by metis
  ultimately have "jobs_rel (s\<lparr>bk_db := d\<rparr>) (snd (run_state (OnAck E h r i a) s))"
    using assms(2-) keepsD [OF finalEdit_jobs_rel]
    by (simp add: OnAck_def fail_job_def JobByID_healthy)
  from job_map_jobs_rel [OF this] d(2) show ?thesis by (simp add: patch_job_def)
qed

text \<open>The broker handles the acknowledgement of a dispatch.\<close>

lemma handle_ack:
  "snd (run_state (handle E (core_handler E) h c (Reply u t TypeAck env (PAck a))) s) =
   snd (run_state (OnAck E h (en_ID env) (en_JobID env) a) (s\<lparr>bk_db := snd (AckOutbox (bk_db s) (en_ID env) (e_now E))\<rparr>))"
  by (simp add: handle_def)

section \<open>Dispatches\<close>


text \<open>
  A job of the shared bot never runs: the broker dispatches it without a bot id, every harness
  refuses a dispatch without one, whatever its state and configuration, and the refusal fails the
  job.
\<close>

theorem shared_job_refused:
  assumes "x = dispatch_payload E post (shared_mention E) user atts hist ws agent prompt"
    and "d' = snd (run_state (client_handle H (New u t TypeJobDispatch i (PDispatch x))) d)" "\<not> dm_broken d"
    and "db_ok (bk_db s)" "healthy s" "job_map (bk_db s) i = Some j" "jb_State j = JobDispatched" "i \<noteq> []"
    and "jb_HarnessID j = hn_ID h"
  shows "dm_jobs d' = dm_jobs d \<and>
    (\<exists>r k. dm_frames d' = dm_frames d @ [r] \<and>
       job_map (bk_db (snd (run_state (handle E' (core_handler E') h c r) s))) i = Some k \<and> jb_State k = JobFailed)"
proof -
  let ?env = "New u t TypeJobDispatch i (PDispatch x)"
  have "jd_BotUserID x = []" using assms(1) by (simp add: dispatch_payload_def shared_mention_def jobBotID_def)
  then obtain a where a: "run_state (OnDispatch H i x) d = (a, d)" "\<not> ak_OK a"
    by (cases "jd_RequesterID x = hc_OwnerMMUserID (h_cfg H)") (auto simp: OnDispatch_def nack_def)
  let ?r = "Reply (h_ulid H (dm_drawn d)) (h_now H) TypeAck ?env (PAck a)"
  have d': "d' = d\<lparr>dm_drawn := Suc (dm_drawn d), dm_frames := dm_frames d @ [?r]\<rparr>"
    using assms(2,3) a(1) by (simp add: client_handle_def client_reply_def)
  let ?s = "s\<lparr>bk_db := snd (AckOutbox (bk_db s) (en_ID ?env) (e_now E'))\<rparr>"
  have "\<exists>k. job_map (bk_db (snd (run_state (OnAck E' h (en_ID ?env) i a) ?s))) i = Some k \<and> jb_State k = JobFailed"
    using assms(4-9) a(2) by (intro nack_fails_job) (simp_all add: ack_outbox_frame healthy_def)
  then have "\<exists>k. job_map (bk_db (snd (run_state (handle E' (core_handler E') h c ?r) s))) i = Some k \<and> jb_State k = JobFailed"
    unfolding handle_ack by simp
  then show ?thesis using d' by simp
qed

section \<open>Results\<close>

lemma OnResult_reply:
  assumes "conn_up s c" "run_state (OnResult E h (en_JobID m) r) s = (a, s1)" "en_Type m = TypeJobResult"
    and "en_Payload m = PResult r"
  shows "\<exists>u. snd (run_state (handle E (core_handler E) h c m) s) =
    s1\<lparr>bk_drawn := Suc (bk_drawn s1), bk_frames := bk_frames s @ [(c, Reply u (e_now E) TypeAck m (PAck a))]\<rparr>"
proof -
  have "wire_rel s s1" using keepsD [OF OnResult_wire, of s] assms(2) by (metis snd_conv)
  then show ?thesis using assms by (intro exI [of _ "e_ulid E (bk_drawn s1)"]) (simp add: handle_def reply_to_def wire_rel_def conn_up_def)
qed

lemma ack_clears:
  assumes "outbox_ok (dm_outbox d)"
  shows "\<forall>e \<in> set (outbox_Pending (dm_outbox (snd (run_state (client_handle H (Reply u t TypeAck m p)) d)))). en_ID e \<noteq> en_ID m"
proof -
  have "en_ID e \<noteq> en_ID m" if "e \<in> held (snd (outbox_Ack fails (en_ID m) (dm_outbox d)))" for e fails
    using that cob.ack_drops by blast
  then have "\<forall>e \<in> set (outbox_Pending (snd (outbox_Ack (h_fails H) (en_ID m) (dm_outbox d)))). en_ID e \<noteq> en_ID m"
    using Pending_held [OF outbox_ok_Ack [OF assms]] by blast
  then show ?thesis by (simp add: client_handle_def del: set_Pending)
qed

text \<open>
  C6. A result reaches the thread: when a run ends, its result is in the harness' outbox, the broker
  that handles it stores exactly its text and its status, and the acknowledgement the broker
  writes to the connection takes it out of the outbox again.
\<close>

theorem result_travels:
  assumes "daemon_ok cfg d" "(i, p) \<in> set (dm_jobs d)" "d' = snd (run_state (run_end H p outcome t) d)"
    and "res = job_result (case outcome of Inl err \<Rightarrow> failed_run err | Inr r \<Rightarrow> r) t"
    and "db_ok (bk_db s)" "healthy s" "job_map (bk_db s) i = Some j" "jb_HarnessID j = hn_ID h"
    and "\<not> Terminal (jb_State j) \<or> jb_State j = JobLost" "conn_up s c"
  shows "\<exists>m r k. m \<in> set (outbox_Pending (dm_outbox d')) \<and>
    bk_frames (snd (run_state (handle E (core_handler E) h c m) s)) = bk_frames s @ [(c, r)] \<and>
    job_map (bk_db (snd (run_state (handle E (core_handler E) h c m) s))) i = Some k \<and>
    jb_State k = result_state res \<and> jb_ResultText k = jr_Text res \<and>
    m \<notin> set (outbox_Pending (dm_outbox (snd (run_state (client_handle H r) d'))))"
proof -
  let ?m = "New (h_ulid H (dm_drawn d)) (h_now H) TypeJobResult i (PResult res)"
  have ob: "dm_outbox d' = snd (outbox_Add (h_fails H) ?m (dm_outbox d))"
    using run_end_outbox [OF assms(1,2)] assms(3,4) by simp
  then have pending: "?m \<in> set (outbox_Pending (dm_outbox d'))"
    using cob.add_adds [OF TrueI] held_Pending by fastforce
  have "outbox_ok (dm_outbox d')"
    using ob assms(1) outbox_ok_Add by (simp add: daemon_ok_def)
  note clears = ack_clears [OF this]
  obtain a s1 where run: "run_state (OnResult E h i res) s = (a, s1)" by fastforce
  then obtain u where sent: "snd (run_state (handle E (core_handler E) h c ?m) s) =
      s1\<lparr>bk_drawn := Suc (bk_drawn s1), bk_frames := bk_frames s @ [(c, Reply u (e_now E) TypeAck ?m (PAck a))]\<rparr>"
    using OnResult_reply [OF assms(10), of E h ?m res a s1] by auto
  obtain k where k: "job_map (bk_db s1) i = Some k" "jb_State k = result_state res" "jb_ResultText k = jr_Text res"
    using OnResult_takes [OF assms(5-9) run] by blast
  have "?m \<notin> set (outbox_Pending (dm_outbox (snd (run_state (client_handle H (Reply u (e_now E) TypeAck ?m (PAck a))) d'))))"
    using clears [of H u "e_now E" ?m "PAck a"] by blast
  moreover have "bk_frames (snd (run_state (handle E (core_handler E) h c ?m) s)) = bk_frames s @ [(c, Reply u (e_now E) TypeAck ?m (PAck a))]"
    and "bk_db (snd (run_state (handle E (core_handler E) h c ?m) s)) = bk_db s1"
    unfolding sent by simp_all
  ultimately show ?thesis using pending k by metis
qed

section \<open>A job that was cancelled before it started\<close>

lemma mail_rel_more:
  "keeps mail_rel (draw f)" "keeps mail_rel (conn_send c e)" "keeps mail_rel (conn_close c code)" "keeps mail_rel (register_conn i c)"
  "keeps mail_rel (store_call (\<lambda>d. TouchHarness d i t v))" "keeps mail_rel (store_read g)" "keeps mail_rel (finalEdit E j text)"
proof -
  show close: "keeps mail_rel (conn_close c code)" for c code by (intro keepsI) (simp add: mail_rel_def)
  show "keeps mail_rel (draw f)" "keeps mail_rel (conn_send c e)" "keeps mail_rel (store_read g)"
    by (intro keepsI; simp add: mail_rel_def)+
  show "keeps mail_rel (store_call (\<lambda>d. TouchHarness d i t v))" by (intro keepsI) (simp add: mail_rel_def store_frame)
  show "keeps mail_rel (finalEdit E j text)" by (rule jobs_mail_rel [OF finalEdit_jobs_rel])
  show "keeps mail_rel (register_conn i c)"
    by (intro keepsI) (simp add: register_conn_def mail_rel_def split: option.split)
qed

lemma OnHello_mail: "keeps mail_rel (OnHello E h he)"
  unfolding OnHello_def hello_job_def unreported_job_def fail_job_def Let_def
  by (intro mail_rel_steps mail_rel_more)

lemma flushOutbox_mail: "keeps mail_rel (flushOutbox E i c)"
proof -
  have "keeps mail_rel (flush_messages E c rows)" for rows
  proof (rule keepsI)
    show "mail_rel s (snd (run_state (flush_messages E c rows) s))" for s
      using run_flush_messages [of s c E rows] flush_messages_down [of s c E rows] by (cases "conn_up s c") (simp_all add: mail_rel_def)
  qed
  then show ?thesis unfolding flushOutbox_def by (intro mail_rel_steps mail_rel_more)
qed

lemma serve_end_mail: "keeps mail_rel (serve_end (core_handler E) h c)"
proof -
  have conns: "keeps mail_rel (modify (\<lambda>s. s\<lparr>bk_conns := (bk_conns s)(hn_ID h := None)\<rparr>))"
    by (intro keepsI) (simp add: mail_rel_def)
  show ?thesis unfolding serve_end_def core_handler_simps OnDisconnect_def by (intro mail_rel_steps mail_rel_more conns)
qed

lemma serve_hello_mail: "keeps mail_rel (serve_hello E (core_handler E) h c first)"
  unfolding serve_hello_def core_handler_simps by (intro mail_rel_steps mail_rel_more OnHello_mail flushOutbox_mail serve_end_mail)

text \<open>
  C36. A job that is cancelled while it waits for its machine runs nevertheless: cancelling it marks it as
  cancelled, but its dispatch stays in the outbox. The next time the machine connects, the dispatch is
  written to the connection, and a harness that would take it starts the job.
\<close>

theorem cancelled_job_runs:
  assumes "db_ok (bk_db s)" "healthy s" "job_map (bk_db s) i = Some j" "jb_State j = JobQueued"
    and m: "m \<in> unacked (bk_db s)" "ob_HarnessID m = hn_ID h" "ob_JobID m = i" "ob_Type m = TypeJobDispatch" "ob_Payload m = PDispatch x"
    and cancel: "run_state (cancelJob E j reason) s = (r, s1)"
    and hello: "run_state (serve_hello E' (core_handler E') h c first) s1 = (True, s2)"
    and takes: "run_state (OnDispatch H i x) d = (ack_ok, d1)" "d1 \<noteq> d"
  shows "r = Inr () \<and> (\<exists>k. job_map (bk_db s1) i = Some k \<and> jb_State k = JobCancelled) \<and>
    (\<exists>env. (c, env) \<in> set (bk_frames s2) \<and> map_of (dm_jobs (snd (run_state (client_handle H env) d))) i = Some (dm_nextJob d))"
proof -
  have i: "jb_ID j = i" using assms(3) by (auto simp: job_map_def dest: lookup_by_SomeD)
  obtain db where db: "TransitionJob (bk_db s) (e_now E) i [JobQueued] JobCancelled no_patch = (Inr (patch_job (e_now E) JobCancelled no_patch j), db)"
    "job_map db = (job_map (bk_db s))(i \<mapsto> patch_job (e_now E) JobCancelled no_patch j)" "outbox db = outbox (bk_db s)"
    using transition_healthy [OF assms(1,2) _ assms(3), of "[JobQueued]"] assms(4) by (metis list.distinct(1) list.set_intros(1))
  have r: "r = Inr ()" and edit: "jobs_rel (s\<lparr>bk_db := db\<rparr>) s1"
    using cancel db(1) i assms(4) keepsD [OF finalEdit_jobs_rel, of "s\<lparr>bk_db := db\<rparr>" E j]
    by (auto simp: cancelJob_def case_prod_unfold)
  have state: "\<exists>k. job_map (bk_db s1) i = Some k \<and> jb_State k = JobCancelled"
    using job_map_jobs_rel [OF edit] db(2) by (simp add: patch_job_def)
  have "outbox (bk_db s2) = outbox (bk_db s)"
    using keepsD [OF serve_hello_mail, of s1 E' h c first] hello edit db(3) by (simp add: mail_rel_def jobs_rel_def)
  then have "m \<in> set (outbox_pending (outbox (bk_db s2)) (hn_ID h))" using m(1,2) by (simp add: set_outbox_pending unacked_def)
  moreover obtain t where "run_state (flushOutbox E' (hn_ID h) c) t = (Inr (), s2)" using hello by (rule serve_hello_flushes)
  note flush = run_flushOutbox [OF this]
  ultimately have frame: "(c, outbox_frame E' m) \<in> set (bk_frames s2)" by (subst flush) (simp add: flush)
  obtain ws dir ag where "d1 = snd (run_state (start_run i (started_job H i x ws dir ag)) d)" "map_of (dm_jobs d) i = None"
    using takes by (rule dispatch_accepted) blast
  then have "map_of (dm_jobs (snd (run_state (client_handle H (outbox_frame E' m)) d))) i = Some (dm_nextJob d)"
    using takes(1) m(3-5) by (simp add: client_handle_def client_reply_def outbox_frame_def start_run_def update_conv')
  with r state frame show ?thesis by blast
qed

end
