(* ===== verification/Onboarding_Props.thy ===== *)
theory Onboarding_Props
  imports Onboarding Sqlite_Props Core_Props Hub
begin

text \<open>
  What the onboarding promises: a bot that could not be set up completely leaves nothing behind,
  one that could is complete, and a machine that started a device flow gets credentials of the
  user who claimed its code, once, if it has the poll token.
\<close>

section \<open>Rollback\<close>

text \<open>
  Whatever an installation handed out on the way is taken back by a later request: \<^term>\<open>ops\<close> are the
  requests sent after the history \<^term>\<open>l\<close>.
\<close>

fun undone :: "installation \<Rightarrow> string \<Rightarrow> mm_call list \<Rightarrow> prov_op list \<Rightarrow> bool" where
  "undone P team l [] = True"
| "undone P team l (op # ops) =
     (let l' = l @ [MMProvision team op] in
      (case op of
         CreateBotAccount _ _ _ \<Rightarrow> (case p_account P l' of None \<Rightarrow> True | Some a \<Rightarrow> a = [] \<or> DisableBot a \<in> set ops)
       | CreateIncomingWebhook _ _ \<Rightarrow>
           (case snd (p_incoming P l') of None \<Rightarrow> True | Some (i, _) \<Rightarrow> i = [] \<or> DeleteIncomingWebhook i \<in> set ops)
       | CreateOutgoingWebhook _ _ \<Rightarrow>
           (case snd (p_outgoing P l') of None \<Rightarrow> True | Some (i, _) \<Rightarrow> i = [] \<or> DeleteOutgoingWebhook i \<in> set ops)
       | _ \<Rightarrow> True) \<and> undone P team l' ops)"

definition rollback_ops :: "Bot \<Rightarrow> prov_op list" where
  "rollback_ops b =
     (if bt_OutgoingHookID b \<noteq> [] then [DeleteOutgoingWebhook (bt_OutgoingHookID b)] else [])
     @ (if bt_IncomingHookID b \<noteq> [] then [DeleteIncomingWebhook (bt_IncomingHookID b)] else [])
     @ [DisableBot (bt_UserID b)]"

lemma undone_rollback [simp]: "undone P team l (rollback_ops b)"
  by (simp add: rollback_ops_def)

lemma rollback_mem [simp]:
  "DisableBot a \<in> set (rollback_ops b) \<longleftrightarrow> a = bt_UserID b"
  "DeleteIncomingWebhook i \<in> set (rollback_ops b) \<longleftrightarrow> i \<noteq> [] \<and> i = bt_IncomingHookID b"
  "DeleteOutgoingWebhook i \<in> set (rollback_ops b) \<longleftrightarrow> i \<noteq> [] \<and> i = bt_OutgoingHookID b"
  by (auto simp: rollback_ops_def)

lemma DeleteBot_missing: "i \<notin> bt_UserID ` set (bots d) \<Longrightarrow> snd (DeleteBot d i) = d"
proof -
  assume "i \<notin> bt_UserID ` set (bots d)"
  then have "rows_delete (\<lambda>b. bt_UserID b = i) (bots d) = bots d"
    by (force simp: rows_delete_def filter_id_conv)
  then show ?thesis by (simp add: DeleteBot_def Let_def)
qed

lemma run_abort:
  assumes "bt_UserID b \<noteq> []" "bt_UserID b \<notin> bt_UserID ` set (bots (bk_db s))"
  shows "run_state (abort P team b msg) s =
    (Inl msg, s\<lparr>bk_posts := bk_posts s @ map (MMProvision team) (rollback_ops b)\<rparr>)"
  using assms by (simp add: abort_def rollbackBot_def rollback_ops_def DeleteBot_missing)

section \<open>Provisioning\<close>

text \<open>A run that fails: the requests it sent, each undone, and the tables as they were.\<close>

definition taken_back :: "installation \<Rightarrow> string \<Rightarrow> broker \<Rightarrow> broker \<Rightarrow> prov_op list \<Rightarrow> bool" where
  "taken_back P team s s' ops \<longleftrightarrow>
     bk_posts s' = bk_posts s @ map (MMProvision team) ops \<and> undone P team (bk_posts s) ops \<and> bk_db s' = bk_db s"

lemma attach_hooks_fails:
  assumes "run_state (attach_hooks E P args b) s = (Inl e, s')"
    and "bt_UserID b \<noteq> []" "bt_UserID b \<notin> bt_UserID ` set (bots (bk_db s))" "bt_OutgoingHookID b = []"
  shows "\<exists>ops. taken_back P (cr_TeamID args) s s' ops \<and> DisableBot (bt_UserID b) \<in> set ops"
proof -
  let ?t = "cr_TeamID args"
  let ?in = "CreateIncomingWebhook (bt_UserID b) (cr_ChannelID args)"
  let ?l1 = "bk_posts s @ [MMProvision ?t ?in]"
  let ?b1 = "b\<lparr>bt_IncomingHookID := (case snd (p_incoming P ?l1) of None \<Rightarrow> [] | Some (i, _) \<Rightarrow> i)\<rparr>"
  let ?out = "CreateOutgoingWebhook (bt_Username b)
    (TrimRight (cf_PublicURL (e_cfg E)) ''/'' @ ''/webhooks/mattermost/'' @ bt_UserID b)"
  let ?l2 = "?l1 @ [MMProvision ?t ?out]"
  let ?b2 = "?b1\<lparr>bt_OutgoingHookID := (case snd (p_outgoing P ?l2) of None \<Rightarrow> [] | Some (i, _) \<Rightarrow> i),
                  bt_OutgoingToken := (case snd (p_outgoing P ?l2) of None \<Rightarrow> [] | Some (_, t) \<Rightarrow> t)\<rparr>"
  have create: "snd (CreateBot (bk_db s) ?b2) = bk_db s" if "fst (CreateBot (bk_db s) ?b2) = Inl x" for x
    using that by (auto simp: CreateBot_def split: sum.splits if_splits)
  consider "taken_back P ?t s s' (?in # rollback_ops ?b1)" | "taken_back P ?t s s' (?in # ?out # rollback_ops ?b2)"
    using assms create
    by (auto simp: attach_hooks_def Let_def run_abort taken_back_def split: if_splits sum.splits option.splits)
  then show ?thesis by cases (force intro: exI)+
qed

definition cleans_up :: "installation \<Rightarrow> string \<Rightarrow> string \<Rightarrow> broker \<Rightarrow> broker \<Rightarrow> bool" where
  "cleans_up P team u s s' \<longleftrightarrow> (\<exists>ops. taken_back P team s s' ops \<and> DisableBot u \<in> set ops)"

lemma cleans_up_hooks:
  "run_state (attach_hooks E P args b) s = (Inl e, s') \<Longrightarrow> bt_UserID b \<noteq> [] \<Longrightarrow>
   bt_UserID b \<notin> bt_UserID ` set (bots (bk_db s)) \<Longrightarrow> bt_OutgoingHookID b = [] \<Longrightarrow>
   cleans_up P (cr_TeamID args) (bt_UserID b) s s'"
  unfolding cleans_up_def by (rule attach_hooks_fails)

lemma cleans_up_abort:
  assumes "run_state (abort P team b msg) s = (Inl e, s')" "bt_UserID b \<noteq> []" "bt_UserID b \<notin> bt_UserID ` set (bots (bk_db s))"
  shows "cleans_up P team (bt_UserID b) s s'"
  using assms by (auto simp: run_abort taken_back_def cleans_up_def)

text \<open>One more request in front, that hands out nothing or whose gift the rest takes back.\<close>

lemma cleans_up_Cons:
  assumes "cleans_up P team u (s\<lparr>bk_posts := bk_posts s @ [MMProvision team op]\<rparr>) s'"
    and "\<And>ops. DisableBot u \<in> set ops \<Longrightarrow> undone P team (bk_posts s @ [MMProvision team op]) ops \<Longrightarrow>
      undone P team (bk_posts s) (op # ops)"
  shows "cleans_up P team u s s'"
proof -
  obtain ops where "taken_back P team (s\<lparr>bk_posts := bk_posts s @ [MMProvision team op]\<rparr>) s' ops" "DisableBot u \<in> set ops"
    using assms(1) by (auto simp: cleans_up_def)
  then have "taken_back P team s s' (op # ops)" using assms(2) [of ops] by (simp add: taken_back_def)
  then show ?thesis using \<open>DisableBot u \<in> set ops\<close> unfolding cleans_up_def by (intro exI [of _ "op # ops"]) simp
qed

lemma equip_bot_fails:
  assumes "run_state (equip_bot E P args b) s = (Inl e, s')"
    and "bt_UserID b \<noteq> []" "bt_UserID b \<notin> bt_UserID ` set (bots (bk_db s))" "bt_OutgoingHookID b = []"
  shows "cleans_up P (cr_TeamID args) (bt_UserID b) s s'"
proof -
  let ?t = "cr_TeamID args" and ?u = "bt_UserID b"
  let ?send = "\<lambda>op s. s\<lparr>bk_posts := bk_posts s @ [MMProvision ?t op]\<rparr>"
  let ?s1 = "?send (CreateBotToken ?u) s"
  let ?s2 = "?send (AddTeamMember ?u) ?s1"
  let ?s3 = "?send (AddChannelMember (cr_ChannelID args) ?u) ?s2"
  let ?b = "b\<lparr>bt_Token := (case p_token P (bk_posts ?s1) of None \<Rightarrow> [] | Some t \<Rightarrow> t)\<rparr>"
  have abort: "run_state (abort P ?t ?b m) s'' = (Inl e, s') \<Longrightarrow> bk_db s'' = bk_db s \<Longrightarrow> cleans_up P ?t ?u s'' s'" for m s''
    using cleans_up_abort [of P ?t ?b m s'' e s'] assms by simp
  have three: "cleans_up P ?t ?u s s'" if "cleans_up P ?t ?u ?s3 s'"
    using that cleans_up_Cons [of P ?t ?u s "CreateBotToken ?u" s'] cleans_up_Cons [of P ?t ?u ?s1 "AddTeamMember ?u" s']
      cleans_up_Cons [of P ?t ?u ?s2 "AddChannelMember (cr_ChannelID args) ?u" s'] by simp
  show ?thesis
  proof (cases "bt_Token ?b = []")
    case True
    then show ?thesis using assms(1) abort [of _ ?s1] cleans_up_Cons [of P ?t ?u s "CreateBotToken ?u" s'] by (simp add: equip_bot_def Let_def)
  next
    case token: False
    show ?thesis
    proof (cases "p_done P (bk_posts ?s2)")
      case False
      then show ?thesis
        using token assms(1) abort [of _ ?s2] cleans_up_Cons [of P ?t ?u s "CreateBotToken ?u" s']
          cleans_up_Cons [of P ?t ?u ?s1 "AddTeamMember ?u" s'] by (simp add: equip_bot_def Let_def)
    next
      case True
      have "cleans_up P ?t ?u ?s3 s'"
        using token True assms abort [of _ ?s3] cleans_up_hooks [of E P args ?b ?s3 e s']
        by (simp add: equip_bot_def Let_def split: if_splits)
      then show ?thesis by (rule three)
    qed
  qed
qed

definition clean :: "installation \<Rightarrow> string \<Rightarrow> broker \<Rightarrow> broker \<Rightarrow> bool" where
  "clean P team s s' \<longleftrightarrow> (\<exists>ops. taken_back P team s s' ops)"

lemma clean_refl [simp]: "clean P team s s"
  unfolding clean_def by (intro exI [of _ "[]"]) (simp add: taken_back_def)

lemma clean_after_account:
  assumes "p_account P (bk_posts s @ [MMProvision team (CreateBotAccount n d t)]) = Some a"
    and "cleans_up P team a (s\<lparr>bk_posts := bk_posts s @ [MMProvision team (CreateBotAccount n d t)]\<rparr>) s'"
  shows "clean P team s s'"
  using cleans_up_Cons [OF assms(2)] assms(1) by (auto simp: clean_def cleans_up_def)

lemma clean_no_account:
  assumes "p_account P (bk_posts s @ [MMProvision team (CreateBotAccount n d t)]) \<in> {None, Some []}"
  shows "clean P team s (s\<lparr>bk_posts := bk_posts s @ [MMProvision team (CreateBotAccount n d t)]\<rparr>)"
  unfolding clean_def using assms by (intro exI [of _ "[CreateBotAccount n d t]"]) (auto simp: taken_back_def)

lemma create_account_fails:
  assumes "run_state (create_account E P args owner name h) s = (Inl e, s')"
    and "\<And>l a. p_account P l = Some a \<Longrightarrow> a \<notin> bt_UserID ` set (bots (bk_db s))"
  shows "clean P (cr_TeamID args) s s'"
proof (cases "botUsername_ok name \<and> BotByUsername (bk_db s) name = Inl ErrNotFound")
  case True
  let ?op = "CreateBotAccount name (owner @ [CHR 0x27] @ ''s harness'')
                  (''Runs coding-agent jobs for '' @ owner @ '' through the mhb broker'')"
  let ?s = "s\<lparr>bk_posts := bk_posts s @ [MMProvision (cr_TeamID args) ?op]\<rparr>"
  show ?thesis
  proof (cases "p_account P (bk_posts ?s) \<in> {None, Some []}")
    case none: True
    then have "s' = ?s" using True assms(1) by (auto simp: create_account_def)
    then show ?thesis using clean_no_account none by simp
  next
    case False
    then obtain a where a: "p_account P (bk_posts ?s) = Some a" "a \<noteq> []" by auto
    then have "run_state (equip_bot E P args (new_bot E args a name h)) ?s = (Inl e, s')"
      using True assms(1) by (simp add: create_account_def)
    from equip_bot_fails [OF this] a assms(2) [OF a(1)]
    have "cleans_up P (cr_TeamID args) a ?s s'" by (simp add: new_bot_def)
    then show ?thesis using clean_after_account a(1) by simp
  qed
next
  case False
  then have "s' = s" using assms(1) by (auto simp: create_account_def split: sum.splits if_splits)
  then show ?thesis by simp
qed

lemma provisionBot_fails:
  assumes "run_state (provisionBot E P args name h) s = (Inl e, s')"
    and "\<forall>l a. p_account P l = Some a \<longrightarrow> a \<notin> bt_UserID ` set (bots (bk_db s))"
  shows "clean P (cr_TeamID args) s s'"
proof -
  have account: "clean P (cr_TeamID args) s s'"
    if "run_state (create_account E P args owner n h) (s\<lparr>bk_drawn := k\<rparr>) = (Inl e, s')" for owner n k
    using create_account_fails [OF that] assms(2) by (auto simp: clean_def taken_back_def)
  have same: "run_state (create_account E P args owner n h) s = run_state (create_account E P args owner n h) (s\<lparr>bk_drawn := bk_drawn s\<rparr>)" for owner n
    by simp
  show ?thesis
    using assms(1) account account [unfolded same [symmetric], of _ _ "bk_drawn s"]
    by (auto simp: provisionBot_def Let_def split: if_splits option.splits)
qed

text \<open>
  C30. A bot that cannot be set up leaves nothing behind: when provisioning fails, at whatever request,
  every account it got is disabled again and every webhook deleted again by a later request, and
  the tables are as before. The installation is relied on to create accounts with new ids only.
\<close>

theorem provision_compensated:
  assumes "run_state (provisionBot E P args name h) s = (Inl e, s')"
    and "\<forall>l a. p_account P l = Some a \<longrightarrow> a \<notin> bt_UserID ` set (bots (bk_db s))"
  shows "\<exists>ops. bk_posts s' = bk_posts s @ map (MMProvision (cr_TeamID args)) ops \<and>
    undone P (cr_TeamID args) (bk_posts s) ops \<and> bk_db s' = bk_db s"
  using provisionBot_fails [OF assms] by (auto simp: clean_def taken_back_def)

section \<open>Complete bots\<close>

definition bot_complete :: "Bot \<Rightarrow> bool" where
  "bot_complete b \<longleftrightarrow> bt_UserID b \<noteq> [] \<and> bt_Token b \<noteq> [] \<and> bt_IncomingHookID b \<noteq> [] \<and>
     bt_OutgoingHookID b \<noteq> [] \<and> bt_OutgoingToken b \<noteq> [] \<and> botUsername_ok (bt_Username b)"

definition bot_for :: "CommandRequest \<Rightarrow> string \<Rightarrow> Bot \<Rightarrow> bool" where
  "bot_for args h b \<longleftrightarrow> bt_MMUserID b = cr_UserID args \<and> bt_TeamID b = cr_TeamID args \<and>
     bt_ChannelID b = cr_ChannelID args \<and> bt_HarnessID b = h"

text \<open>The row is saved and the requests of \<^term>\<open>ops\<close> were sent.\<close>

definition saved :: "string \<Rightarrow> broker \<Rightarrow> Bot \<Rightarrow> broker \<Rightarrow> prov_op list \<Rightarrow> bool" where
  "saved team s b s' ops \<longleftrightarrow> bk_db s' = (bk_db s)\<lparr>bots := bots (bk_db s) @ [stored_bot b]\<rparr> \<and>
     bt_UserID b \<notin> bt_UserID ` set (bots (bk_db s)) \<and>
     bk_posts s' = bk_posts s @ map (MMProvision team) ops"

lemma abort_never [simp]: "run_state (abort P t b m) s \<noteq> (Inr b', s')"
  by (simp add: abort_def case_prod_unfold)

lemma attach_hooks_succeeds:
  assumes "run_state (attach_hooks E P args b) s = (Inr b', s')"
    and "bt_UserID b \<noteq> []" "bt_Token b \<noteq> []" "botUsername_ok (bt_Username b)" "bot_for args h b"
  shows "bot_complete b' \<and> bot_for args h b' \<and> bt_UserID b' = bt_UserID b \<and>
    (\<exists>inc out. saved (cr_TeamID args) s b' s' [CreateIncomingWebhook (bt_UserID b) (cr_ChannelID args), CreateOutgoingWebhook inc out])"
proof -
  have create: "snd (CreateBot d x) = d\<lparr>bots := bots d @ [stored_bot x]\<rparr> \<and> bt_UserID x \<notin> bt_UserID ` set (bots d)"
    if "fst (CreateBot d x) = Inr ()" for d x
    using that by (auto simp: CreateBot_def split: sum.splits if_splits)
  show ?thesis
    using assms create
    by (auto simp: attach_hooks_def Let_def saved_def bot_complete_def bot_for_def abort_never split: if_splits sum.splits)
qed

text \<open>A new bot: what its provisioning has established when it succeeds.\<close>

definition provisioned :: "CommandRequest \<Rightarrow> string \<Rightarrow> broker \<Rightarrow> Bot \<Rightarrow> broker \<Rightarrow> bool" where
  "provisioned args h s b s' \<longleftrightarrow> bot_complete b \<and> bot_for args h b \<and>
     (\<exists>ops. saved (cr_TeamID args) s b s' ops \<and>
        {AddTeamMember (bt_UserID b), AddChannelMember (cr_ChannelID args) (bt_UserID b)} \<subseteq> set ops)"

lemma equip_bot_succeeds:
  assumes "run_state (equip_bot E P args b) s = (Inr b', s')"
    and "bt_UserID b \<noteq> []" "botUsername_ok (bt_Username b)" "bot_for args h b"
  shows "provisioned args h s b' s'"
proof -
  let ?t = "cr_TeamID args" and ?u = "bt_UserID b"
  let ?ops = "[CreateBotToken ?u, AddTeamMember ?u, AddChannelMember (cr_ChannelID args) ?u]"
  let ?s = "s\<lparr>bk_posts := bk_posts s @ map (MMProvision ?t) ?ops\<rparr>"
  let ?b = "b\<lparr>bt_Token := (case p_token P (bk_posts s @ [MMProvision ?t (CreateBotToken ?u)]) of None \<Rightarrow> [] | Some t \<Rightarrow> t)\<rparr>"
  have run: "run_state (attach_hooks E P args ?b) ?s = (Inr b', s')" "bt_Token ?b \<noteq> []"
    using assms(1) by (simp_all add: equip_bot_def Let_def split: if_splits)
  have "bot_complete b' \<and> bot_for args h b' \<and> bt_UserID b' = ?u \<and>
    (\<exists>inc out. saved ?t ?s b' s' [CreateIncomingWebhook ?u (cr_ChannelID args), CreateOutgoingWebhook inc out])"
    using attach_hooks_succeeds [OF run(1), of h] run(2) assms(2-4) by (simp add: bot_for_def)
  then obtain inc out where b': "bot_complete b'" "bot_for args h b'" "bt_UserID b' = ?u"
      "saved ?t s b' s' (?ops @ [CreateIncomingWebhook ?u (cr_ChannelID args), CreateOutgoingWebhook inc out])"
    by (auto simp: saved_def)
  then show ?thesis unfolding provisioned_def
    by (intro conjI exI [of _ "?ops @ [CreateIncomingWebhook ?u (cr_ChannelID args), CreateOutgoingWebhook inc out]"]) auto
qed

lemma provisioned_Cons:
  assumes "provisioned args h (s\<lparr>bk_drawn := k, bk_posts := bk_posts s @ [MMProvision (cr_TeamID args) op]\<rparr>) b s'"
  shows "provisioned args h s b s'"
proof -
  obtain ops where "saved (cr_TeamID args) (s\<lparr>bk_drawn := k, bk_posts := bk_posts s @ [MMProvision (cr_TeamID args) op]\<rparr>) b s' ops"
      "{AddTeamMember (bt_UserID b), AddChannelMember (cr_ChannelID args) (bt_UserID b)} \<subseteq> set ops"
    using assms by (auto simp: provisioned_def)
  then show ?thesis using assms unfolding provisioned_def by (intro conjI exI [of _ "op # ops"]) (auto simp: saved_def)
qed

lemma create_account_succeeds:
  assumes "run_state (create_account E P args owner name h) (s\<lparr>bk_drawn := k\<rparr>) = (Inr b, s')"
  shows "provisioned args h s b s'"
proof -
  let ?op = "CreateBotAccount name (owner @ [CHR 0x27] @ ''s harness'')
                  (''Runs coding-agent jobs for '' @ owner @ '' through the mhb broker'')"
  let ?s = "s\<lparr>bk_drawn := k, bk_posts := bk_posts s @ [MMProvision (cr_TeamID args) ?op]\<rparr>"
  obtain a where a: "a \<noteq> []" "botUsername_ok name" "run_state (equip_bot E P args (new_bot E args a name h)) ?s = (Inr b, s')"
    using assms by (auto simp: create_account_def split: if_splits sum.splits option.splits)
  from equip_bot_succeeds [OF a(3)] a(1,2) have "provisioned args h ?s b s'"
    by (simp add: new_bot_def bot_for_def)
  then show ?thesis by (rule provisioned_Cons)
qed

lemma provisionBot_succeeds:
  assumes "run_state (provisionBot E P args name h) s = (Inr b, s')"
  shows "cr_UserID args \<noteq> [] \<and> provisioned args h s b s' \<and>
    (\<exists>ch. p_GetChannel P (bk_posts s) (cr_TeamID args) (cr_ChannelID args) = Some ch \<and> in_team_channel args ch)"
proof -
  have account: "provisioned args h s b s'" if "run_state (create_account E P args owner n h) s = (Inr b, s')" for owner n
    using create_account_succeeds [of E P args owner n h "bk_drawn s" s b s'] that by simp
  show ?thesis
    using assms account create_account_succeeds by (auto simp: provisionBot_def Let_def split: if_splits option.splits)
qed

text \<open>
  A bot that was set up is complete: it belongs to the user of the command, sits in the team
  channel the command came from, has a valid name, an access token and both webhooks, was made a
  member of team and channel, and is the one new row of the table.
\<close>

theorem bot_provisioned:
  assumes "run_state (provisionBot E P args name h) s = (Inr b, s')"
  shows "bk_db s' = (bk_db s)\<lparr>bots := bots (bk_db s) @ [stored_bot b]\<rparr> \<and>
    bt_MMUserID b = cr_UserID args \<and> bt_TeamID b = cr_TeamID args \<and> bt_ChannelID b = cr_ChannelID args \<and>
    bt_HarnessID b = h \<and> botUsername_ok (bt_Username b) \<and>
    [] \<notin> {bt_UserID b, bt_MMUserID b, bt_Token b, bt_IncomingHookID b, bt_OutgoingHookID b, bt_OutgoingToken b} \<and>
    (\<exists>ops. bk_posts s' = bk_posts s @ map (MMProvision (cr_TeamID args)) ops \<and>
       {AddTeamMember (bt_UserID b), AddChannelMember (cr_ChannelID args) (bt_UserID b)} \<subseteq> set ops)"
  using provisionBot_succeeds [OF assms]
  by (auto simp: provisioned_def saved_def bot_complete_def bot_for_def)

section \<open>Device flow\<close>

lemma StartInit_succeeds:
  assumes "run_state (StartInit E botName harnessName) s = (Inr st, s')"
  obtains req where "in_CodeHash req = hashCode (e_sha E) (e_upper E) (is_Code st)"
    "in_PollTokenHash req = tokenHash (e_sha E) (is_PollToken st)" "in_ExpiresAt req = stored_time (is_ExpiresAt st)"
    "\<not> Claimed req" "in_FetchedAt req = None"
    "bk_db s' = (bk_db s)\<lparr>init_requests := init_requests (bk_db s) @ [req]\<rparr>"
    "in_CodeHash req \<notin> in_CodeHash ` set (init_requests (bk_db s))"
proof -
  let ?c = "randomCode (e_random E (bk_drawn s) 8)" and ?t = "randomToken (e_random E (Suc (bk_drawn s)) 32)"
  let ?r = "\<lambda>n. init_request E ?c ?t n harnessName"
  have "CreateInit (bk_db s) r = (Inr (), snd (CreateInit (bk_db s) r)) \<Longrightarrow>
      snd (CreateInit (bk_db s) r) = (bk_db s)\<lparr>init_requests := init_requests (bk_db s) @ [stored_init r]\<rparr> \<and>
      in_CodeHash r \<notin> in_CodeHash ` set (init_requests (bk_db s))" for r
    by (simp add: CreateInit_def split: if_splits)
  then obtain n where "st = \<lparr>is_Code = ?c, is_PollToken = ?t, is_ExpiresAt = e_now E + InitCodeTTL, is_Command = ''/harness init '' @ ?c\<rparr>"
    "bk_db s' = (bk_db s)\<lparr>init_requests := init_requests (bk_db s) @ [stored_init (?r n)]\<rparr>"
    "in_CodeHash (?r n) \<notin> in_CodeHash ` set (init_requests (bk_db s))"
    using assms by (auto simp: StartInit_def Let_def prod_eq_iff split: if_splits sum.splits)
  then show thesis
    by (intro that [of "stored_init (?r n)"]) (simp_all add: stored_init_def init_request_def Claimed_def)
qed

lemma claimInit_succeeds:
  assumes "run_state (claimInit E P args code name) s = (Inr text, s')"
  obtains req b u tok hid where
    "InitByCode (bk_db s) (hashCode (e_sha E) (e_upper E) code) = Inr req" "provisioned args [] s b u"
    "CompleteInit (bk_db u) (hashCode (e_sha E) (e_upper E) code) (e_now E) (claim_harness E args req hid tok) (bt_UserID b) tok =
      (Inr (), complete_tables (bk_db u) (hashCode (e_sha E) (e_upper E) code) (e_now E) (claim_harness E args req hid tok) (bt_UserID b) tok)"
    "\<exists>e. bk_db s' = snd (AppendAudit (complete_tables (bk_db u) (hashCode (e_sha E) (e_upper E) code) (e_now E)
        (claim_harness E args req hid tok) (bt_UserID b) tok) (e_now E) e)"
proof -
  let ?h = "hashCode (e_sha E) (e_upper E) code"
  obtain req n b u where req: "InitByCode (bk_db s) ?h = Inr req"
      and b: "run_state (provisionBot E P args n []) s = (Inr b, u)"
      and run: "run_state (complete_claim E P args code req b) u = (Inr text, s')"
    using assms by (auto simp: claimInit_def split: if_splits sum.splits prod.splits)
  obtain tok hid where "tok = ''hrt_'' @ randomToken (e_random E (bk_drawn u) 32)" "hid = NewID (e_ulid E (Suc (bk_drawn u))) ''hrn''"
    by blast
  then have "fst (CompleteInit (bk_db u) ?h (e_now E) (claim_harness E args req hid tok) (bt_UserID b) tok) = Inr ()"
      and s': "\<exists>e. bk_db s' = snd (AppendAudit (snd (CompleteInit (bk_db u) ?h (e_now E) (claim_harness E args req hid tok) (bt_UserID b) tok)) (e_now E) e)"
    using run by (auto simp: complete_claim_def Let_def run_audit case_prod_unfold split: sum.splits)
  then have c: "CompleteInit (bk_db u) ?h (e_now E) (claim_harness E args req hid tok) (bt_UserID b) tok =
      (Inr (), complete_tables (bk_db u) ?h (e_now E) (claim_harness E args req hid tok) (bt_UserID b) tok)"
    by (cases rule: CompleteInit_cases [of "bk_db u" ?h "e_now E" "claim_harness E args req hid tok" "bt_UserID b" tok]) auto
  show thesis
    using that [OF req _ c] provisionBot_succeeds [OF b] s' c by auto
qed

lemma init_result_fields:
  "\<exists>res. run_state (init_result E P r h) s = (res, s) \<and> ir_HarnessID res = hn_ID h \<and> ir_Token res = in_HarnessToken r \<and>
     ir_MMUserID res = hn_MMUserID h"
  by (simp add: init_result_def split: sum.split)

lemma PollInit_wrong_token:
  assumes "InitByCode (bk_db s) (hashCode (e_sha E) (e_upper E) code) = Inr r" "tokenHash (e_sha E) t \<noteq> in_PollTokenHash r"
  shows "run_state (PollInit E P code t) s = (Inl InitUnknown, s)"
  using assms by (simp add: PollInit_def Let_def)

definition fetched :: "string \<Rightarrow> time \<Rightarrow> InitRequest list \<Rightarrow> InitRequest list" where
  "fetched hash now rs = rows_update (\<lambda>r. in_CodeHash r = hash \<and> in_FetchedAt r = None)
     (\<lambda>r. r\<lparr>in_FetchedAt := Some (stored_time now), in_HarnessToken := []\<rparr>) rs"

lemma lookup_fetched:
  "lookup_by in_CodeHash (fetched hash now rs) hash =
     map_option (\<lambda>r. if in_FetchedAt r = None then r\<lparr>in_FetchedAt := Some (stored_time now), in_HarnessToken := []\<rparr> else r)
       (lookup_by in_CodeHash rs hash)"
  unfolding fetched_def by (subst lookup_by_update_at) auto

lemma fetched_all: "rows_affected (\<lambda>r. in_CodeHash r = hash \<and> in_FetchedAt r = None) (fetched hash now rs) = 0"
  unfolding rows_affected_def fetched_def by (induction rs) auto

lemma poll_fetches_claimed:
  assumes "sqlFault d = (\<lambda>_. False)" "lookup_by in_CodeHash (init_requests d) hash = Some r" "Claimed r" "now < in_ExpiresAt r"
  shows "FetchInit d hash now =
    (if in_FetchedAt r = None then Inr (r\<lparr>in_FetchedAt := Some now\<rparr>)
     else if rows_affected (\<lambda>r. in_CodeHash r = hash \<and> in_FetchedAt r = None) (init_requests d) = 0 then Inl ErrConflict
     else Inr (r\<lparr>in_FetchedAt := Some now\<rparr>),
     d\<lparr>init_requests := fetched hash now (init_requests d)\<rparr>)"
proof -
  have "rows_affected (\<lambda>r. in_CodeHash r = hash \<and> in_FetchedAt r = None) (init_requests d) \<noteq> 0" if "in_FetchedAt r = None"
    using lookup_by_SomeD [OF assms(2)] that by (auto simp: rows_affected_def filter_empty_conv)
  then show ?thesis
    using assms by (auto simp: FetchInit_def InitByCode_def scan_row_def Let_def fetched_def)
qed

text \<open>The poll that collects the credentials, and the next one.\<close>

lemma PollInit_claimed:
  assumes "sqlFault (bk_db s) = (\<lambda>_. False)" "hash = hashCode (e_sha E) (e_upper E) code"
    and "lookup_by in_CodeHash (init_requests (bk_db s)) hash = Some r" "Claimed r" "in_FetchedAt r = None"
    and "e_now E < in_ExpiresAt r" "t \<noteq> []" "in_PollTokenHash r \<noteq> []" "tokenHash (e_sha E) t = in_PollTokenHash r"
    and "lookup_by hn_ID (harnesses (bk_db s)) (in_HarnessID r) = Some h"
    and "s' = s\<lparr>bk_db := (bk_db s)\<lparr>init_requests := fetched hash (e_now E) (init_requests (bk_db s))\<rparr>\<rparr>"
  shows "\<exists>res. run_state (PollInit E P code t) s = (Inr res, s') \<and> ir_HarnessID res = hn_ID h \<and>
    ir_Token res = in_HarnessToken r \<and> ir_MMUserID res = hn_MMUserID h \<and> fst (run_state (PollInit E P code t) s') = Inl InitConsumed"
proof -
  obtain res where res: "run_state (init_result E P (r\<lparr>in_FetchedAt := Some (e_now E)\<rparr>) h) s' = (res, s')"
      "ir_HarnessID res = hn_ID h" "ir_Token res = in_HarnessToken r" "ir_MMUserID res = hn_MMUserID h"
    using init_result_fields [of E P "r\<lparr>in_FetchedAt := Some (e_now E)\<rparr>" h s'] by auto
  have "HarnessByID (bk_db s') (in_HarnessID r) = Inr h" "InitByCode (bk_db s) hash = Inr r"
    using assms by (simp_all add: HarnessByID_def InitByCode_def scan_row_def)
  then have "run_state (PollInit E P code t) s = (Inr res, s')"
    using assms res(1) poll_fetches_claimed [OF assms(1,3,4,6)] by (simp add: PollInit_def Let_def Claimed_def)
  moreover have "fst (run_state (PollInit E P code t) s') = Inl InitConsumed"
  proof -
    let ?r = "r\<lparr>in_FetchedAt := Some (stored_time (e_now E)), in_HarnessToken := []\<rparr>"
    have row: "lookup_by in_CodeHash (init_requests (bk_db s')) hash = Some ?r"
      using assms lookup_fetched [of hash "e_now E" "init_requests (bk_db s)"] by simp
    have "fst (FetchInit (bk_db s') hash (e_now E)) = Inl ErrConflict"
      using poll_fetches_claimed [OF _ row, of "e_now E"] assms fetched_all by (simp add: Claimed_def)
    then show ?thesis
      using row assms by (simp add: PollInit_def Let_def InitByCode_def scan_row_def case_prod_unfold)
  qed
  ultimately show ?thesis using res by blast
qed

lemma complete_tables_rows:
  "lookup_by in_CodeHash (init_requests (complete_tables d hash now h i tok)) hash =
     map_option (\<lambda>r. r\<lparr>in_ClaimedAt := Some (stored_time now), in_HarnessID := hn_ID h, in_HarnessToken := tok, in_BotUserID := i\<rparr>)
       (lookup_by in_CodeHash (init_requests d) hash)"
  "hn_ID h \<notin> hn_ID ` set (harnesses d) \<Longrightarrow>
     lookup_by hn_ID (harnesses (complete_tables d hash now h i tok)) (hn_ID h) = Some (stored_harness h)"
  "hn_TokenHash h \<notin> hn_TokenHash ` set (harnesses d) \<Longrightarrow>
     lookup_by hn_TokenHash (harnesses (complete_tables d hash now h i tok)) (hn_TokenHash h) = Some (stored_harness h)"
  "bt_UserID b = i \<Longrightarrow> b \<in> set (bots d) \<Longrightarrow> b\<lparr>bt_HarnessID := hn_ID h\<rparr> \<in> set (bots (complete_tables d hash now h i tok))"
  "sqlFault (complete_tables d hash now h i tok) = sqlFault d"
  using lookup_by_update_at [of in_CodeHash "\<lambda>r. r\<lparr>in_ClaimedAt := Some (stored_time now), in_HarnessID := hn_ID h,
      in_HarnessToken := tok, in_BotUserID := i\<rparr>" hash "\<lambda>_. True" "init_requests d" hash]
  by (simp_all add: complete_tables_def lookup_by_append_fresh stored_harness_def set_rows_update)

text \<open>
  The device flow pairs a machine with the user who claims it: a machine starts the flow, a user
  claims its code with the command, and the machine polls with its poll token. It then gets the id
  and the token of a harness that belongs to this user; a connection that presents this token is
  authenticated as this harness, and a bot of the same user is bound to it. The token is handed
  out once, and a poll with any other token learns nothing.
\<close>

theorem device_flow:
  assumes "run_state (StartInit E botName harnessName) s = (Inr st, s1)"
    and "run_state (claimInit E1 P args (is_Code st) name) s1 = (Inr text, s2)"
    and "run_state (PollInit E2 P (is_Code st) (is_PollToken st)) s2 = (answer, s3)"
    and "e_sha E1 = e_sha E" "e_upper E1 = e_upper E" "e_sha E2 = e_sha E" "e_upper E2 = e_upper E"
    and "e_now E2 < stored_time (is_ExpiresAt st)" "sqlFault (bk_db s) = (\<lambda>_. False)"
    and "is_PollToken st \<noteq> []" "tokenHash (e_sha E) (is_PollToken st) \<noteq> []"
  shows "\<exists>res h b. answer = Inr res \<and> hn_ID h = ir_HarnessID res \<and> hn_MMUserID h = cr_UserID args \<and>
    ir_MMUserID res = cr_UserID args \<and>
    fst (run_state (authenticate E2 (''Bearer '' @ ir_Token res)) s3) = Some h \<and>
    b \<in> set (bots (bk_db s3)) \<and> bt_MMUserID b = cr_UserID args \<and> bt_HarnessID b = hn_ID h \<and>
    fst (run_state (PollInit E2 P (is_Code st) (is_PollToken st)) s3) = Inl InitConsumed \<and>
    (\<forall>t. tokenHash (e_sha E) t \<noteq> tokenHash (e_sha E) (is_PollToken st) \<longrightarrow>
       run_state (PollInit E2 P (is_Code st) t) s2 = (Inl InitUnknown, s2))"
proof -
  let ?hash = "hashCode (e_sha E) (e_upper E) (is_Code st)"
  obtain req where req: "in_CodeHash req = ?hash" "in_PollTokenHash req = tokenHash (e_sha E) (is_PollToken st)"
      "in_ExpiresAt req = stored_time (is_ExpiresAt st)" "in_FetchedAt req = None"
      "bk_db s1 = (bk_db s)\<lparr>init_requests := init_requests (bk_db s) @ [req]\<rparr>"
      "in_CodeHash req \<notin> in_CodeHash ` set (init_requests (bk_db s))"
    using StartInit_succeeds [OF assms(1)] by metis
  obtain req' b u tok hid where claim: "provisioned args [] s1 b u"
      "CompleteInit (bk_db u) ?hash (e_now E1) (claim_harness E1 args req' hid tok) (bt_UserID b) tok =
       (Inr (), complete_tables (bk_db u) ?hash (e_now E1) (claim_harness E1 args req' hid tok) (bt_UserID b) tok)"
      "\<exists>e. bk_db s2 = snd (AppendAudit (complete_tables (bk_db u) ?hash (e_now E1) (claim_harness E1 args req' hid tok) (bt_UserID b) tok) (e_now E1) e)"
    using claimInit_succeeds [OF assms(2)] assms(4,5) by metis
  let ?H = "claim_harness E1 args req' hid tok"
  let ?d = "complete_tables (bk_db u) ?hash (e_now E1) ?H (bt_UserID b) tok"
  have u: "bk_db u = (bk_db s1)\<lparr>bots := bots (bk_db s1) @ [stored_bot b]\<rparr>" and owner: "bt_MMUserID b = cr_UserID args"
    using claim(1) by (auto simp: provisioned_def saved_def bot_for_def)
  have new: "hn_ID ?H \<notin> hn_ID ` set (harnesses (bk_db u))" "hn_TokenHash ?H \<notin> hn_TokenHash ` set (harnesses (bk_db u))"
    by (rule CompleteInit_cases [of "bk_db u" ?hash "e_now E1" ?H "bt_UserID b" tok]; use claim(2) in simp)+
  have s2: "harnesses (bk_db s2) = harnesses ?d" "bots (bk_db s2) = bots ?d" "init_requests (bk_db s2) = init_requests ?d"
      "sqlFault (bk_db s2) = (\<lambda>_. False)"
    using claim(3) assms(9) req(5) u by (auto simp: store_frame complete_tables_rows)
  let ?r = "req\<lparr>in_ClaimedAt := Some (stored_time (e_now E1)), in_HarnessID := hid, in_HarnessToken := tok, in_BotUserID := bt_UserID b\<rparr>"
  have row: "lookup_by in_CodeHash (init_requests (bk_db s2)) ?hash = Some ?r"
    using req(1,5,6) u by (simp add: s2 complete_tables_rows lookup_by_append_fresh claim_harness_def)
  have h: "lookup_by hn_ID (harnesses (bk_db s2)) (in_HarnessID ?r) = Some (stored_harness ?H)"
    using complete_tables_rows(2) [OF new(1)] s2(1) by (simp add: claim_harness_def)
  define s' where "s' = s2\<lparr>bk_db := (bk_db s2)\<lparr>init_requests := fetched ?hash (e_now E2) (init_requests (bk_db s2))\<rparr>\<rparr>"
  obtain res where res: "run_state (PollInit E2 P (is_Code st) (is_PollToken st)) s2 = (Inr res, s')" "ir_HarnessID res = hn_ID (stored_harness ?H)"
      "ir_Token res = tok" "ir_MMUserID res = hn_MMUserID (stored_harness ?H)"
      "fst (run_state (PollInit E2 P (is_Code st) (is_PollToken st)) s') = Inl InitConsumed"
    using PollInit_claimed [OF s2(4) _ row, of E2 "is_Code st" "is_PollToken st" "stored_harness ?H" s' P] req assms h
    by (auto simp: Claimed_def s'_def)
  have "hn_TokenHash ?H = tokenHash (e_sha E2) tok" using assms(4,6) by (simp add: claim_harness_def)
  then have "HarnessByTokenHash (bk_db s') (TokenHash E2 tok) = Inr (stored_harness ?H)"
    using complete_tables_rows(3) [OF new(2)] s2(1,4) by (simp add: HarnessByTokenHash_def TokenHash_def scan_row_def s'_def)
  then have "fst (run_state (authenticate E2 (''Bearer '' @ ir_Token res)) s') = Some (stored_harness ?H)"
    using res(3) by (simp add: authenticate_def TrimPrefix_def)
  moreover have "(stored_bot b)\<lparr>bt_HarnessID := hn_ID ?H\<rparr> \<in> set (bots (bk_db s'))"
    using complete_tables_rows(4) [of "stored_bot b" "bt_UserID b" "bk_db u"] u s2(2) by (simp add: s'_def stored_bot_def)
  moreover have "run_state (PollInit E2 P (is_Code st) t) s2 = (Inl InitUnknown, s2)"
    if "tokenHash (e_sha E) t \<noteq> tokenHash (e_sha E) (is_PollToken st)" for t
    using that row req(2) assms(6,7) s2(4) by (intro PollInit_wrong_token [of _ _ _ ?r]) (simp_all add: InitByCode_def scan_row_def)
  ultimately show ?thesis
    using res assms(3) owner
    by (intro exI [of _ res] exI [of _ "stored_harness ?H"] exI [of _ "(stored_bot b)\<lparr>bt_HarnessID := hn_ID ?H\<rparr>"])
      (auto simp: stored_harness_def stored_bot_def claim_harness_def)
qed

section \<open>Names\<close>

lemma TrimRight_prefix: "last p \<notin> set cs \<Longrightarrow> p \<noteq> [] \<Longrightarrow> TrimRight (p @ x) cs = p @ TrimRight x cs"
proof -
  assume p: "last p \<notin> set cs" "p \<noteq> []"
  then have "dropWhile (\<lambda>c. c \<in> set cs) (rev p) = rev p" by (cases p rule: rev_cases) auto
  moreover have "dropWhile (\<lambda>c. c \<in> set cs) (rev x @ rev p) =
      (if \<forall>c \<in> set x. c \<in> set cs then dropWhile (\<lambda>c. c \<in> set cs) (rev p) else dropWhile (\<lambda>c. c \<in> set cs) (rev x) @ rev p)"
    using dropWhile_append3 by (auto simp: dropWhile_append)
  ultimately show ?thesis by (auto simp: TrimRight_def)
qed

lemma TrimRight_subset: "set (TrimRight x cs) \<subseteq> set x" "length (TrimRight x cs) \<le> length x"
  by (auto simp: TrimRight_def dest: set_dropWhileD intro: order_trans [OF length_dropWhile_le])

lemma hex_digit_rest: "d < 16 \<Longrightarrow> name_rest (hex_digit d)"
  by (simp add: name_rest_def name_start_def hex_digit_byte)

lemma hex_name_rest: "list_all name_rest (hex_encode s)"
proof -
  have "name_rest (hex_digit (byte c div 16)) \<and> name_rest (hex_digit (byte c mod 16))" for c
    using byte_less [of c] by (simp add: hex_digit_rest less_mult_imp_div_less)
  then show ?thesis by (auto simp: hex_encode_def list_all_iff)
qed

text \<open>
  A bot gets a name that Mattermost accepts: for every user name of letters, digits, dots,
  underscores and dashes, however long, the generated name passes the rule for names that a user
  chooses, so that provisioning without a name is not refused by the broker itself.
\<close>

theorem generated_name_ok:
  assumes "list_all name_rest (ToLower lower username)" "length bytes = 3"
  shows "botUsername_ok (generatedBotName lower username (randomToken bytes))"
proof -
  let ?h = "''harness''"
  define y where "y = TrimRight (take 15 (CHR ''-'' # ToLower lower username)) ''._-''"
  define z where "z = TrimRight (take 8 y) ''._-''"
  have "defaultBotName lower username = TrimRight (?h @ take 15 (CHR ''-'' # ToLower lower username)) ''._-''"
    by (simp add: defaultBotName_def maxBotNameLength_def)
  then have "defaultBotName lower username = ?h @ y" unfolding y_def by (subst (asm) TrimRight_prefix) auto
  then have "generatedBotName lower username (randomToken bytes) = TrimRight (?h @ take 8 y) ''._-'' @ ''-'' @ hex_encode bytes"
    by (simp add: generatedBotName_def maxBotNameLength_def randomToken_def)
  then have name: "generatedBotName lower username (randomToken bytes) = ?h @ z @ ''-'' @ hex_encode bytes"
    unfolding z_def by (subst (asm) TrimRight_prefix) auto
  have "set z \<subseteq> set y" "set y \<subseteq> set (CHR ''-'' # ToLower lower username)"
    unfolding y_def z_def by (rule subset_trans [OF TrimRight_subset(1) set_take_subset])+
  then have "list_all name_rest z" using assms(1) by (fastforce simp: list_all_iff name_rest_def)
  moreover have "length z \<le> 8" using TrimRight_subset(2) [of "take 8 y" "''._-''"] unfolding z_def by simp
  ultimately show ?thesis
    using assms(2) hex_name_rest [of bytes] by (simp add: name botUsername_ok_def name_rest_def name_start_def byte_def)
qed

end
