(* ===== verification/System_Witnesses.thy ===== *)
theory System_Witnesses
  imports Witnesses Daemon_Witnesses System Onboarding_Props
begin

text \<open>
  Onboarding and the composition of broker and harness at work: an installation that grants every
  request, one that refuses the last webhook, and a dispatch and a result between the broker and
  the harness of the other examples.
\<close>

section \<open>Onboarding\<close>

definition w_install :: installation where
  "w_install = \<lparr>p_installed = (\<lambda>_. True), p_GetChannel = (\<lambda>_ _ _. Some \<lparr>cn_TeamId = ''T'', cn_Type = ''O''\<rparr>),
     p_GetUser = (\<lambda>_ _ u. Some \<lparr>ur_Id = u, ur_Username = ''ann''\<rparr>), p_account = (\<lambda>_. Some ''b9''), p_token = (\<lambda>_. Some ''tok''),
     p_done = (\<lambda>_. True), p_incoming = (\<lambda>_. (False, Some (''in'', ''b9''))), p_outgoing = (\<lambda>_. (False, Some (''out'', ''otok'')))\<rparr>"

definition w_refusing :: installation where
  "w_refusing = w_install\<lparr>p_outgoing := (\<lambda>_. (True, None))\<rparr>"

definition w_admin :: env where
  "w_admin = (w_env 0)\<lparr>e_admin := True, e_sha := take 1, e_random := (\<lambda>n k. [char_of (97 + n)])\<rparr>"

definition w_args :: CommandRequest where
  "w_args = \<lparr>cr_UserID = ''u1'', cr_ChannelID = ''c1'', cr_TeamID = ''T'', cr_Text = []\<rparr>"

theorem provision_compensated_witness:
  "\<exists>e s' ops. run_state (provisionBot w_admin w_refusing w_args ''newbot'' []) (w_broker JobRunning) = (Inl e, s') \<and>
     bk_posts s' = map (MMProvision ''T'') ops \<and> undone w_refusing ''T'' [] ops \<and> bk_db s' = w_db JobRunning"
proof -
  let ?run = "run_state (provisionBot w_admin w_refusing w_args ''newbot'' []) (w_broker JobRunning)"
  have "fst ?run = Inl ''could not create outgoing webhook''" by code_simp
  then have run: "?run = (Inl ''could not create outgoing webhook'', snd ?run)" by (simp add: prod_eq_iff)
  have "\<forall>l a. p_account w_refusing l = Some a \<longrightarrow> a \<notin> bt_UserID ` set (bots (bk_db (w_broker JobRunning)))"
    by (auto simp: w_refusing_def w_install_def w_tables w_bot_def)
  from provision_compensated [OF run this]
  have "\<exists>ops. bk_posts (snd ?run) = map (MMProvision ''T'') ops \<and> undone w_refusing ''T'' [] ops \<and> bk_db (snd ?run) = w_db JobRunning"
    by (simp add: w_args_def w_broker_def empty_broker_def)
  with run show ?thesis by blast
qed

theorem bot_provisioned_witness:
  "\<exists>b s'. run_state (provisionBot w_admin w_install w_args ''newbot'' []) (w_broker JobRunning) = (Inr b, s') \<and>
     bots (bk_db s') = bots (w_db JobRunning) @ [stored_bot b] \<and> bt_MMUserID b = ''u1''"
proof -
  let ?run = "run_state (provisionBot w_admin w_install w_args ''newbot'' []) (w_broker JobRunning)"
  have "case fst ?run of Inl _ \<Rightarrow> False | Inr _ \<Rightarrow> True" by code_simp
  then obtain b where "?run = (Inr b, snd ?run)" by (cases "fst ?run") (auto simp: prod_eq_iff)
  from bot_provisioned [OF this] this show ?thesis
    by (intro exI [of _ b] exI [of _ "snd ?run"]) (simp add: w_args_def)
qed

definition w_start :: InitStart where
  "w_start = projr (fst (run_state (StartInit w_admin [] ''laptop'') empty_broker))"

definition w_waiting :: broker where
  "w_waiting = snd (run_state (StartInit w_admin [] ''laptop'') empty_broker)"

definition w_claimed :: broker where
  "w_claimed = snd (run_state (claimInit w_admin w_install w_args (is_Code w_start) []) w_waiting)"

lemma w_start_run: "run_state (StartInit w_admin [] ''laptop'') empty_broker = (Inr w_start, w_waiting)"
proof -
  have "isl (fst (run_state (StartInit w_admin [] ''laptop'') empty_broker)) = False" by code_simp
  then show ?thesis by (auto simp: w_start_def w_waiting_def prod_eq_iff isl_def)
qed

lemma w_claim_run: "\<exists>t. run_state (claimInit w_admin w_install w_args (is_Code w_start) []) w_waiting = (Inr t, w_claimed)"
proof -
  have "isl (fst (run_state (claimInit w_admin w_install w_args (is_Code w_start) []) w_waiting)) = False" by code_simp
  then show ?thesis by (cases "fst (run_state (claimInit w_admin w_install w_args (is_Code w_start) []) w_waiting)")
      (auto simp: w_claimed_def prod_eq_iff)
qed

theorem device_flow_witness:
  "\<exists>res s3. run_state (PollInit w_admin w_install (is_Code w_start) (is_PollToken w_start)) w_claimed = (Inr res, s3) \<and>
     ir_MMUserID res = ''u1'' \<and> (\<exists>b \<in> set (bots (bk_db s3)). bt_MMUserID b = ''u1'' \<and> bt_HarnessID b = ir_HarnessID res)"
proof -
  let ?poll = "run_state (PollInit w_admin w_install (is_Code w_start) (is_PollToken w_start)) w_claimed"
  obtain t where claim: "run_state (claimInit w_admin w_install w_args (is_Code w_start) []) w_waiting = (Inr t, w_claimed)"
    using w_claim_run by blast
  have poll: "?poll = (fst ?poll, snd ?poll)" by simp
  have hyps: "e_now w_admin < stored_time (is_ExpiresAt w_start)" "is_PollToken w_start \<noteq> []"
    "tokenHash (e_sha w_admin) (is_PollToken w_start) \<noteq> []" by code_simp+
  have fault: "sqlFault (bk_db empty_broker) = (\<lambda>_. False)" by (simp add: empty_broker_def empty_db_def)
  obtain res and h :: Harness and b where "fst ?poll = Inr res" "hn_ID h = ir_HarnessID res" "ir_MMUserID res = cr_UserID w_args"
      "b \<in> set (bots (bk_db (snd ?poll)))" "bt_MMUserID b = cr_UserID w_args" "bt_HarnessID b = hn_ID h"
    using device_flow [OF w_start_run claim poll refl refl refl refl hyps(1) fault hyps(2,3)] by blast
  moreover have "cr_UserID w_args = ''u1''" by (simp add: w_args_def)
  ultimately show ?thesis using poll by metis
qed

theorem generated_name_ok_witness: "botUsername_ok (generatedBotName id ''a.very.long.user.name.of.a.person'' (randomToken ''abc''))"
  by (rule generated_name_ok) code_simp+

section \<open>Broker and harness\<close>

definition w_user :: User where
  "w_user = \<lparr>ur_Id = ''u1'', ur_Username = ''ann''\<rparr>"

lemma w_claude: "Registry_Get (h_agents w_henv) (hc_Agent (h_cfg w_henv)) \<noteq> None"
  by (simp add: w_henv_def w_hcfg_def DefaultConfig_def Registry_Get_def)

lemma w_facts:
  "bt_MMUserID w_bot = ''u1''" "bt_UserID w_bot = ''b1''" "rootOf (w_post ''p1'' m) = ''p1''" "ur_Id w_user = ''u1''"
  "hc_OwnerMMUserID (h_cfg w_henv) = ''u1''" "hc_MaxJobs (h_cfg w_henv) = 1" "dm_jobs w_daemon = []" "\<not> dm_broken w_daemon"
  "dm_frames w_daemon = []" "sessions_Get (dm_sessions w_daemon) i r = None" "jb_State (w_job st) = st" "jb_HarnessID (w_job st) = hn_ID w_harness"
  "db_ok (w_db st)" "bk_frames (w_broker st) = []" "bk_broken (w_broker st) c = False" "bk_closed (w_broker st) = []"
  by (simp_all add: w_bot_def w_post_def w_user_def w_daemon_defs rootOf_def sessions_Get_def DefaultConfig_def w_job_def
      w_harness_def w_broker_def empty_broker_def w_db_ok)


theorem shared_job_refused_witness:
  "\<exists>r k. dm_frames (snd (run_state (client_handle w_henv (New ''d'' 0 TypeJobDispatch ''j1''
        (PDispatch (dispatch_payload (w_env 0) (w_post ''p1'' ''@mhb go'') (shared_mention (w_env 0)) w_user [] [] [] [] ''go'')))) w_daemon)) = [r] \<and>
     job_map (bk_db (snd (run_state (handle (w_env 0) (core_handler (w_env 0)) w_harness 0 r) (w_broker JobDispatched)))) ''j1'' = Some k \<and>
     jb_State k = JobFailed"
  using shared_job_refused [where post = "w_post ''p1'' ''@mhb go''" and user = w_user and d = w_daemon and i = "''j1''"
      and H = w_henv and s = "w_broker JobDispatched" and j = "w_job JobDispatched" and E = "w_env 0" and atts = "[]" and hist = "[]"
      and ws = "[]" and agent = "[]" and prompt = "''go''" and u = "''d''" and t = 0 and E' = "w_env 0" and h = w_harness and c = 0,
      OF refl refl]
  by (simp add: w_facts)

theorem result_travels_witness:
  "\<exists>m r k. m \<in> set (outbox_Pending (dm_outbox (snd (run_state (run_end w_henv 0 (Inr w_result) 0) w_asked)))) \<and>
     bk_frames (snd (run_state (handle (w_env 0) (core_handler (w_env 0)) w_harness 0 m) (w_broker JobRunning))) = [(0, r)] \<and>
     job_map (bk_db (snd (run_state (handle (w_env 0) (core_handler (w_env 0)) w_harness 0 m) (w_broker JobRunning)))) ''j1'' = Some k \<and>
     jb_State k = JobSucceeded"
proof -
  have "(''j1'', 0) \<in> set (dm_jobs w_asked)" by (rule map_of_SomeD [OF w_asked_table(1)])
  note result_travels [OF w_asked_ok this refl refl, where outcome = "Inr w_result" and s = "w_broker JobRunning"
      and j = "w_job JobRunning" and h = w_harness and c = 0 and E = "w_env 0" and t = 0 and H = w_henv]
  moreover have "result_state (job_result w_result 0) = JobSucceeded" by code_simp
  ultimately show ?thesis by (simp add: w_facts w_db_ok conn_up_def) metis
qed

end
