(* ===== verification/Permission.thy ===== *)
theory Permission
  imports Daemon_Inv
begin

text \<open>
  The path of a permission request between the Claude CLI and the daemon:
  \<^verbatim>\<open>internal/harness/permission/permission.go\<close> and the small MCP server of \<^verbatim>\<open>internal/mcp/stdio.go\<close>
  it is built on. JSON texts are modelled by what they decode to; the sockets, pipes and deadlines
  between the processes may fail at every step.
\<close>

section \<open>MCP\<close>

record mcp_tool =
  tl_Name :: string
  tl_Description :: string

text \<open>A tool handler: the text of its answer and whether it is an error, or a protocol error.\<close>

type_synonym 'a mcp_handler = "json \<Rightarrow> string + ('a \<times> bool)"

record 'a mcp_server =
  sv_Name :: string
  sv_Version :: string
  sv_Tools :: "mcp_tool list"
  sv_Handlers :: "(string \<times> 'a mcp_handler) list"

text \<open>
  A line of standard input that decodes: the raw id (absent for a notification), the method, and
  the parameters of a call when they decode: the tool's name and its arguments.
\<close>

record mcp_request =
  mq_ID :: "string option"
  mq_Method :: string
  mq_Call :: "(string \<times> json) option"

datatype 'a mcp_result =
    Initialized string string string
  | Pong
  | Tools "mcp_tool list"
  | Content 'a bool
  | RpcError int string

definition protocolVersion :: string where
  "protocolVersion = ''2024-11-05''"

definition dispatch :: "(string \<Rightarrow> string) \<Rightarrow> 'a mcp_server \<Rightarrow> mcp_request \<Rightarrow> 'a mcp_result" where
  "dispatch q S r =
     (if mq_Method r = ''initialize'' then Initialized protocolVersion (sv_Name S) (sv_Version S)
      else if mq_Method r = ''ping'' then Pong
      else if mq_Method r = ''tools/list'' then Tools (sv_Tools S)
      else if mq_Method r = ''tools/call'' then
        (case mq_Call r of
           None \<Rightarrow> RpcError (- 32602) ''invalid params''
         | Some (name, args) \<Rightarrow>
             (case map_of (sv_Handlers S) name of
                None \<Rightarrow> RpcError (- 32602) (''unknown tool '' @ q name)
              | Some h \<Rightarrow>
                  (case h args of
                     Inl err \<Rightarrow> RpcError (- 32000) err
                   | Inr (text, isError) \<Rightarrow> Content text isError)))
      else RpcError (- 32601) (''method not found: '' @ mq_Method r))"

definition answered :: "mcp_request \<Rightarrow> string option" where
  "answered r = (case mq_ID r of None \<Rightarrow> None | Some i \<Rightarrow> if i = [] \<or> i = ''null'' then None else Some i)"

text \<open>
  \<^verbatim>\<open>Serve\<close>: the responses to the lines read until the end of input, each with the id of its request.
  Every request is answered by its own goroutine, so the program may write them in any order; the
  lines that do not decode are \<^term>\<open>None\<close>.
\<close>

definition Serve_mcp :: "(string \<Rightarrow> string) \<Rightarrow> 'a mcp_server \<Rightarrow> mcp_request option list \<Rightarrow> (string \<times> 'a mcp_result) list" where
  "Serve_mcp q S lines =
     List.map_filter (\<lambda>l. case l of
         None \<Rightarrow> None
       | Some r \<Rightarrow> map_option (\<lambda>i. (i, dispatch q S r)) (answered r)) lines"

section \<open>The permission tool\<close>

text \<open>What can go wrong between the subcommand and the daemon's socket, with the text of the error.\<close>

record link =
  lk_dial :: "string option"
  lk_write :: "string option"
  lk_lost :: bool
  lk_read :: string

text \<open>
  The daemon's side: a request that does not decode (\<^term>\<open>None\<close>) is dropped without an answer, and an
  error of the decider denies.
\<close>

definition Server_handle :: "(Request \<Rightarrow> string + Decision) \<Rightarrow> Request option \<Rightarrow> Decision option" where
  "Server_handle decide req =
     (case req of
        None \<Rightarrow> None
      | Some r \<Rightarrow> Some (case decide r of Inl err \<Rightarrow> Deny (''harness error: '' @ err) | Inr dec \<Rightarrow> dec))"

text \<open>\<open>answer\<close>: what the connection carries back, nothing when it is closed or the deadline passes.\<close>

definition Ask :: "string \<Rightarrow> link \<Rightarrow> (Request \<Rightarrow> Decision option) \<Rightarrow> Request \<Rightarrow> string + Decision" where
  "Ask socket L answer req =
     (case lk_dial L of
        Some e \<Rightarrow> Inl (''permission: dial '' @ socket @ '': '' @ e)
      | None \<Rightarrow>
          (case lk_write L of
             Some e \<Rightarrow> Inl e
           | None \<Rightarrow>
               (case (if lk_lost L then None else answer req) of
                  None \<Rightarrow> Inl (''permission: read decision: '' @ lk_read L)
                | Some dec \<Rightarrow>
                    if dn_Behavior dec \<noteq> ''allow'' \<and> dn_Behavior dec \<noteq> ''deny''
                    then Inl ''permission: invalid decision from daemon''
                    else Inr dec)))"

definition approve_tool :: mcp_tool where
  "approve_tool = \<lparr>tl_Name = ''approve'', tl_Description = ''Asks the harness owner whether a tool call may run.''\<rparr>"

text \<open>\<open>decode\<close>: the request in the arguments of a call, or the error of decoding them.\<close>

definition approve_handler :: "(json \<Rightarrow> string + Request) \<Rightarrow> string \<Rightarrow> string \<Rightarrow> link \<Rightarrow> (Request \<Rightarrow> Decision option)
    \<Rightarrow> Decision mcp_handler" where
  "approve_handler decode socket jobID L answer args =
     (case decode args of
        Inl e \<Rightarrow> Inl (''bad arguments: '' @ e)
      | Inr req0 \<Rightarrow>
          Inr (case Ask socket L answer (req0\<lparr>rq_JobID := jobID\<rparr>) of
                 Inl e \<Rightarrow> Deny (''harness unreachable: '' @ e)
               | Inr dec \<Rightarrow> dec, False))"

definition ServeStdio :: "(json \<Rightarrow> string + Request) \<Rightarrow> string \<Rightarrow> string \<Rightarrow> link \<Rightarrow> (Request \<Rightarrow> Decision option)
    \<Rightarrow> Decision mcp_server" where
  "ServeStdio decode socket jobID L answer =
     \<lparr>sv_Name = ''harness'', sv_Version = ''1'', sv_Tools = [approve_tool],
      sv_Handlers = [(''approve'', approve_handler decode socket jobID L answer)]\<rparr>"

section \<open>Properties\<close>

text \<open>
  C25. The permission path fails closed: whatever the CLI sends and wherever the path breaks, an answer
  that allows a tool call is the daemon's own allowing decision on the request of that call, under
  the id of the job the subcommand was started for. Every answer carries the id of a request that
  asked for one.
\<close>

theorem permission_fails_closed:
  assumes "(i, Content dec isError) \<in> set (Serve_mcp q (ServeStdio decode socket jobID L (\<lambda>r. Server_handle decide (wire r))) lines)"
    and "dn_Behavior dec = ''allow''"
  shows "\<exists>r req req'. Some r \<in> set lines \<and> mq_ID r = Some i \<and> mq_Call r \<noteq> None \<and>
    decode (snd (the (mq_Call r))) = Inr req \<and> wire (req\<lparr>rq_JobID := jobID\<rparr>) = Some req' \<and> decide req' = Inr dec"
proof -
  obtain r where r: "Some r \<in> set lines" "answered r = Some i"
      "dispatch q (ServeStdio decode socket jobID L (\<lambda>r. Server_handle decide (wire r))) r = Content dec isError"
    using assms(1) by (auto simp: Serve_mcp_def map_filter_def split: option.splits)
  then obtain args where call: "mq_Call r = Some (''approve'', args)"
      "approve_handler decode socket jobID L (\<lambda>r. Server_handle decide (wire r)) args = Inr (dec, isError)"
    by (auto simp: dispatch_def ServeStdio_def split: if_splits option.splits sum.splits)
  moreover have "mq_ID r = Some i" using r(2) by (auto simp: answered_def split: option.splits if_splits)
  ultimately show ?thesis
    using r(1) assms(2)
    by (auto simp: approve_handler_def Ask_def Server_handle_def Deny_def split: sum.splits option.splits if_splits)
qed

text \<open>
  The server never leaves a request of the CLI without an answer, and never answers a notification.
\<close>

lemma mcp_answers_all:
  "map fst (Serve_mcp q S lines) = List.map_filter (\<lambda>l. Option.bind l answered) lines"
  by (induction lines) (auto simp: Serve_mcp_def map_filter_def split: option.splits)

end
