(* ===== verification/OAuth.thy ===== *)
theory OAuth
  imports Sqlite_Props Effects Core_Text "HOL-Library.AList"
begin

text \<open>
  \<^verbatim>\<open>internal/broker/oauth/service.go\<close>: the installation of a team by an administrator (the
  authorization round trip, the team's slash command, the encrypted grant) and the clients that use
  a grant, refreshing it when it is about to expire. The Mattermost server belongs to the
  environment: it answers from the requests sent so far. So do the ciphers and the random values.
  The plaintext of a grant is modelled by the credentials it decodes to. The handlers that change
  grants hold one lock, so that each of them is one step.
\<close>

section \<open>Data\<close>

record credentials =
  cd_AccessToken :: string
  cd_RefreshToken :: string
  cd_ExpiresAt :: time
  cd_UpdatedAt :: time

record pendingState =
  ps_teamRef :: string
  ps_browser :: string
  ps_expires :: time

record Command =
  cm_Id :: string
  cm_TeamId :: string
  cm_Trigger :: string
  cm_URL :: string
  cm_Method :: string
  cm_Token :: string
  cm_DeleteAt :: int

record Me =
  me_Id :: string
  me_Admin :: bool
  me_DeleteAt :: int

record Team =
  tm_Id :: string
  tm_DeleteAt :: int

record token_response =
  tr_AccessToken :: string
  tr_RefreshToken :: string
  tr_ExpiresIn :: int
  tr_TokenType :: string

datatype oauth_call =
    TokenRequest "(string \<times> string) list"
  | CreateCommand string string
  | DeleteCommand string

record service =
  sc_db :: db
  sc_states :: "(string \<times> pendingState) list"
  sc_log :: "oauth_call list"
  sc_drawn :: nat

text \<open>
  \<open>o_token\<close>: no answer, or the status and the decoded body of the token endpoint. \<open>o_GetTeam\<close>
  distinguishes a missing team (\<^verbatim>\<open>404\<close>) from other errors.
\<close>

datatype 'a fetched_object = Found 'a | NotThere | Failed

record oauth_env =
  o_MMURL :: string
  o_PublicURL :: string
  o_ClientID :: string
  o_ClientSecret :: string
  o_now :: time
  o_lower :: "rune \<Rightarrow> rune"
  o_sha :: "string \<Rightarrow> string"
  o_random :: "nat \<Rightarrow> string option"
  o_nonce :: "nat \<Rightarrow> string option"
  o_seal :: "string \<Rightarrow> credentials \<Rightarrow> string \<Rightarrow> string"
  o_open :: "string \<Rightarrow> string \<Rightarrow> string \<Rightarrow> credentials option"
  o_validID :: "string \<Rightarrow> bool"
  o_validTeamName :: "string \<Rightarrow> bool"
  o_teamNameMax :: nat
  o_postMethod :: string
  o_token :: "oauth_call list \<Rightarrow> (int \<times> token_response option) option"
  o_GetMe :: "oauth_call list \<Rightarrow> string \<Rightarrow> Me option"
  o_GetTeam :: "oauth_call list \<Rightarrow> string \<Rightarrow> string \<Rightarrow> Team fetched_object"
  o_GetTeamByName :: "oauth_call list \<Rightarrow> string \<Rightarrow> string \<Rightarrow> Team option"
  o_GetTeamMember :: "oauth_call list \<Rightarrow> string \<Rightarrow> string \<Rightarrow> string \<Rightarrow> int option"
  o_ListCommands :: "oauth_call list \<Rightarrow> string \<Rightarrow> string \<Rightarrow> Command list option"
  o_GetCommand :: "oauth_call list \<Rightarrow> string \<Rightarrow> string \<Rightarrow> Command option"
  o_CreateCommand :: "oauth_call list \<Rightarrow> Command option"

type_synonym 'a so = "(service, 'a) state"

definition o_read :: "(oauth_call list \<Rightarrow> 'a) \<Rightarrow> 'a so" where
  "o_read f = reads (\<lambda>s. f (sc_log s))"

definition o_send :: "oauth_call \<Rightarrow> (oauth_call list \<Rightarrow> 'a) \<Rightarrow> 'a so" where
  "o_send c f = State (\<lambda>s. (f (sc_log s @ [c]), s\<lparr>sc_log := sc_log s @ [c]\<rparr>))"

definition o_db :: "(db \<Rightarrow> 'a \<times> db) \<Rightarrow> 'a so" where
  "o_db f = State (\<lambda>s. let (r, d) = f (sc_db s) in (r, s\<lparr>sc_db := d\<rparr>))"

definition o_draw :: "(nat \<Rightarrow> 'a) \<Rightarrow> 'a so" where
  "o_draw f = State (\<lambda>s. (f (sc_drawn s), s\<lparr>sc_drawn := Suc (sc_drawn s)\<rparr>))"

section \<open>Encryption\<close>

definition nonce_size :: nat where
  "nonce_size = 12"

definition raw64_encode :: "string \<Rightarrow> string" where
  "raw64_encode s = filter (\<lambda>c. c \<noteq> CHR ''='') (base64_encode s)"

text \<open>\<^verbatim>\<open>base64.RawStdEncoding\<close>: the standard alphabet without padding, line breaks skipped.\<close>

definition raw64_decode :: "string \<Rightarrow> string option" where
  "raw64_decode s =
     (let t = filter (\<lambda>c. byte c \<noteq> 10 \<and> byte c \<noteq> 13) s in
      if CHR ''='' \<in> set t \<or> length t mod 4 = 1 then None
      else base64_quads (t @ replicate ((4 - length t mod 4) mod 4) (CHR ''='')))"

definition encrypt :: "oauth_env \<Rightarrow> string \<Rightarrow> credentials \<Rightarrow> string option so" where
  "encrypt V team c = do {
     nonce \<leftarrow> o_draw (o_nonce V);
     State_Monad.return (map_option (\<lambda>n. raw64_encode (n @ o_seal V n c team)) nonce)
   }"

definition decrypt :: "oauth_env \<Rightarrow> string \<Rightarrow> string \<Rightarrow> credentials option" where
  "decrypt V team encrypted =
     (case raw64_decode encrypted of
        None \<Rightarrow> None
      | Some data \<Rightarrow>
          if length data < nonce_size then None
          else (case o_open V (take nonce_size data) (drop nonce_size data) team of
                  None \<Rightarrow> None
                | Some c \<Rightarrow> if cd_AccessToken c = [] then None else Some c))"

section \<open>Starting an installation\<close>

definition stateTTL :: duration where
  "stateTTL = 10 * minute"

datatype start_answer = TeamForm | StartError int | AuthorizeAt string string

definition live_states :: "time \<Rightarrow> (string \<times> pendingState) list \<Rightarrow> (string \<times> pendingState) list" where
  "live_states now sts = filter (\<lambda>(_, p). now < ps_expires p) sts"

text \<open>The redirect carries the state and sets the cookie.\<close>

definition start :: "oauth_env \<Rightarrow> string \<Rightarrow> start_answer so" where
  "start V team =
     (let teamRef = TrimSpace team in
      if teamRef = [] then State_Monad.return TeamForm
      else if \<not> o_validID V teamRef \<and> (o_teamNameMax V < length teamRef \<or> \<not> o_validTeamName V teamRef)
      then State_Monad.return (StartError 400)
      else do {
        state \<leftarrow> o_draw (o_random V);
        browser \<leftarrow> o_draw (o_random V);
        case (state, browser) of
          (Some state, Some browser) \<Rightarrow> do {
            modify (\<lambda>s. s\<lparr>sc_states := live_states (o_now V) (sc_states s)\<rparr>);
            n \<leftarrow> reads (\<lambda>s. length (sc_states s));
            if 1000 \<le> n then State_Monad.return (StartError 503)
            else do {
              modify (\<lambda>s. s\<lparr>sc_states := AList.update state
                \<lparr>ps_teamRef = teamRef, ps_browser = o_sha V browser, ps_expires = o_now V + stateTTL\<rparr> (sc_states s)\<rparr>);
              State_Monad.return (AuthorizeAt state browser)
            }
          }
        | _ \<Rightarrow> State_Monad.return (StartError 500)
      })"

section \<open>Grants\<close>

definition bearer :: "oauth_env \<Rightarrow> string \<Rightarrow> bool" where
  "bearer V t \<longleftrightarrow> t = [] \<or> ToLower (o_lower V) t = ''bearer''"

definition exchange :: "oauth_env \<Rightarrow> (string \<times> string) list \<Rightarrow> credentials option so" where
  "exchange V form = do {
     a \<leftarrow> o_send (TokenRequest (form @ [(''client_id'', o_ClientID V), (''client_secret'', o_ClientSecret V)])) (o_token V);
     State_Monad.return (case a of
         Some (status, Some t) \<Rightarrow>
           if status \<noteq> 200 \<or> tr_AccessToken t = [] \<or> tr_ExpiresIn t \<le> 0 \<or> \<not> bearer V (tr_TokenType t) then None
           else Some \<lparr>cd_AccessToken = tr_AccessToken t, cd_RefreshToken = tr_RefreshToken t,
                      cd_ExpiresAt = o_now V + wrap64 (tr_ExpiresIn t * second), cd_UpdatedAt = o_now V\<rparr>
       | _ \<Rightarrow> None)
   }"

text \<open>
  \<^verbatim>\<open>saveCredentials\<close>: the rows of this installer are updated one after the other. A row that cannot be
  written is skipped and reported at the end, an error of the cipher ends the loop.
\<close>

fun save_rows :: "oauth_env \<Rightarrow> credentials \<Rightarrow> Installation list \<Rightarrow> bool so" where
  "save_rows V c [] = State_Monad.return True"
| "save_rows V c (i # rest) = do {
     e \<leftarrow> encrypt V (il_TeamID i) c;
     case e of
       None \<Rightarrow> State_Monad.return False
     | Some text \<Rightarrow> do {
         r \<leftarrow> o_db (\<lambda>d. SaveInstallation d (i\<lparr>il_Credentials := text\<rparr>));
         ok \<leftarrow> save_rows V c rest;
         State_Monad.return (ok \<and> (case r of Inl _ \<Rightarrow> False | Inr _ \<Rightarrow> True))
       }
   }"

definition saveCredentials :: "oauth_env \<Rightarrow> string \<Rightarrow> credentials \<Rightarrow> bool so" where
  "saveCredentials V userID c = do {
     rows \<leftarrow> reads (\<lambda>s. ListInstallations (sc_db s));
     case rows of
       Inl _ \<Rightarrow> State_Monad.return False
     | Inr rows \<Rightarrow> save_rows V c (filter (\<lambda>i. il_UserID i = userID) rows)
   }"

section \<open>Installing\<close>

datatype install_err = Collision | InstallFailed

text \<open>The loop over the commands of the team: the command to reuse, if there is one.\<close>

fun own_command :: "oauth_env \<Rightarrow> string \<Rightarrow> string \<Rightarrow> string \<Rightarrow> Command list \<Rightarrow> oauth_call list \<Rightarrow> Command option
    \<Rightarrow> install_err + Command option" where
  "own_command V token team known [] l found = Inr found"
| "own_command V token team known (c # cs) l found =
     (if cm_Trigger c \<noteq> ''harness'' \<or> cm_DeleteAt c \<noteq> 0 then own_command V token team known cs l found
      else if cm_Id c \<noteq> known \<or> known = [] then Inl Collision
      else case o_GetCommand V l token (cm_Id c) of
          None \<Rightarrow> Inl InstallFailed
        | Some full \<Rightarrow>
            if cm_TeamId full \<noteq> team \<or> cm_Trigger full \<noteq> ''harness''
               \<or> cm_URL full \<noteq> o_PublicURL V @ ''/commands/harness'' \<or> cm_Method full \<noteq> o_postMethod V
            then Inl Collision
            else own_command V token team known cs l (Some full))"

text \<open>From the command on; a failure deletes a command that this call created.\<close>

definition save_installation :: "oauth_env \<Rightarrow> string \<Rightarrow> string \<Rightarrow> credentials \<Rightarrow> Command \<Rightarrow> install_err option so" where
  "save_installation V team userID c cmd =
     (if cm_Id cmd = [] \<or> cm_Token cmd = [] then State_Monad.return (Some InstallFailed)
      else do {
        e \<leftarrow> encrypt V team c;
        case e of
          None \<Rightarrow> State_Monad.return (Some InstallFailed)
        | Some text \<Rightarrow> do {
            r \<leftarrow> o_db (\<lambda>d. SaveInstallation d \<lparr>il_TeamID = team, il_UserID = userID, il_Credentials = text,
                   il_CommandID = cm_Id cmd, il_CommandToken = cm_Token cmd\<rparr>);
            State_Monad.return (case r of Inl _ \<Rightarrow> Some InstallFailed | Inr _ \<Rightarrow> None)
          }
      })"

definition install_command :: "oauth_env \<Rightarrow> string \<Rightarrow> string \<Rightarrow> credentials \<Rightarrow> Command option \<Rightarrow> install_err option so" where
  "install_command V team userID c found =
     (case found of
        Some cmd \<Rightarrow> save_installation V team userID c cmd
      | None \<Rightarrow> do {
          created \<leftarrow> o_send (CreateCommand team (o_PublicURL V @ ''/commands/harness'')) (o_CreateCommand V);
          case created of
            None \<Rightarrow> State_Monad.return (Some InstallFailed)
          | Some cmd \<Rightarrow> do {
              r \<leftarrow> save_installation V team userID c cmd;
              (if r \<noteq> None \<and> cm_Id cmd \<noteq> [] then o_send (DeleteCommand (cm_Id cmd)) (\<lambda>_. ()) else State_Monad.return ());
              State_Monad.return r
            }
        })"

definition install :: "oauth_env \<Rightarrow> string \<Rightarrow> string \<Rightarrow> credentials \<Rightarrow> install_err option so" where
  "install V team userID c = do {
     existing \<leftarrow> reads (\<lambda>s. InstallationByTeam (sc_db s) team);
     if (case existing of Inl e \<Rightarrow> e \<noteq> ErrNotFound | Inr _ \<Rightarrow> False) then State_Monad.return (Some InstallFailed)
     else do {
       commands \<leftarrow> o_read (\<lambda>l. o_ListCommands V l (cd_AccessToken c) team);
       case commands of
         None \<Rightarrow> State_Monad.return (Some InstallFailed)
       | Some cs \<Rightarrow> do {
           found \<leftarrow> o_read (\<lambda>l. own_command V (cd_AccessToken c) team
                      (case existing of Inl _ \<Rightarrow> [] | Inr i \<Rightarrow> il_CommandID i) cs l None);
           case found of
             Inl e \<Rightarrow> State_Monad.return (Some e)
           | Inr found \<Rightarrow> install_command V team userID c found
         }
     }
   }"

record CallbackQuery =
  cq_state :: string
  cq_cookie :: "string option"
  cq_error :: string
  cq_code :: string

definition session_valid :: "oauth_env \<Rightarrow> service \<Rightarrow> string \<Rightarrow> string \<Rightarrow> pendingState option" where
  "session_valid V s state cookie =
     (case map_of (sc_states s) state of
        None \<Rightarrow> None
      | Some p \<Rightarrow> if o_now V < ps_expires p \<and> o_sha V cookie = ps_browser p then Some p else None)"

definition find_team :: "oauth_env \<Rightarrow> string \<Rightarrow> string \<Rightarrow> oauth_call list \<Rightarrow> Team option" where
  "find_team V token ref l =
     (if o_validID V ref
      then (case o_GetTeam V l token ref of
              Found t \<Rightarrow> Some t
            | NotThere \<Rightarrow> o_GetTeamByName V l token ref
            | Failed \<Rightarrow> None)
      else o_GetTeamByName V l token ref)"

text \<open>The status code of the answer.\<close>

definition install_team :: "oauth_env \<Rightarrow> string \<Rightarrow> Me \<Rightarrow> credentials \<Rightarrow> int so" where
  "install_team V ref user c = do {
     team \<leftarrow> o_read (find_team V (cd_AccessToken c) ref);
     case team of
       None \<Rightarrow> State_Monad.return 403
     | Some t \<Rightarrow>
         if \<not> o_validID V (tm_Id t) \<or> tm_DeleteAt t \<noteq> 0 then State_Monad.return 403
         else do {
           member \<leftarrow> o_read (\<lambda>l. o_GetTeamMember V l (cd_AccessToken c) (tm_Id t) (me_Id user));
           if member \<noteq> Some 0 then State_Monad.return 403
           else do {
             r \<leftarrow> install V (tm_Id t) (me_Id user) c;
             State_Monad.return (case r of None \<Rightarrow> 200 | Some Collision \<Rightarrow> 409 | Some InstallFailed \<Rightarrow> 502)
           }
         }
   }"

definition authorize :: "oauth_env \<Rightarrow> string \<Rightarrow> string \<Rightarrow> int so" where
  "authorize V ref code = do {
     c \<leftarrow> exchange V [(''grant_type'', ''authorization_code''), (''code'', code), (''redirect_uri'', o_PublicURL V @ ''/oauth/callback'')];
     case c of
       None \<Rightarrow> State_Monad.return 502
     | Some c \<Rightarrow> do {
         user \<leftarrow> o_read (\<lambda>l. o_GetMe V l (cd_AccessToken c));
         case user of
           None \<Rightarrow> State_Monad.return 502
         | Some user \<Rightarrow>
             if \<not> me_Admin user \<or> me_DeleteAt user \<noteq> 0 then State_Monad.return 403
             else do {
               ok \<leftarrow> saveCredentials V (me_Id user) c;
               if \<not> ok then State_Monad.return 502 else install_team V ref user c
             }
       }
   }"

definition callback :: "oauth_env \<Rightarrow> CallbackQuery \<Rightarrow> int so" where
  "callback V q =
     (case cq_cookie q of
        None \<Rightarrow> State_Monad.return 400
      | Some cookie \<Rightarrow>
          if cq_state q = [] then State_Monad.return 400
          else do {
            p \<leftarrow> reads (\<lambda>s. session_valid V s (cq_state q) cookie);
            case p of
              None \<Rightarrow> State_Monad.return 400
            | Some p \<Rightarrow> do {
                modify (\<lambda>s. s\<lparr>sc_states := AList.delete (cq_state q) (sc_states s)\<rparr>);
                if cq_error q \<noteq> [] \<or> cq_code q = [] then State_Monad.return 400
                else authorize V (ps_teamRef p) (cq_code q)
              }
          })"

section \<open>Using a grant\<close>

definition newer_grant :: "credentials \<Rightarrow> credentials \<Rightarrow> credentials" where
  "newer_grant c candidate =
     (if cd_UpdatedAt c < cd_UpdatedAt candidate
         \<or> cd_UpdatedAt candidate = cd_UpdatedAt c \<and> cd_ExpiresAt c < cd_ExpiresAt candidate
      then candidate else c)"

definition newest_grant :: "oauth_env \<Rightarrow> Installation \<Rightarrow> credentials \<Rightarrow> Installation list \<Rightarrow> credentials" where
  "newest_grant V inst c rows =
     foldl newer_grant c (List.map_filter (\<lambda>other.
       if il_UserID other \<noteq> il_UserID inst \<or> il_TeamID other = il_TeamID inst then None
       else decrypt V (il_TeamID other) (il_Credentials other)) rows)"

text \<open>The access token a client is made with.\<close>

definition Client :: "oauth_env \<Rightarrow> string \<Rightarrow> string option so" where
  "Client V team = do {
     ri \<leftarrow> reads (\<lambda>s. InstallationByTeam (sc_db s) team);
     case ri of
       Inl _ \<Rightarrow> State_Monad.return None
     | Inr inst \<Rightarrow>
         (case decrypt V team (il_Credentials inst) of
            None \<Rightarrow> State_Monad.return None
          | Some c0 \<Rightarrow> do {
              rows \<leftarrow> reads (\<lambda>s. ListInstallations (sc_db s));
              case rows of
                Inl _ \<Rightarrow> State_Monad.return None
              | Inr rows \<Rightarrow>
                  let c = newest_grant V inst c0 rows in
                  if o_now V + minute < cd_ExpiresAt c then State_Monad.return (Some (cd_AccessToken c))
                  else if cd_RefreshToken c = [] then State_Monad.return None
                  else do {
                    r \<leftarrow> exchange V [(''grant_type'', ''refresh_token''), (''refresh_token'', cd_RefreshToken c)];
                    case r of
                      None \<Rightarrow> State_Monad.return None
                    | Some r \<Rightarrow> do {
                        let refreshed = r\<lparr>cd_RefreshToken := (if cd_RefreshToken r = [] then cd_RefreshToken c else cd_RefreshToken r)\<rparr>;
                        ok \<leftarrow> saveCredentials V (il_UserID inst) refreshed;
                        State_Monad.return (if ok then Some (cd_AccessToken refreshed) else None)
                      }
                  }
            })
   }"

definition VerifyCommand :: "db \<Rightarrow> string \<Rightarrow> string \<Rightarrow> bool" where
  "VerifyCommand d team token =
     (token \<noteq> [] \<and>
      (case InstallationByTeam d team of
         Inl _ \<Rightarrow> False
       | Inr i \<Rightarrow> il_CommandID i \<noteq> [] \<and> il_CommandToken i \<noteq> [] \<and> token = il_CommandToken i))"

section \<open>Lemmas\<close>

lemma run_o [simp]:
  "run_state (o_read f) s = (f (sc_log s), s)"
  "run_state (o_send c g) s = (g (sc_log s @ [c]), s\<lparr>sc_log := sc_log s @ [c]\<rparr>)"
  "run_state (o_db h) s = (fst (h (sc_db s)), s\<lparr>sc_db := snd (h (sc_db s))\<rparr>)"
  "run_state (o_draw k) s = (k (sc_drawn s), s\<lparr>sc_drawn := Suc (sc_drawn s)\<rparr>)"
  by (simp_all add: o_read_def o_send_def o_db_def o_draw_def split: prod.split)

lemma run_encrypt [simp]:
  "run_state (encrypt V team c) s =
     (map_option (\<lambda>n. raw64_encode (n @ o_seal V n c team)) (o_nonce V (sc_drawn s)), s\<lparr>sc_drawn := Suc (sc_drawn s)\<rparr>)"
  by (simp add: encrypt_def)

end
