(* ===== verification/OAuth_Props.thy ===== *)
theory OAuth_Props
  imports OAuth
begin

text \<open>
  What the installation of a team promises: only an administrator who started it in the same
  browser changes anything, a failed installation leaves no command behind, a grant is readable for
  its own team only, and a refreshed grant reaches every team of its installer.
\<close>

section \<open>Sessions\<close>

definition states_rel :: "service \<Rightarrow> service \<Rightarrow> bool" where
  "states_rel s s' \<longleftrightarrow> sc_states s' = sc_states s"

interpretation sr: step_relation states_rel
  by unfold_locales (simp_all add: states_rel_def)

lemma states_effects:
  "keeps states_rel (o_read f)" "keeps states_rel (o_send c g)" "keeps states_rel (o_db h)" "keeps states_rel (encrypt V t c')"
  by (intro keepsI; simp add: states_rel_def)+

lemmas states_steps = sr.body_keeps states_effects

lemma save_rows_states: "keeps states_rel (save_rows V c rows)"
proof (induction rows)
  case (Cons i rows)
  show ?case unfolding save_rows.simps by (intro states_steps Cons.IH)
qed (simp add: sr.return_keeps)

lemma authorize_states: "keeps states_rel (authorize V ref code)"
  unfolding authorize_def exchange_def install_team_def install_def install_command_def save_installation_def saveCredentials_def
  by (intro states_steps save_rows_states)

text \<open>The request that exchanges the code of a callback for a grant.\<close>

definition code_request :: "oauth_env \<Rightarrow> string \<Rightarrow> oauth_call" where
  "code_request V code = TokenRequest [(''grant_type'', ''authorization_code''), (''code'', code),
     (''redirect_uri'', o_PublicURL V @ ''/oauth/callback''), (''client_id'', o_ClientID V), (''client_secret'', o_ClientSecret V)]"

text \<open>The grant belongs to an active administrator, says the server.\<close>

definition granted_by_admin :: "oauth_env \<Rightarrow> oauth_call list \<Rightarrow> string \<Rightarrow> bool" where
  "granted_by_admin V l code \<longleftrightarrow>
     (\<exists>t user. o_token V (l @ [code_request V code]) = Some (200, Some t) \<and>
        o_GetMe V (l @ [code_request V code]) (tr_AccessToken t) = Some user \<and> me_Admin user \<and> me_DeleteAt user = 0)"

lemma authorize_non_admin:
  assumes "sc_db (snd (run_state (authorize V ref code) s)) \<noteq> sc_db s"
  shows "granted_by_admin V (sc_log s) code"
  using assms
  by (auto simp: authorize_def exchange_def case_prod_unfold granted_by_admin_def code_request_def split: option.splits if_splits)

lemma callback_cases:
  obtains (refused) "run_state (callback V q) s = (400, s)"
  | (accepted) cookie p where "cq_cookie q = Some cookie" "session_valid V s (cq_state q) cookie = Some p"
      "let u = s\<lparr>sc_states := AList.delete (cq_state q) (sc_states s)\<rparr> in
         run_state (callback V q) s = (400, u) \<or> run_state (callback V q) s = run_state (authorize V (ps_teamRef p) (cq_code q)) u"
proof (cases "\<exists>cookie p. cq_cookie q = Some cookie \<and> cq_state q \<noteq> [] \<and> session_valid V s (cq_state q) cookie = Some p")
  case True
  then obtain cookie p where "cq_cookie q = Some cookie" "cq_state q \<noteq> []" "session_valid V s (cq_state q) cookie = Some p" by blast
  then show thesis by (intro accepted [of cookie p]) (auto simp: callback_def Let_def)
next
  case False
  then have "run_state (callback V q) s = (400, s)" by (auto simp: callback_def split: option.split)
  then show thesis by (rule refused)
qed

text \<open>
  C27. An installation belongs to the browser that started it and to an administrator: a callback
  whose state was not handed out, has expired, or comes without the cookie set with it, is refused
  and changes nothing. Any other callback uses its state up, so that the same state is refused
  ever after, and the tables change only when the server says that the new grant belongs to an
  active system administrator.
\<close>

theorem oauth_session_bound:
  assumes "run_state (callback V q) s = (code, s')"
  shows "code = 400 \<and> s' = s \<or>
    (\<exists>p cookie. cq_cookie q = Some cookie \<and> map_of (sc_states s) (cq_state q) = Some p \<and> o_now V < ps_expires p \<and>
       o_sha V cookie = ps_browser p \<and>
       (\<forall>V' q'. cq_state q' = cq_state q \<longrightarrow> run_state (callback V' q') s' = (400, s')) \<and>
       (sc_db s' \<noteq> sc_db s \<longrightarrow> granted_by_admin V (sc_log s) (cq_code q)))"
proof (cases rule: callback_cases [of V q s])
  case refused
  then show ?thesis using assms by simp
next
  case (accepted cookie p)
  let ?s = "s\<lparr>sc_states := AList.delete (cq_state q) (sc_states s)\<rparr>"
  have run: "s' = ?s \<or> s' = snd (run_state (authorize V (ps_teamRef p) (cq_code q)) ?s)"
    using assms accepted(3) by (simp add: Let_def) (metis snd_conv)
  then have "sc_states s' = sc_states ?s"
    using keepsD [OF authorize_states, of ?s] by (auto simp: states_rel_def)
  then have "map_of (sc_states s') (cq_state q) = None" by (simp add: delete_conv')
  then have "run_state (callback V' q') s' = (400, s')" if "cq_state q' = cq_state q" for V' q'
    using that by (simp add: callback_def session_valid_def split: option.split)
  moreover have "granted_by_admin V (sc_log s) (cq_code q)" if "sc_db s' \<noteq> sc_db s"
    using that run authorize_non_admin [of V "ps_teamRef p" "cq_code q" ?s] by auto
  ultimately show ?thesis
    using accepted(1,2) by (intro disjI2 exI [of _ p] exI [of _ cookie]) (auto simp: session_valid_def split: option.splits if_splits)
qed

section \<open>Commands\<close>

lemma save_installation_fails:
  "fst (run_state (save_installation V team u c cmd) s) = Some e \<Longrightarrow>
   sc_db (snd (run_state (save_installation V team u c cmd) s)) = sc_db s \<and>
   sc_log (snd (run_state (save_installation V team u c cmd) s)) = sc_log s"
  by (auto simp: save_installation_def SaveInstallation_def split: if_splits option.splits)

text \<open>What an installation of this team sends when it fails after the history \<^term>\<open>l\<close>.\<close>

definition undone_command :: "oauth_env \<Rightarrow> string \<Rightarrow> oauth_call list \<Rightarrow> oauth_call list \<Rightarrow> bool" where
  "undone_command V team l sent \<longleftrightarrow>
     (let op = CreateCommand team (o_PublicURL V @ ''/commands/harness'') in
      sent = [] \<or>
      (case o_CreateCommand V (l @ [op]) of
         None \<Rightarrow> sent = [op]
       | Some cmd \<Rightarrow> sent = (if cm_Id cmd = [] then [op] else [op, DeleteCommand (cm_Id cmd)])))"

lemma install_command_fails:
  assumes "run_state (install_command V team userID c found) s = (Some e, s')"
  shows "sc_db s' = sc_db s \<and> (\<exists>sent. sc_log s' = sc_log s @ sent \<and> undone_command V team (sc_log s) sent)"
proof (cases found)
  case (Some cmd)
  then show ?thesis
    using assms save_installation_fails [of V team userID c cmd s e] by (simp add: install_command_def undone_command_def)
next
  case None
  let ?op = "CreateCommand team (o_PublicURL V @ ''/commands/harness'')"
  let ?s = "s\<lparr>sc_log := sc_log s @ [?op]\<rparr>"
  show ?thesis
  proof (cases "o_CreateCommand V (sc_log s @ [?op])")
    case no: None
    then show ?thesis using None assms by (auto simp: install_command_def undone_command_def)
  next
    case (Some cmd)
    let ?u = "snd (run_state (save_installation V team userID c cmd) ?s)"
    have s': "fst (run_state (save_installation V team userID c cmd) ?s) = Some e"
      "s' = (if cm_Id cmd = [] then ?u else ?u\<lparr>sc_log := sc_log ?u @ [DeleteCommand (cm_Id cmd)]\<rparr>)"
      using None Some assms by (auto simp: install_command_def case_prod_unfold split: if_splits)
    from save_installation_fails [OF this(1)] have "sc_db ?u = sc_db s" "sc_log ?u = sc_log s @ [?op]" by simp_all
    then have "sc_db s' = sc_db s" "sc_log s' = sc_log s @ (if cm_Id cmd = [] then [?op] else [?op, DeleteCommand (cm_Id cmd)])"
      using s'(2) by simp_all
    then show ?thesis using Some by (auto simp: undone_command_def Let_def)
  qed
qed

text \<open>
  C29. A failed installation leaves nothing behind: the tables are as before, and the requests sent
  are none, or the creation of the broker's command and its deletion again. (A command that the
  server created without telling its id cannot be deleted.)
\<close>

theorem install_compensated:
  assumes "run_state (install V team userID c) s = (Some e, s')"
  shows "sc_db s' = sc_db s \<and> (\<exists>sent. sc_log s' = sc_log s @ sent \<and> undone_command V team (sc_log s) sent)"
proof -
  have "s' = s \<or> (\<exists>found. run_state (install_command V team userID c found) s = (Some e, s'))"
    using assms by (auto simp: install_def split: if_splits option.splits sum.splits)
  then show ?thesis
  proof
    assume "s' = s"
    then show ?thesis by (simp add: undone_command_def)
  qed (auto dest: install_command_fails)
qed

section \<open>Encrypted grants\<close>

lemma b64_chars_plain:
  assumes "\<forall>d \<in> set ds. d < 64"
  shows "CHR ''='' \<notin> set (map b64_char ds)"
proof
  assume "CHR ''='' \<in> set (map b64_char ds)"
  then obtain d where "d \<in> set ds" "b64_char d = CHR ''=''" by (auto simp del: b64_char_plain)
  then show False using assms b64_char_plain(1) by blast
qed

lemma base64_encode_shape:
  "\<exists>t. base64_encode s = t @ replicate ((4 - length t mod 4) mod 4) (CHR ''='') \<and> CHR ''='' \<notin> set t \<and> length t mod 4 \<noteq> 1"
proof (induction s rule: base64_encode.induct)
  case (2 a)
  define n where "n = byte a * 16"
  have "n div 64 < 64" using byte_less [of a] by (simp add: n_def less_mult_imp_div_less)
  then have "CHR ''='' \<notin> set [b64_char (n div 64), b64_char (n mod 64)]" using b64_chars_plain [of "[n div 64, n mod 64]"] by simp
  moreover have "base64_encode [a] = [b64_char (n div 64), b64_char (n mod 64), CHR ''='', CHR ''='']"
    by (simp only: base64_encode.simps Let_def n_def)
  ultimately show ?case
    by (intro exI [of _ "[b64_char (n div 64), b64_char (n mod 64)]"]) (simp add: numeral_2_eq_2)
next
  case (3 a b)
  define n where "n = (byte a * 256 + byte b) * 4"
  let ?w = "[b64_char (n div 4096), b64_char (n div 64 mod 64), b64_char (n mod 64)]"
  have enc: "base64_encode [a, b] = ?w @ [CHR ''='']"
    by (simp only: base64_encode.simps Let_def n_def append.simps)
  have "n < 4096 * 64" using byte_less [of a] byte_less [of b] unfolding n_def by presburger
  then have "n div 4096 < 64" by (simp add: less_mult_imp_div_less)
  then have "CHR ''='' \<notin> set ?w" using b64_chars_plain [of "[n div 4096, n div 64 mod 64, n mod 64]"] by simp
  then show ?case unfolding enc by (intro exI [of _ ?w]) simp
next
  case (4 a b c s)
  define n where "n = byte a * 65536 + byte b * 256 + byte c"
  have d: "n div 262144 < 64" using group_bytes [OF byte_less byte_less byte_less n_def] by simp
  let ?w = "[b64_char (n div 262144), b64_char (n div 4096 mod 64), b64_char (n div 64 mod 64), b64_char (n mod 64)]"
  obtain t where t: "base64_encode s = t @ replicate ((4 - length t mod 4) mod 4) (CHR ''='')" "CHR ''='' \<notin> set t" "length t mod 4 \<noteq> 1"
    using 4 [OF n_def] by blast
  have enc: "base64_encode (a # b # c # s) = ?w @ base64_encode s"
    by (simp only: base64_encode.simps Let_def n_def append.simps)
  have "CHR ''='' \<notin> set ?w" using d b64_chars_plain [of "[n div 262144, n div 4096 mod 64, n div 64 mod 64, n mod 64]"] by simp
  then show ?case using t unfolding enc by (intro exI [of _ "?w @ t"]) simp
qed simp

lemma raw64_roundtrip: "raw64_decode (raw64_encode s) = Some s"
proof -
  obtain t where t: "base64_encode s = t @ replicate ((4 - length t mod 4) mod 4) (CHR ''='')" "CHR ''='' \<notin> set t" "length t mod 4 \<noteq> 1"
    using base64_encode_shape by blast
  have raw: "raw64_encode s = t" using t(1,2) by (auto simp: raw64_encode_def filter_id_conv)
  have "filter (\<lambda>c. byte c \<noteq> 10 \<and> byte c \<noteq> 13) t = t"
    using base64_encode_no_breaks [of _ s] t(1) by (simp add: filter_id_conv)
  then show ?thesis using t raw base64_quads_encode [of s] by (simp add: raw64_decode_def Let_def)
qed

text \<open>A token that JSON carries unchanged: its text is valid UTF-8.\<close>

definition tokens_ok :: "credentials \<Rightarrow> bool" where
  "tokens_ok c \<longleftrightarrow> encode (runes (cd_AccessToken c)) = cd_AccessToken c \<and> encode (runes (cd_RefreshToken c)) = cd_RefreshToken c"

text \<open>
  What is used of AES-GCM and JSON: a nonce has its twelve bytes, opening what was sealed with the
  same nonce for the same team gives the plaintext, and strings decoded from JSON are valid UTF-8.
\<close>

definition aead_ok :: "oauth_env \<Rightarrow> bool" where
  "aead_ok V \<longleftrightarrow> (\<forall>k n. o_nonce V k = Some n \<longrightarrow> length n = nonce_size) \<and>
     (\<forall>n c team. tokens_ok c \<longrightarrow> o_open V n (o_seal V n c team) team = Some c) \<and>
     (\<forall>n x team c. o_open V n x team = Some c \<longrightarrow> tokens_ok c) \<and>
     (\<forall>l n t. o_token V l = Some (n, Some t) \<longrightarrow>
        encode (runes (tr_AccessToken t)) = tr_AccessToken t \<and> encode (runes (tr_RefreshToken t)) = tr_RefreshToken t)"

definition grant_ok :: "credentials \<Rightarrow> bool" where
  "grant_ok c \<longleftrightarrow> cd_AccessToken c \<noteq> [] \<and> tokens_ok c"

lemma decrypt_encrypt:
  assumes "aead_ok V" "o_nonce V k = Some n" "grant_ok c"
  shows "decrypt V team (raw64_encode (n @ o_seal V n c team)) = Some c"
proof -
  have "length n = nonce_size" using assms(1,2) by (simp add: aead_ok_def)
  then show ?thesis using assms(1,3) by (simp add: decrypt_def raw64_roundtrip aead_ok_def grant_ok_def)
qed

lemma decrypt_ok: "aead_ok V \<Longrightarrow> decrypt V team x = Some c \<Longrightarrow> grant_ok c"
  by (auto simp: decrypt_def aead_ok_def grant_ok_def split: option.splits if_splits)

text \<open>The grant a team's row holds.\<close>

definition grant_of :: "oauth_env \<Rightarrow> db \<Rightarrow> string \<Rightarrow> credentials option" where
  "grant_of V d team =
     (case lookup_by il_TeamID (installations d) team of None \<Rightarrow> None | Some i \<Rightarrow> decrypt V team (il_Credentials i))"

lemma SaveInstallation_grant:
  assumes "SaveInstallation d i = (Inr x, d')" "il_TeamID i \<in> il_TeamID ` set (installations d)"
  shows "grant_of V d' team = (if team = il_TeamID i then decrypt V team (il_Credentials i) else grant_of V d team)"
    "il_TeamID ` set (installations d') = il_TeamID ` set (installations d)"
proof -
  let ?f = "\<lambda>r. r\<lparr>il_UserID := il_UserID i, il_Credentials := il_Credentials i, il_CommandID := il_CommandID i, il_CommandToken := il_CommandToken i\<rparr>"
  have d': "installations d' = rows_update (\<lambda>r. il_TeamID r = il_TeamID i) ?f (installations d)"
    using assms by (auto simp: SaveInstallation_def split: if_splits)
  show "il_TeamID ` set (installations d') = il_TeamID ` set (installations d)" unfolding d' by (rule image_rows_update) simp
  have "lookup_by il_TeamID (installations d') team =
      map_option (\<lambda>r. if il_TeamID r = il_TeamID i then ?f r else r) (lookup_by il_TeamID (installations d) team)"
    unfolding d' by (rule lookup_by_rows_update) simp
  moreover have "lookup_by il_TeamID (installations d) (il_TeamID i) \<noteq> None" using assms(2) by (simp add: lookup_by_None_iff)
  ultimately show "grant_of V d' team = (if team = il_TeamID i then decrypt V team (il_Credentials i) else grant_of V d team)"
    by (auto simp: grant_of_def split: option.split dest: lookup_by_SomeD)
qed

lemma save_rows_grants:
  assumes "run_state (save_rows V c rows) s = (True, s')" "aead_ok V" "grant_ok c"
    and "il_TeamID ` set rows \<subseteq> il_TeamID ` set (installations (sc_db s))"
  shows "grant_of V (sc_db s') team = (if team \<in> il_TeamID ` set rows then Some c else grant_of V (sc_db s) team) \<and>
    sc_log s' = sc_log s"
  using assms(1,4)
proof (induction rows arbitrary: s)
  case (Cons i rows)
  let ?e = "\<lambda>n. raw64_encode (n @ o_seal V n c (il_TeamID i))"
  from Cons.prems(1) obtain n where n: "o_nonce V (sc_drawn s) = Some n" by (auto split: option.splits)
  let ?i = "i\<lparr>il_Credentials := ?e n\<rparr>"
  obtain r d where save: "SaveInstallation (sc_db s) ?i = (r, d)" by force
  let ?u = "s\<lparr>sc_drawn := Suc (sc_drawn s), sc_db := d\<rparr>"
  from Cons.prems(1) n save have r: "r = Inr ()" and rest: "run_state (save_rows V c rows) ?u = (True, s')"
    by (auto simp: case_prod_unfold prod_eq_iff split: sum.splits prod.splits)
  have "il_TeamID ?i \<in> il_TeamID ` set (installations (sc_db s))" using Cons.prems(2) by simp
  note g = SaveInstallation_grant [OF save [unfolded r] this]
  have "il_TeamID ` set rows \<subseteq> il_TeamID ` set (installations (sc_db ?u))" using g(2) Cons.prems(2) by simp
  from Cons.IH [OF rest this] show ?case
    using g(1) [of V team] decrypt_encrypt [OF assms(2) n assms(3), of "il_TeamID i"] by (auto split: if_splits)
qed simp

text \<open>The installations of one installer.\<close>

definition teams_by :: "db \<Rightarrow> string \<Rightarrow> string set" where
  "teams_by d userID = il_TeamID ` {i \<in> set (installations d). il_UserID i = userID}"

lemma saveCredentials_grants:
  assumes "run_state (saveCredentials V userID c) s = (True, s')" "aead_ok V" "grant_ok c"
  shows "grant_of V (sc_db s') team = (if team \<in> teams_by (sc_db s) userID then Some c else grant_of V (sc_db s) team) \<and>
    sc_log s' = sc_log s"
proof -
  let ?rows = "filter (\<lambda>i. il_UserID i = userID) (sort_key il_TeamID (installations (sc_db s)))"
  have "run_state (save_rows V c ?rows) s = (True, s')"
    using assms(1) by (auto simp: saveCredentials_def ListInstallations_def split: if_splits)
  moreover have "il_TeamID ` set ?rows \<subseteq> il_TeamID ` set (installations (sc_db s))" by auto
  moreover have "il_TeamID ` set ?rows = teams_by (sc_db s) userID" by (auto simp: teams_by_def)
  ultimately show ?thesis using save_rows_grants [of V c ?rows s s' team] assms(2,3) by simp
qed

lemma exchange_Some:
  assumes "aead_ok V" "run_state (exchange V form) s = (Some r, s')"
  shows "grant_ok r"
    "s' = s\<lparr>sc_log := sc_log s @ [TokenRequest (form @ [(''client_id'', o_ClientID V), (''client_secret'', o_ClientSecret V)])]\<rparr>"
  using assms by (auto simp: exchange_def aead_ok_def grant_ok_def tokens_ok_def split: option.splits if_splits)

text \<open>The grants of an installer that can be read, and the newest of them.\<close>

definition readable_grants :: "oauth_env \<Rightarrow> db \<Rightarrow> string \<Rightarrow> credentials set" where
  "readable_grants V d userID = {g. \<exists>t \<in> teams_by d userID. grant_of V d t = Some g}"

definition fresher :: "credentials \<Rightarrow> credentials \<Rightarrow> bool" where
  "fresher g h \<longleftrightarrow> cd_UpdatedAt h < cd_UpdatedAt g \<or> cd_UpdatedAt g = cd_UpdatedAt h \<and> cd_ExpiresAt h < cd_ExpiresAt g"

definition newest_among :: "credentials \<Rightarrow> credentials set \<Rightarrow> bool" where
  "newest_among g G \<longleftrightarrow> g \<in> G \<and> (\<forall>h \<in> G. \<not> fresher h g)"

lemma not_fresher_trans: "\<not> fresher f g \<Longrightarrow> \<not> fresher g h \<Longrightarrow> \<not> fresher f h"
  by (auto simp: fresher_def not_less)

lemma newer_grant_newest: "newest_among (newer_grant c d) {c, d}"
  by (simp add: newest_among_def newer_grant_def fresher_def)

lemma newest_among_insert:
  "newest_among g (insert f G) \<Longrightarrow> newest_among f F \<Longrightarrow> newest_among g (F \<union> G)"
  unfolding newest_among_def using not_fresher_trans by blast

lemma foldl_newer_grant: "newest_among (foldl newer_grant c cs) (insert c (set cs))"
proof (induction cs arbitrary: c)
  case (Cons d cs)
  from newest_among_insert [OF Cons.IH newer_grant_newest] show ?case by simp
qed (simp add: newest_among_def fresher_def)

lemma set_map_filter': "set (List.map_filter f xs) = {y. \<exists>x \<in> set xs. f x = Some y}"
  by (induction xs) (auto simp: List.map_filter_def)

lemma newest_grant_ok:
  assumes ok: "db_ok d" and inst: "lookup_by il_TeamID (installations d) team = Some inst"
    and c: "decrypt V team (il_Credentials inst) = Some c" and rows: "set rows = set (installations d)"
  shows "newest_among (newest_grant V inst c rows) (readable_grants V d (il_UserID inst))"
proof -
  have found: "lookup_by il_TeamID (installations d) (il_TeamID i) = Some i" if "i \<in> set (installations d)" for i
    using ok that by (intro lookup_by_in_set) (simp_all add: db_ok_def keys_unique_def)
  have i: "inst \<in> set (installations d)" "il_TeamID inst = team" using lookup_by_SomeD [OF inst] by auto
  have same: "x = inst" if "x \<in> set (installations d)" "il_TeamID x = team" for x
    using found [OF that(1)] that(2) inst by simp
  have "readable_grants V d (il_UserID inst) =
      {g. \<exists>x \<in> set (installations d). il_UserID x = il_UserID inst \<and> decrypt V (il_TeamID x) (il_Credentials x) = Some g}"
    by (auto simp: readable_grants_def teams_by_def grant_of_def found)
  also have "\<dots> = insert c (set (List.map_filter (\<lambda>other.
       if il_UserID other \<noteq> il_UserID inst \<or> il_TeamID other = il_TeamID inst then None
       else decrypt V (il_TeamID other) (il_Credentials other)) rows))"
    unfolding set_map_filter' rows using i c same by (fastforce split: if_splits)
  finally show ?thesis unfolding newest_grant_def by (simp add: foldl_newer_grant)
qed

definition refresh_request :: "oauth_env \<Rightarrow> credentials \<Rightarrow> oauth_call" where
  "refresh_request V g = TokenRequest [(''grant_type'', ''refresh_token''), (''refresh_token'', cd_RefreshToken g),
     (''client_id'', o_ClientID V), (''client_secret'', o_ClientSecret V)]"

text \<open>
  C28. The teams of one installer share one grant: a client is made with the newest grant that any of
  the installer's teams holds when that is valid for more than a minute, and nothing changes.
  Otherwise exactly one refresh request is sent, and afterwards every team of the installer holds
  the refreshed grant, which the client uses, while the grants of all other teams are as before.
\<close>

theorem client_grant_shared:
  assumes "db_ok (sc_db s)" "aead_ok V" "run_state (Client V team) s = (Some token, s')"
  shows "\<exists>u g. team \<in> teams_by (sc_db s) u \<and> newest_among g (readable_grants V (sc_db s) u) \<and>
    (if o_now V + minute < cd_ExpiresAt g then s' = s \<and> token = cd_AccessToken g
     else sc_log s' = sc_log s @ [refresh_request V g] \<and>
       (\<exists>r. cd_AccessToken r = token \<and>
          (\<forall>t. grant_of V (sc_db s') t = (if t \<in> teams_by (sc_db s) u then Some r else grant_of V (sc_db s) t))))"
proof -
  obtain inst where inst: "lookup_by il_TeamID (installations (sc_db s)) team = Some inst"
    and byteam: "InstallationByTeam (sc_db s) team = Inr inst"
    using assms(3) by (auto simp: Client_def InstallationByTeam_def scan_row_def split: if_splits sum.splits option.splits)
  obtain c where c: "decrypt V team (il_Credentials inst) = Some c" using assms(3) byteam by (auto simp: Client_def split: option.splits)
  define rows where "rows = sort_key il_TeamID (installations (sc_db s))"
  have list: "ListInstallations (sc_db s) = Inr rows"
    using assms(3) byteam c by (auto simp: Client_def ListInstallations_def rows_def split: if_splits)
  define g where "g = newest_grant V inst c rows"
  define form where "form = [(''grant_type'', ''refresh_token''), (''refresh_token'', cd_RefreshToken g)]"
  have newest: "newest_among g (readable_grants V (sc_db s) (il_UserID inst))"
    unfolding g_def by (rule newest_grant_ok [OF assms(1) inst c]) (simp add: rows_def)
  have team: "team \<in> teams_by (sc_db s) (il_UserID inst)" using lookup_by_SomeD [OF inst] by (auto simp: teams_by_def)
  show ?thesis
  proof (cases "o_now V + minute < cd_ExpiresAt g")
    case True
    then show ?thesis using assms(3) newest team by (auto simp: Client_def byteam c list Let_def g_def [symmetric])
  next
    case False
    obtain r u where ex: "run_state (exchange V form) s = (r, u)" by force
    obtain q where q: "r = Some q"
      using False assms(3) ex by (auto simp: Client_def byteam c list Let_def g_def [symmetric] form_def [symmetric] split: if_splits option.splits)
    define r' where "r' = q\<lparr>cd_RefreshToken := (if cd_RefreshToken q = [] then cd_RefreshToken g else cd_RefreshToken q)\<rparr>"
    have "run_state (saveCredentials V (il_UserID inst) r') u = (True, s') \<and> token = cd_AccessToken r'"
      using False assms(3) ex q
      by (auto simp: Client_def byteam c list Let_def g_def [symmetric] form_def [symmetric] r'_def case_prod_unfold prod_eq_iff
          split: if_splits option.splits)
    moreover note ex' = exchange_Some [OF assms(2) ex [unfolded q]]
    moreover have "grant_ok g" using newest decrypt_ok [OF assms(2)]
      by (auto simp: newest_among_def readable_grants_def grant_of_def split: option.splits)
    with ex'(1) have "grant_ok r'" by (simp add: r'_def grant_ok_def tokens_ok_def)
    ultimately show ?thesis
      using False newest team saveCredentials_grants [of V "il_UserID inst" r' u s'] assms(2)
      by (intro exI [of _ "il_UserID inst"] exI [of _ g] conjI) (auto simp: refresh_request_def form_def)
  qed
qed

end
