(* ===== verification/Service_Witnesses.thy ===== *)
theory Service_Witnesses
  imports System_Witnesses Permission OAuth_Props
begin

text \<open>
  Webhooks, event connections, the permission path and the installation of teams at work: the
  theorems about them applied to concrete requests, tables and servers.
\<close>

section \<open>Posts for a bot\<close>

definition w_hooked_bot :: Bot where
  "w_hooked_bot = w_bot\<lparr>bt_OutgoingToken := ''otok''\<rparr>"

definition w_hooked :: broker where
  "w_hooked = empty_broker\<lparr>bk_db := (w_db JobSucceeded)\<lparr>bots := [w_hooked_bot]\<rparr>\<rparr>"

definition w_hook_api :: webhook_api where
  "w_hook_api = \<lparr>wa_GetPost = (\<lambda>_ _ i. Inr (Some (w_post i ''@mybot go''))),
     wa_GetChannel = (\<lambda>_ _ _. Inr (Some \<lparr>cn_TeamId = ''T'', cn_Type = ''O''\<rparr>))\<rparr>"

definition w_hook_request :: webhook_request where
  "w_hook_request = \<lparr>wr_ContentType = ''application/json'',
     wr_json = Some \<lparr>wp_Token = ''otok'', wp_PostID = ''p7'', wp_TeamID = ''T'', wp_ChannelID = ''c1'', wp_UserID = ''u1''\<rparr>,
     wr_form = None\<rparr>"

theorem webhook_authentic_witness:
  "\<exists>s'. run_state (outgoingHandler (w_env 0) w_hook_api ''b1'' w_hook_request) w_hooked = (200, s') \<and>
     s' = snd (run_state (HandleBotPost (w_env 0) ''b1''
        \<lparr>ev_Post = Some (w_post ''p7'' ''@mybot go''), ev_ChannelType = ''O'', ev_Mentions = []\<rparr>) w_hooked)"
proof -
  let ?run = "run_state (outgoingHandler (w_env 0) w_hook_api ''b1'' w_hook_request) w_hooked"
  have b: "BotByUserID (bk_db w_hooked) ''b1'' = Inr w_hooked_bot" "bt_UserID w_hooked_bot = ''b1''"
    by (simp_all add: BotByUserID_def scan_row_def w_hooked_def w_hooked_bot_def w_bot_def w_tables)
  have "fst ?run = 200"
    by (simp add: outgoingHandler_def webhook_post_def webhook_payload_def w_hook_request_def post_matches_def case_prod_unfold b)
      (simp add: w_hooked_bot_def w_bot_def w_hook_api_def w_post_def post_matches_def case_prod_unfold)
  then have run: "?run = (200, snd ?run)" by (simp add: prod_eq_iff)
  with b webhook_authentic [OF run] show ?thesis
    by (intro exI [of _ "snd ?run"]) (auto simp: w_hook_api_def w_hook_request_def webhook_payload_def)
qed

theorem connections_follow_bots_witness:
  "(\<lambda>(_, u, t). (u, t)) ` live (reconcile (ListBots (w_db JobRunning)) (fold reconcile [Inl ErrDriver, Inr []] empty_manager)) =
     {(''b1'', ''tok'')}"
proof -
  have "ListBots (w_db JobRunning) = Inr [w_bot]" by (simp add: ListBots_def w_tables)
  from connections_follow_bots [OF refl w_db_ok this refl, of "[Inl ErrDriver, Inr []]"]
  have "(\<lambda>(_, u, t). (u, t)) ` live (reconcile (ListBots (w_db JobRunning)) (fold reconcile [Inl ErrDriver, Inr []] empty_manager)) =
      {(bt_UserID b, bt_Token b) |b. b \<in> set (bots (w_db JobRunning)) \<and> bt_HarnessID b \<noteq> [] \<and> bt_Token b \<noteq> []}" by blast
  then show ?thesis by (auto simp: w_tables w_bot_def)
qed

section \<open>Permission\<close>

definition w_link :: link where
  "w_link = \<lparr>lk_dial = None, lk_write = None, lk_lost = False, lk_read = []\<rparr>"

definition w_tool_call :: mcp_request where
  "w_tool_call = \<lparr>mq_ID = Some ''7'', mq_Method = ''tools/call'', mq_Call = Some (''approve'', JNull)\<rparr>"

definition w_decode :: "json \<Rightarrow> string + Request" where
  "w_decode = (\<lambda>_. Inr \<lparr>rq_JobID = [], rq_ToolName = ''Bash'', rq_Input = ''ls'', rq_ToolUseID = ''t''\<rparr>)"

theorem permission_fails_closed_witness:
  "\<exists>req. w_decode JNull = Inr req \<and>
     (''7'', Content (Allow ''ls'') False) \<in> set (Serve_mcp id (ServeStdio w_decode ''sock'' ''j1'' w_link
        (\<lambda>r. Server_handle (\<lambda>r. if rq_JobID r = ''j1'' then Inr (Allow (rq_Input r)) else Inl ''unknown'') (Some r))) [None, Some w_tool_call]) \<and>
     (if rq_JobID (req\<lparr>rq_JobID := ''j1''\<rparr>) = ''j1'' then Inr (Allow (rq_Input req)) else Inl ''unknown'') = Inr (Allow ''ls'')"
proof -
  let ?decide = "\<lambda>r :: Request. if rq_JobID r = ''j1'' then Inr (Allow (rq_Input r)) else Inl ''unknown''"
  have mem: "(''7'', Content (Allow ''ls'') False) \<in> set (Serve_mcp id (ServeStdio w_decode ''sock'' ''j1'' w_link
      (\<lambda>r. Server_handle ?decide (Some r))) [None, Some w_tool_call])"
    by (simp add: Serve_mcp_def map_filter_def w_tool_call_def answered_def dispatch_def ServeStdio_def approve_handler_def Ask_def
        w_link_def w_decode_def Server_handle_def Allow_def)
  have "dn_Behavior (Allow ''ls'') = ''allow''" by (simp add: Allow_def)
  from permission_fails_closed [OF mem this] mem show ?thesis
    by (fastforce simp: w_tool_call_def)
qed

section \<open>A server that grants everything\<close>

definition w_response :: token_response where
  "w_response = \<lparr>tr_AccessToken = ''new'', tr_RefreshToken = [], tr_ExpiresIn = 3600, tr_TokenType = ''bearer''\<rparr>"

definition w_command :: Command where
  "w_command = \<lparr>cm_Id = ''cmd'', cm_TeamId = ''T1'', cm_Trigger = ''harness'', cm_URL = ''http://x/commands/harness'',
     cm_Method = ''P'', cm_Token = ''ct'', cm_DeleteAt = 0\<rparr>"

definition w_oauth :: oauth_env where
  "w_oauth = \<lparr>o_MMURL = ''http://mm'', o_PublicURL = ''http://x'', o_ClientID = ''id'', o_ClientSecret = ''sec'', o_now = 0,
     o_lower = id, o_sha = rev, o_random = (\<lambda>n. Some [char_of n]), o_nonce = (\<lambda>_. Some (replicate 12 (CHR ''n''))),
     o_seal = (\<lambda>_ _ _. ''x''), o_open = (\<lambda>_ _ _. None), o_validID = (\<lambda>_. True), o_validTeamName = (\<lambda>_. True),
     o_teamNameMax = 64, o_postMethod = ''P'', o_token = (\<lambda>_. Some (200, Some w_response)),
     o_GetMe = (\<lambda>_ _. Some \<lparr>me_Id = ''adm'', me_Admin = True, me_DeleteAt = 0\<rparr>),
     o_GetTeam = (\<lambda>_ _ t. Found \<lparr>tm_Id = t, tm_DeleteAt = 0\<rparr>), o_GetTeamByName = (\<lambda>_ _ _. None),
     o_GetTeamMember = (\<lambda>_ _ _ _. Some 0), o_ListCommands = (\<lambda>_ _ _. Some []), o_GetCommand = (\<lambda>_ _ _. None),
     o_CreateCommand = (\<lambda>_. Some w_command)\<rparr>"

definition w_service :: service where
  "w_service = \<lparr>sc_db = empty_db, sc_states = [(''st'', \<lparr>ps_teamRef = ''T1'', ps_browser = ''eikooc'', ps_expires = 5\<rparr>)],
     sc_log = [], sc_drawn = 0\<rparr>"

definition w_query :: CallbackQuery where
  "w_query = \<lparr>cq_state = ''st'', cq_cookie = Some ''cookie'', cq_error = [], cq_code = ''code''\<rparr>"

theorem oauth_session_bound_witness:
  "\<exists>s'. run_state (callback w_oauth w_query) w_service = (200, s') \<and> run_state (callback w_oauth w_query) s' = (400, s')"
proof -
  let ?run = "run_state (callback w_oauth w_query) w_service"
  have "fst ?run = 200" by code_simp
  then have run: "?run = (200, snd ?run)" by (simp add: prod_eq_iff)
  from oauth_session_bound [OF run] have "run_state (callback w_oauth w_query) (snd ?run) = (400, snd ?run)" by auto
  with run show ?thesis by blast
qed

definition w_mute :: oauth_env where
  "w_mute = w_oauth\<lparr>o_nonce := (\<lambda>_. None)\<rparr>"

definition w_grant :: credentials where
  "w_grant = \<lparr>cd_AccessToken = ''acc'', cd_RefreshToken = ''ref'', cd_ExpiresAt = 0, cd_UpdatedAt = 0\<rparr>"

theorem install_compensated_witness:
  "\<exists>s'. run_state (install w_mute ''T1'' ''adm'' w_grant) w_service = (Some InstallFailed, s') \<and> sc_db s' = empty_db \<and>
     undone_command w_mute ''T1'' [] (sc_log s')"
proof -
  let ?run = "run_state (install w_mute ''T1'' ''adm'' w_grant) w_service"
  have "fst ?run = Some InstallFailed" by code_simp
  then have run: "?run = (Some InstallFailed, snd ?run)" by (simp add: prod_eq_iff)
  from install_compensated [OF run] run show ?thesis by (auto simp: w_service_def)
qed

section \<open>A cipher\<close>

text \<open>Not a secret one: the parts of the plaintext with their lengths, and the team.\<close>

definition w_put :: "string \<Rightarrow> string" where
  "w_put s = replicate (length s) (CHR ''1'') @ CHR ''0'' # s"

definition w_get :: "string \<Rightarrow> string \<times> string" where
  "w_get x = (let n = length (takeWhile (\<lambda>c. c = CHR ''1'') x) in (take n (drop (Suc n) x), drop (n + Suc n) x))"

definition w_put_int :: "int \<Rightarrow> string" where
  "w_put_int i = w_put ((if i < 0 then CHR ''-'' else CHR ''+'') # replicate (nat \<bar>i\<bar>) (CHR ''1''))"

definition w_int :: "string \<Rightarrow> int" where
  "w_int s = (if hd s = CHR ''-'' then - int (length (tl s)) else int (length (tl s)))"

definition w_seal :: "string \<Rightarrow> credentials \<Rightarrow> string \<Rightarrow> string" where
  "w_seal n c team = w_put (cd_AccessToken c) @ w_put (cd_RefreshToken c) @ w_put_int (cd_ExpiresAt c) @ w_put_int (cd_UpdatedAt c) @ team"

definition w_open :: "string \<Rightarrow> string \<Rightarrow> string \<Rightarrow> credentials option" where
  "w_open n x team =
     (let (a, x) = w_get x; (r, x) = w_get x; (e, x) = w_get x; (u, x) = w_get x in
      let c = \<lparr>cd_AccessToken = a, cd_RefreshToken = r, cd_ExpiresAt = w_int e, cd_UpdatedAt = w_int u\<rparr> in
      if x = team \<and> tokens_ok c then Some c else None)"

lemma w_get_put [simp]: "w_get (w_put s @ rest) = (s, rest)"
proof -
  have "takeWhile (\<lambda>c. c = CHR ''1'') (w_put s @ rest) = replicate (length s) (CHR ''1'')"
    by (subst w_put_def, simp, subst takeWhile_append2) simp_all
  then show ?thesis by (simp add: w_get_def w_put_def)
qed

lemma w_int_put: "w_int ((if i < 0 then CHR ''-'' else CHR ''+'') # replicate (nat \<bar>i\<bar>) (CHR ''1'')) = i"
  by (simp add: w_int_def)

lemma w_open_seal: "tokens_ok c \<Longrightarrow> w_open n (w_seal n c team) team = Some c"
  by (simp add: w_open_def w_seal_def w_put_int_def w_int_put Let_def tokens_ok_def)

lemma w_open_ok: "w_open n x team = Some c \<Longrightarrow> tokens_ok c"
  by (auto simp: w_open_def Let_def split: prod.splits if_splits)

lemma w_response_ok: "encode (runes (tr_AccessToken w_response)) = tr_AccessToken w_response"
  "encode (runes (tr_RefreshToken w_response)) = tr_RefreshToken w_response"
  by code_simp+

lemma w_grant_ok: "grant_ok w_grant" "grant_ok (w_grant\<lparr>cd_UpdatedAt := 1\<rparr>)"
proof -
  show g: "grant_ok w_grant" by code_simp
  then show "grant_ok (w_grant\<lparr>cd_UpdatedAt := 1\<rparr>)" by (simp add: grant_ok_def tokens_ok_def)
qed

definition w_cipher :: oauth_env where
  "w_cipher = w_oauth\<lparr>o_seal := w_seal, o_open := w_open\<rparr>"

lemma w_aead: "aead_ok w_cipher"
  by (simp add: aead_ok_def w_cipher_def w_oauth_def w_open_seal w_response_ok nonce_size_def w_open_ok)

text \<open>Two teams of one administrator, one of them with the newer grant, and a team of another.\<close>

definition w_installed :: "string \<Rightarrow> string \<Rightarrow> credentials \<Rightarrow> Installation" where
  "w_installed team user c = \<lparr>il_TeamID = team, il_UserID = user,
     il_Credentials = raw64_encode (replicate 12 (CHR ''n'') @ w_seal (replicate 12 (CHR ''n'')) c team),
     il_CommandID = ''cmd'', il_CommandToken = ''ct''\<rparr>"

definition w_teams :: service where
  "w_teams = w_service\<lparr>sc_db := empty_db\<lparr>installations :=
     [w_installed ''T1'' ''adm'' w_grant, w_installed ''T2'' ''adm'' (w_grant\<lparr>cd_UpdatedAt := 1\<rparr>), w_installed ''T3'' ''ann'' w_grant]\<rparr>\<rparr>"

lemma w_decrypt: "grant_ok c \<Longrightarrow> decrypt w_cipher team (il_Credentials (w_installed team user c)) = Some c"
  using decrypt_encrypt [OF w_aead, of 0 "replicate 12 (CHR ''n'')" c team]
  by (simp add: w_installed_def w_cipher_def w_oauth_def)

lemma w_teams_ok: "db_ok (sc_db w_teams)"
  by (simp add: db_ok_def keys_unique_def refs_ok_def unique_triggers_def bots_bound_def w_teams_def w_installed_def empty_db_def)

lemma w_teams_by: "teams_by (sc_db w_teams) u = (if u = ''adm'' then {''T1'', ''T2''} else if u = ''ann'' then {''T3''} else {})"
proof -
  have "teams_by d u = set (map il_TeamID (filter (\<lambda>i. il_UserID i = u) (installations d)))" for d by (auto simp: teams_by_def)
  note t = this [of "sc_db w_teams"]
  show ?thesis unfolding t by (simp add: w_teams_def w_installed_def del: set_map set_filter)
qed

lemma w_grant_of:
  "grant_of w_cipher (sc_db w_teams) ''T1'' = Some w_grant"
  "grant_of w_cipher (sc_db w_teams) ''T2'' = Some (w_grant\<lparr>cd_UpdatedAt := 1\<rparr>)"
proof -
  have t: "il_TeamID (w_installed t u c) = t" for t u c by (simp add: w_installed_def)
  show "grant_of w_cipher (sc_db w_teams) ''T1'' = Some w_grant"
    "grant_of w_cipher (sc_db w_teams) ''T2'' = Some (w_grant\<lparr>cd_UpdatedAt := 1\<rparr>)"
    by (simp_all add: grant_of_def w_teams_def t w_decrypt w_grant_ok)
qed

lemma w_client_run: "\<exists>s'. run_state (Client w_cipher ''T1'') w_teams = (Some ''new'', s')"
proof -
  have t: "il_TeamID (w_installed t u c) = t" "il_UserID (w_installed t u c) = u" for t u c by (simp_all add: w_installed_def)
  have rows: "InstallationByTeam (sc_db w_teams) ''T1'' = Inr (w_installed ''T1'' ''adm'' w_grant)"
    "ListInstallations (sc_db w_teams) = Inr (installations (sc_db w_teams))"
    by (simp_all add: InstallationByTeam_def ListInstallations_def scan_row_def w_teams_def empty_db_def t)
  have newest: "newest_grant w_cipher (w_installed ''T1'' ''adm'' w_grant) w_grant (installations (sc_db w_teams)) = w_grant\<lparr>cd_UpdatedAt := 1\<rparr>"
    by (simp add: newest_grant_def w_teams_def t map_filter_def w_decrypt w_grant_ok) (simp add: newer_grant_def w_grant_def)
  have env: "o_now w_cipher = 0" "o_token w_cipher = (\<lambda>_. Some (200, Some w_response))" "bearer w_cipher ''bearer''"
    "o_nonce w_cipher n = Some (replicate 12 (CHR ''n''))" for n
    by (simp_all add: w_cipher_def w_oauth_def bearer_def) code_simp
  have "\<not> sqlFault (sc_db s) UpsertInstallation \<Longrightarrow> fst (run_state (save_rows w_cipher c rows) s)" for c rows s
    by (induction rows arbitrary: s) (simp_all add: env case_prod_unfold SaveInstallation_def)
  then have saved: "fst (run_state (saveCredentials w_cipher u c) s)" if "\<not> sqlFault (sc_db s) UpsertInstallation"
      "\<not> sqlFault (sc_db s) SelectInstallations" for u c s
    using that by (simp add: saveCredentials_def ListInstallations_def)
  have "fst (run_state (Client w_cipher ''T1'') w_teams) = Some ''new''"
    by (simp add: Client_def rows w_decrypt w_grant_ok newest env Let_def case_prod_unfold exchange_def saved)
      (simp add: w_response_def w_grant_def env minute_def second_def millisecond_def saved w_teams_def empty_db_def)
  then show ?thesis by (metis prod.collapse)
qed

theorem client_grant_shared_witness:
  "\<exists>s' r. run_state (Client w_cipher ''T1'') w_teams = (Some ''new'', s') \<and> cd_AccessToken r = ''new'' \<and>
     grant_of w_cipher (sc_db s') ''T1'' = Some r \<and> grant_of w_cipher (sc_db s') ''T2'' = Some r"
proof -
  obtain s' where run: "run_state (Client w_cipher ''T1'') w_teams = (Some ''new'', s')" using w_client_run by blast
  from client_grant_shared [OF w_teams_ok w_aead run] obtain u g where
    u: "''T1'' \<in> teams_by (sc_db w_teams) u" and g: "newest_among g (readable_grants w_cipher (sc_db w_teams) u)"
    and use: "if o_now w_cipher + minute < cd_ExpiresAt g then s' = w_teams \<and> ''new'' = cd_AccessToken g
      else sc_log s' = sc_log w_teams @ [refresh_request w_cipher g] \<and>
       (\<exists>r. cd_AccessToken r = ''new'' \<and> (\<forall>t. grant_of w_cipher (sc_db s') t =
          (if t \<in> teams_by (sc_db w_teams) u then Some r else grant_of w_cipher (sc_db w_teams) t)))"
    by blast
  have adm: "teams_by (sc_db w_teams) u = {''T1'', ''T2''}" using u by (auto simp: w_teams_by split: if_splits)
  have "g \<in> {w_grant, w_grant\<lparr>cd_UpdatedAt := 1\<rparr>}" using g by (auto simp: newest_among_def readable_grants_def adm w_grant_of)
  then have "cd_ExpiresAt g = 0" by (auto simp: w_grant_def)
  then have "\<not> o_now w_cipher + minute < cd_ExpiresAt g" by (simp add: w_cipher_def w_oauth_def minute_def second_def millisecond_def)
  with use obtain r where "cd_AccessToken r = ''new''" "\<forall>t. grant_of w_cipher (sc_db s') t =
      (if t \<in> {''T1'', ''T2''} then Some r else grant_of w_cipher (sc_db w_teams) t)" unfolding adm by auto
  with run show ?thesis by simp
qed

end
