(* ===== verification/Mm_Client.thy ===== *)
theory Mm_Client
  imports Broker_State "HOL-Library.Sublist" "HOL-Library.Multiset"
begin

text \<open>
  \<^verbatim>\<open>internal/broker/mattermost/client.go\<close>: the adapter around the Mattermost client library. The
  library's answers are arguments; what the adapter does with them is modelled: the order of a
  thread, the decoding of an event, and \<^verbatim>\<open>Listen\<close>, which hands the events of a connection through a
  bounded queue to a worker and reconnects with a growing delay.
\<close>

section \<open>Requests\<close>

definition api_base :: "string \<Rightarrow> string" where
  "api_base baseURL = TrimRight baseURL ''/''"

definition wrap :: "string \<Rightarrow> string + 'a \<Rightarrow> string + 'a" where
  "wrap op r = (case r of Inl e \<Rightarrow> Inl (''mattermost: '' @ op @ '': '' @ e) | Inr x \<Rightarrow> Inr x)"

text \<open>
  A thread as the library returns it: the ids in its order and the posts by id. \<open>sort_posts\<close> stands for
  \<^verbatim>\<open>sort.Slice\<close>, which leaves the order of posts of the same time open.
\<close>

record PostList =
  pl_Order :: "string list"
  pl_Posts :: "string \<Rightarrow> Post option"

definition by_creation :: "(Post list \<Rightarrow> Post list) \<Rightarrow> bool" where
  "by_creation f \<longleftrightarrow> (\<forall>ps. mset (f ps) = mset ps \<and> sorted (map po_CreateAt (f ps)))"

definition client_GetThread :: "(Post list \<Rightarrow> Post list) \<Rightarrow> string + PostList \<Rightarrow> string + Post list" where
  "client_GetThread sort_posts answer =
     (case wrap ''get thread'' answer of
        Inl e \<Rightarrow> Inl e
      | Inr list \<Rightarrow> Inr (sort_posts (List.map_filter (pl_Posts list) (pl_Order list))))"

definition client_UploadFile :: "string + 'f list \<Rightarrow> string + 'f" where
  "client_UploadFile answer =
     (case wrap ''upload file'' answer of
        Inl e \<Rightarrow> Inl e
      | Inr [] \<Rightarrow> Inl ''mattermost: upload returned no file info''
      | Inr (fi # _) \<Rightarrow> Inr fi)"

section \<open>Events\<close>

text \<open>
  The data of an event: the members that are strings. \<open>decode_post\<close> and \<open>decode_mentions\<close> are the
  library's decoders; the second gives what it has filled in, error or not.
\<close>

record ws_event =
  we_Type :: string
  we_post :: "string option"
  we_channel_type :: "string option"
  we_mentions :: "string option"

definition data_string :: "string option \<Rightarrow> string" where
  "data_string x = (case x of None \<Rightarrow> [] | Some s \<Rightarrow> s)"

definition posted_event :: "(string \<Rightarrow> Post option) \<Rightarrow> (string \<Rightarrow> string list) \<Rightarrow> ws_event \<Rightarrow> PostedEvent option" where
  "posted_event decode_post decode_mentions ev =
     (if we_Type ev \<noteq> ''posted'' then None
      else case decode_post (data_string (we_post ev)) of
          None \<Rightarrow> None
        | Some p \<Rightarrow> Some \<lparr>ev_Post = Some p, ev_ChannelType = data_string (we_channel_type ev),
            ev_Mentions = (let m = data_string (we_mentions ev) in if m = [] then [] else decode_mentions m)\<rparr>)"

section \<open>Listening\<close>

definition EventQueueSize :: nat where
  "EventQueueSize = 256"

definition ws_url :: "string \<Rightarrow> string" where
  "ws_url base =
     (if HasPrefix base ''https://'' then ''wss://'' @ TrimPrefix base ''https://''
      else if HasPrefix base ''http://'' then ''ws://'' @ TrimPrefix base ''http://''
      else base)"

text \<open>
  The goroutines of \<^verbatim>\<open>Listen\<close>: the reader with the event it cannot place (\<open>ls_waiting\<close>), the queue, the
  worker with the event it handles. \<open>ls_received\<close> and \<open>ls_dropped\<close> record what the reader was given
  and what it gave up. \<open>ls_closed\<close>: the queue is closed; \<open>ls_returned\<close>: \<^verbatim>\<open>Listen\<close> has returned.
\<close>

record 'e listener =
  ls_received :: "'e list"
  ls_waiting :: "'e option"
  ls_queue :: "'e list"
  ls_handling :: "'e option"
  ls_handled :: "'e list"
  ls_dropped :: "'e list"
  ls_cancelled :: bool
  ls_closed :: bool
  ls_returned :: bool

definition new_listener :: "'e listener" where
  "new_listener = \<lparr>ls_received = [], ls_waiting = None, ls_queue = [], ls_handling = None, ls_handled = [],
     ls_dropped = [], ls_cancelled = False, ls_closed = False, ls_returned = False\<rparr>"

text \<open>\<^verbatim>\<open>deliver\<close>: the first attempt does not block, the second waits for room or for the end.\<close>

definition deliver :: "'e \<Rightarrow> 'e listener \<Rightarrow> 'e listener" where
  "deliver e l =
     (let l = l\<lparr>ls_received := ls_received l @ [e]\<rparr> in
      if length (ls_queue l) < EventQueueSize then l\<lparr>ls_queue := ls_queue l @ [e]\<rparr> else l\<lparr>ls_waiting := Some e\<rparr>)"

definition enqueue_waiting :: "'e listener \<Rightarrow> 'e listener" where
  "enqueue_waiting l =
     (case ls_waiting l of
        Some e \<Rightarrow> if length (ls_queue l) < EventQueueSize then l\<lparr>ls_queue := ls_queue l @ [e], ls_waiting := None\<rparr> else l
      | None \<Rightarrow> l)"

definition give_up_waiting :: "'e listener \<Rightarrow> 'e listener" where
  "give_up_waiting l =
     (case ls_waiting l of
        Some e \<Rightarrow> if ls_cancelled l then l\<lparr>ls_dropped := ls_dropped l @ [e], ls_waiting := None\<rparr> else l
      | None \<Rightarrow> l)"

definition worker_take :: "'e listener \<Rightarrow> 'e listener" where
  "worker_take l =
     (case (ls_handling l, ls_queue l) of
        (None, e # q) \<Rightarrow> l\<lparr>ls_handling := Some e, ls_queue := q\<rparr>
      | _ \<Rightarrow> l)"

definition worker_done :: "'e listener \<Rightarrow> 'e listener" where
  "worker_done l =
     (case ls_handling l of
        Some e \<Rightarrow> l\<lparr>ls_handling := None, ls_handled := ls_handled l @ [e]\<rparr>
      | None \<Rightarrow> l)"

text \<open>The deferred end: close the queue, then wait for the worker to run it dry.\<close>

definition close_events :: "'e listener \<Rightarrow> 'e listener" where
  "close_events l = (if ls_cancelled l \<and> ls_waiting l = None then l\<lparr>ls_closed := True\<rparr> else l)"

definition listen_return :: "'e listener \<Rightarrow> 'e listener" where
  "listen_return l = (if ls_closed l \<and> ls_queue l = [] \<and> ls_handling l = None then l\<lparr>ls_returned := True\<rparr> else l)"

text \<open>
  The reader runs on one event after the other, over as many connections as it takes, until it sees
  that the context has ended; it may still be given events between the end and its noticing.
\<close>

inductive listen_step :: "'e listener \<Rightarrow> 'e listener \<Rightarrow> bool" where
  Read: "ls_waiting l = None \<Longrightarrow> \<not> ls_closed l \<Longrightarrow> listen_step l (deliver e l)"
| Unblock: "listen_step l (enqueue_waiting l)"
| GiveUp: "listen_step l (give_up_waiting l)"
| Take: "listen_step l (worker_take l)"
| Done: "listen_step l (worker_done l)"
| Cancel: "listen_step l (l\<lparr>ls_cancelled := True\<rparr>)"
| Close: "listen_step l (close_events l)"
| Return: "listen_step l (listen_return l)"

text \<open>The delay before the next connection, given how long the last one stood, and the delay after it.\<close>

definition listen_delay :: "duration \<Rightarrow> duration \<Rightarrow> duration" where
  "listen_delay backoff stood = (if minute < stood then second else backoff)"

definition next_delay :: "duration \<Rightarrow> duration" where
  "next_delay backoff = min (wrap64 (backoff * 2)) (60 * second)"

section \<open>Properties\<close>

definition opt_list :: "'a option \<Rightarrow> 'a list" where
  "opt_list x = (case x of None \<Rightarrow> [] | Some a \<Rightarrow> [a])"

lemma opt_list_simps [simp]: "opt_list None = []" "opt_list (Some a) = [a]"
  by (simp_all add: opt_list_def)

text \<open>The events on their way, in the order in which they are handled.\<close>

definition in_flight :: "'e listener \<Rightarrow> 'e list" where
  "in_flight l = ls_handled l @ opt_list (ls_handling l) @ ls_queue l @ opt_list (ls_waiting l)"

definition listener_ok :: "'e listener \<Rightarrow> bool" where
  "listener_ok l \<longleftrightarrow> subseq (in_flight l) (ls_received l) \<and>
     mset (ls_received l) = mset (in_flight l) + mset (ls_dropped l) \<and>
     (ls_dropped l \<noteq> [] \<longrightarrow> ls_cancelled l) \<and> length (ls_queue l) \<le> EventQueueSize \<and>
     (ls_closed l \<longrightarrow> ls_cancelled l \<and> ls_waiting l = None) \<and>
     (ls_returned l \<longrightarrow> ls_closed l \<and> ls_queue l = [] \<and> ls_handling l = None)"

lemmas listen_defs = listener_ok_def in_flight_def deliver_def enqueue_waiting_def give_up_waiting_def worker_take_def
  worker_done_def close_events_def listen_return_def Let_def

lemma listen_step_ok: "listen_step l l' \<Longrightarrow> listener_ok l \<Longrightarrow> listener_ok l'"
proof (induction rule: listen_step.induct)
  case (Read l e)
  then have "in_flight (deliver e l) = in_flight l @ [e]" "ls_received (deliver e l) = ls_received l @ [e]"
    by (auto simp: in_flight_def deliver_def Let_def)
  moreover have "subseq (in_flight l @ [e]) (ls_received l @ [e])"
    using Read.prems by (intro list_emb_append_mono) (simp_all add: listener_ok_def)
  ultimately show ?case using Read by (auto simp: listener_ok_def deliver_def Let_def)
next
  case (GiveUp l)
  have "subseq xs ys" if "subseq (xs @ [x]) ys" for xs ys :: "'a list" and x
    using that subseq_order.order_trans [of xs "xs @ [x]" ys] subseq_rev_drop_many [OF subseq_order.order_refl] by blast
  then show ?case using GiveUp
    by (cases "ls_waiting l") (auto simp: listen_defs simp flip: append_assoc split: option.splits if_splits)
qed (auto simp: listen_defs split: option.splits list.splits if_splits)

lemma listener_reached_ok: "listen_step\<^sup>*\<^sup>* new_listener l \<Longrightarrow> listener_ok l"
proof (induction rule: rtranclp_induct)
  case base
  then show ?case by (simp add: listener_ok_def in_flight_def new_listener_def)
next
  case (step l l')
  then show ?case by (blast intro: listen_step_ok)
qed

text \<open>The steps of the worker and of a waiting reader: no new event, no cancellation.\<close>

definition drain :: "'e listener \<Rightarrow> 'e listener" where
  "drain l = worker_done (worker_take (enqueue_waiting (worker_done l)))"

lemma drain_steps: "listen_step\<^sup>*\<^sup>* l ((drain ^^ n) l)"
proof (induction n)
  case (Suc n)
  have steps: "listen_step\<^sup>*\<^sup>* k (worker_done k)" "listen_step\<^sup>*\<^sup>* k (worker_take k)" "listen_step\<^sup>*\<^sup>* k (enqueue_waiting k)"
    for k :: "'a listener" by (auto intro: listen_step.intros)
  then have "listen_step\<^sup>*\<^sup>* k (drain k)" for k :: "'a listener"
    unfolding drain_def by (meson rtranclp_trans)
  then show ?case using Suc by (metis funpow.simps(2) o_apply rtranclp_trans)
qed simp

lemma drain_in_flight: "in_flight (drain l) = in_flight l" "ls_handling (drain l) = None"
  by (auto simp: drain_def listen_defs split: option.splits list.splits)

lemma drain_shrinks:
  "listener_ok l \<Longrightarrow> length (ls_queue (drain l)) + length (opt_list (ls_waiting (drain l))) \<le>
     length (ls_queue l) + length (opt_list (ls_waiting l)) - 1"
  by (auto simp: drain_def listen_defs EventQueueSize_def split: option.splits list.splits)

lemma drain_empty:
  "listener_ok l \<Longrightarrow> length (ls_queue l) + length (opt_list (ls_waiting l)) \<le> n \<Longrightarrow>
   ls_handled ((drain ^^ Suc n) l) = in_flight l"
proof (induction n arbitrary: l)
  case 0
  then have "ls_queue l = []" "ls_waiting l = None" by (auto simp: opt_list_def split: option.splits)
  then show ?case by (auto simp: drain_def listen_defs split: option.splits)
next
  case (Suc n)
  have "listener_ok (drain l)"
    unfolding drain_def by (intro listen_step_ok [OF Done] listen_step_ok [OF Take] listen_step_ok [OF Unblock] Suc.prems(1))
  from Suc.IH [OF this] drain_shrinks [OF Suc.prems(1)] Suc.prems(2) drain_in_flight(1) [of l]
  show ?case by (simp add: funpow_swap1)
qed

text \<open>
  C24. Posts are handled in the order in which Mattermost sent them, and none is lost: however reader and
  worker interleave and however often the connection is replaced, the events handled, in work, queued
  and waiting are exactly the ones received, in order, until the listener is cancelled; the queue
  never holds more than 256. Cancelling may only skip events that were still waiting for room. The
  worker alone can always finish everything that is on its way, and \<^verbatim>\<open>Listen\<close> returns only when it has.
\<close>

theorem events_in_order:
  assumes "listen_step\<^sup>*\<^sup>* new_listener l"
  shows "subseq (in_flight l) (ls_received l) \<and> (\<not> ls_cancelled l \<longrightarrow> in_flight l = ls_received l) \<and>
    mset (ls_received l) = mset (in_flight l) + mset (ls_dropped l) \<and> length (ls_queue l) \<le> 256 \<and>
    (\<exists>l'. listen_step\<^sup>*\<^sup>* l l' \<and> ls_received l' = ls_received l \<and> ls_handled l' = in_flight l) \<and>
    (ls_returned l \<longrightarrow> ls_handled l = in_flight l)"
proof -
  have ok: "listener_ok l" by (rule listener_reached_ok [OF assms])
  have "in_flight l = ls_received l" if "\<not> ls_cancelled l"
  proof -
    have "ls_dropped l = []" using ok that by (auto simp: listener_ok_def)
    then have "mset (ls_received l) = mset (in_flight l)" using ok by (simp add: listener_ok_def)
    then have "length (ls_received l) = length (in_flight l)" by (rule mset_eq_length)
    then show ?thesis using ok by (metis listener_ok_def subseq_same_length)
  qed
  moreover have "\<exists>l'. listen_step\<^sup>*\<^sup>* l l' \<and> ls_received l' = ls_received l \<and> ls_handled l' = in_flight l"
  proof -
    have "ls_received (drain k) = ls_received k" for k :: "'a listener"
      by (auto simp: drain_def listen_defs split: option.splits list.splits)
    then have "ls_received ((drain ^^ n) l) = ls_received l" for n by (induction n) simp_all
    then show ?thesis using drain_steps drain_empty [OF ok order_refl] by blast
  qed
  moreover have "ls_handled l = in_flight l" if "ls_returned l"
    using ok that by (simp add: listener_ok_def in_flight_def)
  ultimately show ?thesis using ok by (simp add: listener_ok_def EventQueueSize_def)
qed

text \<open>The delays stay between one second and one minute, so that the jitter is drawn from a positive range.\<close>

lemma listen_delays:
  assumes "second \<le> b" "b \<le> 60 * second"
  shows "second \<le> next_delay (listen_delay b stood) \<and> next_delay (listen_delay b stood) \<le> 60 * second \<and>
    0 < listen_delay b stood div 4"
proof -
  let ?d = "listen_delay b stood"
  have "second = 1000000000" by (simp add: second_def millisecond_def)
  then have "1000000000 \<le> ?d" "?d \<le> 60000000000" using assms by (auto simp: listen_delay_def)
  moreover from this have "wrap64 (?d * 2) = ?d * 2" by (intro wrap64_id) simp_all
  ultimately show ?thesis using \<open>second = 1000000000\<close> by (auto simp: next_delay_def)
qed

text \<open>A thread is read from its first post to its last, without the posts the server left out.\<close>

lemma thread_in_order:
  assumes "by_creation f" "client_GetThread f (Inr list) = Inr ps"
  shows "sorted (map po_CreateAt ps) \<and> set ps = {p. \<exists>i \<in> set (pl_Order list). pl_Posts list i = Some p}"
proof -
  let ?qs = "List.map_filter (pl_Posts list) (pl_Order list)"
  have ps: "ps = f ?qs" using assms(2) by (simp add: client_GetThread_def wrap_def)
  have "mset (f ?qs) = mset ?qs" "sorted (map po_CreateAt (f ?qs))" using assms(1) by (simp_all add: by_creation_def)
  moreover from this(1) have "set (f ?qs) = set ?qs" by (rule mset_eq_setD)
  ultimately show ?thesis unfolding ps by (auto simp: map_filter_def image_iff) (metis option.sel)
qed

end
