(* ===== verification/Broker_Http.thy ===== *)
theory Broker_Http
  imports Onboarding_Props OAuth
begin

text \<open>
  The broker's command line and HTTP endpoints, \<^verbatim>\<open>internal/cli/broker.go\<close>: the checks of its options and
  the handlers of the device flow, the slash command and the approval buttons, from the decoded
  request to the status code and body. (The websocket endpoint is the hub, the webhook endpoint and
  the installation pages have theories of their own.)
\<close>

section \<open>Options\<close>

record brokerOptions =
  bo_mmURL :: string
  bo_oauthClientID :: string
  bo_oauthClientSecret :: string
  bo_botProvisioningToken :: string
  bo_publicURL :: string
  bo_callbackSecret :: string

definition validate :: "brokerOptions \<Rightarrow> string + brokerOptions" where
  "validate o' =
     (let missing = map (\<lambda>(flag, _). ''--'' @ flag) (filter (\<lambda>(_, val). val = [])
        [(''mm-url'', bo_mmURL o'), (''oauth-client-id'', bo_oauthClientID o'),
         (''oauth-client-secret'', bo_oauthClientSecret o'), (''bot-provisioning-token'', bo_botProvisioningToken o'),
         (''public-url'', bo_publicURL o'), (''callback-secret'', bo_callbackSecret o')]) in
      if missing \<noteq> [] then Inl (''missing: '' @ Join missing '', '' @ '' (or the matching environment variables)'')
      else if length (bo_callbackSecret o') < 32 then Inl ''--callback-secret must be at least 32 characters''
      else Inr (o'\<lparr>bo_publicURL := TrimRight (bo_publicURL o') ''/''\<rparr>))"

text \<open>\<open>env_or\<close> is the function \<^verbatim>\<open>env\<close>: an empty variable counts as unset.\<close>

definition env_or :: "(string \<Rightarrow> string) \<Rightarrow> string \<Rightarrow> string \<Rightarrow> string" where
  "env_or getenv k def = (if getenv k \<noteq> [] then getenv k else def)"

section \<open>Endpoints\<close>

datatype 'a http_answer = HttpError int string | HttpStatus int | HttpOK 'a

text \<open>\<^verbatim>\<open>POST /init\<close>; a body that does not decode is \<^term>\<open>None\<close>.\<close>

definition http_init :: "env \<Rightarrow> (string \<times> string) option \<Rightarrow> InitStart http_answer io" where
  "http_init E body =
     (case body of
        None \<Rightarrow> State_Monad.return (HttpError 400 ''bad request'')
      | Some (botName, harnessName) \<Rightarrow> do {
          r \<leftarrow> StartInit E botName harnessName;
          State_Monad.return (case r of
              Inl e \<Rightarrow> if e = ErrInitDisabled then HttpError 501 e else HttpError 400 e
            | Inr st \<Rightarrow> HttpOK st)
        })"

text \<open>\<^verbatim>\<open>GET /init/{code}\<close>\<close>

definition http_poll :: "env \<Rightarrow> installation \<Rightarrow> string \<Rightarrow> string \<Rightarrow> InitResult http_answer io" where
  "http_poll E P code authorization = do {
     r \<leftarrow> PollInit E P code (TrimPrefix authorization ''Bearer '');
     State_Monad.return (case r of
         Inl InitPending \<Rightarrow> HttpStatus 202
       | Inl InitUnknown \<Rightarrow> HttpError 404 ErrInitUnknown
       | Inl InitConsumed \<Rightarrow> HttpError 410 ''init result was already fetched''
       | Inl (PollStore _) \<Rightarrow> HttpError 500 ''internal error''
       | Inr res \<Rightarrow> HttpOK res)
   }"

record command_form =
  fm_token :: string
  fm_user_id :: string
  fm_channel_id :: string
  fm_team_id :: string
  fm_text :: string

text \<open>\<^verbatim>\<open>POST /commands/harness\<close>\<close>

definition http_command :: "env \<Rightarrow> installation \<Rightarrow> command_form option \<Rightarrow> string http_answer io" where
  "http_command E P form =
     (case form of
        None \<Rightarrow> State_Monad.return (HttpError 400 ''bad request'')
      | Some f \<Rightarrow> do {
          ok \<leftarrow> reads (\<lambda>s. VerifyCommand (bk_db s) (fm_team_id f) (fm_token f));
          if \<not> ok then State_Monad.return (HttpError 401 ''invalid command token'')
          else do {
            r \<leftarrow> HandleCommand E P \<lparr>cr_UserID = fm_user_id f, cr_ChannelID = fm_channel_id f, cr_TeamID = fm_team_id f,
                   cr_Text = fm_text f\<rparr>;
            State_Monad.return (HttpOK r)
          }
        })"

text \<open>\<^verbatim>\<open>POST /callback/approval\<close>\<close>

definition http_callback :: "env \<Rightarrow> CallbackRequest option \<Rightarrow> callback_response http_answer io" where
  "http_callback E body =
     (case body of
        None \<Rightarrow> State_Monad.return (HttpError 400 ''bad request'')
      | Some req \<Rightarrow> do { r \<leftarrow> HandleCallback E req; State_Monad.return (HttpOK r) })"

section \<open>Commands act for their user\<close>

text \<open>What a command of this user must not touch.\<close>

definition others :: "string \<Rightarrow> db \<Rightarrow> Harness list \<times> Bot list \<times> Job list \<times> Approval list \<times> OutboxMessage list \<times> Installation list" where
  "others u d = (filter (\<lambda>h. hn_MMUserID h \<noteq> u) (harnesses d), filter (\<lambda>b. bt_MMUserID b \<noteq> u) (bots d),
     jobs d, approvals d, outbox d, installations d)"

lemma others_audit [simp]: "others u (snd (AppendAudit d now e)) = others u d"
  by (simp add: others_def store_frame)

lemma others_provisioned:
  assumes "provisioned args h s b s'"
  shows "others (cr_UserID args) (bk_db s') = others (cr_UserID args) (bk_db s)"
proof -
  have "bk_db s' = (bk_db s)\<lparr>bots := bots (bk_db s) @ [stored_bot b]\<rparr>" "bt_MMUserID b = cr_UserID args"
    using assms by (auto simp: provisioned_def saved_def bot_for_def)
  then show ?thesis by (simp add: others_def stored_bot_def)
qed

lemma filter_rows_update_own:
  "(\<And>r. r \<in> set rs \<Longrightarrow> p r \<Longrightarrow> own r) \<Longrightarrow> (\<And>r. own (f r) = own r) \<Longrightarrow>
   filter (\<lambda>r. \<not> own r) (rows_update p f rs) = filter (\<lambda>r. \<not> own r) rs"
  by (induction rs) auto

lemma filter_rows_delete_own:
  "(\<And>r. r \<in> set rs \<Longrightarrow> p r \<Longrightarrow> own r) \<Longrightarrow> filter (\<lambda>r. \<not> own r) (rows_delete p rs) = filter (\<lambda>r. \<not> own r) rs"
  by (induction rs) (auto simp: rows_delete_def)

lemma others_rollback:
  assumes "provisioned args h s b u"
  shows "others (cr_UserID args) (bk_db (snd (run_state (rollbackBot P team b) u))) = others (cr_UserID args) (bk_db u)"
proof -
  have bots: "bots (bk_db u) = bots (bk_db s) @ [stored_bot b]" "bt_MMUserID b = cr_UserID args"
      "bt_UserID b \<notin> bt_UserID ` set (bots (bk_db s))"
    using assms by (auto simp: provisioned_def saved_def bot_for_def)
  then have own: "bt_MMUserID r = cr_UserID args" if "r \<in> set (bots (bk_db u))" "bt_UserID r = bt_UserID b" for r
    using that image_eqI [of "bt_UserID b" bt_UserID r "set (bots (bk_db s))"] by (auto simp: stored_bot_def)
  have "others (cr_UserID args) (snd (DeleteBot (bk_db u) (bt_UserID b))) = others (cr_UserID args) (bk_db u)"
    using filter_rows_delete_own [of "bots (bk_db u)" "\<lambda>r. bt_UserID r = bt_UserID b" "\<lambda>r. bt_MMUserID r = cr_UserID args"] own
    by (simp add: others_def DeleteBot_def Let_def)
  then show ?thesis by (simp add: rollbackBot_def case_prod_unfold)
qed

lemma others_complete_claim:
  assumes "provisioned args [] s b u"
  shows "others (cr_UserID args) (bk_db (snd (run_state (complete_claim E P args code req b) u))) = others (cr_UserID args) (bk_db s)"
proof -
  define tok where "tok = ''hrt_'' @ randomToken (e_random E (bk_drawn u) 32)"
  define hid where "hid = NewID (e_ulid E (Suc (bk_drawn u))) ''hrn''"
  define h where "h = claim_harness E args req hid tok"
  let ?hash = "hashCode (e_sha E) (e_upper E) code"
  let ?u = "u\<lparr>bk_drawn := Suc (Suc (bk_drawn u))\<rparr>"
  have bots: "bots (bk_db u) = bots (bk_db s) @ [stored_bot b]" "bt_MMUserID b = cr_UserID args"
      "bt_UserID b \<notin> bt_UserID ` set (bots (bk_db s))" "provisioned args [] s b ?u"
    using assms by (auto simp: provisioned_def saved_def bot_for_def)
  note base = others_provisioned [OF assms]
  show ?thesis
  proof (cases rule: CompleteInit_cases [of "bk_db u" ?hash "e_now E" h "bt_UserID b" tok])
    case (failed e)
    have run: "snd (run_state (complete_claim E P args code req b) u) = snd (run_state (rollbackBot P (cr_TeamID args) b) ?u)"
      using failed by (simp add: complete_claim_def Let_def case_prod_unfold tok_def hid_def h_def)
    show ?thesis unfolding run using others_rollback [OF bots(4), of P "cr_TeamID args"] base by simp
  next
    case (completed r x)
    have own: "bt_MMUserID y = cr_UserID args" if "y \<in> set (bots (bk_db u))" "bt_UserID y = bt_UserID b" for y
      using that bots(1-3) image_eqI [of "bt_UserID b" bt_UserID y "set (bots (bk_db s))"] by (auto simp: stored_bot_def)
    have "\<exists>e. bk_db (snd (run_state (complete_claim E P args code req b) u)) =
        snd (AppendAudit (complete_tables (bk_db u) ?hash (e_now E) h (bt_UserID b) tok) (e_now E) e)"
      using completed(1) by (simp add: complete_claim_def Let_def case_prod_unfold tok_def hid_def h_def run_audit) blast
    moreover have "others (cr_UserID args) (complete_tables (bk_db u) ?hash (e_now E) h (bt_UserID b) tok) = others (cr_UserID args) (bk_db u)"
      using filter_rows_update_own [of "bots (bk_db u)" "\<lambda>y. bt_UserID y = bt_UserID b" "\<lambda>y. bt_MMUserID y = cr_UserID args"
          "\<lambda>y. y\<lparr>bt_HarnessID := hn_ID h\<rparr>"] own
      by (simp add: others_def complete_tables_def h_def claim_harness_def stored_harness_def)
    ultimately show ?thesis using base by auto
  qed
qed

text \<open>The accounts the server creates are new.\<close>

definition new_accounts :: "installation \<Rightarrow> db \<Rightarrow> bool" where
  "new_accounts P d \<longleftrightarrow> (\<forall>l a. p_account P l = Some a \<longrightarrow> a \<notin> bt_UserID ` set (bots d))"

lemma others_claimInit:
  assumes "new_accounts P (bk_db s)"
  shows "others (cr_UserID args) (bk_db (snd (run_state (claimInit E P args code name) s))) = others (cr_UserID args) (bk_db s)"
proof -
  have "others (cr_UserID args) (bk_db (snd (run_state (case r of Inl e \<Rightarrow> State_Monad.return (Inl e) | Inr b \<Rightarrow> complete_claim E P args code req b) u))) =
      others (cr_UserID args) (bk_db s)" if "run_state (provisionBot E P args n []) s = (r, u)" for r u n req
    using that provisionBot_fails [of E P args n "[]" s _ u] provisionBot_succeeds [of E P args n "[]" s _ u] assms
      others_complete_claim [of args s _ u E P code req]
    by (cases r) (auto simp: new_accounts_def clean_def taken_back_def)
  then show ?thesis by (simp add: claimInit_def case_prod_unfold split: sum.split)
qed

lemma others_createBoundBot:
  assumes "new_accounts P (bk_db s)"
  shows "others (cr_UserID args) (bk_db (snd (run_state (createBoundBot E P args name hid) s))) = others (cr_UserID args) (bk_db s)"
proof -
  have "others (cr_UserID args) (bk_db u) = others (cr_UserID args) (bk_db s)"
    if "run_state (provisionBot E P args name h) s = (r, u)" for r u h
    using that provisionBot_fails [of E P args name h s _ u] provisionBot_succeeds [of E P args name h s _ u] assms
      others_provisioned [of args h s _ u]
    by (cases r) (auto simp: new_accounts_def clean_def taken_back_def)
  then have "others (cr_UserID args) (bk_db (snd (run_state (provisionBot E P args name h) s))) = others (cr_UserID args) (bk_db s)" for h
    by (metis prod.collapse)
  then show ?thesis by (simp add: createBoundBot_def case_prod_unfold run_audit split: sum.split)
qed

lemma db_joinChannel: "bk_db (snd (run_state (joinChannel E P args name) s)) = bk_db s"
  by (simp add: joinChannel_def split: sum.split option.split)

lemma db_status: "bk_db (snd (run_state (onboardingStatusText u) s)) = bk_db s"
  by (simp add: onboardingStatusText_def split: sum.split)

lemma snd_command_answer: "snd (run_state (command_answer m) s) = snd (run_state m s)"
  by (simp add: command_answer_def case_prod_unfold)

lemma others_HandleCommand:
  "new_accounts P (bk_db s) \<Longrightarrow>
   others (cr_UserID args) (bk_db (snd (run_state (HandleCommand E P args) s))) = others (cr_UserID args) (bk_db s)"
  by (simp add: HandleCommand_def Let_def snd_command_answer others_claimInit others_createBoundBot db_joinChannel db_status
      split: list.split)


end
