(* ===== verification/Init_Client.thy ===== *)
theory Init_Client
  imports Broker_Http Harness_Config
begin

text \<open>
  The machine's side of pairing: \<^verbatim>\<open>internal/harness/initflow.go\<close>, which starts the device flow and polls
  until the code is claimed, and \<^verbatim>\<open>pair.go\<close>. The loop of \<^verbatim>\<open>WaitInit\<close> has no bound of its own; it is
  shown to end.
\<close>

section \<open>Requests\<close>

text \<open>An HTTP request fails with a text, or is answered: status code, status line, text, decoded body.\<close>

datatype 'a http_reply = NoReply string | Reply int string string "string + 'a"

datatype init_err =
    InitRequest string
  | InitBadResponse string
  | InitExpired
  | InitDisabled
  | InitFailed string string
  | PollFailed string string
  | InitEnded string

definition client_StartInit :: "InitStart http_reply \<Rightarrow> init_err + InitStart" where
  "client_StartInit r =
     (case r of
        NoReply e \<Rightarrow> Inl (InitRequest e)
      | Reply code status raw body \<Rightarrow>
          if code = 200 then (case body of Inl e \<Rightarrow> Inl (InitBadResponse e) | Inr st \<Rightarrow> Inr st)
          else if code = 501 then Inl InitDisabled
          else Inl (InitFailed status (TrimSpace raw)))"

text \<open>One answer to a poll: nothing yet (\<^term>\<open>None\<close>), or the result of \<^verbatim>\<open>WaitInit\<close>.\<close>

definition poll_result :: "InitResult http_reply \<Rightarrow> (init_err + InitResult) option" where
  "poll_result r =
     (case r of
        NoReply e \<Rightarrow> Some (Inl (InitRequest e))
      | Reply code status raw body \<Rightarrow>
          if code = 200 then Some (case body of Inl e \<Rightarrow> Inl (InitBadResponse e) | Inr res \<Rightarrow> Inr res)
          else if code = 202 then None
          else if code = 404 \<or> code = 410 then Some (Inl InitExpired)
          else Some (Inl (PollFailed status (TrimSpace raw))))"

text \<open>
  What the loop meets in its rounds: the answer, the clock after it, and whether the context ends before
  the two seconds are over.
\<close>

record poll_env =
  pe_reply :: "nat \<Rightarrow> InitResult http_reply"
  pe_now :: "nat \<Rightarrow> time"
  pe_ended :: "nat \<Rightarrow> string option"

partial_function (option) wait_from :: "poll_env \<Rightarrow> time \<Rightarrow> nat \<Rightarrow> ((init_err + InitResult) \<times> nat) option" where
  "wait_from W expiresAt i =
     (case poll_result (pe_reply W i) of
        Some r \<Rightarrow> Some (r, i)
      | None \<Rightarrow>
          if expiresAt < pe_now W i then Some (Inl InitExpired, i)
          else case pe_ended W i of
              Some e \<Rightarrow> Some (Inl (InitEnded e), i)
            | None \<Rightarrow> wait_from W expiresAt (Suc i))"

text \<open>The result and the number of polls that were answered with nothing yet.\<close>

definition WaitInit :: "poll_env \<Rightarrow> time \<Rightarrow> ((init_err + InitResult) \<times> nat) option" where
  "WaitInit W expiresAt = wait_from W expiresAt 0"

definition ApplyInit :: "(fs_op \<Rightarrow> bool) \<Rightarrow> string \<Rightarrow> string \<Rightarrow> InitResult \<Rightarrow> string \<Rightarrow> config_file
    \<Rightarrow> (file_err + unit) \<times> HarnessConfig \<times> config_file" where
  "ApplyInit fails home brokerURL res harnessName f =
     apply_credentials fails home brokerURL (ir_HarnessID res) (ir_Token res) (ir_MMUserID res) harnessName f"

section \<open>Pairing with a code\<close>

definition pair_request :: "string \<Rightarrow> string \<Rightarrow> string \<Rightarrow> string \<Rightarrow> PairRequest" where
  "pair_request host version code name =
     \<lparr>pq_Code = TrimSpace code, pq_Name = pair_config_name name host, pq_Hostname = host, pq_Version = version\<rparr>"

definition Pair :: "(fs_op \<Rightarrow> bool) \<Rightarrow> string \<Rightarrow> string \<Rightarrow> string \<Rightarrow> string \<Rightarrow> PairResponse http_reply \<Rightarrow> config_file
    \<Rightarrow> (init_err + (file_err + unit) \<times> HarnessConfig) \<times> config_file" where
  "Pair fails home host brokerURL name r f =
     (case r of
        NoReply e \<Rightarrow> (Inl (InitRequest e), f)
      | Reply code status raw body \<Rightarrow>
          if code \<noteq> 200 then (Inl (InitFailed status (TrimSpace raw)), f)
          else case body of
              Inl e \<Rightarrow> (Inl (InitBadResponse e), f)
            | Inr pr \<Rightarrow>
                let (saved, cfg, f') = apply_credentials fails home (TrimRight brokerURL ''/'') (ps_HarnessID pr) (ps_Token pr)
                      (ps_MMUserID pr) (pair_config_name name host) f
                in (Inr (saved, cfg), f'))"

section \<open>Waiting ends\<close>

lemma clock_advances:
  assumes "\<forall>i. pe_now W i + 2 * second \<le> pe_now W (Suc i)"
  shows "pe_now W 0 + int n * (2 * second) \<le> pe_now W n"
proof (induction n)
  case (Suc n)
  then show ?case using assms [rule_format, of n] by (simp add: algebra_simps)
qed simp

text \<open>The rounds before \<^term>\<open>n\<close> said nothing yet and were in time, and \<^term>\<open>n\<close> is the last.\<close>

definition waits_until :: "poll_env \<Rightarrow> time \<Rightarrow> nat \<Rightarrow> nat \<Rightarrow> bool" where
  "waits_until W expiresAt i n \<longleftrightarrow> i \<le> n \<and>
     (\<forall>k. i \<le> k \<and> k < n \<longrightarrow> poll_result (pe_reply W k) = None \<and> pe_now W k \<le> expiresAt \<and> pe_ended W k = None)"

definition last_round :: "poll_env \<Rightarrow> time \<Rightarrow> nat \<Rightarrow> init_err + InitResult" where
  "last_round W expiresAt n =
     (case poll_result (pe_reply W n) of
        Some r \<Rightarrow> r
      | None \<Rightarrow> if expiresAt < pe_now W n then Inl InitExpired else Inl (InitEnded (the (pe_ended W n))))"

lemma wait_from_ends:
  assumes "waits_until W x i n" "poll_result (pe_reply W n) \<noteq> None \<or> x < pe_now W n \<or> pe_ended W n \<noteq> None"
  shows "wait_from W x i = Some (last_round W x n, n)"
  using assms(1)
proof (induction "n - i" arbitrary: i)
  case 0
  then have "i = n" by (simp add: waits_until_def)
  then show ?case using assms(2) by (subst wait_from.simps) (auto simp: last_round_def split: option.split)
next
  case (Suc m)
  then have "waits_until W x (Suc i) n" "i < n" by (auto simp: waits_until_def)
  moreover from Suc.prems this(2) have "poll_result (pe_reply W i) = None" "\<not> x < pe_now W i" "pe_ended W i = None"
    by (auto simp: waits_until_def not_less)
  ultimately show ?case using Suc.hyps by (subst wait_from.simps) simp
qed

text \<open>
  C31. Waiting for the claim ends: as the clock moves by the two seconds the loop sleeps, \<^verbatim>\<open>WaitInit\<close> returns,
  after no more polls than fit between now and the expiry of the code. It returns the first answer
  that is not \<^verbatim>\<open>202\<close>, the end of the code when that comes first, or the end of its context.
\<close>

theorem wait_init_ends:
  assumes "\<forall>i. pe_now W i + 2 * second \<le> pe_now W (Suc i)"
  shows "\<exists>n. WaitInit W expiresAt = Some (last_round W expiresAt n, n) \<and> waits_until W expiresAt 0 n \<and>
    int n * (2 * second) \<le> max 0 (expiresAt - pe_now W 0 + 2 * second)"
proof -
  let ?stop = "\<lambda>n. poll_result (pe_reply W n) \<noteq> None \<or> expiresAt < pe_now W n \<or> pe_ended W n \<noteq> None"
  have pos: "0 < second" by (simp add: second_def millisecond_def)
  define N where "N = nat (expiresAt - pe_now W 0) + 1"
  have "int N \<le> int N * (2 * second)" using pos by (simp add: mult_le_cancel_left1)
  then have "?stop N" using clock_advances [OF assms, of N] unfolding N_def by linarith
  then obtain n where n: "?stop n" "\<forall>k < n. \<not> ?stop k" using exists_least_iff [of ?stop] by blast
  then have "waits_until W expiresAt 0 n" by (auto simp: waits_until_def not_less)
  moreover have "int n * (2 * second) \<le> max 0 (expiresAt - pe_now W 0 + 2 * second)"
  proof (cases n)
    case (Suc m)
    then have "pe_now W m \<le> expiresAt" using n(2) by (simp add: not_less)
    then have "int n * (2 * second) \<le> expiresAt - pe_now W 0 + 2 * second"
      using clock_advances [OF assms, of m] Suc by (simp add: algebra_simps)
    then show ?thesis by simp
  qed simp
  ultimately show ?thesis unfolding WaitInit_def using wait_from_ends n(1) by blast
qed

section \<open>The whole flow\<close>

text \<open>The broker's answer as the machine receives it.\<close>

definition over_http :: "'a http_answer \<Rightarrow> 'a http_reply" where
  "over_http a =
     (case a of
        HttpOK x \<Rightarrow> Reply 200 ''200 OK'' [] (Inr x)
      | HttpStatus c \<Rightarrow> Reply c (itoa c) [] (Inl ''unexpected end of JSON input'')
      | HttpError c msg \<Rightarrow> Reply c (itoa c) msg (Inl ''invalid character''))"

lemma http_init_OK: "run_state (http_init E (Some (b, n))) s = (HttpOK st, s') \<Longrightarrow> run_state (StartInit E b n) s = (Inr st, s')"
  by (auto simp: http_init_def case_prod_unfold prod_eq_iff split: sum.splits if_splits)

lemma http_claim_OK:
  assumes "run_state (http_command E P (Some f)) s = (HttpOK text, s')" "Fields (fm_text f) = [cmd, code]"
    and "ToLower (e_lower E) cmd = ''init''" "\<not> HasPrefix text ''Command failed: ''"
  shows "run_state (claimInit E P \<lparr>cr_UserID = fm_user_id f, cr_ChannelID = fm_channel_id f, cr_TeamID = fm_team_id f, cr_Text = fm_text f\<rparr> code []) s
    = (Inr text, s')"
  using assms
  by (auto simp: http_command_def HandleCommand_def command_answer_def case_prod_unfold prod_eq_iff Let_def split: sum.splits if_splits)

lemma poll_pending:
  assumes "run_state (StartInit E b n) s = (Inr st, s1)" "sqlFault (bk_db s) = (\<lambda>_. False)"
    and "e_sha F = e_sha E" "e_upper F = e_upper E" "e_now F < stored_time (is_ExpiresAt st)"
    and "is_PollToken st \<noteq> []" "tokenHash (e_sha E) (is_PollToken st) \<noteq> []"
  shows "run_state (http_poll F P (is_Code st) (''Bearer '' @ is_PollToken st)) s1 = (HttpStatus 202, s1)"
proof -
  let ?hash = "hashCode (e_sha E) (e_upper E) (is_Code st)"
  obtain req where req: "in_CodeHash req = ?hash" "in_PollTokenHash req = tokenHash (e_sha E) (is_PollToken st)"
      "in_ExpiresAt req = stored_time (is_ExpiresAt st)" "\<not> Claimed req"
      "bk_db s1 = (bk_db s)\<lparr>init_requests := init_requests (bk_db s) @ [req]\<rparr>"
      "in_CodeHash req \<notin> in_CodeHash ` set (init_requests (bk_db s))"
    using StartInit_succeeds [OF assms(1)] by metis
  have row: "InitByCode (bk_db s1) ?hash = Inr req"
    using req(1,5,6) assms(2) by (simp add: InitByCode_def scan_row_def lookup_by_append_fresh)
  then have "FetchInit (bk_db s1) ?hash (e_now F) = (Inr req, bk_db s1)"
    using req(3,4) assms(5) by (simp add: FetchInit_def)
  then show ?thesis
    using row req(2,4) assms(3,4,6,7) by (simp add: http_poll_def PollInit_def TrimPrefix_def Let_def)
qed

text \<open>
  C8. A machine that is set up can connect, for the user who set it up: a machine asks for a code, a user
  types it as a command that is not answered with a failure, and meanwhile the machine polls, any number
  of times before the claim and once after it. Then \<^verbatim>\<open>WaitInit\<close> returns the credentials, and the
  configuration that is saved, and read again at the next start, holds an id and a token with which the
  broker authenticates the machine as a harness of this user; a bot of this user is bound to it.
\<close>

theorem machine_onboarded:
  assumes start: "run_state (http_init E (Some (botName, name))) s = (HttpOK st, s1)"
    and claim: "run_state (http_command E1 P (Some f)) s1 = (HttpOK text, s2)" "Fields (fm_text f) = [cmd, is_Code st]"
      "ToLower (e_lower E1) cmd = ''init''" "\<not> HasPrefix text ''Command failed: ''"
    and polls: "\<forall>i \<le> k. pe_reply W i = over_http (fst (run_state (http_poll (F i) P (is_Code st) (''Bearer '' @ is_PollToken st))
        (if i < k then s1 else s2)))"
    and time: "\<forall>i \<le> k. e_now (F i) < stored_time (is_ExpiresAt st) \<and> pe_now W i \<le> is_ExpiresAt st \<and> pe_ended W i = None"
    and hashes: "\<forall>i. e_sha (F i) = e_sha E \<and> e_upper (F i) = e_upper E" "e_sha E1 = e_sha E" "e_upper E1 = e_upper E"
    and healthy: "sqlFault (bk_db s) = (\<lambda>_. False)" and token: "is_PollToken st \<noteq> []" "tokenHash (e_sha E) (is_PollToken st) \<noteq> []"
    and disk: "\<not> (\<exists>op. fails op)"
    and s3: "s3 = snd (run_state (http_poll (F k) P (is_Code st) (''Bearer '' @ is_PollToken st)) s2)"
  shows "\<exists>res cfg file' h b. WaitInit W (is_ExpiresAt st) = Some (Inr res, k) \<and>
    ApplyInit fails home url res name file = (Inr (), cfg, file') \<and> snd (LoadConfig home isDir file') = cfg \<and>
    hc_OwnerMMUserID cfg = fm_user_id f \<and> hc_HarnessID cfg = hn_ID h \<and> hn_MMUserID h = fm_user_id f \<and>
    fst (run_state (authenticate (F k) (''Bearer '' @ hc_Token cfg)) s3) = Some h \<and>
    b \<in> set (bots (bk_db s3)) \<and> bt_MMUserID b = fm_user_id f \<and> bt_HarnessID b = hn_ID h"
proof -
  let ?args = "\<lparr>cr_UserID = fm_user_id f, cr_ChannelID = fm_channel_id f, cr_TeamID = fm_team_id f, cr_Text = fm_text f\<rparr>"
  let ?poll = "run_state (PollInit (F k) P (is_Code st) (is_PollToken st)) s2"
  note start' = http_init_OK [OF start] and claim' = http_claim_OK [OF claim]
  have poll: "?poll = (fst ?poll, snd ?poll)" by simp
  have F: "e_sha (F k) = e_sha E" "e_upper (F k) = e_upper E" "e_now (F k) < stored_time (is_ExpiresAt st)"
    using hashes(1) time by auto
  have "cr_UserID ?args = fm_user_id f" by simp
  note flow = device_flow [OF start' claim' poll hashes(2,3) F healthy token, unfolded this]
  obtain res and h :: Harness and b where r: "fst ?poll = Inr res" "hn_ID h = ir_HarnessID res" "hn_MMUserID h = fm_user_id f"
      "ir_MMUserID res = fm_user_id f" "fst (run_state (authenticate (F k) (''Bearer '' @ ir_Token res)) (snd ?poll)) = Some h"
      "b \<in> set (bots (bk_db (snd ?poll)))" "bt_MMUserID b = fm_user_id f" "bt_HarnessID b = hn_ID h"
    using flow by blast
  have "s3 = snd ?poll" unfolding s3 by (simp add: http_poll_def TrimPrefix_def case_prod_unfold)
  have pending: "poll_result (pe_reply W i) = None" if "i < k" for i
    using that polls poll_pending [OF start' healthy, of "F i" P] hashes(1) time token
    by (simp add: over_http_def poll_result_def)
  have "poll_result (pe_reply W k) = Some (Inr res)"
    using polls r(1) by (simp add: http_poll_def TrimPrefix_def case_prod_unfold over_http_def poll_result_def)
  moreover have "waits_until W (is_ExpiresAt st) 0 k" using pending time by (simp add: waits_until_def)
  ultimately have wait: "WaitInit W (is_ExpiresAt st) = Some (Inr res, k)"
    unfolding WaitInit_def by (subst wait_from_ends [of W _ 0 k]) (simp_all add: last_round_def)
  define cfg where "cfg = (existing_config home file)\<lparr>hc_BrokerURL := TrimRight url ''/'', hc_HarnessID := ir_HarnessID res,
      hc_Token := ir_Token res, hc_OwnerMMUserID := ir_MMUserID res, hc_Name := name\<rparr>"
  have "find fails [FsMkdir, FsMarshal, FsWrite, FsRename] = None" using disk by simp
  then have save: "ApplyInit fails home url res name file = (Inr (), cfg, Holds (config_text cfg))"
    by (simp add: ApplyInit_def apply_credentials_def SaveConfig_def cfg_def Let_def)
  have "snd (LoadConfig home isDir (Holds (config_text cfg))) = cfg"
    by (simp add: LoadConfig_def config_text_def DefaultConfig_def Let_def)
  moreover have "hc_OwnerMMUserID cfg = fm_user_id f" "hc_HarnessID cfg = hn_ID h" "hc_Token cfg = ir_Token res"
    using r(2,4) by (simp_all add: cfg_def)
  ultimately show ?thesis using wait save r(3,5-8) unfolding \<open>s3 = snd ?poll\<close> by metis
qed

end
