(* ===== verification/Cli.thy ===== *)
theory Cli
  imports Init_Client
begin

text \<open>
  The commands on the user's machine: \<^verbatim>\<open>internal/cli/harness.go\<close> (workspaces and the printed configuration)
  and \<^verbatim>\<open>internal/cli/init.go\<close> (the questions asked after pairing). The file system is given by
  \<open>abs_path\<close> (\<^verbatim>\<open>filepath.Abs\<close>, \<^term>\<open>None\<close> when it fails) and \<open>isDir\<close>; the lines a user types are a list.
\<close>

section \<open>Directories\<close>

datatype cli_err =
    CliPath string
  | CliConfig config_err
  | CliLoad load_err
  | CliSave file_err
  | CliNoWorkspace string
  | CliFlag string

definition absDir :: "(string \<Rightarrow> string option) \<Rightarrow> (string \<Rightarrow> bool) \<Rightarrow> string \<Rightarrow> cli_err + string" where
  "absDir abs_path isDir p =
     (case abs_path p of
        None \<Rightarrow> Inl (CliPath p)
      | Some a \<Rightarrow> if isDir a then Inr a else Inl (CliPath a))"

section \<open>Workspace commands\<close>

text \<open>Loading for a command: an invalid configuration is refused like a missing one.\<close>

definition load_for :: "string \<Rightarrow> (string \<Rightarrow> bool) \<Rightarrow> config_file \<Rightarrow> cli_err + HarnessConfig" where
  "load_for home isDir f =
     (case LoadConfig home isDir f of (Some e, _) \<Rightarrow> Inl (CliLoad e) | (None, cfg) \<Rightarrow> Inr cfg)"

definition save_for :: "(fs_op \<Rightarrow> bool) \<Rightarrow> HarnessConfig \<Rightarrow> config_file \<Rightarrow> (cli_err + unit) \<times> config_file" where
  "save_for fails cfg f = (case SaveConfig fails cfg f of (Inl e, f') \<Rightarrow> (Inl (CliSave e), f') | (Inr _, f') \<Rightarrow> (Inr (), f'))"

definition workspace_add :: "(fs_op \<Rightarrow> bool) \<Rightarrow> string \<Rightarrow> (string \<Rightarrow> string option) \<Rightarrow> (string \<Rightarrow> bool) \<Rightarrow> string \<Rightarrow> string \<Rightarrow> config_file
    \<Rightarrow> (cli_err + unit) \<times> config_file" where
  "workspace_add fails home abs_path isDir name dir f =
     (case load_for home isDir f of
        Inl e \<Rightarrow> (Inl e, f)
      | Inr cfg \<Rightarrow>
          (case absDir abs_path isDir dir of
             Inl e \<Rightarrow> (Inl e, f)
           | Inr a \<Rightarrow>
               let cfg = cfg\<lparr>hc_Workspaces := AList.update name a (hc_Workspaces cfg)\<rparr> in
               (case Validate isDir cfg of
                  Some e \<Rightarrow> (Inl (CliConfig e), f)
                | None \<Rightarrow> save_for fails cfg f)))"

definition workspace_rm :: "(fs_op \<Rightarrow> bool) \<Rightarrow> string \<Rightarrow> (string \<Rightarrow> bool) \<Rightarrow> string \<Rightarrow> config_file
    \<Rightarrow> (cli_err + unit) \<times> config_file" where
  "workspace_rm fails home isDir name f =
     (case load_for home isDir f of
        Inl e \<Rightarrow> (Inl e, f)
      | Inr cfg \<Rightarrow>
          if map_of (hc_Workspaces cfg) name = None then (Inl (CliNoWorkspace name), f)
          else save_for fails (cfg\<lparr>hc_Workspaces := AList.delete name (hc_Workspaces cfg)\<rparr>) f)"

definition workspace_list :: "string \<Rightarrow> (string \<Rightarrow> bool) \<Rightarrow> config_file \<Rightarrow> cli_err + (string \<times> string option) list" where
  "workspace_list home isDir f =
     map_sum id (\<lambda>cfg. map (\<lambda>n. (n, map_of (hc_Workspaces cfg) n)) (sort (WorkspaceNames cfg))) (load_for home isDir f)"

text \<open>What \<^verbatim>\<open>harness config\<close> prints of the members of the file.\<close>

definition config_members :: "bool \<Rightarrow> json gomap \<Rightarrow> json gomap" where
  "config_members showSecrets m = (if showSecrets then m else RedactConfig m)"

section \<open>Questions\<close>

text \<open>\<^verbatim>\<open>strings.Cut\<close> at an equals sign.\<close>

definition cut_eq :: "string \<Rightarrow> (string \<times> string) option" where
  "cut_eq s = (case dropWhile (\<lambda>c. c \<noteq> CHR ''='') s of [] \<Rightarrow> None | _ # rest \<Rightarrow> Some (takeWhile (\<lambda>c. c \<noteq> CHR ''='') s, rest))"

text \<open>\<open>ask\<close>: the answer and the lines that are left; at the end of the input the default.\<close>

definition ask :: "string list \<Rightarrow> string \<Rightarrow> string \<times> string list" where
  "ask input def =
     (case input of
        [] \<Rightarrow> (def, [])
      | line # rest \<Rightarrow> (let line = TrimSpace line in if line = [] then def else line, rest))"

definition detectAgents :: "(string \<Rightarrow> bool) \<Rightarrow> HarnessConfig \<Rightarrow> string list" where
  "detectAgents onPath cfg =
     (if onPath (hc_ClaudeBin cfg) then [''claude''] else []) @ (if onPath (hc_CodexBin cfg) then [''codex''] else [])"

text \<open>The default agent: the flag, the answer to the question, or the only one there is.\<close>

definition choose_agent :: "(string \<Rightarrow> bool) \<Rightarrow> string \<Rightarrow> bool \<Rightarrow> string list \<Rightarrow> HarnessConfig \<Rightarrow> HarnessConfig \<times> string list" where
  "choose_agent onPath flag yes input cfg =
     (let available = detectAgents onPath cfg;
          (name, input') =
            (if flag = [] \<and> \<not> yes \<and> 1 < length available then ask input (hc_Agent cfg)
             else if flag = [] \<and> length available = 1 then (hd available, input)
             else (flag, input))
      in (if name \<noteq> [] then cfg\<lparr>hc_Agent := name\<rparr> else cfg, input'))"

fun flag_workspaces :: "(string \<Rightarrow> string option) \<Rightarrow> (string \<Rightarrow> bool) \<Rightarrow> string list \<Rightarrow> HarnessConfig \<Rightarrow> cli_err + HarnessConfig" where
  "flag_workspaces abs_path isDir [] cfg = Inr cfg"
| "flag_workspaces abs_path isDir (ws # rest) cfg =
     (case cut_eq ws of
        None \<Rightarrow> Inl (CliFlag ws)
      | Some (n, dir) \<Rightarrow>
          (case absDir abs_path isDir dir of
             Inl e \<Rightarrow> Inl e
           | Inr a \<Rightarrow> flag_workspaces abs_path isDir rest (cfg\<lparr>hc_Workspaces := AList.update n a (hc_Workspaces cfg)\<rparr>)))"

text \<open>The loop that asks for workspaces: an empty line or the end of the input ends it, errors are printed.\<close>

fun ask_workspaces :: "(string \<Rightarrow> string option) \<Rightarrow> (string \<Rightarrow> bool) \<Rightarrow> string list \<Rightarrow> HarnessConfig \<Rightarrow> HarnessConfig" where
  "ask_workspaces abs_path isDir [] cfg = cfg"
| "ask_workspaces abs_path isDir (line # rest) cfg =
     (let entry = TrimSpace line in
      if entry = [] then cfg
      else case cut_eq entry of
          None \<Rightarrow> ask_workspaces abs_path isDir rest cfg
        | Some (n, dir) \<Rightarrow>
            (case absDir abs_path isDir (TrimSpace dir) of
               Inl _ \<Rightarrow> ask_workspaces abs_path isDir rest cfg
             | Inr a \<Rightarrow> ask_workspaces abs_path isDir rest (cfg\<lparr>hc_Workspaces := AList.update (TrimSpace n) a (hc_Workspaces cfg)\<rparr>)))"

text \<open>\<^verbatim>\<open>mhb harness init\<close> from the saved credentials on.\<close>

definition finish_init :: "(fs_op \<Rightarrow> bool) \<Rightarrow> (string \<Rightarrow> string option) \<Rightarrow> (string \<Rightarrow> bool) \<Rightarrow> (string \<Rightarrow> bool) \<Rightarrow> string \<Rightarrow> string
    \<Rightarrow> string list \<Rightarrow> bool \<Rightarrow> string list \<Rightarrow> HarnessConfig \<Rightarrow> config_file \<Rightarrow> (cli_err + HarnessConfig) \<times> config_file" where
  "finish_init fails abs_path isDir onPath agentFlag defaultWorkspace workspaces yes input cfg f =
     (let (cfg, input) = choose_agent onPath agentFlag yes input cfg in
      case (if defaultWorkspace = [] then Some (hc_DefaultWorkspace cfg) else abs_path defaultWorkspace) of
        None \<Rightarrow> (Inl (CliPath defaultWorkspace), f)
      | Some dw \<Rightarrow>
          (case flag_workspaces abs_path isDir workspaces (cfg\<lparr>hc_DefaultWorkspace := dw\<rparr>) of
             Inl e \<Rightarrow> (Inl e, f)
           | Inr cfg \<Rightarrow>
               let cfg = if yes then cfg else ask_workspaces abs_path isDir input cfg in
               (case Validate isDir cfg of
                  Some e \<Rightarrow> (Inl (CliConfig e), f)
                | None \<Rightarrow> map_prod (map_sum id (\<lambda>_. cfg)) id (save_for fails cfg f))))"

section \<open>Properties\<close>

lemma save_for_load:
  assumes "save_for fails cfg f = (Inr (), f')" "Validate isDir cfg = None"
  shows "load_for home isDir f' = Inr cfg"
proof -
  have "f' = Holds (config_text cfg)" using assms(1) by (auto simp: save_for_def SaveConfig_def split: prod.splits option.splits)
  moreover have "config_text cfg (DefaultConfig home) = cfg" by (simp add: config_text_def DefaultConfig_def)
  ultimately show ?thesis using assms(2) by (simp add: load_for_def LoadConfig_def Let_def)
qed

lemma save_for_fails: "save_for fails cfg f = (Inl e, f') \<Longrightarrow> f' = f"
  by (auto simp: save_for_def SaveConfig_def split: prod.splits option.splits)

text \<open>
  A workspace command that fails leaves the file as it was; one that succeeds leaves a configuration that
  the daemon accepts, with exactly this workspace added.
\<close>

lemma workspace_add_ok:
  assumes "workspace_add fails home abs_path isDir name dir f = (r, f')"
  shows "(\<exists>e. r = Inl e) \<and> f' = f \<or>
    (\<exists>cfg a. load_for home isDir f = Inr cfg \<and> abs_path dir = Some a \<and> isDir a \<and>
       load_for home isDir f' = Inr (cfg\<lparr>hc_Workspaces := AList.update name a (hc_Workspaces cfg)\<rparr>))"
proof (cases "\<exists>e. r = Inl e")
  case True
  then show ?thesis using assms by (auto simp: workspace_add_def Let_def split: sum.splits option.splits dest: save_for_fails)
next
  case False
  then have r: "r = Inr ()" by (cases r) auto
  obtain cfg where cfg: "load_for home isDir f = Inr cfg" using assms r by (cases "load_for home isDir f") (simp_all add: workspace_add_def)
  obtain a where a: "absDir abs_path isDir dir = Inr a"
    using assms r cfg by (cases "absDir abs_path isDir dir") (simp_all add: workspace_add_def)
  let ?cfg = "cfg\<lparr>hc_Workspaces := AList.update name a (hc_Workspaces cfg)\<rparr>"
  have "Validate isDir ?cfg = None" using assms r cfg a by (cases "Validate isDir ?cfg") (simp_all add: workspace_add_def Let_def)
  moreover from this have "save_for fails ?cfg f = (Inr (), f')" using assms r cfg a by (simp add: workspace_add_def Let_def)
  ultimately have "load_for home isDir f' = Inr ?cfg" by (intro save_for_load)
  then show ?thesis using cfg a by (auto simp: absDir_def split: option.splits if_splits)
qed

lemma check_workspaces_iff:
  "check_workspaces isDir ws = None \<longleftrightarrow> (\<forall>(n, d) \<in> set ws. path_is_abs d \<and> isDir d)"
  by (induction ws) (auto split: if_splits)

lemma Validate_workspaces:
  "Validate isDir cfg = None \<Longrightarrow> check_workspaces isDir ws = None \<Longrightarrow> Validate isDir (cfg\<lparr>hc_Workspaces := ws\<rparr>) = None"
  by (auto simp: Validate_def split: if_splits option.splits)

lemma workspace_rm_ok:
  assumes "workspace_rm fails home isDir name f = (Inr (), f')"
  shows "\<exists>cfg. load_for home isDir f = Inr cfg \<and> name \<in> set (WorkspaceNames cfg) \<and>
    load_for home isDir f' = Inr (cfg\<lparr>hc_Workspaces := AList.delete name (hc_Workspaces cfg)\<rparr>)"
proof -
  obtain cfg where cfg: "load_for home isDir f = Inr cfg" "map_of (hc_Workspaces cfg) name \<noteq> None"
      "save_for fails (cfg\<lparr>hc_Workspaces := AList.delete name (hc_Workspaces cfg)\<rparr>) f = (Inr (), f')"
    using assms by (auto simp: workspace_rm_def split: sum.splits if_splits)
  have valid: "Validate isDir cfg = None"
    using cfg(1) by (auto simp: load_for_def LoadConfig_def Let_def split: prod.splits disk_file.splits option.splits)
  then have "check_workspaces isDir (hc_Workspaces cfg) = None" by (auto simp: Validate_def split: if_splits option.splits)
  then have "check_workspaces isDir (AList.delete name (hc_Workspaces cfg)) = None"
    unfolding check_workspaces_iff by (auto simp: AList.delete_eq)
  from save_for_load [OF cfg(3) Validate_workspaces [OF valid this]] cfg(1,2) show ?thesis
    by (auto simp: WorkspaceNames_def map_of_eq_None_iff)
qed

text \<open>Adding a workspace under a new name and removing it again is nothing.\<close>

lemma workspace_add_rm:
  assumes "workspace_add fails home abs_path isDir name dir f = (Inr (), f')" "workspace_rm fails' home isDir name f' = (Inr (), f'')"
    and "load_for home isDir f = Inr cfg" "name \<notin> set (WorkspaceNames cfg)"
  shows "load_for home isDir f'' = Inr cfg"
proof -
  obtain a where added: "load_for home isDir f' = Inr (cfg\<lparr>hc_Workspaces := AList.update name a (hc_Workspaces cfg)\<rparr>)"
    using workspace_add_ok [OF assms(1)] assms(3) by auto
  have "AList.delete name (AList.update name a ws) = ws" if "name \<notin> fst ` set ws" for ws
    using that by (induction ws) (auto simp: AList.delete_eq)
  then show ?thesis using workspace_rm_ok [OF assms(2)] added assms(4) by (auto simp: WorkspaceNames_def)
qed

text \<open>What \<^verbatim>\<open>init\<close> saves is accepted by \<^verbatim>\<open>run\<close>, and keeps the credentials of the pairing.\<close>

lemma flag_workspaces_rest: "flag_workspaces abs_path isDir ws cfg = Inr cfg' \<Longrightarrow> \<exists>m. cfg' = cfg\<lparr>hc_Workspaces := m\<rparr>"
proof (induction ws arbitrary: cfg)
  case Nil
  then show ?case by (intro exI [of _ "hc_Workspaces cfg"]) simp
qed (fastforce split: option.splits sum.splits prod.splits)

lemma ask_workspaces_rest: "\<exists>m. ask_workspaces abs_path isDir input cfg = cfg\<lparr>hc_Workspaces := m\<rparr>"
proof (induction input arbitrary: cfg)
  case Nil
  then show ?case by (intro exI [of _ "hc_Workspaces cfg"]) simp
next
  case (Cons line rest)
  have same: "\<exists>m. cfg = cfg\<lparr>hc_Workspaces := m\<rparr>" by (intro exI [of _ "hc_Workspaces cfg"]) simp
  then show ?case using Cons.IH [of cfg] Cons.IH [of "cfg\<lparr>hc_Workspaces := _\<rparr>"]
    by (auto simp: Let_def split: option.split sum.split)
qed

lemma finish_init_ok:
  assumes "finish_init fails abs_path isDir onPath agentFlag dw workspaces yes input cfg f = (Inr cfg', f')"
  shows "load_for home isDir f' = Inr cfg' \<and> hc_Token cfg' = hc_Token cfg \<and> hc_HarnessID cfg' = hc_HarnessID cfg \<and>
    hc_OwnerMMUserID cfg' = hc_OwnerMMUserID cfg \<and> hc_BrokerURL cfg' = hc_BrokerURL cfg"
proof -
  obtain c1 input' where agent: "choose_agent onPath agentFlag yes input cfg = (c1, input')" by force
  then have c1: "\<exists>a. c1 = cfg\<lparr>hc_Agent := a\<rparr>"
    by (auto simp: choose_agent_def Let_def split: if_splits prod.splits intro: exI [of _ "hc_Agent cfg"])
  define w where "w = (if dw = [] then Some (hc_DefaultWorkspace c1) else abs_path dw)"
  note run = assms [unfolded finish_init_def agent Let_def prod.case, folded w_def]
  obtain d where d: "w = Some d" using run by (cases w) simp_all
  obtain c2 where c2: "flag_workspaces abs_path isDir workspaces (c1\<lparr>hc_DefaultWorkspace := d\<rparr>) = Inr c2"
    using run d by (auto split: sum.splits)
  define c3 where "c3 = (if yes then c2 else ask_workspaces abs_path isDir input' c2)"
  have "Validate isDir c3 = None" "map_prod (map_sum id (\<lambda>_. c3)) id (save_for fails c3 f) = (Inr cfg', f')"
    using run d c2 by (auto simp: c3_def [symmetric] split: option.splits)
  then have last: "Validate isDir cfg' = None" "save_for fails cfg' f = (Inr (), f')" "cfg' = c3"
    by (cases "save_for fails c3 f"; cases "fst (save_for fails c3 f)"; auto)+
  note last = last [unfolded c3_def]
  have "\<exists>m. cfg' = c2\<lparr>hc_Workspaces := m\<rparr>"
    using last(3) ask_workspaces_rest [of abs_path isDir input' c2] by (cases yes) (auto intro: exI [of _ "hc_Workspaces c2"])
  then show ?thesis using save_for_load [OF last(2,1)] flag_workspaces_rest [OF c2] c1 by auto
qed

end
