(* ===== verification/Client_Witnesses.thy ===== *)
theory Client_Witnesses
  imports Service_Witnesses Mm_Client Cli
begin

text \<open>
  Event listeners, commands, the setup of a machine and a job cancelled too early at work.
\<close>

section \<open>Listening\<close>

definition w_listening :: "nat listener" where
  "w_listening = worker_take (deliver 2 (deliver 1 new_listener))"

theorem events_in_order_witness:
  "\<exists>l'. listen_step\<^sup>*\<^sup>* w_listening l' \<and> ls_handled l' = [1, 2]"
proof -
  have s1: "listen_step new_listener (deliver (1 :: nat) new_listener)" by (rule Read) (simp_all add: new_listener_def)
  have s2: "listen_step (deliver 1 new_listener) (deliver (2 :: nat) (deliver 1 new_listener))"
    by (rule Read) (simp_all add: new_listener_def deliver_def EventQueueSize_def)
  have s3: "listen_step (deliver 2 (deliver 1 new_listener)) w_listening" unfolding w_listening_def by (rule Take)
  have run: "listen_step\<^sup>*\<^sup>* new_listener w_listening"
    by (rule rtranclp.rtrancl_into_rtrancl [OF rtranclp.rtrancl_into_rtrancl [OF r_into_rtranclp [of listen_step, OF s1] s2] s3])
  moreover have "in_flight w_listening = [1, 2]" by code_simp
  ultimately show ?thesis using events_in_order [OF run] by metis
qed

section \<open>Commands and machines\<close>

definition w_teamed :: broker where
  "w_teamed = empty_broker\<lparr>bk_db := empty_db\<lparr>installations :=
     [\<lparr>il_TeamID = ''T'', il_UserID = ''adm'', il_Credentials = [], il_CommandID = ''cmd'', il_CommandToken = ''ct''\<rparr>]\<rparr>\<rparr>"

definition wm_started :: "InitStart http_answer \<times> broker" where
  "wm_started = run_state (http_init w_admin (Some ([], ''laptop''))) w_teamed"

definition wm_start :: InitStart where
  "wm_start = (case fst wm_started of HttpOK st \<Rightarrow> st | _ \<Rightarrow> \<lparr>is_Code = [], is_PollToken = [], is_ExpiresAt = 0, is_Command = []\<rparr>)"

definition wm_form :: command_form where
  "wm_form = \<lparr>fm_token = ''ct'', fm_user_id = ''u1'', fm_channel_id = ''c1'', fm_team_id = ''T'', fm_text = ''init '' @ is_Code wm_start\<rparr>"

definition wm_claimed :: "string http_answer \<times> broker" where
  "wm_claimed = run_state (http_command w_admin w_install (Some wm_form)) (snd wm_started)"

definition wm_text :: string where
  "wm_text = (case fst wm_claimed of HttpOK t \<Rightarrow> t | _ \<Rightarrow> ''Command failed: '')"

lemma wm_start_run: "run_state (http_init w_admin (Some ([], ''laptop''))) w_teamed = (HttpOK wm_start, snd wm_started)"
proof -
  have "case fst wm_started of HttpOK _ \<Rightarrow> True | _ \<Rightarrow> False" by code_simp
  then show ?thesis by (auto simp: wm_start_def wm_started_def prod_eq_iff split: http_answer.splits)
qed

lemma wm_text_plain: "\<not> HasPrefix wm_text ''Command failed: ''"
  by code_simp

lemma wm_claim_run: "run_state (http_command w_admin w_install (Some wm_form)) (snd wm_started) = (HttpOK wm_text, snd wm_claimed)"
proof -
  have "fst wm_claimed = HttpOK wm_text"
    using wm_text_plain by (auto simp: wm_text_def split: http_answer.splits)
  then show ?thesis by (simp add: wm_claimed_def prod_eq_iff)
qed

lemma wm_new_accounts: "new_accounts w_install (bk_db (snd wm_started))"
proof -
  have "bots (bk_db (snd wm_started)) = []" by code_simp
  then show ?thesis by (simp add: new_accounts_def)
qed


definition wm_polls :: poll_env where
  "wm_polls = \<lparr>pe_reply = (\<lambda>i. over_http (fst (run_state (http_poll w_admin w_install (is_Code wm_start) (''Bearer '' @ is_PollToken wm_start))
       (if i < 1 then snd wm_started else snd wm_claimed)))),
     pe_now = (\<lambda>i. int i * (2 * second)), pe_ended = (\<lambda>_. None)\<rparr>"

theorem wait_init_ends_witness:
  "\<exists>n. WaitInit wm_polls 0 = Some (last_round wm_polls 0 n, n) \<and> int n * (2 * second) \<le> max 0 (0 - 0 + 2 * second)"
proof -
  have clock: "\<forall>i. pe_now wm_polls i + 2 * second \<le> pe_now wm_polls (Suc i)" by (simp add: wm_polls_def algebra_simps)
  have "pe_now wm_polls 0 = 0" by (simp add: wm_polls_def)
  with wait_init_ends [OF clock, of 0] show ?thesis by auto
qed

theorem machine_onboarded_witness:
  "\<exists>res cfg file'. WaitInit wm_polls (is_ExpiresAt wm_start) = Some (Inr res, 1) \<and>
     ApplyInit (\<lambda>_. False) ''/home'' ''http://x/'' res ''laptop'' Missing = (Inr (), cfg, file') \<and> hc_OwnerMMUserID cfg = ''u1''"
proof -
  have claim: "Fields (fm_text wm_form) = [''init'', is_Code wm_start]" "ToLower (e_lower w_admin) ''init'' = ''init''" by code_simp+
  have now: "e_now w_admin < stored_time (is_ExpiresAt wm_start)" "2 * second \<le> is_ExpiresAt wm_start" by code_simp+
  then have time: "\<forall>i \<le> 1. e_now w_admin < stored_time (is_ExpiresAt wm_start) \<and> pe_now wm_polls i \<le> is_ExpiresAt wm_start \<and> pe_ended wm_polls i = None"
    by (auto simp: wm_polls_def le_Suc_eq second_def millisecond_def)
  have polls: "\<forall>i \<le> 1. pe_reply wm_polls i = over_http (fst (run_state (http_poll w_admin w_install (is_Code wm_start)
      (''Bearer '' @ is_PollToken wm_start)) (if i < 1 then snd wm_started else snd wm_claimed)))" by (simp add: wm_polls_def)
  have token: "is_PollToken wm_start \<noteq> []" "tokenHash (e_sha w_admin) (is_PollToken wm_start) \<noteq> []" by code_simp+
  have fault: "sqlFault (bk_db w_teamed) = (\<lambda>_. False)" by (simp add: w_teamed_def empty_db_def)
  have "\<forall>i :: nat. e_sha w_admin = e_sha w_admin \<and> e_upper w_admin = e_upper w_admin" by simp
  note machine_onboarded [OF wm_start_run wm_claim_run claim wm_text_plain polls time this refl refl fault token _ refl,
      of "\<lambda>_. False" "''/home''" "''http://x/''" Missing "\<lambda>_. True"]
  moreover have "fm_user_id wm_form = ''u1''" by (simp add: wm_form_def)
  ultimately show ?thesis by (simp del: One_nat_def append_Cons) metis
qed

section \<open>A cancelled job\<close>

definition w_waiting_dispatch :: OutboxMessage where
  "w_waiting_dispatch = \<lparr>ob_ID = ''m2'', ob_HarnessID = ''h1'', ob_JobID = ''j1'', ob_Type = TypeJobDispatch,
     ob_Payload = PDispatch w_dispatch, ob_CreatedAt = 0, ob_AckedAt = None\<rparr>"

definition w_queued :: broker where
  "w_queued = empty_broker\<lparr>bk_db := (w_db JobQueued)\<lparr>outbox := [w_waiting_dispatch]\<rparr>\<rparr>"

definition w_cancelled :: broker where
  "w_cancelled = snd (run_state (cancelJob (w_env 0) (w_job JobQueued) ''user'') w_queued)"

theorem cancelled_job_runs_witness:
  "\<exists>s2 env. run_state (serve_hello (w_env 0) (core_handler (w_env 0)) w_harness 0 (Some w_hello)) w_cancelled = (True, s2) \<and>
     (\<exists>k. job_map (bk_db w_cancelled) ''j1'' = Some k \<and> jb_State k = JobCancelled) \<and>
     (0, env) \<in> set (bk_frames s2) \<and> map_of (dm_jobs (snd (run_state (client_handle w_henv env) w_daemon))) ''j1'' = Some 0"
proof -
  let ?run = "run_state (serve_hello (w_env 0) (core_handler (w_env 0)) w_harness 0 (Some w_hello)) w_cancelled"
  have "fst ?run" by code_simp
  then have run: "?run = (True, snd ?run)" by (simp add: prod_eq_iff)
  have cancel: "run_state (cancelJob (w_env 0) (w_job JobQueued) ''user'') w_queued =
      (fst (run_state (cancelJob (w_env 0) (w_job JobQueued) ''user'') w_queued), w_cancelled)" by (simp add: w_cancelled_def)
  have "db_ok (w_db JobQueued)" by (rule w_db_ok)
  then have ok: "db_ok (bk_db w_queued)" by (simp add: w_queued_def db_ok_def keys_unique_def refs_ok_def)
  have facts: "healthy w_queued" "job_map (bk_db w_queued) ''j1'' = Some (w_job JobQueued)" "jb_State (w_job JobQueued) = JobQueued"
      "w_waiting_dispatch \<in> unacked (bk_db w_queued)" "ob_HarnessID w_waiting_dispatch = hn_ID w_harness" "ob_JobID w_waiting_dispatch = ''j1''"
      "ob_Type w_waiting_dispatch = TypeJobDispatch" "ob_Payload w_waiting_dispatch = PDispatch w_dispatch"
    by (simp_all add: w_queued_def healthy_def job_map_def w_tables w_rows unacked_def w_waiting_dispatch_def)
  from cancelled_job_runs [OF ok facts cancel run w_dispatch_run(1) w_started_new]
  obtain k env where "job_map (bk_db w_cancelled) ''j1'' = Some k" "jb_State k = JobCancelled" "(0, env) \<in> set (bk_frames (snd ?run))"
      "map_of (dm_jobs (snd (run_state (client_handle w_henv env) w_daemon))) ''j1'' = Some (dm_nextJob w_daemon)" by blast
  moreover have "dm_nextJob w_daemon = 0" by (simp add: w_daemon_def)
  ultimately show ?thesis using run by auto
qed

end
