(* ===== verification/Startup.thy ===== *)
theory Startup
  imports Daemon_Props
begin

text \<open>
  The start of the harness: \<^verbatim>\<open>New\<close> and \<^verbatim>\<open>buildAgents\<close> of \<^verbatim>\<open>internal/harness/harness.go\<close> with the
  constructors and checks of the agents, and what a restart finds again. The search of the path,
  the creation of directories and the two files are the environment.
\<close>

section \<open>Agents\<close>

definition claude_bin :: "string \<Rightarrow> string" where
  "claude_bin bin = (if bin = [] then ''claude'' else bin)"

definition codex_bin :: "string \<Rightarrow> string" where
  "codex_bin bin = (if bin = [] then ''codex'' else bin)"

text \<open>A candidate: its name, whether it asks for approvals, and the error of its check. \<open>lookPath\<close> is
  the error of \<^verbatim>\<open>exec.LookPath\<close>.\<close>

type_synonym candidate = "string \<times> bool \<times> string option"

definition claude_Check :: "(string \<Rightarrow> string option) \<Rightarrow> string \<Rightarrow> string option" where
  "claude_Check lookPath bin = map_option (\<lambda>e. ''claude: binary not found: '' @ e) (lookPath bin)"

definition codex_Check :: "(string \<Rightarrow> string option) \<Rightarrow> string \<Rightarrow> string option" where
  "codex_Check lookPath bin = map_option (\<lambda>e. ''codex: binary not found: '' @ e) (lookPath bin)"

definition candidates :: "(string \<Rightarrow> string option) \<Rightarrow> HarnessConfig \<Rightarrow> candidate list" where
  "candidates lookPath cfg =
     [(AgentClaude, True, claude_Check lookPath (claude_bin (hc_ClaudeBin cfg))),
      (AgentCodex, False, codex_Check lookPath (codex_bin (hc_CodexBin cfg)))]"

fun register_agents :: "string \<Rightarrow> candidate list \<Rightarrow> Registry \<Rightarrow> string + Registry" where
  "register_agents dflt [] agents = Inr agents"
| "register_agents dflt ((name, approvals, err) # rest) agents =
     (case err of
        Some e \<Rightarrow>
          if name = dflt then Inl (''default agent '' @ name @ '': '' @ e)
          else register_agents dflt rest agents
      | None \<Rightarrow> register_agents dflt rest (AList.update name approvals agents))"

definition buildAgents :: "(string \<Rightarrow> string option) \<Rightarrow> HarnessConfig \<Rightarrow> string + Registry" where
  "buildAgents lookPath cfg = register_agents (hc_Agent cfg) (candidates lookPath cfg) []"

section \<open>New\<close>

record start_env =
  st_lookPath :: "string \<Rightarrow> string option"
  st_executable :: "string + string"
  st_mkdir :: "string \<Rightarrow> string option"
  st_stateDir :: string
  st_tempDir :: string
  st_pid :: string
  st_sessions :: "Entry gomap disk_file"
  st_outbox :: "Envelope gomap disk_file"

datatype start_err = StartErr string | StartFile file_err

record started =
  sd_agents :: Registry
  sd_bin :: string
  sd_URL :: string
  sd_Token :: string
  sd_permPath :: string
  sd_daemon :: daemon

text \<open>No job and no channel exists yet; what the store holds at other addresses does not matter.\<close>

definition no_job :: job where
  "no_job = \<lparr>jo_id = [], jo_rootPostID = [], jo_botUserID = [], jo_workspace = [], jo_dir = [], jo_agent = [],
     jo_deadline = None, jo_cancelled = False, jo_seq = 0, jo_phase = [], jo_approvals = []\<rparr>"

definition new_daemon :: "sessions \<Rightarrow> outbox \<Rightarrow> daemon" where
  "new_daemon se ob = \<lparr>dm_sessions = se, dm_outbox = ob, dm_connected = False, dm_broken = False, dm_frames = [],
     dm_pong = False, dm_jobs = [], dm_objs = (\<lambda>_. no_job), dm_nextJob = 0,
     dm_chans = (\<lambda>_. \<lparr>ch_approval = [], ch_buf = None, ch_closed = False\<rparr>), dm_nextChan = 0,
     dm_written = [], dm_drawn = 0, dm_panicked = False\<rparr>"

definition harness_New :: "start_env \<Rightarrow> HarnessConfig \<Rightarrow> start_err + started" where
  "harness_New S cfg =
     (case buildAgents (st_lookPath S) cfg of
        Inl e \<Rightarrow> Inl (StartErr e)
      | Inr agents \<Rightarrow> (case st_executable S of
            Inl e \<Rightarrow> Inl (StartErr e)
          | Inr bin \<Rightarrow> (case st_mkdir S (path_join [st_stateDir S, ''jobs'']) of
                Some e \<Rightarrow> Inl (StartErr e)
              | None \<Rightarrow> (case st_mkdir S (hc_DefaultWorkspace cfg) of
                    Some e \<Rightarrow> Inl (StartErr (''default workspace: '' @ e))
                  | None \<Rightarrow> (case sessions_Open (st_sessions S) of
                        Inl e \<Rightarrow> Inl (StartFile e)
                      | Inr se \<Rightarrow> (case OpenOutbox (st_outbox S) of
                            Inl e \<Rightarrow> Inl (StartFile e)
                          | Inr ob \<Rightarrow> Inr \<lparr>sd_agents = agents, sd_bin = bin, sd_URL = WSURL cfg, sd_Token = hc_Token cfg,
                              sd_permPath = socketPath (st_stateDir S) (st_tempDir S) (st_pid S),
                              sd_daemon = new_daemon se ob\<rparr>))))))"

section \<open>What a start finds\<close>

lemma buildAgents_default:
  assumes "buildAgents lookPath cfg = Inr agents" "Validate isDir cfg = None"
  shows "Registry_Get agents (hc_Agent cfg) \<noteq> None"
proof -
  have "hc_Agent cfg = ''claude'' \<or> hc_Agent cfg = ''codex''"
    using assms(2) by (simp add: Validate_def split: if_splits option.splits)
  with assms(1) show ?thesis
    by (fastforce simp: buildAgents_def candidates_def Registry_Get_def claude_Check_def codex_Check_def
        split: option.splits)
qed

lemma harness_New_fresh:
  assumes "harness_New S cfg = Inr h"
  obtains se ob where "sessions_Open (st_sessions S) = Inr se" "OpenOutbox (st_outbox S) = Inr ob"
    "sd_daemon h = new_daemon se ob" "fresh_daemon se ob (sd_daemon h)"
    "buildAgents (st_lookPath S) cfg = Inr (sd_agents h)"
  using assms
  by (auto simp: harness_New_def new_daemon_def fresh_daemon_def no_job_def split: sum.splits option.splits)

text \<open>What the outbox file keeps: the messages in memory, as long as it can be written.\<close>

definition outbox_saved :: "outbox \<Rightarrow> bool" where
  "outbox_saved ob \<longleftrightarrow> outbox_ok ob \<and> jf_disk ob = Holds (jf_m ob)"

lemma outbox_Add_saved: "\<not> (\<exists>x. fails x) \<Longrightarrow> outbox_ok ob \<Longrightarrow> outbox_saved (snd (outbox_Add fails env ob))"
  using outbox_ok_Add [of ob fails env] by (auto simp: outbox_saved_def outbox_Add_def flush_json_def find_None_iff split: option.split)

lemma outbox_Ack_saved: "\<not> (\<exists>x. fails x) \<Longrightarrow> outbox_saved ob \<Longrightarrow> outbox_saved (snd (outbox_Ack fails i ob))"
  using outbox_ok_Ack [of ob fails i] by (auto simp: outbox_saved_def outbox_Ack_def flush_json_def find_None_iff split: option.split)

lemma outbox_ops_saved:
  assumes "\<not> (\<exists>x. fails x)" "outbox_saved ob"
  shows "outbox_saved (fold (op_run (\<lambda>env ob. snd (outbox_Add fails env ob)) (\<lambda>k ob. snd (outbox_Ack fails k ob))) es ob)"
  using assms(2)
proof (induction es arbitrary: ob)
  case (Cons e es)
  then show ?case using assms(1) by (cases e) (auto simp: outbox_Add_saved outbox_Ack_saved outbox_saved_def [of ob])
qed simp

lemma OpenOutbox_saved: "outbox_saved ob \<Longrightarrow> OpenOutbox (jf_disk ob) = Inr ob"
  by (cases ob) (simp add: outbox_saved_def OpenOutbox_def open_json_def)

text \<open>
  C19. A result survives the death of the harness: when a run has ended and its result is written, the
  program may stop at any later moment before the acknowledgement; started again on the files it left
  behind, it starts in the invariant with its default agent available, and its first connection sends
  the result to the broker.
\<close>

theorem result_survives_restart:
  assumes "daemon_ok cfg s" "(i, p) \<in> set (dm_jobs s)" "\<not> (\<exists>x. h_fails E x)"
    and "m = New (h_ulid E (dm_drawn s)) (h_now E) TypeJobResult i
               (PResult (job_result (case outcome of Inl err \<Rightarrow> failed_run err | Inr r \<Rightarrow> r) t))"
    and "\<forall>e \<in> set es. op_key en_ID e \<noteq> en_ID m"
    and "ob = fold (op_run (\<lambda>env ob. snd (outbox_Add (h_fails E) env ob)) (\<lambda>k ob. snd (outbox_Ack (h_fails E) k ob))) es
               (dm_outbox (snd (run_state (run_end E p outcome t) s)))"
    and "harness_New S cfg = Inr h" "st_outbox S = jf_disk ob" "Validate isDir cfg = None"
    and "run_state (session_open E' first) (sd_daemon h) = (True, s')"
  shows "m \<in> set (dm_frames s') \<and> daemon_ok cfg (sd_daemon h) \<and> Registry_Get (sd_agents h) (hc_Agent cfg) \<noteq> None"
proof -
  let ?ob = "dm_outbox (snd (run_state (run_end E p outcome t) s))"
  have ended: "?ob = snd (outbox_Add (h_fails E) m (dm_outbox s))"
    using assms(4) run_end_outbox [OF assms(1,2)] by simp
  then have "outbox_saved ?ob" using assms(1,3) by (simp add: outbox_Add_saved daemon_ok_def)
  then have saved: "outbox_saved ob" using outbox_ops_saved [OF assms(3)] assms(6) by simp
  have "m \<in> held ?ob" using cob.add_adds [OF TrueI] ended by fastforce
  then have held: "m \<in> held ob" unfolding assms(6) using assms(5) by (intro cob.survives) auto
  obtain se ob' where new: "OpenOutbox (st_outbox S) = Inr ob'" "fresh_daemon se ob' (sd_daemon h)"
    "buildAgents (st_lookPath S) cfg = Inr (sd_agents h)"
    by (rule harness_New_fresh [OF assms(7)])
  with OpenOutbox_saved [OF saved] assms(8) have same: "dm_outbox (sd_daemon h) = ob" "ob' = ob"
    by (simp_all add: fresh_daemon_def)
  have ok: "outbox_ok ob" using saved by (simp add: outbox_saved_def)
  with reconnect_resends [OF assms(10)] same held have "m \<in> set (dm_frames s')" by auto
  with fresh_daemon_ok [OF new(2)] same ok buildAgents_default [OF new(3) assms(9)] show ?thesis by blast
qed

end
