(* ===== verification/Sqlite_Open.thy ===== *)
theory Sqlite_Open
  imports Sqlite
begin

text \<open>
  Opening the database: \<^verbatim>\<open>Open\<close> and \<^verbatim>\<open>migrate\<close> of \<^verbatim>\<open>internal/store/sqlite/store.go\<close>. The schema (tables,
  indexes and constraints) is a type of its own, and what the script of a migration does to it is a
  parameter: the SQL scripts are data of the program. Every statement may fail, in every opening anew.
\<close>

section \<open>The database file\<close>

text \<open>The rows of \<^verbatim>\<open>schema_migrations\<close>, \<open>None\<close> before the table exists, and the schema of the rest.\<close>

record 'd database_file =
  df_migrations :: "(string \<times> int) list option"
  df_schema :: 'd

datatype mig_op = MigCreateTable | MigReadDir | MigCount string | MigReadFile string | MigBegin string
  | MigInsert string | MigCommit string

text \<open>
  One opening: the error of a call, the embedded directory, the effect of a script (an error leaves
  nothing behind: it runs in a transaction) and the time.
\<close>

record 'd mig_env =
  mi_fails :: "mig_op \<Rightarrow> string option"
  mi_files :: "string list"
  mi_exec :: "string \<Rightarrow> 'd \<Rightarrow> string + 'd"
  mi_now :: time

definition applied :: "'d database_file \<Rightarrow> string list" where
  "applied f = map fst (case df_migrations f of None \<Rightarrow> [] | Some rows \<Rightarrow> rows)"

section \<open>migrate\<close>

definition create_table :: "'d mig_env \<Rightarrow> 'd database_file \<Rightarrow> (string + unit) \<times> 'd database_file" where
  "create_table M f =
     (case mi_fails M MigCreateTable of
        Some e \<Rightarrow> (Inl e, f)
      | None \<Rightarrow> (Inr (), if df_migrations f = None then f\<lparr>df_migrations := Some []\<rparr> else f))"

text \<open>The body of the transaction; the state is only replaced when it commits. The name is the primary key.\<close>

definition migration_tx :: "'d mig_env \<Rightarrow> string \<Rightarrow> 'd database_file \<Rightarrow> string + 'd database_file" where
  "migration_tx M name f =
     (case mi_fails M (MigBegin name) of
        Some e \<Rightarrow> Inl e
      | None \<Rightarrow> (case mi_exec M name (df_schema f) of
            Inl e \<Rightarrow> Inl (name @ '': '' @ e)
          | Inr d \<Rightarrow> (case mi_fails M (MigInsert name) of
                Some e \<Rightarrow> Inl e
              | None \<Rightarrow>
                  if name \<in> set (applied f) then Inl ''UNIQUE constraint failed: schema_migrations.name''
                  else (case mi_fails M (MigCommit name) of
                      Some e \<Rightarrow> Inl e
                    | None \<Rightarrow> Inr (f\<lparr>df_migrations := map_option (\<lambda>rows. rows @ [(name, ms (mi_now M))]) (df_migrations f),
                        df_schema := d\<rparr>)))))"

fun migrate_files :: "'d mig_env \<Rightarrow> string list \<Rightarrow> 'd database_file \<Rightarrow> (string + unit) \<times> 'd database_file" where
  "migrate_files M [] f = (Inr (), f)"
| "migrate_files M (name # names) f =
     (case mi_fails M (MigCount name) of
        Some e \<Rightarrow> (Inl e, f)
      | None \<Rightarrow>
          if 0 < length (filter (\<lambda>n. n = name) (applied f)) then migrate_files M names f
          else (case mi_fails M (MigReadFile name) of
              Some e \<Rightarrow> (Inl e, f)
            | None \<Rightarrow> (case migration_tx M name f of
                  Inl e \<Rightarrow> (Inl e, f)
                | Inr f' \<Rightarrow> migrate_files M names f')))"

definition migrate :: "'d mig_env \<Rightarrow> 'd database_file \<Rightarrow> (string + unit) \<times> 'd database_file" where
  "migrate M f =
     (case create_table M f of
        (Inl e, f) \<Rightarrow> (Inl e, f)
      | (Inr _, f) \<Rightarrow> (case mi_fails M MigReadDir of
            Some e \<Rightarrow> (Inl e, f)
          | None \<Rightarrow> migrate_files M (sort (mi_files M)) f))"

section \<open>Open\<close>

definition dsn :: "string \<Rightarrow> string" where
  "dsn path =
     (if path = '':memory:'' then ''file::memory:?_pragma=foreign_keys(1)''
      else ''file:'' @ path @ ''?_pragma=journal_mode(WAL)&_pragma=busy_timeout(5000)''
        @ ''&_pragma=foreign_keys(1)&_pragma=synchronous(NORMAL)'')"

text \<open>\<open>openErr\<close> is the error of \<^verbatim>\<open>sql.Open\<close>. A database that cannot be migrated is closed again.\<close>

definition Open :: "string option \<Rightarrow> 'd mig_env \<Rightarrow> 'd database_file \<Rightarrow> (string + unit) \<times> 'd database_file" where
  "Open openErr M f =
     (case openErr of
        Some e \<Rightarrow> (Inl e, f)
      | None \<Rightarrow> (case migrate M f of
            (Inl e, f) \<Rightarrow> (Inl (''sqlite: migrate: '' @ e), f)
          | (Inr _, f) \<Rightarrow> (Inr (), f)))"

section \<open>Scripts in order\<close>

text \<open>The reference: the scripts of a list run one after the other, \<open>None\<close> when one of them fails.\<close>

definition run_scripts :: "(string \<Rightarrow> 'd \<Rightarrow> string + 'd) \<Rightarrow> string list \<Rightarrow> 'd \<Rightarrow> 'd option" where
  "run_scripts exec names d =
     fold (\<lambda>n r. Option.bind r (\<lambda>d. case exec n d of Inl _ \<Rightarrow> None | Inr d' \<Rightarrow> Some d')) names (Some d)"

lemma run_scripts_snoc:
  "run_scripts exec (xs @ [n]) d = Option.bind (run_scripts exec xs d) (\<lambda>d. case exec n d of Inl _ \<Rightarrow> None | Inr d' \<Rightarrow> Some d')"
  by (simp add: run_scripts_def)

text \<open>The database holds what the applied scripts made of an empty one, in the order of their names.\<close>

definition schema_ok :: "(string \<Rightarrow> 'd \<Rightarrow> string + 'd) \<Rightarrow> string list \<Rightarrow> 'd \<Rightarrow> 'd database_file \<Rightarrow> bool" where
  "schema_ok exec files d0 f \<longleftrightarrow>
     (\<exists>k. applied f = take k (sort files)) \<and> run_scripts exec (applied f) d0 = Some (df_schema f)"

lemma create_table_applied:
  "applied (snd (create_table M f)) = applied f" "df_schema (snd (create_table M f)) = df_schema f"
  "fst (create_table M f) = Inr () \<Longrightarrow> df_migrations (snd (create_table M f)) \<noteq> None"
  by (auto simp: create_table_def applied_def split: option.split option.splits)

lemma migration_tx_ok:
  assumes "migration_tx M name f = Inr f'" "df_migrations f \<noteq> None"
  shows "applied f' = applied f @ [name] \<and> df_migrations f' \<noteq> None \<and> mi_exec M name (df_schema f) = Inr (df_schema f')"
  using assms by (auto simp: migration_tx_def applied_def split: option.splits sum.splits if_splits)

lemma migration_tx_succeeds:
  assumes "\<forall>x. mi_fails M x = None" "mi_exec M name (df_schema f) = Inr d" "name \<notin> set (applied f)"
  shows "\<exists>f'. migration_tx M name f = Inr f'"
  using assms by (simp add: migration_tx_def)

text \<open>A run over the names still to come ends further along the same list; when it succeeds, at its end.\<close>

lemma migrate_files_ok:
  assumes "distinct (xs @ names)" "applied f = xs @ take k names" "df_migrations f \<noteq> None"
    and "run_scripts (mi_exec M) (applied f) d0 = Some (df_schema f)"
    and "migrate_files M names f = (r, f')"
  shows "(\<exists>k. applied f' = xs @ take k names) \<and> run_scripts (mi_exec M) (applied f') d0 = Some (df_schema f') \<and>
    (r = Inr () \<longrightarrow> applied f' = xs @ names)"
  using assms
proof (induction names arbitrary: xs k f)
  case (Cons n ns)
  have further: ?case if "distinct ((xs @ [n]) @ ns)" "applied g = (xs @ [n]) @ take j ns" "df_migrations g \<noteq> None"
    "run_scripts (mi_exec M) (applied g) d0 = Some (df_schema g)" "migrate_files M ns g = (r, f')" for g j
    using Cons.IH [OF that] by (metis append_Cons append_Nil append_assoc take_Suc_Cons)
  have stop: ?case if "f' = f" "r \<noteq> Inr ()" using Cons.prems that by auto
  show ?case
  proof (cases k)
    case 0
    then have "n \<notin> set (applied f)" "applied f = xs" using Cons.prems(1,2) by auto
    then consider "f' = f" "r \<noteq> Inr ()" | g where "migration_tx M n f = Inr g" "migrate_files M ns g = (r, f')"
      using Cons.prems(5) by (auto simp: filter_empty_conv split: option.splits sum.splits if_splits)
    then show ?thesis
    proof cases
      case (2 g)
      then have "applied g = applied f @ [n]" "df_migrations g \<noteq> None" "mi_exec M n (df_schema f) = Inr (df_schema g)"
        using migration_tx_ok [OF _ Cons.prems(3)] by auto
      then show ?thesis
        using further [of g 0] 2 Cons.prems(1,4) \<open>applied f = xs\<close> by (simp add: run_scripts_snoc)
    qed (rule stop)
  next
    case (Suc j)
    then have "filter (\<lambda>m. m = n) (applied f) \<noteq> []" using Cons.prems(2) by (auto simp: filter_empty_conv)
    then consider "f' = f" "r \<noteq> Inr ()" | "migrate_files M ns f = (r, f')"
      using Cons.prems(5) by (auto split: option.splits)
    then show ?thesis using further [of f j] stop Cons.prems(1-4) Suc by cases auto
  qed
qed auto

lemma run_scripts_stops: "fold (\<lambda>n r. Option.bind r (g n)) names None = None"
  by (induction names) simp_all

lemma run_scripts_prefix:
  assumes "run_scripts exec (xs @ ys) d0 = Some d"
  shows "\<exists>e. run_scripts exec xs d0 = Some e"
  using assms by (cases "run_scripts exec xs d0") (simp_all add: run_scripts_def run_scripts_stops)

lemma migrate_files_succeeds:
  assumes "distinct (xs @ names)" "applied f = xs @ take k names" "df_migrations f \<noteq> None"
    and "run_scripts (mi_exec M) (applied f) d0 = Some (df_schema f)"
    and "\<forall>x. mi_fails M x = None" "run_scripts (mi_exec M) (xs @ names) d0 = Some d"
  shows "fst (migrate_files M names f) = Inr ()"
  using assms(1-4,6)
proof (induction names arbitrary: xs k f)
  case (Cons n ns)
  have whole: "run_scripts (mi_exec M) ((xs @ [n]) @ ns) d0 = Some d" "distinct ((xs @ [n]) @ ns)" using Cons.prems by simp_all
  show ?case
  proof (cases k)
    case 0
    then have fresh: "n \<notin> set (applied f)" "applied f = xs" using Cons.prems(1,2) by auto
    obtain e where "mi_exec M n (df_schema f) = Inr e"
      using run_scripts_prefix [OF whole(1)] Cons.prems(4) fresh(2) by (auto simp: run_scripts_snoc split: sum.splits)
    then obtain g where tx: "migration_tx M n f = Inr g" using migration_tx_succeeds [OF assms(5)] fresh(1) by blast
    then have "applied g = (xs @ [n]) @ take 0 ns" "df_migrations g \<noteq> None"
      "run_scripts (mi_exec M) (applied g) d0 = Some (df_schema g)"
      using migration_tx_ok [OF tx Cons.prems(3)] Cons.prems(4) fresh(2) by (simp_all add: run_scripts_snoc)
    from Cons.IH [OF whole(2) this whole(1)] show ?thesis
      using fresh(1) tx assms(5) by (simp add: filter_empty_conv)
  next
    case (Suc j)
    then have "filter (\<lambda>m. m = n) (applied f) \<noteq> []" "applied f = (xs @ [n]) @ take j ns"
      using Cons.prems(2) by (auto simp: filter_empty_conv)
    then show ?thesis using Cons.IH [OF whole(2) _ Cons.prems(3,4) whole(1)] assms(5) by simp
  qed
qed simp

section \<open>Openings\<close>

lemma Open_schema_ok:
  assumes "distinct files" "schema_ok exec files d0 f" "mi_files M = files" "mi_exec M = exec"
  shows "schema_ok exec files d0 (snd (Open openErr M f))"
    and "fst (Open openErr M f) = Inr () \<Longrightarrow> applied (snd (Open openErr M f)) = sort files"
proof -
  let ?g = "snd (create_table M f)"
  obtain k where g: "applied ?g = [] @ take k (sort files)" "run_scripts (mi_exec M) (applied ?g) d0 = Some (df_schema ?g)"
    using assms(2,4) by (auto simp: schema_ok_def create_table_applied)
  have "schema_ok exec files d0 (snd (migrate M f)) \<and> (fst (migrate M f) = Inr () \<longrightarrow> applied (snd (migrate M f)) = sort files)"
  proof (cases "fst (create_table M f) = Inr () \<and> mi_fails M MigReadDir = None")
    case True
    then have "migrate M f = migrate_files M (sort files) ?g"
      using assms(3) by (cases "create_table M f") (simp add: migrate_def)
    then show ?thesis
      using migrate_files_ok [OF _ g(1) create_table_applied(3) g(2) prod.collapse [symmetric]] True assms(1,4)
      by (simp add: schema_ok_def)
  next
    case False
    then have "snd (migrate M f) = ?g" "fst (migrate M f) \<noteq> Inr ()"
      by (auto simp: migrate_def case_prod_unfold split: sum.splits option.splits)
    then show ?thesis using g assms(4) by (auto simp: schema_ok_def)
  qed
  then show "schema_ok exec files d0 (snd (Open openErr M f))"
    and "fst (Open openErr M f) = Inr () \<Longrightarrow> applied (snd (Open openErr M f)) = sort files"
    using assms(2) by (auto simp: Open_def case_prod_unfold split: option.splits sum.splits)
qed

lemma Open_succeeds:
  assumes "distinct files" "schema_ok exec files d0 f" "mi_files M = files" "mi_exec M = exec"
    and "\<forall>x. mi_fails M x = None" "run_scripts exec (sort files) d0 = Some d"
  shows "fst (Open None M f) = Inr ()"
proof -
  let ?g = "snd (create_table M f)"
  have created: "fst (create_table M f) = Inr ()" using assms(5) by (simp add: create_table_def)
  obtain k where "applied ?g = [] @ take k (sort files)" "run_scripts (mi_exec M) (applied ?g) d0 = Some (df_schema ?g)"
    using assms(2,4) by (auto simp: schema_ok_def create_table_applied)
  then have "fst (migrate_files M (sort files) ?g) = Inr ()"
    using migrate_files_succeeds [of "[]" "sort files" ?g k M d0 d] create_table_applied(3) [OF created] assms by simp
  moreover have "migrate M f = migrate_files M (sort files) ?g"
    using assms(3,5) created by (cases "create_table M f") (simp add: migrate_def)
  ultimately show ?thesis by (simp add: Open_def case_prod_unfold)
qed


end
