(* ===== verification/Start_Witnesses.thy ===== *)
theory Start_Witnesses
  imports Client_Witnesses Startup Sqlite_Open
begin

text \<open>The theorems on the start of the two programs, applied to a concrete installation.\<close>

section \<open>The database\<close>

definition w_script :: "string \<Rightarrow> string list \<Rightarrow> string + string list" where
  "w_script name schema = (if ''harnesses'' \<in> set schema then Inl ''table harnesses already exists''
     else Inr (schema @ [''harnesses'', ''bots'', ''jobs'', ''approvals'', ''outbox'']))"

definition w_open :: "(mig_op \<Rightarrow> string option) \<Rightarrow> string list mig_env" where
  "w_open fails = \<lparr>mi_fails = fails, mi_files = [''0001_init.sql''], mi_exec = w_script, mi_now = 0\<rparr>"


section \<open>The harness\<close>

definition w_ended :: daemon where
  "w_ended = snd (run_state (run_end w_henv 0 (Inl ''killed'') 0) w_asked)"

definition w_start :: start_env where
  "w_start = \<lparr>st_lookPath = (\<lambda>b. if b = ''claude'' then None else Some ''not found''), st_executable = Inr ''/bin/mhb'',
     st_mkdir = (\<lambda>_. None), st_stateDir = ''/state'', st_tempDir = ''/tmp'', st_pid = ''7'',
     st_sessions = Missing, st_outbox = jf_disk (dm_outbox w_ended)\<rparr>"

lemma w_restarts:
  obtains h where "harness_New w_start w_hcfg = Inr h" "fst (run_state (session_open w_henv (Some w_welcome)) (sd_daemon h))"
proof -
  have "case harness_New w_start w_hcfg of Inl _ \<Rightarrow> False
      | Inr h \<Rightarrow> fst (run_state (session_open w_henv (Some w_welcome)) (sd_daemon h))"
    by code_simp
  then show ?thesis using that by (auto split: sum.splits)
qed

theorem result_survives_restart_witness:
  "\<exists>h s'. harness_New w_start w_hcfg = Inr h \<and>
     run_state (session_open w_henv (Some w_welcome)) (sd_daemon h) = (True, s') \<and>
     (\<exists>m \<in> set (dm_frames s'). en_Type m = TypeJobResult \<and> en_JobID m = ''j1'')"
proof -
  obtain h where h: "harness_New w_start w_hcfg = Inr h"
    "fst (run_state (session_open w_henv (Some w_welcome)) (sd_daemon h))" by (rule w_restarts)
  let ?s' = "snd (run_state (session_open w_henv (Some w_welcome)) (sd_daemon h))"
  have run: "run_state (session_open w_henv (Some w_welcome)) (sd_daemon h) = (True, ?s')"
    using h(2) by (simp add: prod_eq_iff)
  have asked: "(''j1'', 0) \<in> set (dm_jobs w_asked)" by (rule map_of_SomeD [OF w_asked_table(1)])
  have fs: "\<not> (\<exists>x. h_fails w_henv x)" by (simp add: w_henv_def)
  have valid: "Validate (\<lambda>_. True) w_hcfg = None" by code_simp
  have disk: "st_outbox w_start = jf_disk (fold (op_run (\<lambda>env ob. snd (outbox_Add (h_fails w_henv) env ob))
      (\<lambda>k ob. snd (outbox_Ack (h_fails w_henv) k ob))) [] (dm_outbox (snd (run_state (run_end w_henv 0 (Inl ''killed'') 0) w_asked))))"
    by (simp add: w_start_def w_ended_def)
  have "\<exists>m \<in> set (dm_frames ?s'). en_Type m = TypeJobResult \<and> en_JobID m = ''j1''"
    using result_survives_restart [OF w_asked_ok asked fs refl _ refl h(1) disk valid run]
    by (intro bexI [where x = "New _ _ _ _ _"]) (auto simp: New_def)
  with h(1) run show ?thesis by blast
qed

end
