(* ===== verification/Agent_Process.thy ===== *)
theory Agent_Process
  imports Agents Prelude
begin

text \<open>
  The process of an agent: the second half of \<^verbatim>\<open>Run\<close> in \<^verbatim>\<open>agent/claude/claude.go\<close> and
  \<^verbatim>\<open>agent/codex/codex.go\<close>, which are the same up to the command. The process leads a group of its own;
  its members hold the two pipes. \<^verbatim>\<open>Run\<close> reads standard output to its end, waits for the process and
  for standard error, and closes the channel \<^verbatim>\<open>killed\<close>; a second goroutine waits for the end of the
  context and signals the group. Output that is read does not change this state and is not a step; the
  grace period is over at some time after the interrupt.
\<close>

section \<open>Starting\<close>

record command =
  cd_Bin :: string
  cd_Args :: "string list"
  cd_Dir :: string
  cd_Env :: "string list"
  cd_Setpgid :: bool

definition claude_command :: "string \<Rightarrow> string list \<Rightarrow> Options \<Rightarrow> command" where
  "claude_command bin environ opt =
     \<lparr>cd_Bin = bin, cd_Args = claude_args opt, cd_Dir = op_Dir opt, cd_Env = environ @ [''CLAUDE_CODE_HARNESS_JOB=1''],
      cd_Setpgid = True\<rparr>"

definition codex_command :: "string \<Rightarrow> string \<Rightarrow> string list \<Rightarrow> Options \<Rightarrow> command" where
  "codex_command bin sandbox environ opt =
     \<lparr>cd_Bin = bin, cd_Args = codex_args sandbox opt, cd_Dir = op_Dir opt, cd_Env = environ @ [''MHB_JOB=1''],
      cd_Setpgid = True\<rparr>"

text \<open>The errors of \<^verbatim>\<open>StdoutPipe\<close> and \<^verbatim>\<open>Start\<close>; \<open>name\<close> is the package.\<close>

definition start_process :: "string \<Rightarrow> string option \<Rightarrow> string option \<Rightarrow> command \<Rightarrow> string + command" where
  "start_process name pipeErr startErr c =
     (case pipeErr of
        Some e \<Rightarrow> Inl e
      | None \<Rightarrow> (case startErr of
            Some e \<Rightarrow> Inl (name @ '': start '' @ cd_Bin c @ '': '' @ e)
          | None \<Rightarrow> Inr c))"

section \<open>State\<close>

datatype leader = Alive | Zombie | Reaped

text \<open>\<^verbatim>\<open>Run\<close> itself: reading, in \<^verbatim>\<open>cmd.Wait\<close>, after \<^verbatim>\<open>close(killed)\<close>, returned with what it saw of the context.\<close>

datatype runner = Reading | Waiting | Closed | Returned bool

datatype watcher = Watching | InGrace | Gone

datatype signal = SIGINT | SIGKILL

text \<open>
  \<open>pr_stalled\<close>: the process is blocked in a write that nobody reads. \<open>pr_signals\<close> records each signal with
  whether there was a group to receive it.
\<close>

record agent_proc =
  pr_ctx :: bool
  pr_leader :: leader
  pr_stdout :: bool
  pr_stderr :: bool
  pr_stalled :: bool
  pr_main :: runner
  pr_watch :: watcher
  pr_signals :: "(signal \<times> bool) list"

definition agent_start :: agent_proc where
  "agent_start = \<lparr>pr_ctx = False, pr_leader = Alive, pr_stdout = True, pr_stderr = True, pr_stalled = False,
     pr_main = Reading, pr_watch = Watching, pr_signals = []\<rparr>"

definition group_exists :: "agent_proc \<Rightarrow> bool" where
  "group_exists s \<longleftrightarrow> pr_leader s \<noteq> Reaped \<or> pr_stdout s \<or> pr_stderr s"

definition killed_closed :: "agent_proc \<Rightarrow> bool" where
  "killed_closed s \<longleftrightarrow> (case pr_main s of Closed \<Rightarrow> True | Returned _ \<Rightarrow> True | _ \<Rightarrow> False)"

section \<open>Steps of the program\<close>

definition interrupt :: "agent_proc \<Rightarrow> agent_proc" where
  "interrupt s = s\<lparr>pr_watch := InGrace, pr_signals := pr_signals s @ [(SIGINT, group_exists s)]\<rparr>"

text \<open>\<^verbatim>\<open>SIGKILL\<close> cannot be caught: it ends every member of the group, and with them the pipes.\<close>

definition kill_group :: "agent_proc \<Rightarrow> agent_proc" where
  "kill_group s = s\<lparr>pr_watch := Gone, pr_signals := pr_signals s @ [(SIGKILL, group_exists s)],
     pr_leader := (if pr_leader s = Alive then Zombie else pr_leader s), pr_stdout := False, pr_stderr := False\<rparr>"

inductive prog_step :: "agent_proc \<Rightarrow> agent_proc \<Rightarrow> bool" where
  Eof: "pr_main s = Reading \<Longrightarrow> \<not> pr_stdout s \<Longrightarrow> prog_step s (s\<lparr>pr_main := Waiting\<rparr>)"
| Reap: "pr_main s = Waiting \<Longrightarrow> pr_leader s = Zombie \<Longrightarrow> prog_step s (s\<lparr>pr_leader := Reaped\<rparr>)"
| WaitEnds: "pr_main s = Waiting \<Longrightarrow> pr_leader s = Reaped \<Longrightarrow> \<not> pr_stderr s \<Longrightarrow> prog_step s (s\<lparr>pr_main := Closed\<rparr>)"
| Return: "pr_main s = Closed \<Longrightarrow> prog_step s (s\<lparr>pr_main := Returned (pr_ctx s)\<rparr>)"
| Interrupt: "pr_watch s = Watching \<Longrightarrow> pr_ctx s \<Longrightarrow> prog_step s (interrupt s)"
| GraceOver: "pr_watch s = InGrace \<Longrightarrow> prog_step s (kill_group s)"
| Release: "pr_watch s \<noteq> Gone \<Longrightarrow> killed_closed s \<Longrightarrow> prog_step s (s\<lparr>pr_watch := Gone\<rparr>)"

section \<open>Steps of the environment\<close>

text \<open>
  The context ends; the process exits by itself or on the interrupt; the members of the group close
  the pipes; a line is longer than the 32 MiB the scanner takes, which ends the reading while the
  process goes on writing.
\<close>

inductive env_step :: "agent_proc \<Rightarrow> agent_proc \<Rightarrow> bool" where
  Cancel: "\<not> pr_ctx s \<Longrightarrow> env_step s (s\<lparr>pr_ctx := True\<rparr>)"
| Exit: "pr_leader s = Alive \<Longrightarrow> \<not> pr_stalled s \<Longrightarrow> env_step s (s\<lparr>pr_leader := Zombie\<rparr>)"
| ExitOnInt: "pr_leader s = Alive \<Longrightarrow> (SIGINT, True) \<in> set (pr_signals s) \<Longrightarrow> env_step s (s\<lparr>pr_leader := Zombie\<rparr>)"
| CloseOut: "pr_stdout s \<Longrightarrow> \<not> pr_stalled s \<or> pr_leader s \<noteq> Alive \<Longrightarrow> env_step s (s\<lparr>pr_stdout := False\<rparr>)"
| CloseErr: "pr_stderr s \<Longrightarrow> \<not> pr_stalled s \<or> pr_leader s \<noteq> Alive \<Longrightarrow> env_step s (s\<lparr>pr_stderr := False\<rparr>)"
| LongLine: "pr_main s = Reading \<Longrightarrow> pr_stdout s \<Longrightarrow> pr_leader s = Alive \<Longrightarrow>
    env_step s (s\<lparr>pr_main := Waiting, pr_stalled := True\<rparr>)"

definition agent_step :: "agent_proc \<Rightarrow> agent_proc \<Rightarrow> bool" where
  "agent_step s s' \<longleftrightarrow> prog_step s s' \<or> env_step s s'"

inductive_cases prog_stepE: "prog_step s s'"
inductive_cases env_stepE: "env_step s s'"

section \<open>Every run is finite\<close>

fun leader_left :: "leader \<Rightarrow> nat" where
  "leader_left Alive = 2"
| "leader_left Zombie = 1"
| "leader_left Reaped = 0"

fun runner_left :: "runner \<Rightarrow> nat" where
  "runner_left Reading = 3"
| "runner_left Waiting = 2"
| "runner_left Closed = 1"
| "runner_left (Returned _) = 0"

fun watcher_left :: "watcher \<Rightarrow> nat" where
  "watcher_left Watching = 2"
| "watcher_left InGrace = 1"
| "watcher_left Gone = 0"

definition steps_left :: "agent_proc \<Rightarrow> nat" where
  "steps_left s = of_bool (\<not> pr_ctx s) + leader_left (pr_leader s) + of_bool (pr_stdout s) + of_bool (pr_stderr s)
     + runner_left (pr_main s) + watcher_left (pr_watch s)"

lemmas agent_step_defs = agent_step_def interrupt_def kill_group_def killed_closed_def

lemma watcher_left_pos: "w \<noteq> Gone \<Longrightarrow> 0 < watcher_left w"
  by (cases w) simp_all

lemma agent_step_decreases: "agent_step s s' \<Longrightarrow> steps_left s' < steps_left s"
  unfolding agent_step_def
proof (elim disjE)
  show "prog_step s s' \<Longrightarrow> steps_left s' < steps_left s"
    by (induction rule: prog_step.induct) (simp_all add: steps_left_def interrupt_def kill_group_def watcher_left_pos)
  show "env_step s s' \<Longrightarrow> steps_left s' < steps_left s"
    by (induction rule: env_step.induct) (simp_all add: steps_left_def)
qed

lemma agent_steps_bounded: "(agent_step ^^ n) s s' \<Longrightarrow> n + steps_left s' \<le> steps_left s"
proof (induction n arbitrary: s')
  case (Suc n)
  then obtain u where "(agent_step ^^ n) s u" "agent_step u s'" by auto
  then show ?case using Suc.IH agent_step_decreases [of u s'] by fastforce
qed simp

lemma steps_left_bound: "steps_left s \<le> 10"
  by (cases "pr_leader s"; cases "pr_main s"; cases "pr_watch s") (simp_all add: steps_left_def)

section \<open>A cancelled run ends\<close>

text \<open>Once the watcher is gone, nothing of the group is left that the run could wait for.\<close>

definition agent_inv :: "agent_proc \<Rightarrow> bool" where
  "agent_inv s \<longleftrightarrow>
     (pr_watch s = Gone \<longrightarrow> killed_closed s \<or> (pr_leader s \<noteq> Alive \<and> \<not> pr_stdout s \<and> \<not> pr_stderr s)) \<and>
     (pr_main s = Returned False \<or> (\<forall>c. pr_main s = Returned c \<longrightarrow> pr_ctx s)) \<and>
     map fst (pr_signals s) \<in> {[], [SIGINT], [SIGINT, SIGKILL]} \<and>
     (pr_watch s = Watching \<longrightarrow> pr_signals s = []) \<and> (pr_watch s = InGrace \<longrightarrow> map fst (pr_signals s) = [SIGINT]) \<and>
     (\<not> pr_ctx s \<longrightarrow> pr_signals s = [])"

lemma agent_inv_step: "agent_step s s' \<Longrightarrow> agent_inv s \<Longrightarrow> agent_inv s'"
  unfolding agent_step_def
proof (elim disjE)
  show "prog_step s s' \<Longrightarrow> agent_inv s \<Longrightarrow> agent_inv s'"
    by (induction rule: prog_step.induct)
      (auto simp: agent_inv_def interrupt_def kill_group_def killed_closed_def)
  show "env_step s s' \<Longrightarrow> agent_inv s \<Longrightarrow> agent_inv s'"
    by (induction rule: env_step.induct) (auto simp: agent_inv_def killed_closed_def)
qed

lemma agent_inv_reachable: "agent_step\<^sup>*\<^sup>* agent_start s \<Longrightarrow> agent_inv s"
  by (induction rule: rtranclp_induct) (auto simp: agent_inv_step, simp add: agent_inv_def agent_start_def)

text \<open>While a cancelled run has not returned, the program itself can go on.\<close>

lemma cancelled_progress:
  assumes "agent_inv s" "pr_ctx s" "\<nexists>s'. prog_step s s'"
  shows "\<exists>c. pr_main s = Returned c"
proof (rule ccontr)
  assume open_run: "\<nexists>c. pr_main s = Returned c"
  have gone: "pr_watch s = Gone" using assms(2,3) Interrupt GraceOver by (cases "pr_watch s") blast+
  have "pr_main s \<noteq> Closed" using assms(3) Return by blast
  with open_run have "\<not> killed_closed s" by (auto simp: killed_closed_def split: runner.splits)
  with gone assms(1) have dead: "pr_leader s \<noteq> Alive" "\<not> pr_stdout s" "\<not> pr_stderr s" by (simp_all add: agent_inv_def)
  then have "pr_main s \<noteq> Reading" using assms(3) Eof by blast
  moreover have "pr_main s \<noteq> Waiting" using assms(3) dead Reap WaitEnds by (cases "pr_leader s") blast+
  ultimately show False using open_run \<open>pr_main s \<noteq> Closed\<close> by (cases "pr_main s") auto
qed

lemma ctx_stays: "agent_step\<^sup>*\<^sup>* s s' \<Longrightarrow> pr_ctx s \<Longrightarrow> pr_ctx s'"
  by (induction rule: rtranclp_induct) (auto simp: agent_step_defs elim!: prog_stepE env_stepE)

lemma returned_late:
  "agent_step\<^sup>*\<^sup>* s s' \<Longrightarrow> pr_ctx s \<Longrightarrow> \<nexists>c. pr_main s = Returned c \<Longrightarrow> pr_main s' \<noteq> Returned False"
proof (induction rule: rtranclp_induct)
  case (step y z)
  then have "pr_ctx y" "pr_main y \<noteq> Returned False" using ctx_stays by auto
  with step.hyps(2) show ?case by (auto simp: agent_step_defs elim!: prog_stepE env_stepE)
qed auto

text \<open>The error of the context that \<^verbatim>\<open>Run\<close> sees when it builds its result.\<close>

definition seen_ctxErr :: "string \<Rightarrow> agent_proc \<Rightarrow> string option" where
  "seen_ctxErr err s = (if pr_main s = Returned True then Some err else None)"

text \<open>
  C15. Cancelling a job ends its agent, whether the agent cooperates or not: from the end of the
  context on, a run makes at most ten more steps, whatever the process does; where the program itself
  cannot go on, \<^verbatim>\<open>Run\<close> has returned, with the status cancelled; and the group has been sent at most one
  interrupt and after it one kill.
\<close>

theorem cancelled_run_ends:
  assumes "agent_step\<^sup>*\<^sup>* agent_start s" "pr_ctx s" "\<nexists>c. pr_main s = Returned c"
  shows "((agent_step ^^ n) s s' \<longrightarrow> n \<le> 10) \<and>
    (agent_step\<^sup>*\<^sup>* s s' \<and> (\<nexists>s''. prog_step s' s'') \<longrightarrow>
      rs_Status (claude_result (seen_ctxErr err s') waitErr out st) = StatusCancelled \<and>
      rs_Status (codex_result (seen_ctxErr err s') waitErr out elapsed st') = StatusCancelled \<and>
      map fst (pr_signals s') \<in> {[], [SIGINT], [SIGINT, SIGKILL]})"
proof (intro conjI impI)
  show "n \<le> 10" if "(agent_step ^^ n) s s'"
    using agent_steps_bounded [OF that] steps_left_bound [of s] by simp
next
  assume run: "agent_step\<^sup>*\<^sup>* s s' \<and> (\<nexists>s''. prog_step s' s'')"
  then have inv: "agent_inv s'" using agent_inv_reachable rtranclp_trans [OF assms(1)] by blast
  have "pr_main s' = Returned True"
    using cancelled_progress [OF inv] ctx_stays returned_late run assms(2,3) by (metis (full_types))
  then show "rs_Status (claude_result (seen_ctxErr err s') waitErr out st) = StatusCancelled"
    and "rs_Status (codex_result (seen_ctxErr err s') waitErr out elapsed st') = StatusCancelled"
    by (simp_all add: seen_ctxErr_def claude_result_def codex_result_def)
  show "map fst (pr_signals s') \<in> {[], [SIGINT], [SIGINT, SIGKILL]}" using inv by (simp add: agent_inv_def)
qed

section \<open>Where it does not hold\<close>

text \<open>
  A line the scanner does not take stops the reading for good: as long as nobody cancels the run, no
  step is possible any more, of the program or of its environment.
\<close>

theorem long_line_stalls:
  "\<exists>s. agent_step\<^sup>*\<^sup>* agent_start s \<and> \<not> pr_ctx s \<and> pr_main s = Waiting \<and> (\<forall>s'. agent_step s s' \<longrightarrow> s' = s\<lparr>pr_ctx := True\<rparr>)"
proof -
  let ?s = "agent_start\<lparr>pr_main := Waiting, pr_stalled := True\<rparr>"
  have "agent_step agent_start ?s" using LongLine [of agent_start] by (simp add: agent_step_def agent_start_def)
  moreover have "agent_step ?s s' \<Longrightarrow> s' = ?s\<lparr>pr_ctx := True\<rparr>" for s'
    by (auto simp: agent_step_defs agent_start_def elim!: prog_stepE env_stepE)
  ultimately show ?thesis by (intro exI [of _ ?s]) (auto simp: agent_start_def)
qed

text \<open>
  The watcher may signal a group that is gone: the process has been reaped and its number may belong to
  another one, while \<^verbatim>\<open>killed\<close> is not closed yet.
\<close>

theorem signal_after_reap: "\<exists>s. agent_step\<^sup>*\<^sup>* agent_start s \<and> (SIGINT, False) \<in> set (pr_signals s)"
proof -
  let ?ended = "agent_start\<lparr>pr_leader := Zombie, pr_stdout := False, pr_stderr := False\<rparr>"
  let ?reaped = "?ended\<lparr>pr_main := Waiting, pr_leader := Reaped\<rparr>"
  have "agent_step agent_start (agent_start\<lparr>pr_leader := Zombie\<rparr>)"
    "agent_step (agent_start\<lparr>pr_leader := Zombie\<rparr>) (agent_start\<lparr>pr_leader := Zombie, pr_stdout := False\<rparr>)"
    "agent_step (agent_start\<lparr>pr_leader := Zombie, pr_stdout := False\<rparr>) ?ended"
    using Exit [of agent_start] CloseOut [of "agent_start\<lparr>pr_leader := Zombie\<rparr>"]
      CloseErr [of "agent_start\<lparr>pr_leader := Zombie, pr_stdout := False\<rparr>"]
    by (simp_all add: agent_step_def agent_start_def)
  moreover have "agent_step ?ended (?ended\<lparr>pr_main := Waiting\<rparr>)" "agent_step (?ended\<lparr>pr_main := Waiting\<rparr>) ?reaped"
    "agent_step ?reaped (?reaped\<lparr>pr_ctx := True\<rparr>)" "agent_step (?reaped\<lparr>pr_ctx := True\<rparr>) (interrupt (?reaped\<lparr>pr_ctx := True\<rparr>))"
    using Eof [of ?ended] Reap [of "?ended\<lparr>pr_main := Waiting\<rparr>"] Cancel [of ?reaped] Interrupt [of "?reaped\<lparr>pr_ctx := True\<rparr>"]
    by (simp_all add: agent_step_def agent_start_def)
  ultimately have "agent_step\<^sup>*\<^sup>* agent_start (interrupt (?reaped\<lparr>pr_ctx := True\<rparr>))"
    by (meson r_into_rtranclp rtranclp.rtrancl_into_rtrancl)
  then show ?thesis by (intro exI conjI) (assumption, simp add: interrupt_def group_exists_def agent_start_def)
qed

end
