(* ===== verification/Permission_Socket.thy ===== *)
theory Permission_Socket
  imports Permission
begin

text \<open>
  The life of the permission server: \<^verbatim>\<open>Start\<close>, \<^verbatim>\<open>accept\<close> and \<^verbatim>\<open>Close\<close> of
  \<^verbatim>\<open>internal/harness/permission/permission.go\<close>. The accept loop and every connection are goroutines,
  counted by a wait group; the socket is a file that only the owner may use. Each goroutine is cut
  where it blocks. What happens on a connection is \<open>Server_handle\<close>.
\<close>

section \<open>State\<close>

datatype acceptor = NotStarted | Accepting | AcceptEnded

text \<open>\<^verbatim>\<open>Close\<close>: not called, in \<^verbatim>\<open>wg.Wait\<close> of the one call that runs, returned.\<close>

datatype closer = NotClosed | WaitingForAll | CloseReturned

record perm_server =
  pm_file :: bool
  pm_private :: bool
  pm_listening :: bool
  pm_accept :: acceptor
  pm_wg :: nat
  pm_conns :: "(nat \<times> Request option) list"
  pm_next :: nat
  pm_answers :: "(nat \<times> Decision option) list"
  pm_close :: closer

text \<open>\<open>file\<close>: whether an earlier run left its socket behind.\<close>

definition new_server :: "bool \<Rightarrow> perm_server" where
  "new_server stale = \<lparr>pm_file = stale, pm_private = False, pm_listening = False, pm_accept = NotStarted, pm_wg = 0,
     pm_conns = [], pm_next = 0, pm_answers = [], pm_close = NotClosed\<rparr>"

section \<open>Operations\<close>

text \<open>
  \<open>rmFails\<close>, \<open>listenErr\<close>, \<open>chmodErr\<close>: the outcomes of the three calls. A socket that is still there cannot be
  bound again, which is an error of \<^verbatim>\<open>Listen\<close>; closing a listener removes its file.
\<close>

definition perm_Start :: "string \<Rightarrow> bool \<Rightarrow> string option \<Rightarrow> string option \<Rightarrow> perm_server \<Rightarrow> (string + unit) \<times> perm_server" where
  "perm_Start path rmFails listenErr chmodErr s =
     (let s = (if rmFails then s else s\<lparr>pm_file := False\<rparr>);
          listenErr = (if pm_file s \<and> listenErr = None then Some ''address already in use'' else listenErr)
      in case listenErr of
           Some e \<Rightarrow> (Inl (''permission: listen '' @ path @ '': '' @ e), s)
         | None \<Rightarrow> (let s = s\<lparr>pm_file := True, pm_private := False, pm_listening := True\<rparr> in
             case chmodErr of
               Some e \<Rightarrow> (Inl e, s\<lparr>pm_listening := False, pm_file := False\<rparr>)
             | None \<Rightarrow> (Inr (), s\<lparr>pm_private := True, pm_wg := pm_wg s + 1, pm_accept := Accepting\<rparr>)))"

text \<open>A connection is accepted; its first value is a request or does not decode.\<close>

definition accept_conn :: "Request option \<Rightarrow> perm_server \<Rightarrow> perm_server" where
  "accept_conn req s = s\<lparr>pm_wg := pm_wg s + 1, pm_conns := (pm_next s, req) # pm_conns s, pm_next := Suc (pm_next s)\<rparr>"

definition accept_error :: "perm_server \<Rightarrow> perm_server" where
  "accept_error s = s\<lparr>pm_accept := AcceptEnded, pm_wg := pm_wg s - 1\<rparr>"

definition handle_ends :: "(Request \<Rightarrow> string + Decision) \<Rightarrow> nat \<Rightarrow> perm_server \<Rightarrow> perm_server" where
  "handle_ends decide c s =
     (case map_of (pm_conns s) c of
        None \<Rightarrow> s
      | Some req \<Rightarrow> s\<lparr>pm_conns := AList.delete c (pm_conns s), pm_wg := pm_wg s - 1,
          pm_answers := pm_answers s @ [(c, Server_handle decide req)]\<rparr>)"

text \<open>The function of \<^verbatim>\<open>once\<close>, up to the wait and after it.\<close>

definition close_begin :: "perm_server \<Rightarrow> perm_server" where
  "close_begin s = s\<lparr>pm_listening := False, pm_close := WaitingForAll\<rparr>"

definition close_end :: "perm_server \<Rightarrow> perm_server" where
  "close_end s = s\<lparr>pm_file := False, pm_close := CloseReturned\<rparr>"

inductive perm_step :: "(Request \<Rightarrow> string + Decision) \<Rightarrow> perm_server \<Rightarrow> perm_server \<Rightarrow> bool" for decide where
  Accept: "pm_accept s = Accepting \<Longrightarrow> pm_listening s \<Longrightarrow> perm_step decide s (accept_conn req s)"
| AcceptError: "pm_accept s = Accepting \<Longrightarrow> perm_step decide s (accept_error s)"
| Handled: "c \<in> fst ` set (pm_conns s) \<Longrightarrow> perm_step decide s (handle_ends decide c s)"
| CloseBegin: "pm_close s = NotClosed \<Longrightarrow> perm_step decide s (close_begin s)"
| CloseEnd: "pm_close s = WaitingForAll \<Longrightarrow> pm_wg s = 0 \<Longrightarrow> perm_step decide s (close_end s)"

section \<open>Invariant\<close>

text \<open>The wait group counts the goroutines; every connection is answered once, also after the call to \<^verbatim>\<open>Close\<close>.\<close>

definition perm_inv :: "perm_server \<Rightarrow> bool" where
  "perm_inv s \<longleftrightarrow>
     pm_wg s = of_bool (pm_accept s = Accepting) + length (pm_conns s) \<and>
     distinct (map fst (pm_conns s)) \<and> distinct (map fst (pm_answers s)) \<and>
     fst ` set (pm_conns s) \<inter> fst ` set (pm_answers s) = {} \<and>
     fst ` set (pm_conns s) \<union> fst ` set (pm_answers s) = {..<pm_next s} \<and>
     (pm_close s \<noteq> NotClosed \<longrightarrow> \<not> pm_listening s) \<and>
     (pm_close s = CloseReturned \<longrightarrow> pm_accept s \<noteq> Accepting \<and> pm_conns s = [] \<and> \<not> pm_file s) \<and>
     (pm_listening s \<longrightarrow> pm_private s)"

lemma perm_Start_inv:
  "perm_inv (snd (perm_Start path rmFails listenErr chmodErr (new_server stale)))"
  by (auto simp: perm_Start_def new_server_def perm_inv_def Let_def split: option.split)

lemma length_delete_key:
  "distinct (map fst xs) \<Longrightarrow> k \<in> fst ` set xs \<Longrightarrow> length xs = Suc (length (AList.delete k xs))"
  by (induction xs) (auto simp: delete_id)

lemma perm_inv_step: "perm_step decide s s' \<Longrightarrow> perm_inv s \<Longrightarrow> perm_inv s'"
proof (induction rule: perm_step.induct)
  case (Handled c s)
  then obtain req where req: "map_of (pm_conns s) c = Some req" by (auto simp: perm_inv_def)
  let ?cs = "AList.delete c (pm_conns s)"
  have inv: "pm_wg s = of_bool (pm_accept s = Accepting) + length (pm_conns s)" "distinct (map fst (pm_conns s))"
    "distinct (map fst (pm_answers s))" "fst ` set (pm_conns s) \<inter> fst ` set (pm_answers s) = {}"
    "fst ` set (pm_conns s) \<union> fst ` set (pm_answers s) = {..<pm_next s}" "pm_close s \<noteq> NotClosed \<longrightarrow> \<not> pm_listening s"
    "pm_close s \<noteq> CloseReturned" "pm_listening s \<longrightarrow> pm_private s"
    using Handled by (auto simp: perm_inv_def)
  have len: "length (pm_conns s) = Suc (length ?cs)" using Handled.hyps inv(2) by (rule length_delete_key [rotated])
  have keys: "fst ` set ?cs = fst ` set (pm_conns s) - {c}" by (auto simp: AList.delete_eq)
  have "fst ` set ?cs \<inter> insert c (fst ` set (pm_answers s)) = {}" "c \<notin> fst ` set (pm_answers s)"
    "fst ` set ?cs \<union> insert c (fst ` set (pm_answers s)) = {..<pm_next s}"
    unfolding keys inv(5) [symmetric] using inv(4) Handled.hyps by blast+
  then show ?case
    using inv(1,3,6,7,8) len distinct_delete [OF inv(2), of c] by (simp add: perm_inv_def handle_ends_def req)
next
  case (Accept s req)
  then show ?case by (auto simp: perm_inv_def accept_conn_def)
next
  case (AcceptError s)
  then show ?case by (auto simp: perm_inv_def accept_error_def)
next
  case (CloseBegin s)
  then show ?case by (auto simp: perm_inv_def close_begin_def)
next
  case (CloseEnd s)
  then show ?case by (auto simp: perm_inv_def close_end_def)
qed

lemma perm_inv_steps: "(perm_step decide)\<^sup>*\<^sup>* s s' \<Longrightarrow> perm_inv s \<Longrightarrow> perm_inv s'"
  by (induction rule: rtranclp_induct) (auto intro: perm_inv_step)

text \<open>Nothing is accepted once the server is closing: the connections left are the ones it had.\<close>

lemma closing_accepts_nothing:
  "(perm_step decide)\<^sup>*\<^sup>* s s' \<Longrightarrow> perm_inv s \<Longrightarrow> pm_close s \<noteq> NotClosed \<Longrightarrow>
   pm_next s' = pm_next s \<and> pm_close s' \<noteq> NotClosed"
proof (induction rule: rtranclp_induct)
  case (step y z)
  then have "\<not> pm_listening y" using perm_inv_steps [OF step.hyps(1)] by (auto simp: perm_inv_def)
  with step.hyps(2) step.IH [OF step.prems] show ?case
    by (auto elim!: perm_step.cases simp: accept_conn_def accept_error_def handle_ends_def close_begin_def
        close_end_def split: option.splits)
qed simp


text \<open>
  Closing ends: once every request is decided, the loop and the connections end by themselves, and the
  number of steps left is the number of goroutines.
\<close>

lemma closing_can_go_on:
  assumes "perm_inv s" "pm_close s = WaitingForAll"
  shows "\<exists>s'. perm_step decide s s' \<and> (pm_close s' = CloseReturned \<or> pm_wg s' < pm_wg s)"
proof (cases "pm_wg s = 0")
  case True
  then show ?thesis using CloseEnd [OF assms(2)] by (intro exI conjI) (assumption, simp add: close_end_def)
next
  case wg: False
  show ?thesis
  proof (cases "pm_accept s = Accepting")
    case True
    then show ?thesis using AcceptError [OF True] wg by (intro exI conjI) (auto simp: accept_error_def)
  next
    case False
    then obtain c req where conn: "(c, req) \<in> set (pm_conns s)" using wg assms(1)
      by (cases "pm_conns s") (auto simp: perm_inv_def)
    then have "map_of (pm_conns s) c = Some req" using assms(1) by (simp add: perm_inv_def)
    then have "pm_wg (handle_ends decide c s) < pm_wg s" using wg by (simp add: handle_ends_def)
    moreover have "perm_step decide s (handle_ends decide c s)" using conn by (intro Handled) force
    ultimately show ?thesis by blast
  qed
qed

end
