(* ===== verification/Json_Text.thy ===== *)
theory Json_Text
  imports Go_Json
begin

text \<open>
  The texts of \<^verbatim>\<open>encoding/json\<close>: what \<^verbatim>\<open>json.Marshal\<close> writes for a value and how \<^verbatim>\<open>json.Unmarshal\<close>
  reads a text back. A text is read as runes: outside string literals only ASCII is allowed, and inside
  them a byte that is no UTF-8 is read as the replacement character. The reader is a lexer and a machine
  with a stack of open arrays and objects, as Go's scanner is. Numbers stay literals until a field
  takes them.
\<close>

section \<open>Values and what is written\<close>

datatype jval =
    VNull
  | VBool bool
  | VNum string
  | VStr string
  | VArr "jval list"
  | VObj "(string \<times> jval) list"

definition str_runes :: "string \<Rightarrow> rune list" where
  "str_runes s = 34 # json_body s @ [34]"

primrec sep_by :: "'a \<Rightarrow> 'a list list \<Rightarrow> 'a list" where
  "sep_by c [] = []"
| "sep_by c (x # xs) = (if xs = [] then x else x @ c # sep_by c xs)"

fun val_runes :: "jval \<Rightarrow> rune list" where
  "val_runes VNull = map byte ''null''"
| "val_runes (VBool b) = map byte (if b then ''true'' else ''false'')"
| "val_runes (VNum l) = map byte l"
| "val_runes (VStr s) = str_runes s"
| "val_runes (VArr vs) = 91 # sep_by 44 (map val_runes vs) @ [93]"
| "val_runes (VObj kvs) = 123 # sep_by 44 (map (\<lambda>(k, v). str_runes k @ 58 # val_runes v) kvs) @ [125]"

definition json_print :: "jval \<Rightarrow> string" where
  "json_print v = encode (val_runes v)"

section \<open>String literals\<close>

definition hex_value :: "rune \<Rightarrow> nat option" where
  "hex_value r =
     (if 48 \<le> r \<and> r \<le> 57 then Some (r - 48)
      else if 97 \<le> r \<and> r \<le> 102 then Some (r - 87)
      else if 65 \<le> r \<and> r \<le> 70 then Some (r - 55)
      else None)"

fun hex4 :: "rune list \<Rightarrow> (nat \<times> rune list) option" where
  "hex4 (a # b # c # d # rest) =
     (case (hex_value a, hex_value b, hex_value c, hex_value d) of
        (Some w, Some x, Some y, Some z) \<Rightarrow> Some (((w * 16 + x) * 16 + y) * 16 + z, rest)
      | _ \<Rightarrow> None)"
| "hex4 _ = None"

definition unshort :: "rune \<Rightarrow> rune option" where
  "unshort e = map_of [(34, 34), (92, 92), (47, 47), (98, 8), (102, 12), (110, 10), (114, 13), (116, 9)] e"

text \<open>The second half of a surrogate pair, when it follows.\<close>

definition low_half :: "nat \<Rightarrow> rune list \<Rightarrow> (rune \<times> rune list) option" where
  "low_half u cs =
     (case cs of
        b # x # rest \<Rightarrow>
          if b = 92 \<and> x = 117 then
            (case hex4 rest of
               Some (u2, rest') \<Rightarrow>
                 if 55296 \<le> u \<and> u < 56320 \<and> 56320 \<le> u2 \<and> u2 < 57344
                 then Some ((u - 55296) * 1024 + (u2 - 56320) + 65536, rest') else None
             | None \<Rightarrow> None)
          else None
      | _ \<Rightarrow> None)"

lemma hex4_shorter: "hex4 cs = Some (u, rest) \<Longrightarrow> length rest < length cs"
  by (cases cs rule: hex4.cases) (auto split: option.splits)

lemma low_half_shorter: "low_half u cs = Some (r, rest) \<Longrightarrow> length rest < length cs"
  by (auto simp: low_half_def dest!: hex4_shorter split: list.splits if_splits option.splits)

text \<open>The escape after a backslash: the rune it stands for and what follows.\<close>

definition escape_rune :: "rune list \<Rightarrow> (rune \<times> rune list) option" where
  "escape_rune cs =
     (case cs of
        [] \<Rightarrow> None
      | e # rest \<Rightarrow> (case unshort e of
            Some r \<Rightarrow> Some (r, rest)
          | None \<Rightarrow>
              if e \<noteq> 117 then None
              else (case hex4 rest of
                  None \<Rightarrow> None
                | Some (u, rest') \<Rightarrow>
                    if valid_rune u then Some (u, rest')
                    else (case low_half u rest' of Some p \<Rightarrow> Some p | None \<Rightarrow> Some (RuneError, rest')))))"

lemma escape_rune_shorter: "escape_rune cs = Some (r, rest) \<Longrightarrow> length rest < length cs"
  by (fastforce simp: escape_rune_def dest!: hex4_shorter low_half_shorter split: list.splits option.splits if_splits)

text \<open>The content of a literal up to its closing quote, and what follows.\<close>

function unquote :: "rune list \<Rightarrow> (rune list \<times> rune list) option" where
  "unquote [] = None"
| "unquote (c # cs) =
     (if c = 34 then Some ([], cs)
      else if c < 32 then None
      else if c \<noteq> 92 then map_option (apfst (Cons c)) (unquote cs)
      else (case escape_rune cs of
          None \<Rightarrow> None
        | Some (r, rest) \<Rightarrow> map_option (apfst (Cons r)) (unquote rest)))"
  by pat_completeness auto
termination by (relation "measure length") (auto dest: escape_rune_shorter)

section \<open>Number literals\<close>

definition is_digit :: "char \<Rightarrow> bool" where
  "is_digit c \<longleftrightarrow> 48 \<le> byte c \<and> byte c \<le> 57"

definition int_part :: "string \<Rightarrow> string option" where
  "int_part s =
     (case s of
        [] \<Rightarrow> None
      | c # cs \<Rightarrow> if c = CHR ''0'' then Some cs else if is_digit c then Some (dropWhile is_digit cs) else None)"

definition some_digits :: "string \<Rightarrow> string option" where
  "some_digits s = (case s of [] \<Rightarrow> None | c # cs \<Rightarrow> if is_digit c then Some (dropWhile is_digit cs) else None)"

definition frac_part :: "string \<Rightarrow> string option" where
  "frac_part s = (case s of [] \<Rightarrow> Some s | c # cs \<Rightarrow> if c = CHR ''.'' then some_digits cs else Some s)"

definition exp_part :: "string \<Rightarrow> string option" where
  "exp_part s =
     (case s of
        [] \<Rightarrow> Some s
      | c # cs \<Rightarrow>
          if c = CHR ''e'' \<or> c = CHR ''E'' then
            some_digits (case cs of [] \<Rightarrow> [] | d # ds \<Rightarrow> if d = CHR ''+'' \<or> d = CHR ''-'' then ds else cs)
          else Some s)"

definition unsigned :: "string \<Rightarrow> string" where
  "unsigned s = (case s of [] \<Rightarrow> [] | c # cs \<Rightarrow> if c = CHR ''-'' then cs else s)"

definition number_ok :: "string \<Rightarrow> bool" where
  "number_ok s \<longleftrightarrow> Option.bind (Option.bind (int_part (unsigned s)) frac_part) exp_part = Some []"

text \<open>\<^verbatim>\<open>strconv.ParseInt\<close> on the literal of a number, for a field of 64 bits.\<close>

definition digits_value :: "string \<Rightarrow> int" where
  "digits_value s = foldl (\<lambda>a c. 10 * a + (int (byte c) - 48)) 0 s"

definition int_value :: "string \<Rightarrow> int option" where
  "int_value s =
     (let ds = unsigned s; n = (if ds = s then digits_value ds else - digits_value ds)
      in if ds \<noteq> [] \<and> list_all is_digit ds \<and> - (2 ^ 63) \<le> n \<and> n < 2 ^ 63 then Some n else None)"

section \<open>Lexer\<close>

datatype token = TNull | TBool bool | TNum string | TStr string | TOpenArr | TCloseArr | TOpenObj | TCloseObj | TComma | TColon

definition json_space :: "rune \<Rightarrow> bool" where
  "json_space c \<longleftrightarrow> c = 32 \<or> c = 9 \<or> c = 10 \<or> c = 13"

definition punctuation :: "rune \<Rightarrow> token option" where
  "punctuation c =
     map_of [(91, TOpenArr), (93, TCloseArr), (123, TOpenObj), (125, TCloseObj), (44, TComma), (58, TColon)] c"

definition number_rune :: "rune \<Rightarrow> bool" where
  "number_rune c \<longleftrightarrow> (48 \<le> c \<and> c \<le> 57) \<or> c = 43 \<or> c = 45 \<or> c = 46 \<or> c = 69 \<or> c = 101"

definition literals :: "(rune list \<times> token) list" where
  "literals = [(map byte ''null'', TNull), (map byte ''true'', TBool True), (map byte ''false'', TBool False)]"

text \<open>The first token of a text that does not start with a space.\<close>

definition first_token :: "rune list \<Rightarrow> (token \<times> rune list) option" where
  "first_token cs =
     (case cs of
        [] \<Rightarrow> None
      | c # rest \<Rightarrow> (case punctuation c of
            Some t \<Rightarrow> Some (t, rest)
          | None \<Rightarrow>
              if c = 34 then map_option (apfst (\<lambda>rs. TStr (encode rs))) (unquote rest)
              else if number_rune c then
                (let l = map char_of (takeWhile number_rune cs)
                 in if number_ok l then Some (TNum l, dropWhile number_rune cs) else None)
              else map_option (\<lambda>(l, t). (t, drop (length l) cs)) (find (\<lambda>(l, t). take (length l) cs = l) literals)))"

lemma unquote_shorter: "unquote cs = Some (x, rest) \<Longrightarrow> length rest < length cs"
proof (induction cs arbitrary: x rule: unquote.induct)
  case (2 c cs)
  then show ?case by (fastforce split: if_splits option.splits dest: escape_rune_shorter)
qed simp

lemma first_token_shorter: "first_token cs = Some (t, rest) \<Longrightarrow> length rest < length cs"
proof (cases cs)
  case (Cons c cs')
  assume "first_token cs = Some (t, rest)"
  then show ?thesis
    using Cons
    by (auto simp: first_token_def Let_def literals_def less_Suc_eq_le length_dropWhile_le dest: unquote_shorter
        split: option.splits if_splits)
qed (simp add: first_token_def)

function json_lex :: "rune list \<Rightarrow> token list option" where
  "json_lex [] = Some []"
| "json_lex (c # cs) =
     (if json_space c then json_lex cs
      else (case first_token (c # cs) of
          None \<Rightarrow> None
        | Some (t, rest) \<Rightarrow> map_option (Cons t) (json_lex rest)))"
  by pat_completeness auto
termination by (relation "measure length") (auto dest: first_token_shorter)

section \<open>The machine\<close>

text \<open>An open array with its elements, an open object with its members and the name that waits for a value.\<close>

datatype frame = InArr "jval list" | InObj "(string \<times> jval) list" string

datatype mode = WantValue | WantElem | WantName | WantMember | WantColon string | AfterValue | Complete jval

definition max_depth :: nat where
  "max_depth = 10000"

fun finish_value :: "jval \<Rightarrow> frame list \<Rightarrow> mode \<times> frame list" where
  "finish_value v [] = (Complete v, [])"
| "finish_value v (InArr vs # st) = (AfterValue, InArr (v # vs) # st)"
| "finish_value v (InObj kvs k # st) = (AfterValue, InObj ((k, v) # kvs) [] # st)"

definition open_frame :: "mode \<Rightarrow> frame \<Rightarrow> frame list \<Rightarrow> (mode \<times> frame list) option" where
  "open_frame m f st = (if length st < max_depth then Some (m, f # st) else None)"

fun value_token :: "token \<Rightarrow> frame list \<Rightarrow> (mode \<times> frame list) option" where
  "value_token TNull st = Some (finish_value VNull st)"
| "value_token (TBool b) st = Some (finish_value (VBool b) st)"
| "value_token (TNum l) st = Some (finish_value (VNum l) st)"
| "value_token (TStr s) st = Some (finish_value (VStr s) st)"
| "value_token TOpenArr st = open_frame WantElem (InArr []) st"
| "value_token TOpenObj st = open_frame WantMember (InObj [] []) st"
| "value_token _ st = None"

fun close_frame :: "token \<Rightarrow> frame list \<Rightarrow> (mode \<times> frame list) option" where
  "close_frame TCloseArr (InArr vs # st) = Some (finish_value (VArr (rev vs)) st)"
| "close_frame TCloseObj (InObj kvs _ # st) = Some (finish_value (VObj (rev kvs)) st)"
| "close_frame _ st = None"

fun name_token :: "token \<Rightarrow> frame list \<Rightarrow> (mode \<times> frame list) option" where
  "name_token (TStr k) st = Some (WantColon k, st)"
| "name_token _ st = None"

fun machine_step :: "token \<Rightarrow> mode \<times> frame list \<Rightarrow> (mode \<times> frame list) option" where
  "machine_step t (WantValue, st) = value_token t st"
| "machine_step t (WantElem, st) = (if t = TCloseArr then close_frame t st else value_token t st)"
| "machine_step t (WantMember, st) = (if t = TCloseObj then close_frame t st else name_token t st)"
| "machine_step t (WantName, st) = name_token t st"
| "machine_step t (WantColon k, InObj kvs _ # st) = (if t = TColon then Some (WantValue, InObj kvs k # st) else None)"
| "machine_step t (AfterValue, f # st) =
     (if t = TComma then Some ((case f of InArr _ \<Rightarrow> WantValue | InObj _ _ \<Rightarrow> WantName), f # st) else close_frame t (f # st))"
| "machine_step t _ = None"

fun run_machine :: "token list \<Rightarrow> mode \<times> frame list \<Rightarrow> (mode \<times> frame list) option" where
  "run_machine [] s = Some s"
| "run_machine (t # ts) s = Option.bind (machine_step t s) (run_machine ts)"

definition parse_tokens :: "token list \<Rightarrow> jval option" where
  "parse_tokens ts = (case run_machine ts (WantValue, []) of Some (Complete v, []) \<Rightarrow> Some v | _ \<Rightarrow> None)"

definition json_parse :: "string \<Rightarrow> jval option" where
  "json_parse s = Option.bind (json_lex (runes s)) parse_tokens"

section \<open>Reading back what was written\<close>

fun val_tokens :: "jval \<Rightarrow> token list" where
  "val_tokens VNull = [TNull]"
| "val_tokens (VBool b) = [TBool b]"
| "val_tokens (VNum l) = [TNum l]"
| "val_tokens (VStr s) = [TStr s]"
| "val_tokens (VArr vs) = TOpenArr # sep_by TComma (map val_tokens vs) @ [TCloseArr]"
| "val_tokens (VObj kvs) = TOpenObj # sep_by TComma (map (\<lambda>(k, v). TStr k # TColon # val_tokens v) kvs) @ [TCloseObj]"

text \<open>What \<^verbatim>\<open>Marshal\<close> can be given without loss: valid UTF-8 and well-formed numbers.\<close>

fun jval_ok :: "jval \<Rightarrow> bool" where
  "jval_ok (VNum l) \<longleftrightarrow> number_ok l \<and> list_all (\<lambda>c. number_rune (byte c)) l"
| "jval_ok (VStr s) \<longleftrightarrow> valid_utf8 s"
| "jval_ok (VArr vs) \<longleftrightarrow> list_all jval_ok vs"
| "jval_ok (VObj kvs) \<longleftrightarrow> list_all (\<lambda>(k, v). valid_utf8 k \<and> jval_ok v) kvs"
| "jval_ok _ \<longleftrightarrow> True"

fun depth :: "jval \<Rightarrow> nat" where
  "depth (VArr vs) = Suc (Max (insert 0 (depth ` set vs)))"
| "depth (VObj kvs) = Suc (Max (insert 0 ((\<lambda>(k, v). depth v) ` set kvs)))"
| "depth _ = 0"

lemma hex_value_rune: "d < 16 \<Longrightarrow> hex_value (hex_rune d) = Some d"
  by (auto simp: hex_value_def hex_rune_def)

lemma unshort_short: "short_code r = Some c \<Longrightarrow> unshort c = Some r"
  by (auto simp: short_code_def unshort_def split: if_splits)

lemma unquote_escape:
  assumes "valid_rune r"
  shows "unquote (json_escape r @ rest) = map_option (apfst (Cons r)) (unquote rest)"
proof (cases r rule: json_escape_cases)
  case (short c)
  then show ?thesis by (simp add: escape_rune_def unshort_short)
next
  case long
  have "hex4 (48 # 48 # hex_rune (r div 16) # hex_rune (r mod 16) # rest) = Some (r, rest)"
    using long(1) by (simp add: hex_value_rune) (simp add: hex_value_def)
  then show ?thesis using long assms by (simp add: escape_rune_def unshort_def)
next
  case sep
  then have "hex4 (50 # 48 # 50 # hex_rune (r mod 16) # rest) = Some (r, rest)"
    by (auto simp: hex_value_def hex_rune_def)
  then show ?thesis using sep assms by (simp add: escape_rune_def unshort_def)
next
  case plain
  then have "r \<noteq> 34" "\<not> r < 32" by (auto simp: json_escape_def split: if_splits)
  then show ?thesis using plain by simp
qed

lemma unquote_body:
  "\<forall>r \<in> set rs. valid_rune r \<Longrightarrow> unquote (concat (map json_escape rs) @ 34 # rest) = Some (rs, rest)"
  by (induction rs) (simp_all add: unquote_escape)

lemma unquote_str: "valid_utf8 s \<Longrightarrow> unquote (json_body s @ 34 # rest) = Some (runes s, rest)"
  by (simp add: valid_utf8_body unquote_body runes_valid)

text \<open>What may follow a value: the end, or a rune that no number goes on with.\<close>

definition delimited :: "rune list \<Rightarrow> bool" where
  "delimited rest \<longleftrightarrow> rest = [] \<or> \<not> number_rune (hd rest)"

lemma delimited_simps [simp]: "delimited []" "delimited (c # cs) \<longleftrightarrow> \<not> number_rune c"
  by (simp_all add: delimited_def)

lemma lex_token:
  assumes "first_token (c # cs) = Some (t, rest)" "\<not> json_space c"
  shows "json_lex (c # cs) = map_option (Cons t) (json_lex rest)"
  using assms by simp

lemma lex_str: "valid_utf8 s \<Longrightarrow> json_lex (str_runes s @ rest) = map_option (Cons (TStr s)) (json_lex rest)"
  by (simp add: str_runes_def json_space_def first_token_def punctuation_def unquote_str valid_utf8_encode)

lemma lex_punctuation:
  "json_lex (91 # cs) = map_option (Cons TOpenArr) (json_lex cs)" "json_lex (93 # cs) = map_option (Cons TCloseArr) (json_lex cs)"
  "json_lex (123 # cs) = map_option (Cons TOpenObj) (json_lex cs)" "json_lex (125 # cs) = map_option (Cons TCloseObj) (json_lex cs)"
  "json_lex (44 # cs) = map_option (Cons TComma) (json_lex cs)" "json_lex (58 # cs) = map_option (Cons TColon) (json_lex cs)"
  by (simp_all add: json_space_def first_token_def punctuation_def)

lemma number_not_Nil: "number_ok l \<Longrightarrow> l \<noteq> []"
  by (auto simp: number_ok_def unsigned_def int_part_def)

lemma number_rune_plain: "number_rune c \<Longrightarrow> \<not> json_space c \<and> punctuation c = None \<and> c \<noteq> 34"
  by (auto simp: number_rune_def json_space_def punctuation_def)

lemma takeWhile_delimited:
  "list_all P xs \<Longrightarrow> rest = [] \<or> \<not> P (hd rest) \<Longrightarrow> takeWhile P (xs @ rest) = xs \<and> dropWhile P (xs @ rest) = rest"
  by (induction xs) (auto, (cases rest; simp)+)

lemma lex_number:
  assumes "number_ok l" "list_all (\<lambda>c. number_rune (byte c)) l" "delimited rest"
  shows "json_lex (map byte l @ rest) = map_option (Cons (TNum l)) (json_lex rest)"
proof -
  obtain c cs where l: "map byte l = c # cs" "number_rune c" using assms(1,2) number_not_Nil by (cases l) auto
  have run: "takeWhile number_rune (c # cs @ rest) = map byte l \<and> dropWhile number_rune (c # cs @ rest) = rest"
  proof -
    have "list_all number_rune (map byte l)" using assms(2) by (simp add: list_all_iff)
    from takeWhile_delimited [OF this] assms(3) show ?thesis unfolding delimited_def l(1) append_Cons by blast
  qed
  have "map char_of (map byte l) = l" by (simp add: comp_def)
  then have "first_token (c # cs @ rest) = Some (TNum l, rest)"
    using run number_rune_plain [OF l(2)] l(2) assms(1)
    by (simp add: first_token_def Let_def del: takeWhile.simps dropWhile.simps map_map)
  then show ?thesis using lex_token number_rune_plain [OF l(2)] l(1) by simp
qed

lemma byte_simps [simp]:
  "byte CHR ''n'' = 110" "byte CHR ''u'' = 117" "byte CHR ''l'' = 108" "byte CHR ''t'' = 116" "byte CHR ''r'' = 114"
  "byte CHR ''e'' = 101" "byte CHR ''f'' = 102" "byte CHR ''a'' = 97" "byte CHR ''s'' = 115"
  by (simp_all add: byte_def)

lemma lex_literals:
  "json_lex (map byte ''null'' @ rest) = map_option (Cons TNull) (json_lex rest)"
  "json_lex (map byte ''true'' @ rest) = map_option (Cons (TBool True)) (json_lex rest)"
  "json_lex (map byte ''false'' @ rest) = map_option (Cons (TBool False)) (json_lex rest)"
  by (simp_all add: json_space_def first_token_def punctuation_def number_rune_def literals_def)

declare json_lex.simps(2) [simp del]

lemma lex_sep:
  assumes "\<And>x rest. x \<in> set xs \<Longrightarrow> delimited rest \<Longrightarrow> json_lex (f x @ rest) = map_option ((@) (g x)) (json_lex rest)" "delimited rest"
  shows "json_lex (sep_by 44 (map f xs) @ rest) = map_option ((@) (sep_by TComma (map g xs))) (json_lex rest)"
  using assms(1)
proof (induction xs)
  case (Cons x xs)
  show ?case
  proof (cases "xs = []")
    case True
    then show ?thesis using Cons.prems assms(2) by simp
  next
    case False
    then have "json_lex (f x @ 44 # sep_by 44 (map f xs) @ rest) = map_option ((@) (g x)) (json_lex (44 # sep_by 44 (map f xs) @ rest))"
      by (intro Cons.prems) (simp_all add: number_rune_def)
    then show ?thesis
      using False Cons by (simp add: lex_punctuation option.map_comp comp_def)
  qed
qed (cases "json_lex rest", simp_all)

lemma append_one: "(@) [t] = Cons t"
  by (simp add: fun_eq_iff)

lemma lex_val: "jval_ok v \<Longrightarrow> delimited rest \<Longrightarrow> json_lex (val_runes v @ rest) = map_option ((@) (val_tokens v)) (json_lex rest)"
proof (induction v arbitrary: rest)
  case (VArr vs)
  have "json_lex (sep_by 44 (map val_runes vs) @ 93 # rest) = map_option ((@) (sep_by TComma (map val_tokens vs))) (json_lex (93 # rest))"
    using VArr by (intro lex_sep) (auto simp: list_all_iff number_rune_def)
  then show ?case by (simp add: lex_punctuation option.map_comp comp_def)
next
  case (VObj kvs)
  have "json_lex (sep_by 44 (map (\<lambda>(k, v). str_runes k @ 58 # val_runes v) kvs) @ 125 # rest) =
    map_option ((@) (sep_by TComma (map (\<lambda>(k, v). TStr k # TColon # val_tokens v) kvs))) (json_lex (125 # rest))"
  proof (intro lex_sep)
    fix kv r
    assume kv: "kv \<in> set kvs" "delimited r"
    obtain k v where p: "kv = (k, v)" by force
    with VObj.prems kv have ok: "valid_utf8 k" "jval_ok v" by (auto simp: list_all_iff)
    then have "json_lex (val_runes v @ r) = map_option ((@) (val_tokens v)) (json_lex r)"
      using VObj.IH [of kv v r] kv p by simp
    then show "json_lex ((case kv of (k, v) \<Rightarrow> str_runes k @ 58 # val_runes v) @ r) =
      map_option ((@) (case kv of (k, v) \<Rightarrow> TStr k # TColon # val_tokens v)) (json_lex r)"
      using ok p by (cases "json_lex r") (simp_all add: lex_str lex_punctuation)
  qed (simp add: number_rune_def)
  then show ?case by (simp add: lex_punctuation option.map_comp comp_def)
qed (simp_all add: lex_number lex_str lex_literals [simplified] append_one)

section \<open>The machine on the tokens of a value\<close>

lemma run_machine_append: "run_machine (ts @ us) s = Option.bind (run_machine ts s) (run_machine us)"
proof (induction ts arbitrary: s)
  case (Cons t ts)
  then show ?case by (cases "machine_step t s") simp_all
qed simp

lemma machine_elem: "m = WantValue \<or> m = WantElem \<Longrightarrow> ts \<noteq> [] \<Longrightarrow> hd ts \<noteq> TCloseArr \<Longrightarrow>
   run_machine ts (m, st) = run_machine ts (WantValue, st)"
  by (cases ts) auto

lemma val_tokens_head [simp]: "val_tokens v \<noteq> []" "hd (val_tokens v) \<noteq> TCloseArr" "hd (val_tokens v) \<noteq> TCloseObj"
  by (cases v; simp)+

lemma run_elems:
  assumes "\<And>v st. v \<in> set vs \<Longrightarrow> length st \<le> n \<Longrightarrow> run_machine (val_tokens v) (WantValue, st) = Some (finish_value v st)"
    and "length st < n" "vs \<noteq> []"
  shows "run_machine (sep_by TComma (map val_tokens vs)) (WantValue, InArr us # st) = Some (AfterValue, InArr (rev vs @ us) # st)"
  using assms(1,3)
proof (induction vs arbitrary: us)
  case (Cons v vs)
  have "run_machine (val_tokens v) (WantValue, InArr us # st) = Some (AfterValue, InArr (v # us) # st)"
    using Cons.prems(1) [of v "InArr us # st"] assms(2) by simp
  then show ?case using Cons by (cases "vs = []") (simp_all add: run_machine_append)
qed simp

lemma run_members:
  assumes "\<And>k v st. (k, v) \<in> set kvs \<Longrightarrow> length st \<le> n \<Longrightarrow> run_machine (val_tokens v) (WantValue, st) = Some (finish_value v st)"
    and "length st < n" "kvs \<noteq> []"
  shows "run_machine (sep_by TComma (map (\<lambda>(k, v). TStr k # TColon # val_tokens v) kvs)) (WantName, InObj us [] # st)
    = Some (AfterValue, InObj (rev kvs @ us) [] # st)"
  using assms(1,3)
proof (induction kvs arbitrary: us)
  case (Cons kv kvs)
  obtain k v where kv: "kv = (k, v)" by force
  have "run_machine (val_tokens v) (WantValue, InObj us k # st) = Some (AfterValue, InObj ((k, v) # us) [] # st)"
    using Cons.prems(1) [of k v "InObj us k # st"] assms(2) kv by simp
  moreover have "run_machine (sep_by TComma (map (\<lambda>(k, v). TStr k # TColon # val_tokens v) kvs)) (WantName, InObj ((k, v) # us) [] # st)
      = Some (AfterValue, InObj (rev kvs @ (k, v) # us) [] # st)" if "kvs \<noteq> []"
    using that Cons.prems(1) by (intro Cons.IH) auto
  ultimately show ?case using kv by (cases "kvs = []") (simp_all add: run_machine_append)
qed simp

lemma depth_in:
  "v \<in> set vs \<Longrightarrow> depth v < depth (VArr vs)" "(k, v) \<in> set kvs \<Longrightarrow> depth v < depth (VObj kvs)"
  by (auto simp: less_Suc_eq_le intro!: Max_ge image_eqI [where x = "(k, v)"])

lemma run_val:
  "length st + depth v \<le> max_depth \<Longrightarrow> run_machine (val_tokens v) (WantValue, st) = Some (finish_value v st)"
proof (induction v arbitrary: st)
  case (VArr vs)
  have deep: "length st < max_depth" using VArr.prems by simp
  have elem: "run_machine (val_tokens v) (WantValue, st') = Some (finish_value v st')"
    if "v \<in> set vs" "length st' \<le> Suc (length st)" for v st'
    using VArr.IH [OF that(1)] VArr.prems depth_in(1) [OF that(1)] that(2) by simp
  show ?case
  proof (cases vs)
    case Nil
    then show ?thesis using deep by (simp add: open_frame_def)
  next
    case (Cons w ws)
    let ?ts = "sep_by TComma (map val_tokens vs)"
    have "hd ?ts \<noteq> TCloseArr" "?ts \<noteq> []" using Cons by (auto simp: hd_append)
    then have "run_machine ?ts (WantElem, InArr [] # st) = Some (AfterValue, InArr (rev vs) # st)"
      using run_elems [of vs "Suc (length st)" st "[]", OF elem] Cons machine_elem [of WantElem ?ts] by simp
    then show ?thesis using deep by (simp add: run_machine_append open_frame_def)
  qed
next
  case (VObj kvs)
  have deep: "length st < max_depth" using VObj.prems by simp
  have elem: "run_machine (val_tokens v) (WantValue, st') = Some (finish_value v st')"
    if "(k, v) \<in> set kvs" "length st' \<le> Suc (length st)" for k v st'
    using VObj.IH [of "(k, v)" v st'] VObj.prems depth_in(2) [OF that(1)] that by simp
  show ?case
  proof (cases kvs)
    case Nil
    then show ?thesis using deep by (simp add: open_frame_def)
  next
    case (Cons kv rest)
    let ?ts = "sep_by TComma (map (\<lambda>(k, v). TStr k # TColon # val_tokens v) kvs)"
    have "\<exists>k us. ?ts = TStr k # us" using Cons by (cases kv) auto
    then have "run_machine ?ts (WantMember, InObj [] [] # st) = run_machine ?ts (WantName, InObj [] [] # st)" by auto
    then have "run_machine ?ts (WantMember, InObj [] [] # st) = Some (AfterValue, InObj (rev kvs) [] # st)"
      using run_members [of kvs "Suc (length st)" st "[]", OF elem] Cons by simp
    then show ?thesis using deep by (simp add: run_machine_append open_frame_def)
  qed
qed simp_all

section \<open>Round trip\<close>

lemma str_runes_valid: "valid_utf8 s \<Longrightarrow> r \<in> set (str_runes s) \<Longrightarrow> valid_rune r"
  by (auto simp: str_runes_def valid_rune_small dest: json_body_valid)

lemma sep_by_set: "x \<in> set (sep_by c xs) \<Longrightarrow> x = c \<or> (\<exists>ys \<in> set xs. x \<in> set ys)"
  by (induction xs) (auto split: if_splits)

lemma byte_valid: "valid_rune (byte c)"
  using byte_less [of c] by (simp add: valid_rune_def del: byte_less)

lemma val_runes_valid: "jval_ok v \<Longrightarrow> r \<in> set (val_runes v) \<Longrightarrow> valid_rune r"
proof (induction v)
  case (VArr vs)
  then show ?case by (auto simp: valid_rune_small list_all_iff dest!: sep_by_set)
next
  case (VObj kvs)
  then show ?case by (fastforce simp: valid_rune_small list_all_iff dest!: sep_by_set str_runes_valid)
qed (auto simp: byte_valid str_runes_valid valid_rune_small split: if_splits)

text \<open>
  A value that is written and read back is the same, as long as its strings are UTF-8, its numbers are
  numbers and it is not nested deeper than the reader goes.
\<close>

lemma json_roundtrip:
  assumes "jval_ok v" "depth v \<le> max_depth"
  shows "json_parse (json_print v) = Some v"
proof -
  have "runes (json_print v) = val_runes v"
    using val_runes_valid [OF assms(1)] by (simp add: json_print_def runes_encode)
  moreover have "json_lex (val_runes v) = Some (val_tokens v)" using lex_val [OF assms(1), of "[]"] by simp
  ultimately show ?thesis using run_val [of "[]" v] assms(2) by (simp add: json_parse_def parse_tokens_def)
qed

end
