(* ===== verification/Wire.thy ===== *)
theory Wire
  imports Protocol Json_Text
begin

text \<open>
  Frames: the JSON of the structs of \<^verbatim>\<open>internal/protocol/protocol.go\<close>, with the names and \<^verbatim>\<open>omitempty\<close> of
  their tags, and \<^verbatim>\<open>Send\<close> and \<^verbatim>\<open>Recv\<close> of \<^verbatim>\<open>internal/wire/conn.go\<close>. A struct is decoded into a value that is
  there already: a member sets its field, an unknown one is ignored, \<^verbatim>\<open>null\<close> leaves a field alone, and a
  member of the wrong type is an error. Names are compared without regard to case. The text of a
  floating-point number is that of \<^verbatim>\<open>strconv\<close> and is a parameter.
\<close>

section \<open>Decoding into a field\<close>

text \<open>The runes that are equal to an ASCII letter up to case: capitals, the Kelvin sign and the long s.\<close>

definition fold_rune :: "rune \<Rightarrow> rune" where
  "fold_rune r = (if 65 \<le> r \<and> r \<le> 90 then r + 32 else if r = 8490 then 107 else if r = 383 then 115 else r)"

definition fold_name :: "string \<Rightarrow> string" where
  "fold_name k = encode (map fold_rune (runes k))"

type_synonym 'a setter = "jval \<Rightarrow> 'a \<Rightarrow> 'a option"

fun fill :: "(string \<times> 'a setter) list \<Rightarrow> (string \<times> jval) list \<Rightarrow> 'a \<Rightarrow> 'a option" where
  "fill fs [] x = Some x"
| "fill fs ((k, v) # kvs) x =
     (case map_of fs (fold_name k) of
        None \<Rightarrow> fill fs kvs x
      | Some f \<Rightarrow> Option.bind (f v x) (fill fs kvs))"

fun struct :: "(string \<times> 'a setter) list \<Rightarrow> 'a setter" where
  "struct fs (VObj kvs) x = fill fs kvs x"
| "struct fs VNull x = Some x"
| "struct fs _ x = None"

fun set_str :: "((string \<Rightarrow> string) \<Rightarrow> 'a \<Rightarrow> 'a) \<Rightarrow> 'a setter" where
  "set_str upd (VStr s) x = Some (upd (\<lambda>_. s) x)"
| "set_str upd VNull x = Some x"
| "set_str upd _ x = None"

fun set_bool :: "((bool \<Rightarrow> bool) \<Rightarrow> 'a \<Rightarrow> 'a) \<Rightarrow> 'a setter" where
  "set_bool upd (VBool b) x = Some (upd (\<lambda>_. b) x)"
| "set_bool upd VNull x = Some x"
| "set_bool upd _ x = None"

fun set_int :: "((int \<Rightarrow> int) \<Rightarrow> 'a \<Rightarrow> 'a) \<Rightarrow> 'a setter" where
  "set_int upd (VNum l) x = map_option (\<lambda>n. upd (\<lambda>_. n) x) (int_value l)"
| "set_int upd VNull x = Some x"
| "set_int upd _ x = None"

fun set_float :: "(string \<Rightarrow> rat option) \<Rightarrow> ((rat \<Rightarrow> rat) \<Rightarrow> 'a \<Rightarrow> 'a) \<Rightarrow> 'a setter" where
  "set_float val upd (VNum l) x = map_option (\<lambda>q. upd (\<lambda>_. q) x) (val l)"
| "set_float val upd VNull x = Some x"
| "set_float val upd _ x = None"

text \<open>A slice: \<^verbatim>\<open>null\<close> makes it nil. Its elements are decoded into zero values.\<close>

fun set_list :: "'b setter \<Rightarrow> 'b \<Rightarrow> (('b list \<Rightarrow> 'b list) \<Rightarrow> 'a \<Rightarrow> 'a) \<Rightarrow> 'a setter" where
  "set_list elem zero upd (VArr vs) x = map_option (\<lambda>ys. upd (\<lambda>_. ys) x) (those (map (\<lambda>v. elem v zero) vs))"
| "set_list elem zero upd VNull x = Some (upd (\<lambda>_. []) x)"
| "set_list elem zero upd _ x = None"

text \<open>A pointer to a struct.\<close>

definition set_ptr :: "'b setter \<Rightarrow> 'b \<Rightarrow> ('a \<Rightarrow> 'b option) \<Rightarrow> (('b option \<Rightarrow> 'b option) \<Rightarrow> 'a \<Rightarrow> 'a) \<Rightarrow> 'a setter" where
  "set_ptr elem zero get upd v x =
     (if v = VNull then Some (upd (\<lambda>_. None) x)
      else map_option (\<lambda>y. upd (\<lambda>_. Some y) x) (elem v (case get x of None \<Rightarrow> zero | Some y \<Rightarrow> y)))"

definition set_struct :: "'b setter \<Rightarrow> ('a \<Rightarrow> 'b) \<Rightarrow> (('b \<Rightarrow> 'b) \<Rightarrow> 'a \<Rightarrow> 'a) \<Rightarrow> 'a setter" where
  "set_struct elem get upd v x = map_option (\<lambda>y. upd (\<lambda>_. y) x) (elem v (get x))"

text \<open>A raw message keeps the text, here as \<^verbatim>\<open>Marshal\<close> writes it again.\<close>

definition set_raw :: "((string \<Rightarrow> string) \<Rightarrow> 'a \<Rightarrow> 'a) \<Rightarrow> 'a setter" where
  "set_raw upd v x = Some (upd (\<lambda>_. json_print v) x)"

definition plain_string :: "string setter" where
  "plain_string v x = set_str (\<lambda>f. f) v x"

section \<open>Encoding a field\<close>

definition num :: "int \<Rightarrow> jval" where
  "num n = VNum (itoa n)"

definition strs :: "string list \<Rightarrow> jval" where
  "strs ss = VArr (map VStr ss)"

definition omitempty :: "bool \<Rightarrow> string \<Rightarrow> jval \<Rightarrow> (string \<times> jval) list" where
  "omitempty z k v = (if z then [] else [(k, v)])"

text \<open>A raw message that is nil is written as \<^verbatim>\<open>null\<close>; a text that is no JSON makes \<^verbatim>\<open>Marshal\<close> fail.\<close>

definition raw :: "string \<Rightarrow> jval option" where
  "raw s = (if s = [] then Some VNull else json_parse s)"

section \<open>The structs\<close>

definition enc_ack :: "Ack \<Rightarrow> jval" where
  "enc_ack a = VObj ([(''ok'', VBool (ak_OK a))] @ omitempty (ak_Code a = []) ''code'' (VStr (ak_Code a))
     @ omitempty (ak_Message a = []) ''message'' (VStr (ak_Message a)))"

definition dec_ack :: "Ack setter" where
  "dec_ack = struct [(''ok'', set_bool ak_OK_update), (''code'', set_str ak_Code_update), (''message'', set_str ak_Message_update)]"

definition enc_hello_job :: "HelloJob \<Rightarrow> jval" where
  "enc_hello_job j = VObj ([(''job_id'', VStr (hj_JobID j)), (''state'', VStr (hj_State j)), (''last_seq'', num (hj_LastSeq j))]
     @ omitempty (hj_PendingApprovals j = []) ''pending_approvals'' (strs (hj_PendingApprovals j)))"

definition zero_hello_job :: HelloJob where
  "zero_hello_job = \<lparr>hj_JobID = [], hj_State = [], hj_LastSeq = 0, hj_PendingApprovals = []\<rparr>"

definition dec_hello_job :: "HelloJob setter" where
  "dec_hello_job = struct [(''job_id'', set_str hj_JobID_update), (''state'', set_str hj_State_update),
     (''last_seq'', set_int hj_LastSeq_update),
     (''pending_approvals'', set_list plain_string [] hj_PendingApprovals_update)]"

definition enc_hello :: "Hello \<Rightarrow> jval" where
  "enc_hello h = VObj ([(''harness_version'', VStr (he_HarnessVersion h)), (''hostname'', VStr (he_Hostname h)),
     (''workspaces'', strs (he_Workspaces h)), (''max_jobs'', num (he_MaxJobs h))]
     @ omitempty (he_Jobs h = []) ''jobs'' (VArr (map enc_hello_job (he_Jobs h))))"

definition zero_hello :: Hello where
  "zero_hello = \<lparr>he_HarnessVersion = [], he_Hostname = [], he_Workspaces = [], he_MaxJobs = 0, he_Jobs = []\<rparr>"

definition dec_hello :: "Hello setter" where
  "dec_hello = struct [(''harness_version'', set_str he_HarnessVersion_update), (''hostname'', set_str he_Hostname_update),
     (''workspaces'', set_list plain_string [] he_Workspaces_update), (''max_jobs'', set_int he_MaxJobs_update),
     (''jobs'', set_list dec_hello_job zero_hello_job he_Jobs_update)]"

definition enc_welcome_job :: "WelcomeJob \<Rightarrow> jval" where
  "enc_welcome_job j = VObj ([(''job_id'', VStr (wj_JobID j)), (''action'', VStr (wj_Action j))]
     @ omitempty (wj_Reason j = []) ''reason'' (VStr (wj_Reason j)))"

definition zero_welcome_job :: WelcomeJob where
  "zero_welcome_job = \<lparr>wj_JobID = [], wj_Action = [], wj_Reason = []\<rparr>"

definition dec_welcome_job :: "WelcomeJob setter" where
  "dec_welcome_job = struct [(''job_id'', set_str wj_JobID_update), (''action'', set_str wj_Action_update),
     (''reason'', set_str wj_Reason_update)]"

definition enc_welcome :: "Welcome \<Rightarrow> jval" where
  "enc_welcome w = VObj ([(''harness_id'', VStr (we_HarnessID w)), (''heartbeat_interval_ms'', num (we_HeartbeatIntervalMS w)),
     (''server_time'', num (we_ServerTime w))] @ omitempty (we_Jobs w = []) ''jobs'' (VArr (map enc_welcome_job (we_Jobs w))))"

definition zero_welcome :: Welcome where
  "zero_welcome = \<lparr>we_HarnessID = [], we_HeartbeatIntervalMS = 0, we_ServerTime = 0, we_Jobs = []\<rparr>"

definition dec_welcome :: "Welcome setter" where
  "dec_welcome = struct [(''harness_id'', set_str we_HarnessID_update),
     (''heartbeat_interval_ms'', set_int we_HeartbeatIntervalMS_update), (''server_time'', set_int we_ServerTime_update),
     (''jobs'', set_list dec_welcome_job zero_welcome_job we_Jobs_update)]"

definition enc_file :: "File \<Rightarrow> jval" where
  "enc_file f = VObj [(''name'', VStr (fl_Name f)), (''mime'', VStr (fl_Mime f)), (''data_b64'', VStr (fl_DataB64 f))]"

definition zero_file :: File where
  "zero_file = \<lparr>fl_Name = [], fl_Mime = [], fl_DataB64 = []\<rparr>"

definition dec_file :: "File setter" where
  "dec_file = struct [(''name'', set_str fl_Name_update), (''mime'', set_str fl_Mime_update), (''data_b64'', set_str fl_DataB64_update)]"

definition enc_history :: "HistoryPost \<Rightarrow> jval" where
  "enc_history p = VObj [(''username'', VStr (hp_Username p)), (''at'', num (hp_At p)), (''text'', VStr (hp_Text p))]"

definition zero_history :: HistoryPost where
  "zero_history = \<lparr>hp_Username = [], hp_At = 0, hp_Text = []\<rparr>"

definition dec_history :: "HistoryPost setter" where
  "dec_history = struct [(''username'', set_str hp_Username_update), (''at'', set_int hp_At_update), (''text'', set_str hp_Text_update)]"

text \<open>The nested structs \<^verbatim>\<open>Thread\<close>, \<^verbatim>\<open>Requester\<close> and \<^verbatim>\<open>Limits\<close> of a dispatch are fields of the record itself.\<close>

definition enc_thread :: "JobDispatch \<Rightarrow> jval" where
  "enc_thread d = VObj [(''channel_id'', VStr (jd_ChannelID d)), (''root_post_id'', VStr (jd_RootPostID d)),
     (''trigger_post_id'', VStr (jd_TriggerPostID d))]"

definition dec_thread :: "JobDispatch setter" where
  "dec_thread = struct [(''channel_id'', set_str jd_ChannelID_update), (''root_post_id'', set_str jd_RootPostID_update),
     (''trigger_post_id'', set_str jd_TriggerPostID_update)]"

definition enc_requester :: "JobDispatch \<Rightarrow> jval" where
  "enc_requester d = VObj [(''mm_user_id'', VStr (jd_RequesterID d)), (''username'', VStr (jd_RequesterName d))]"

definition dec_requester :: "JobDispatch setter" where
  "dec_requester = struct [(''mm_user_id'', set_str jd_RequesterID_update), (''username'', set_str jd_RequesterName_update)]"

definition enc_limits :: "JobDispatch \<Rightarrow> jval" where
  "enc_limits d = VObj (omitempty (jd_MaxTurns d = 0) ''max_turns'' (num (jd_MaxTurns d))
     @ omitempty (jd_TimeoutMS d = 0) ''timeout_ms'' (num (jd_TimeoutMS d)))"

definition dec_limits :: "JobDispatch setter" where
  "dec_limits = struct [(''max_turns'', set_int jd_MaxTurns_update), (''timeout_ms'', set_int jd_TimeoutMS_update)]"

definition enc_dispatch :: "JobDispatch \<Rightarrow> jval" where
  "enc_dispatch d = VObj ([(''bot_user_id'', VStr (jd_BotUserID d)), (''workspace'', VStr (jd_Workspace d))]
     @ omitempty (jd_Agent d = []) ''agent'' (VStr (jd_Agent d))
     @ [(''prompt'', VStr (jd_Prompt d)), (''thread'', enc_thread d), (''requester'', enc_requester d)]
     @ omitempty (jd_Attachments d = []) ''attachments'' (VArr (map enc_file (jd_Attachments d)))
     @ omitempty (jd_History d = []) ''history'' (VArr (map enc_history (jd_History d)))
     @ [(''limits'', enc_limits d)])"

definition zero_dispatch :: JobDispatch where
  "zero_dispatch = \<lparr>jd_BotUserID = [], jd_Workspace = [], jd_Agent = [], jd_Prompt = [], jd_ChannelID = [],
     jd_RootPostID = [], jd_TriggerPostID = [], jd_RequesterID = [], jd_RequesterName = [], jd_Attachments = [],
     jd_History = [], jd_MaxTurns = 0, jd_TimeoutMS = 0\<rparr>"

definition dec_dispatch :: "JobDispatch setter" where
  "dec_dispatch = struct [(''bot_user_id'', set_str jd_BotUserID_update), (''workspace'', set_str jd_Workspace_update),
     (''agent'', set_str jd_Agent_update), (''prompt'', set_str jd_Prompt_update), (''thread'', dec_thread),
     (''requester'', dec_requester), (''attachments'', set_list dec_file zero_file jd_Attachments_update),
     (''history'', set_list dec_history zero_history jd_History_update), (''limits'', dec_limits)]"

definition enc_progress :: "JobProgress \<Rightarrow> jval" where
  "enc_progress p = VObj ([(''seq'', num (jp_Seq p)), (''phase'', VStr (jp_Phase p)), (''text'', VStr (jp_Text p))]
     @ omitempty (jp_CurrentTool p = []) ''current_tool'' (VStr (jp_CurrentTool p)) @ [(''turns'', num (jp_Turns p))])"

definition zero_progress :: JobProgress where
  "zero_progress = \<lparr>jp_Seq = 0, jp_Phase = [], jp_Text = [], jp_CurrentTool = [], jp_Turns = 0\<rparr>"

definition dec_progress :: "JobProgress setter" where
  "dec_progress = struct [(''seq'', set_int jp_Seq_update), (''phase'', set_str jp_Phase_update), (''text'', set_str jp_Text_update),
     (''current_tool'', set_str jp_CurrentTool_update), (''turns'', set_int jp_Turns_update)]"

definition enc_job_error :: "JobError \<Rightarrow> jval" where
  "enc_job_error e = VObj [(''code'', VStr (je_Code e)), (''message'', VStr (je_Message e))]"

definition zero_job_error :: JobError where
  "zero_job_error = \<lparr>je_Code = [], je_Message = []\<rparr>"

definition dec_job_error :: "JobError setter" where
  "dec_job_error = struct [(''code'', set_str je_Code_update), (''message'', set_str je_Message_update)]"

text \<open>\<open>lit\<close> and \<open>val\<close>: how \<^verbatim>\<open>strconv\<close> writes and reads a \<^verbatim>\<open>float64\<close>.\<close>

definition enc_usage :: "(rat \<Rightarrow> string) \<Rightarrow> Usage \<Rightarrow> jval" where
  "enc_usage lit u = VObj ([(''turns'', num (us_Turns u)), (''duration_ms'', num (us_DurationMS u))]
     @ omitempty (us_CostUSD u = 0) ''cost_usd'' (VNum (lit (us_CostUSD u))))"

definition zero_usage :: Usage where
  "zero_usage = \<lparr>us_Turns = 0, us_DurationMS = 0, us_CostUSD = 0\<rparr>"

definition dec_usage :: "(string \<Rightarrow> rat option) \<Rightarrow> Usage setter" where
  "dec_usage val = struct [(''turns'', set_int us_Turns_update), (''duration_ms'', set_int us_DurationMS_update),
     (''cost_usd'', set_float val us_CostUSD_update)]"

definition enc_result :: "(rat \<Rightarrow> string) \<Rightarrow> JobResult \<Rightarrow> jval" where
  "enc_result lit r = VObj ([(''status'', VStr (jr_Status r)), (''text'', VStr (jr_Text r))]
     @ (case jr_Error r of None \<Rightarrow> [] | Some e \<Rightarrow> [(''error'', enc_job_error e)])
     @ omitempty (jr_Files r = []) ''files'' (VArr (map enc_file (jr_Files r))) @ [(''usage'', enc_usage lit (jr_Usage r))])"

definition zero_result :: JobResult where
  "zero_result = \<lparr>jr_Status = [], jr_Text = [], jr_Error = None, jr_Files = [], jr_Usage = zero_usage\<rparr>"

definition dec_result :: "(string \<Rightarrow> rat option) \<Rightarrow> JobResult setter" where
  "dec_result val = struct [(''status'', set_str jr_Status_update), (''text'', set_str jr_Text_update),
     (''error'', set_ptr dec_job_error zero_job_error jr_Error jr_Error_update),
     (''files'', set_list dec_file zero_file jr_Files_update), (''usage'', set_struct (dec_usage val) jr_Usage jr_Usage_update)]"

definition enc_approval_request :: "ApprovalRequest \<Rightarrow> jval option" where
  "enc_approval_request a = map_option (\<lambda>input.
     VObj [(''approval_id'', VStr (ar_ApprovalID a)), (''tool'', VStr (ar_Tool a)), (''summary'', VStr (ar_Summary a)),
       (''input'', input), (''cwd'', VStr (ar_CWD a)), (''expires_at'', num (ar_ExpiresAt a))]) (raw (ar_Input a))"

definition zero_approval_request :: ApprovalRequest where
  "zero_approval_request = \<lparr>ar_ApprovalID = [], ar_Tool = [], ar_Summary = [], ar_Input = [], ar_CWD = [], ar_ExpiresAt = 0\<rparr>"

definition dec_approval_request :: "ApprovalRequest setter" where
  "dec_approval_request = struct [(''approval_id'', set_str ar_ApprovalID_update), (''tool'', set_str ar_Tool_update),
     (''summary'', set_str ar_Summary_update), (''input'', set_raw ar_Input_update), (''cwd'', set_str ar_CWD_update),
     (''expires_at'', set_int ar_ExpiresAt_update)]"

definition enc_approval_response :: "ApprovalResponse \<Rightarrow> jval" where
  "enc_approval_response r = VObj [(''approval_id'', VStr (ap_ApprovalID r)), (''decision'', VStr (ap_Decision r)),
     (''decided_by'', VStr (ap_DecidedBy r)), (''decided_at'', num (ap_DecidedAt r))]"

definition zero_approval_response :: ApprovalResponse where
  "zero_approval_response = \<lparr>ap_ApprovalID = [], ap_Decision = [], ap_DecidedBy = [], ap_DecidedAt = 0\<rparr>"

definition dec_approval_response :: "ApprovalResponse setter" where
  "dec_approval_response = struct [(''approval_id'', set_str ap_ApprovalID_update), (''decision'', set_str ap_Decision_update),
     (''decided_by'', set_str ap_DecidedBy_update), (''decided_at'', set_int ap_DecidedAt_update)]"

section \<open>Envelopes\<close>

fun enc_payload :: "(rat \<Rightarrow> string) \<Rightarrow> payload \<Rightarrow> jval option" where
  "enc_payload lit (PHello h) = Some (enc_hello h)"
| "enc_payload lit (PWelcome w) = Some (enc_welcome w)"
| "enc_payload lit (PPing n) = Some (VObj [(''jobs'', num n)])"
| "enc_payload lit (PPong t) = Some (VObj [(''server_time'', num t)])"
| "enc_payload lit (PDispatch d) = Some (enc_dispatch d)"
| "enc_payload lit (PCancel r) = Some (VObj [(''reason'', VStr r)])"
| "enc_payload lit (PProgress p) = Some (enc_progress p)"
| "enc_payload lit (PResult r) = Some (enc_result lit r)"
| "enc_payload lit (PApprovalRequest a) = enc_approval_request a"
| "enc_payload lit (PApprovalResponse r) = Some (enc_approval_response r)"
| "enc_payload lit (PAck a) = Some (enc_ack a)"
| "enc_payload lit (PError c m) = Some (VObj [(''code'', VStr c), (''message'', VStr m)])"
| "enc_payload lit PUndecodable = None"

definition enc_envelope :: "(rat \<Rightarrow> string) \<Rightarrow> Envelope \<Rightarrow> jval option" where
  "enc_envelope lit e = map_option (\<lambda>p.
     VObj ([(''id'', VStr (en_ID e)), (''type'', VStr (en_Type e))] @ omitempty (en_JobID e = []) ''job_id'' (VStr (en_JobID e))
       @ omitempty (en_Ref e = []) ''ref'' (VStr (en_Ref e)) @ [(''ts'', num (en_TS e)), (''payload'', p)]))
     (enc_payload lit (en_Payload e))"

text \<open>
  \<^verbatim>\<open>Decode\<close> into the struct the receiver expects for the type. The structs with one or two fields are values
  of the payload type itself.
\<close>

definition dec_payload :: "(string \<Rightarrow> rat option) \<Rightarrow> string \<Rightarrow> jval \<Rightarrow> payload" where
  "dec_payload val typ v = (case
     (if typ = TypeHello then map_option PHello (dec_hello v zero_hello)
      else if typ = TypeWelcome then map_option PWelcome (dec_welcome v zero_welcome)
      else if typ = TypePing then map_option PPing (struct [(''jobs'', set_int (\<lambda>f. f))] v 0)
      else if typ = TypePong then map_option PPong (struct [(''server_time'', set_int (\<lambda>f. f))] v 0)
      else if typ = TypeJobDispatch then map_option PDispatch (dec_dispatch v zero_dispatch)
      else if typ = TypeJobCancel then map_option PCancel (struct [(''reason'', set_str (\<lambda>f. f))] v [])
      else if typ = TypeJobProgress then map_option PProgress (dec_progress v zero_progress)
      else if typ = TypeJobResult then map_option PResult (dec_result val v zero_result)
      else if typ = TypeApprovalRequest then map_option PApprovalRequest (dec_approval_request v zero_approval_request)
      else if typ = TypeApprovalResponse then map_option PApprovalResponse (dec_approval_response v zero_approval_response)
      else if typ = TypeAck then map_option PAck (dec_ack v zero_ack)
      else if typ = TypeError then map_option (\<lambda>(c, m). PError c m)
        (struct [(''code'', set_str apfst), (''message'', set_str apsnd)] v ([], []))
      else None) of None \<Rightarrow> PUndecodable | Some p \<Rightarrow> p)"

text \<open>The envelope with its payload still raw.\<close>

record raw_envelope =
  re_ID :: string
  re_Type :: string
  re_JobID :: string
  re_Ref :: string
  re_TS :: int
  re_Payload :: "jval option"

definition zero_raw :: raw_envelope where
  "zero_raw = \<lparr>re_ID = [], re_Type = [], re_JobID = [], re_Ref = [], re_TS = 0, re_Payload = None\<rparr>"

definition dec_raw :: "raw_envelope setter" where
  "dec_raw = struct [(''id'', set_str re_ID_update), (''type'', set_str re_Type_update), (''job_id'', set_str re_JobID_update),
     (''ref'', set_str re_Ref_update), (''ts'', set_int re_TS_update),
     (''payload'', \<lambda>v x. Some (x\<lparr>re_Payload := Some v\<rparr>))]"

definition decoded :: "(string \<Rightarrow> rat option) \<Rightarrow> raw_envelope \<Rightarrow> Envelope" where
  "decoded val r = \<lparr>en_ID = re_ID r, en_Type = re_Type r, en_JobID = re_JobID r, en_Ref = re_Ref r, en_TS = re_TS r,
     en_Payload = (case re_Payload r of None \<Rightarrow> PUndecodable | Some v \<Rightarrow> dec_payload val (re_Type r) v)\<rparr>"

section \<open>The connection\<close>

definition MaxFrame :: nat where
  "MaxFrame = 12 * 2 ^ 20"

datatype ws_frame = TextFrame string | BinaryFrame string

fun frame_data :: "ws_frame \<Rightarrow> string" where
  "frame_data (TextFrame b) = b"
| "frame_data (BinaryFrame b) = b"

datatype wire_err = MarshalErr | TooBig | BadFrame | BadEnvelope | NoIdOrType

definition frame_of :: "(rat \<Rightarrow> string) \<Rightarrow> Envelope \<Rightarrow> wire_err + ws_frame" where
  "frame_of lit e = (case enc_envelope lit e of None \<Rightarrow> Inl MarshalErr | Some v \<Rightarrow> Inr (TextFrame (json_print v)))"

text \<open>A frame beyond the read limit of the connection is an error of \<^verbatim>\<open>Read\<close>, which closes the connection.\<close>

definition conn_recv :: "(string \<Rightarrow> rat option) \<Rightarrow> ws_frame \<Rightarrow> wire_err + Envelope" where
  "conn_recv val f =
     (if MaxFrame < length (frame_data f) then Inl TooBig
      else case f of
          BinaryFrame _ \<Rightarrow> Inl BadFrame
        | TextFrame b \<Rightarrow> (case Option.bind (json_parse b) (\<lambda>v. dec_raw v zero_raw) of
              None \<Rightarrow> Inl BadEnvelope
            | Some r \<Rightarrow> if re_ID r = [] \<or> re_Type r = [] then Inl NoIdOrType else Inr (decoded val r)))"

section \<open>Numbers and names\<close>

lemma is_digit_digit [simp]: "d < 10 \<Longrightarrow> is_digit (digit_char d)"
  by (simp add: is_digit_def digit_char_def)

lemma nat_digits_digits: "list_all is_digit (nat_digits n)"
  by (induction n rule: nat_digits.induct) (subst nat_digits.simps, simp)

lemma digits_value_snoc: "digits_value (s @ [c]) = 10 * digits_value s + (int (byte c) - 48)"
  by (simp add: digits_value_def)

lemma digits_value_nat: "digits_value (nat_digits n) = int n"
proof (induction n rule: nat_digits.induct)
  case (1 n)
  show ?case
  proof (cases "n < 10")
    case True
    then show ?thesis by (subst nat_digits.simps) (simp add: digits_value_def digit_char_def)
  next
    case False
    then have "digits_value (nat_digits n) = 10 * int (n div 10) + int (n mod 10)"
      using 1 by (subst nat_digits.simps) (simp add: digits_value_snoc digit_char_def)
    then show ?thesis by (simp add: zdiv_int zmod_int)
  qed
qed

text \<open>No leading zero.\<close>

lemma nat_digits_head:
  obtains c cs where "nat_digits n = c # cs" "is_digit c" "c = CHR ''0'' \<Longrightarrow> cs = []"
proof -
  have "\<exists>c cs. nat_digits n = c # cs \<and> (c = CHR ''0'' \<longrightarrow> n = 0)"
  proof (induction n rule: nat_digits.induct)
    case (1 n)
    show ?case
    proof (cases "n < 10")
      case True
      have "digit_char n = CHR ''0'' \<Longrightarrow> n = 0"
        using True byte_char_of [of "48 + n"] by (simp add: digit_char_def byte_def)
      then show ?thesis using True by (subst nat_digits.simps) simp
    next
      case False
      then show ?thesis using 1 by (subst nat_digits.simps) fastforce
    qed
  qed
  then show ?thesis
    using that nat_digits_digits [of n] by (metis list.pred_inject(2) nat_digits.simps neq0_conv zero_less_numeral list.inject)
qed

lemma is_digit_not_minus: "is_digit c \<Longrightarrow> c \<noteq> CHR ''-''"
  by (auto simp: is_digit_def byte_def)

lemma unsigned_digits [simp]: "unsigned (nat_digits n) = nat_digits n"
  by (rule nat_digits_head [of n]) (simp add: unsigned_def is_digit_not_minus)

lemma int_part_digits: "int_part (nat_digits n) = Some []"
proof (rule nat_digits_head [of n])
  fix c cs
  assume d: "nat_digits n = c # cs" "is_digit c" "c = CHR ''0'' \<Longrightarrow> cs = []"
  then have "dropWhile is_digit cs = []" using nat_digits_digits [of n] by (simp add: list_all_iff)
  with d show ?thesis by (simp add: int_part_def)
qed

lemma unsigned_minus: "unsigned (CHR ''-'' # s) = s"
  by (simp add: unsigned_def)

lemma itoa_simps: "unsigned (itoa n) = nat_digits (nat \<bar>n\<bar>)" "unsigned (itoa n) = itoa n \<longleftrightarrow> 0 \<le> n"
  by (auto simp: itoa_def unsigned_minus)

lemma number_ok_itoa: "number_ok (itoa n)"
  by (simp add: number_ok_def itoa_simps int_part_digits frac_part_def exp_part_def)

lemma digits_number_runes: "list_all is_digit s \<Longrightarrow> list_all (\<lambda>c. number_rune (byte c)) s"
  by (auto simp: list_all_iff is_digit_def number_rune_def)

lemma num_ok [simp]: "jval_ok (num n)"
  using number_ok_itoa [of n]
  by (auto simp: num_def itoa_def digits_number_runes nat_digits_digits) (simp add: number_rune_def byte_def)

definition int64 :: "int \<Rightarrow> bool" where
  "int64 n \<longleftrightarrow> - (2 ^ 63) \<le> n \<and> n < 2 ^ 63"

lemma int_value_itoa [simp]:
  assumes "int64 n"
  shows "int_value (itoa n) = Some n"
proof -
  have "nat_digits (nat \<bar>n\<bar>) \<noteq> []" by (rule nat_digits_head [of "nat \<bar>n\<bar>"]) simp
  then show ?thesis
    using assms itoa_simps [of n] by (auto simp: int_value_def Let_def digits_value_nat nat_digits_digits int64_def)
qed

lemma fold_name_lower: "list_all (\<lambda>c. byte c < 128 \<and> \<not> (65 \<le> byte c \<and> byte c \<le> 90)) k \<Longrightarrow> fold_name k = k"
proof -
  assume k: "list_all (\<lambda>c. byte c < 128 \<and> \<not> (65 \<le> byte c \<and> byte c \<le> 90)) k"
  then have "map fold_rune (runes k) = map byte k" by (auto simp: runes_ascii list_all_iff fold_rune_def)
  moreover have "encode (map byte k) = k"
    using k by (induction k) (auto simp: encode_def encode_rune_def valid_rune_def)
  ultimately show ?thesis by (simp add: fold_name_def)
qed

text \<open>The names of the tags are lower case.\<close>

lemma tag_names [simp]:
  "list_all (\<lambda>k. fold_name k = k)
     [''id'', ''type'', ''job_id'', ''ref'', ''ts'', ''payload'', ''ok'', ''code'', ''message'', ''state'', ''last_seq'',
      ''pending_approvals'', ''harness_version'', ''hostname'', ''workspaces'', ''max_jobs'', ''jobs'', ''action'', ''reason'',
      ''harness_id'', ''heartbeat_interval_ms'', ''server_time'', ''name'', ''mime'', ''data_b64'', ''username'', ''at'', ''text'',
      ''channel_id'', ''root_post_id'', ''trigger_post_id'', ''mm_user_id'', ''max_turns'', ''timeout_ms'', ''bot_user_id'',
      ''workspace'', ''agent'', ''prompt'', ''thread'', ''requester'', ''attachments'', ''history'', ''limits'', ''seq'', ''phase'',
      ''current_tool'', ''turns'', ''duration_ms'', ''cost_usd'', ''status'', ''error'', ''files'', ''usage'', ''approval_id'', ''tool'',
      ''summary'', ''input'', ''cwd'', ''expires_at'', ''decision'', ''decided_by'', ''decided_at'']"
  by (simp add: fold_name_lower byte_def)

lemmas tag_name = tag_names [simplified list.pred_inject]

section \<open>Every struct is read as it was written\<close>

lemma those_map: "\<forall>x \<in> set xs. f (g x) = Some x \<Longrightarrow> those (map f (map g xs)) = Some xs"
  by (induction xs) simp_all

lemma set_list_map: "\<forall>x \<in> set xs. elem (g x) zero = Some x \<Longrightarrow> set_list elem zero upd (VArr (map g xs)) y = Some (upd (\<lambda>_. xs) y)"
  using those_map [of xs "\<lambda>v. elem v zero" g] by simp

lemma set_list_strs: "set_list plain_string [] upd (strs ss) y = Some (upd (\<lambda>_. ss) y)"
  unfolding strs_def by (rule set_list_map) (simp add: plain_string_def)

lemmas codec = omitempty_def num_def tag_name

lemma ack_roundtrip: "dec_ack (enc_ack a) zero_ack = Some a"
  by (cases a) (simp add: dec_ack_def enc_ack_def zero_ack_def codec)

lemma hello_job_roundtrip: "int64 (hj_LastSeq j) \<Longrightarrow> dec_hello_job (enc_hello_job j) zero_hello_job = Some j"
  by (cases j) (simp add: dec_hello_job_def enc_hello_job_def zero_hello_job_def set_list_strs codec)

lemma hello_roundtrip:
  "int64 (he_MaxJobs h) \<Longrightarrow> \<forall>j \<in> set (he_Jobs h). int64 (hj_LastSeq j) \<Longrightarrow> dec_hello (enc_hello h) zero_hello = Some h"
  by (cases h) (simp add: dec_hello_def enc_hello_def zero_hello_def set_list_strs set_list_map hello_job_roundtrip codec
      del: set_list.simps(1))

lemma welcome_job_roundtrip: "dec_welcome_job (enc_welcome_job j) zero_welcome_job = Some j"
  by (cases j) (simp add: dec_welcome_job_def enc_welcome_job_def zero_welcome_job_def codec)

lemma welcome_roundtrip:
  "int64 (we_HeartbeatIntervalMS w) \<Longrightarrow> int64 (we_ServerTime w) \<Longrightarrow> dec_welcome (enc_welcome w) zero_welcome = Some w"
  by (cases w) (simp add: dec_welcome_def enc_welcome_def zero_welcome_def set_list_map welcome_job_roundtrip codec
      del: set_list.simps(1))

lemma file_roundtrip: "dec_file (enc_file f) zero_file = Some f"
  by (cases f) (simp add: dec_file_def enc_file_def zero_file_def codec)

lemma history_roundtrip: "int64 (hp_At p) \<Longrightarrow> dec_history (enc_history p) zero_history = Some p"
  by (cases p) (simp add: dec_history_def enc_history_def zero_history_def codec)

lemma dispatch_parts:
  "dec_thread (enc_thread d) x = Some (x\<lparr>jd_ChannelID := jd_ChannelID d, jd_RootPostID := jd_RootPostID d,
     jd_TriggerPostID := jd_TriggerPostID d\<rparr>)"
  "dec_requester (enc_requester d) x = Some (x\<lparr>jd_RequesterID := jd_RequesterID d, jd_RequesterName := jd_RequesterName d\<rparr>)"
  by (simp_all add: dec_thread_def enc_thread_def dec_requester_def enc_requester_def codec)

lemma limits_roundtrip:
  "int64 (jd_MaxTurns d) \<Longrightarrow> int64 (jd_TimeoutMS d) \<Longrightarrow> jd_MaxTurns x = 0 \<Longrightarrow> jd_TimeoutMS x = 0 \<Longrightarrow>
   dec_limits (enc_limits d) x = Some (x\<lparr>jd_MaxTurns := jd_MaxTurns d, jd_TimeoutMS := jd_TimeoutMS d\<rparr>)"
  by (cases x) (simp add: dec_limits_def enc_limits_def codec)

lemma dispatch_roundtrip:
  assumes "int64 (jd_MaxTurns d)" "int64 (jd_TimeoutMS d)" "\<forall>p \<in> set (jd_History d). int64 (hp_At p)"
  shows "dec_dispatch (enc_dispatch d) zero_dispatch = Some d"
  using assms
  by (cases d) (simp add: dec_dispatch_def enc_dispatch_def zero_dispatch_def set_list_map file_roundtrip history_roundtrip
      dispatch_parts limits_roundtrip codec del: set_list.simps(1))

lemma progress_roundtrip: "int64 (jp_Seq p) \<Longrightarrow> int64 (jp_Turns p) \<Longrightarrow> dec_progress (enc_progress p) zero_progress = Some p"
  by (cases p) (simp add: dec_progress_def enc_progress_def zero_progress_def codec)

lemma job_error_roundtrip: "dec_job_error (enc_job_error e) zero_job_error = Some e"
  by (cases e) (simp add: dec_job_error_def enc_job_error_def zero_job_error_def codec)

lemma usage_roundtrip:
  "int64 (us_Turns u) \<Longrightarrow> int64 (us_DurationMS u) \<Longrightarrow> us_CostUSD u = 0 \<or> val (lit (us_CostUSD u)) = Some (us_CostUSD u) \<Longrightarrow>
   dec_usage val (enc_usage lit u) zero_usage = Some u"
  by (cases u) (auto simp: dec_usage_def enc_usage_def zero_usage_def codec)

lemma result_roundtrip:
  assumes "int64 (us_Turns (jr_Usage r))" "int64 (us_DurationMS (jr_Usage r))"
    and "us_CostUSD (jr_Usage r) = 0 \<or> val (lit (us_CostUSD (jr_Usage r))) = Some (us_CostUSD (jr_Usage r))"
  shows "dec_result val (enc_result lit r) zero_result = Some r"
proof -
  have not_null: "enc_job_error e \<noteq> VNull" for e by (simp add: enc_job_error_def)
  show ?thesis
    using usage_roundtrip [of "jr_Usage r" val lit, OF assms]
    by (cases r) (simp add: dec_result_def enc_result_def zero_result_def set_list_map file_roundtrip set_ptr_def set_struct_def
        job_error_roundtrip not_null codec split: option.split del: set_list.simps(1))
qed

lemma approval_request_roundtrip:
  assumes "int64 (ar_ExpiresAt a)" "json_parse (ar_Input a) = Some v" "json_print v = ar_Input a" "ar_Input a \<noteq> []"
  shows "\<exists>j. enc_approval_request a = Some j \<and> dec_approval_request j zero_approval_request = Some a"
  using assms
  by (cases a) (simp add: enc_approval_request_def dec_approval_request_def zero_approval_request_def raw_def set_raw_def codec)

lemma approval_response_roundtrip:
  "int64 (ap_DecidedAt r) \<Longrightarrow> dec_approval_response (enc_approval_response r) zero_approval_response = Some r"
  by (cases r) (simp add: dec_approval_response_def enc_approval_response_def zero_approval_response_def codec)

section \<open>Envelopes on the wire\<close>

text \<open>The numbers of a payload are 64-bit, its cost is one that \<^verbatim>\<open>strconv\<close> reads back, its raw input is compact JSON.\<close>

fun payload_ok :: "(rat \<Rightarrow> string) \<Rightarrow> (string \<Rightarrow> rat option) \<Rightarrow> payload \<Rightarrow> bool" where
  "payload_ok lit val (PHello h) \<longleftrightarrow> int64 (he_MaxJobs h) \<and> (\<forall>j \<in> set (he_Jobs h). int64 (hj_LastSeq j))"
| "payload_ok lit val (PWelcome w) \<longleftrightarrow> int64 (we_HeartbeatIntervalMS w) \<and> int64 (we_ServerTime w)"
| "payload_ok lit val (PPing n) \<longleftrightarrow> int64 n"
| "payload_ok lit val (PPong t) \<longleftrightarrow> int64 t"
| "payload_ok lit val (PDispatch d) \<longleftrightarrow> int64 (jd_MaxTurns d) \<and> int64 (jd_TimeoutMS d) \<and> (\<forall>p \<in> set (jd_History d). int64 (hp_At p))"
| "payload_ok lit val (PProgress p) \<longleftrightarrow> int64 (jp_Seq p) \<and> int64 (jp_Turns p)"
| "payload_ok lit val (PResult r) \<longleftrightarrow> int64 (us_Turns (jr_Usage r)) \<and> int64 (us_DurationMS (jr_Usage r)) \<and>
     (us_CostUSD (jr_Usage r) = 0 \<or> val (lit (us_CostUSD (jr_Usage r))) = Some (us_CostUSD (jr_Usage r)))"
| "payload_ok lit val (PApprovalRequest a) \<longleftrightarrow> int64 (ar_ExpiresAt a) \<and> ar_Input a \<noteq> [] \<and>
     map_option json_print (json_parse (ar_Input a)) = Some (ar_Input a)"
| "payload_ok lit val (PApprovalResponse r) \<longleftrightarrow> int64 (ap_DecidedAt r)"
| "payload_ok lit val _ \<longleftrightarrow> True"

lemma dec_payload_types:
  "dec_payload val TypeHello v = case_option PUndecodable PHello (dec_hello v zero_hello)"
  "dec_payload val TypeWelcome v = case_option PUndecodable PWelcome (dec_welcome v zero_welcome)"
  "dec_payload val TypePing v = case_option PUndecodable PPing (struct [(''jobs'', set_int (\<lambda>f. f))] v 0)"
  "dec_payload val TypePong v = case_option PUndecodable PPong (struct [(''server_time'', set_int (\<lambda>f. f))] v 0)"
  "dec_payload val TypeJobDispatch v = case_option PUndecodable PDispatch (dec_dispatch v zero_dispatch)"
  "dec_payload val TypeJobCancel v = case_option PUndecodable PCancel (struct [(''reason'', set_str (\<lambda>f. f))] v [])"
  "dec_payload val TypeJobProgress v = case_option PUndecodable PProgress (dec_progress v zero_progress)"
  "dec_payload val TypeJobResult v = case_option PUndecodable PResult (dec_result val v zero_result)"
  "dec_payload val TypeApprovalRequest v = case_option PUndecodable PApprovalRequest (dec_approval_request v zero_approval_request)"
  "dec_payload val TypeApprovalResponse v = case_option PUndecodable PApprovalResponse (dec_approval_response v zero_approval_response)"
  "dec_payload val TypeAck v = case_option PUndecodable PAck (dec_ack v zero_ack)"
  "dec_payload val TypeError v = case_option PUndecodable (\<lambda>(c, m). PError c m)
     (struct [(''code'', set_str apfst), (''message'', set_str apsnd)] v ([], []))"
  by (simp_all add: dec_payload_def option.case_eq_if option.map_sel case_prod_unfold)

lemma payload_roundtrip:
  assumes "payload_type p = Some typ" "payload_ok lit val p"
  shows "\<exists>v. enc_payload lit p = Some v \<and> dec_payload val typ v = p"
proof -
  have ty: "typ = the (payload_type p)" using assms(1) by simp
  show ?thesis
  proof (cases p)
    case (PApprovalRequest a)
    then obtain v where "json_parse (ar_Input a) = Some v" "json_print v = ar_Input a" using assms(2) by auto
    with PApprovalRequest assms(2) ty show ?thesis
      using approval_request_roundtrip [of a v] by (auto simp: dec_payload_types)
  next
    case (PResult r)
    then have "dec_result val (enc_result lit r) zero_result = Some r" using assms(2) by (intro result_roundtrip) simp_all
    with PResult ty show ?thesis by (simp add: dec_payload_types)
  qed (use ty assms in \<open>simp_all add: dec_payload_types hello_roundtrip welcome_roundtrip dispatch_roundtrip progress_roundtrip
      approval_response_roundtrip ack_roundtrip codec\<close>)
qed

text \<open>What can be sent without loss: text in UTF-8, not nested too deep, and not longer than a frame.\<close>

definition sendable :: "jval \<Rightarrow> bool" where
  "sendable v \<longleftrightarrow> jval_ok v \<and> depth v \<le> max_depth \<and> length (json_print v) \<le> MaxFrame"

text \<open>
  C14. What one side sends is what the other receives: a well-typed envelope with an id, 64-bit numbers,
  text in UTF-8 and at most 12 MiB is written as a text frame from which \<^verbatim>\<open>Recv\<close> and \<^verbatim>\<open>Decode\<close> on the other
  side get the same envelope with the same payload, every field included.
\<close>

theorem wire_roundtrip:
  assumes "typed e" "en_ID e \<noteq> []" "int64 (en_TS e)" "payload_ok lit val (en_Payload e)"
    and "\<forall>v. enc_envelope lit e = Some v \<longrightarrow> sendable v"
  shows "\<exists>f. frame_of lit e = Inr f \<and> conn_recv val f = Inr e"
proof -
  obtain p where p: "enc_payload lit (en_Payload e) = Some p" "dec_payload val (en_Type e) p = en_Payload e"
    using payload_roundtrip assms(1,4) unfolding typed_def by blast
  then obtain v where v: "enc_envelope lit e = Some v" by (simp add: enc_envelope_def)
  have "en_Type e \<noteq> []" using assms(1) by (cases "en_Payload e") (auto simp: typed_def)
  moreover have "dec_raw v zero_raw = Some \<lparr>re_ID = en_ID e, re_Type = en_Type e, re_JobID = en_JobID e, re_Ref = en_Ref e,
      re_TS = en_TS e, re_Payload = Some p\<rparr>"
    using v p assms(3) by (auto simp: enc_envelope_def dec_raw_def zero_raw_def codec)
  moreover have "json_parse (json_print v) = Some v" "length (json_print v) \<le> MaxFrame"
    using assms(5) v json_roundtrip by (auto simp: sendable_def)
  ultimately show ?thesis
    using v p(2) assms(2) by (intro exI [of _ "TextFrame (json_print v)"]) (simp add: frame_of_def conn_recv_def decoded_def)
qed

section \<open>Frames that are too long\<close>

lemma concat_length: "\<forall>x \<in> set xs. f x \<noteq> [] \<Longrightarrow> length xs \<le> length (concat (map f xs))"
proof (induction xs)
  case (Cons x xs)
  then show ?case by (cases "f x") auto
qed simp

lemma encode_length: "length rs \<le> length (encode rs)"
  unfolding encode_def by (rule concat_length) simp

lemma str_runes_length: "\<forall>c \<in> set s. byte c < 128 \<Longrightarrow> length s \<le> length (str_runes s)"
proof -
  assume "\<forall>c \<in> set s. byte c < 128"
  then have "length s = length (chunks s)" using rune_count_ascii [of s] by (simp add: rune_count_def)
  moreover have "length (chunks s) \<le> length (concat (map json_chunk (chunks s)))"
    by (rule concat_length) (simp add: json_chunk_def json_escape_def)
  ultimately show ?thesis by (simp add: str_runes_def json_body_def le_SucI)
qed

lemma sep_by_length: "sum_list (map length xs) \<le> length (sep_by c xs)"
  by (induction xs) auto

lemma member_length: "(k, v) \<in> set kvs \<Longrightarrow> length (val_runes v) \<le> length (val_runes (VObj kvs))"
proof -
  assume "(k, v) \<in> set kvs"
  then have "length (str_runes k @ 58 # val_runes v) \<le> sum_list (map length (map (\<lambda>(k, v). str_runes k @ 58 # val_runes v) kvs))"
    by (intro member_le_sum_list) (auto intro: rev_image_eqI)
  then show ?thesis
    using sep_by_length [of "map (\<lambda>(k, v). str_runes k @ 58 # val_runes v) kvs" 44] by simp
qed

lemma elems_length: "sum_list (map (\<lambda>v. length (val_runes v)) vs) \<le> length (val_runes (VArr vs))"
  using sep_by_length [of "map val_runes vs" 44] by (simp add: comp_def)

lemma base64_ascii: "c \<in> set (base64_encode s) \<Longrightarrow> byte c < 128"
proof -
  have b: "byte (b64_char d) < 128" for d by (auto simp: b64_char_def byte_def)
  then show "c \<in> set (base64_encode s) \<Longrightarrow> byte c < 128"
    by (induction s rule: base64_encode.induct) (auto simp: Let_def)
qed

lemma base64_length: "4 * length s \<le> 3 * length (base64_encode s)"
  by (induction s rule: base64_encode.induct) (simp_all add: Let_def)

lemma file_length: "length data \<le> length (val_runes (enc_file f))" if "fl_DataB64 f = data" "\<forall>c \<in> set data. byte c < 128"
  using str_runes_length [OF that(2)] member_length [of "''data_b64''" "VStr data"] that(1) by (fastforce simp: enc_file_def)

text \<open>The attachments of a dispatch alone make the frame at least this long.\<close>

lemma dispatch_frame_length:
  assumes "en_Payload e = PDispatch d" "map fl_DataB64 (jd_Attachments d) = map base64_encode datas" "frame_of lit e = Inr f"
  shows "4 * sum_list (map length datas) \<le> 3 * length (frame_data f)"
proof -
  obtain v where v: "enc_envelope lit e = Some v" "f = TextFrame (json_print v)"
    using assms(1,3) by (auto simp: frame_of_def enc_envelope_def)
  have "4 * sum_list (map length datas) \<le> 3 * sum_list (map (\<lambda>x. length (base64_encode x)) datas)"
    using base64_length by (induction datas) (simp_all, (smt (verit) add_le_mono distrib_left_numeral))
  also have "map (\<lambda>x. length (base64_encode x)) datas = map (\<lambda>f. length (fl_DataB64 f)) (jd_Attachments d)"
    using arg_cong [OF assms(2), of "map length"] by (simp add: comp_def)
  also have "sum_list \<dots> \<le> sum_list (map (\<lambda>f. length (val_runes (enc_file f))) (jd_Attachments d))"
  proof (rule sum_list_mono)
    fix f
    assume "f \<in> set (jd_Attachments d)"
    then have "fl_DataB64 f \<in> set (map base64_encode datas)" unfolding assms(2) [symmetric] by simp
    then obtain x where "fl_DataB64 f = base64_encode x" by auto
    then show "length (fl_DataB64 f) \<le> length (val_runes (enc_file f))" using file_length [of f] base64_ascii by simp
  qed
  also have "\<dots> \<le> length (val_runes (enc_dispatch d))"
  proof (cases "jd_Attachments d = []")
    case False
    then have "length (val_runes (VArr (map enc_file (jd_Attachments d)))) \<le> length (val_runes (enc_dispatch d))"
      unfolding enc_dispatch_def by (intro member_length [of "''attachments''"]) (simp add: omitempty_def)
    then show ?thesis using elems_length [of "map enc_file (jd_Attachments d)"] by (simp add: comp_def)
  qed simp
  also have "\<dots> \<le> length (val_runes v)"
    using v(1) assms(1) by (auto simp: enc_envelope_def intro!: member_length [of "''payload''"])
  also have "\<dots> \<le> length (frame_data f)" using v(2) encode_length by (simp add: json_print_def)
  finally show ?thesis by simp
qed

end
