(* ===== verification/Frames.thy ===== *)
theory Frames
  imports Core_Owner Hub_Props Daemon_Props Wire
begin

text \<open>
  The frames both programs write. Every frame carries the payload its type announces: the hub's, over
  all handlers of the core and all rows of its outbox table, and the daemon's, over its outbox file.
  So what one side sends the other can decode, except for a frame that is longer than a connection
  reads.
\<close>

section \<open>The broker\<close>

definition row_typed :: "OutboxMessage \<Rightarrow> bool" where
  "row_typed m \<longleftrightarrow> payload_type (ob_Payload m) = Some (ob_Type m)"

definition frames_typed :: "broker \<Rightarrow> bool" where
  "frames_typed s \<longleftrightarrow> list_all (\<lambda>(n, env). typed env) (bk_frames s) \<and> list_all row_typed (outbox (bk_db s))"

definition typed_rel :: "broker \<Rightarrow> broker \<Rightarrow> bool" where
  "typed_rel s s' \<longleftrightarrow> (frames_typed s \<longrightarrow> frames_typed s')"

lemma store_typed:
  "(\<And>d. list_all row_typed (outbox d) \<Longrightarrow> list_all row_typed (outbox (snd (f d)))) \<Longrightarrow> keeps typed_rel (store_call f)"
  by (intro keepsI) (simp add: typed_rel_def frames_typed_def)

lemma outbox_typed:
  "row_typed m \<Longrightarrow> list_all row_typed (outbox d) \<Longrightarrow> list_all row_typed (outbox (snd (Enqueue d m)))"
  "list_all row_typed (outbox d) \<Longrightarrow> list_all row_typed (outbox (snd (AckOutbox d i t)))"
  "list_all row_typed (outbox d) \<Longrightarrow> list_all row_typed (outbox (snd (PurgeOutbox d t)))"
  by (auto simp: Enqueue_def AckOutbox_def PurgeOutbox_def row_typed_def list_all_iff stored_outbox_def rows_update_def rows_delete_def split: if_splits)

interpretation ft: handler_relation typed_rel
proof
  show "keeps typed_rel (store_call (\<lambda>d. Enqueue d m))" if "payload_type (ob_Payload m) = Some (ob_Type m)" for m
    using that by (intro store_typed outbox_typed) (simp_all add: row_typed_def)
  show "typed_rel s (s\<lparr>bk_frames := bk_frames s @ [(cn, outbox_frame E m)]\<rparr>)" if "m \<in> set (outbox (bk_db s))" for m s cn E
    using that by (auto simp: typed_rel_def frames_typed_def list_all_iff row_typed_def outbox_frame_def typed_def)
qed (auto simp: typed_rel_def frames_typed_def store_frame intro!: store_typed outbox_typed)

lemma createJob_typed: "keeps typed_rel (createJob E p text target)"
proof -
  have "keeps typed_rel (store_call (\<lambda>d. CreateJob d j))" for j by (intro store_typed) (simp add: store_frame)
  note create = this
  show ?thesis
    unfolding createJob_def createJob_on_def start_job_def Let_def by (intro ft.keeps_steps life_intro create)
qed

interpretation ft: whole_relation typed_rel
  by unfold_locales (rule createJob_typed)

section \<open>The daemon\<close>

definition held_typed :: "daemon \<Rightarrow> bool" where
  "held_typed s \<longleftrightarrow> list_all typed (dm_frames s) \<and> list_all typed (map snd (jf_m (dm_outbox s)))"

definition htyped :: "daemon \<Rightarrow> daemon \<Rightarrow> bool" where
  "htyped s s' \<longleftrightarrow> (held_typed s \<longrightarrow> held_typed s')"

interpretation ht: step_relation htyped
  by unfold_locales (auto simp: htyped_def)

lemma htyped_quiet: "dm_frames s' = dm_frames s \<Longrightarrow> dm_outbox s' = dm_outbox s \<Longrightarrow> htyped s s'"
  by (simp add: htyped_def held_typed_def)

lemma quiet_htyped:
  "(\<And>s. dm_frames (snd (run_state m s)) = dm_frames s) \<Longrightarrow> (\<And>s. dm_outbox (snd (run_state m s)) = dm_outbox s) \<Longrightarrow> keeps htyped m"
  by (intro keepsI htyped_quiet)

named_theorems frame_intro \<open>typing rules of the daemon's operations\<close>

lemma wire_send_htyped [frame_intro]: "typed env \<Longrightarrow> keeps htyped (wire_send env)"
  by (intro keepsI) (simp add: htyped_def held_typed_def)

lemma client_Send_htyped [frame_intro]: "typed env \<Longrightarrow> keeps htyped (client_Send env)"
  by (intro keepsI) (simp add: htyped_def held_typed_def)

lemma outbox_htyped:
  "typed env \<Longrightarrow> keeps htyped (State (\<lambda>s. let (r, ob) = outbox_Add fails env (dm_outbox s) in (r, s\<lparr>dm_outbox := ob\<rparr>)))"
  "keeps htyped (modify (\<lambda>s. s\<lparr>dm_outbox := snd (outbox_Ack fails i (dm_outbox s))\<rparr>))"
proof -
  show "keeps htyped (modify (\<lambda>s. s\<lparr>dm_outbox := snd (outbox_Ack fails i (dm_outbox s))\<rparr>))"
    using set_AList_delete by (intro keepsI) (fastforce simp: htyped_def held_typed_def outbox_Ack_def list_all_iff)
  assume "typed env"
  then have "typed e" if "(k, e) \<in> set (AList.update (en_ID env) env al)" "\<forall>x \<in> set al. typed (snd x)" for k e al
    using that set_AList_update [of "en_ID env" env al] by fastforce
  then show "keeps htyped (State (\<lambda>s. let (r, ob) = outbox_Add fails env (dm_outbox s) in (r, s\<lparr>dm_outbox := ob\<rparr>)))"
    by (intro keepsI) (auto simp: htyped_def held_typed_def outbox_Add_def list_all_iff case_prod_unfold Let_def)
qed

lemma client_SendReliable_htyped [frame_intro]: "typed env \<Longrightarrow> keeps htyped (client_SendReliable E env)"
  unfolding client_SendReliable_def by (intro ht.body_keeps frame_intro outbox_htyped)

lemma quiet_operations [frame_intro]:
  "keeps htyped (fresh f)" "keeps htyped session_close" "keeps htyped (update_job p g)" "keeps htyped (close_approvals p)"
  "keeps htyped (register_approval p a)" "keeps htyped (receive c)" "keeps htyped (OnApprovalResponse E i r)"
  "keeps htyped (start_run i j)" "keeps htyped await_pong"
  by (intro quiet_htyped; simp add: session_close_def close_approvals_def register_approval_def receive_def OnApprovalResponse_def
    chan_send_def start_run_def await_pong_def Let_def case_prod_unfold split: option.split)+

lemma modify_htyped: "(\<And>s. dm_frames (f s) = dm_frames s) \<Longrightarrow> (\<And>s. dm_outbox (f s) = dm_outbox s) \<Longrightarrow> keeps htyped (modify f)"
  by (intro quiet_htyped) simp_all

lemmas htyped_steps = ht.body_keeps modify_htyped

lemma runs_htyped [frame_intro]:
  "keeps htyped (sendProgress E p t tool n b)" "keeps htyped (setPhase p ph)" "keeps htyped (decide_end p a)"
  unfolding sendProgress_def setPhase_def decide_end_def by (intro htyped_steps frame_intro life_intro; simp)+

lemma OnDispatch_htyped [frame_intro]: "keeps htyped (OnDispatch E i d)"
  unfolding OnDispatch_def Let_def by (intro htyped_steps frame_intro)

lemma run_end_htyped [frame_intro]: "keeps htyped (run_end E p outcome t)"
  unfolding run_end_def finish_def Let_def by (intro htyped_steps frame_intro life_intro; simp)

lemma writeAttachments_htyped [frame_intro]: "keeps htyped (writeAttachments E dir fs)"
proof (induction fs)
  case (Cons f fs)
  show ?case unfolding writeAttachments.simps Let_def by (intro htyped_steps frame_intro Cons.IH; simp)
qed (simp add: ht.return_keeps)

lemma job_htyped [frame_intro]:
  "keeps htyped (run_prepare E p d)" "keeps htyped (run_tick E p e)" "keeps htyped (decide_begin E req)"
  unfolding run_prepare_def job_prompt_def run_tick_def decide_begin_def Let_def by (intro htyped_steps frame_intro life_intro; simp)+

lemma decide_wake_htyped [frame_intro]: "keeps htyped (decide_wake req w k)"
  unfolding decide_wake_def by (cases k; simp only: wake.case) (intro htyped_steps frame_intro; simp)+

lemma welcome_htyped [frame_intro]:
  "keeps htyped (cancel_job i)" "keeps htyped (OnCancel E i reason)" "keeps htyped (OnWelcome E w)"
  unfolding cancel_job_def OnCancel_def OnWelcome_def by (intro htyped_steps frame_intro)+

lemma client_reply_htyped [frame_intro]: "payload_type p = Some t \<Longrightarrow> keeps htyped (client_reply E t env p)"
  unfolding client_reply_def by (intro htyped_steps frame_intro life_intro)

lemma client_handle_htyped [frame_intro]: "keeps htyped (client_handle E env)"
  unfolding client_handle_def by (intro htyped_steps frame_intro life_intro outbox_htyped; simp)

text \<open>The flush of a new session writes what the outbox file holds.\<close>

lemma send_all_htyped: "list_all typed es \<Longrightarrow> keeps htyped (send_all es)"
proof (induction es)
  case (Cons m es)
  then have "typed m" "keeps htyped (send_all es)" by simp_all
  then show ?case unfolding send_all.simps by (intro htyped_steps frame_intro)
qed (simp add: ht.return_keeps)

lemma send_pending_htyped:
  assumes "\<And>ok. keeps htyped (f ok)"
  shows "keeps htyped (do { pending \<leftarrow> reads (\<lambda>s. outbox_Pending (dm_outbox s)); ok \<leftarrow> send_all pending; f ok })"
proof (rule keepsI)
  fix s :: daemon
  let ?m = "do { ok \<leftarrow> send_all (outbox_Pending (dm_outbox s)); f ok }"
  have "keeps htyped ?m" if "held_typed s"
    using that by (intro ht.bind_keeps send_all_htyped assms) (auto simp: held_typed_def list_all_iff)
  then have "htyped s (snd (run_state ?m s))" by (cases "held_typed s") (simp only: keepsD, simp add: htyped_def)
  then show "htyped s (snd (run_state (do { pending \<leftarrow> reads (\<lambda>s. outbox_Pending (dm_outbox s)); ok \<leftarrow> send_all pending; f ok }) s))"
    by simp
qed

lemma session_open_htyped [frame_intro]: "keeps htyped (session_open E first)"
  unfolding session_open_def by (intro send_pending_htyped htyped_steps frame_intro life_intro; simp)

lemma send_ping_htyped [frame_intro]: "keeps htyped (send_ping E)"
  unfolding send_ping_def by (intro htyped_steps frame_intro life_intro)

lemma daemon_step_htyped: "daemon_step cfg s s' \<Longrightarrow> htyped s s'"
proof (induction rule: daemon_step.induct)
  case (Link s b)
  show ?case by (rule htyped_quiet) simp_all
qed (rule keepsD, rule frame_intro)+

lemma daemon_steps_htyped: "(daemon_step cfg)\<^sup>*\<^sup>* s s' \<Longrightarrow> htyped s s'"
  by (induction rule: rtranclp_induct) (auto intro: ht.rel_refl ht.rel_trans daemon_step_htyped)

text \<open>
  C13. Every message has the payload its type announces. Whatever the broker goes through, with its database
  and connections failing in between, each frame it writes and each message in its outbox table
  carries the payload of its type, and so does each frame the daemon writes and each message in its
  outbox file.
\<close>

theorem frames_well_typed:
  assumes "broker_step\<^sup>*\<^sup>* b b'" "bk_frames b = []" "outbox (bk_db b) = []"
    and "(daemon_step cfg)\<^sup>*\<^sup>* s s'" "dm_frames s = []" "jf_m (dm_outbox s) = []"
  shows "(\<forall>(n, env) \<in> set (bk_frames b'). typed env) \<and> (\<forall>m \<in> set (outbox (bk_db b')). typed (outbox_frame E m)) \<and>
    (\<forall>env \<in> set (dm_frames s'). typed env) \<and> (\<forall>env \<in> set (outbox_Pending (dm_outbox s')). typed env)"
proof -
  have "frames_typed b'" "held_typed s'"
    using ft.steps_rel [OF assms(1)] daemon_steps_htyped [OF assms(4)] assms
    by (simp_all add: typed_rel_def frames_typed_def htyped_def held_typed_def)
  then show ?thesis
    by (auto simp: frames_typed_def held_typed_def list_all_iff row_typed_def outbox_frame_def typed_def)
qed

section \<open>A dispatch that is too long\<close>

lemma download_all:
  assumes "a \<noteq> UnavailableAPI" "\<forall>i \<in> set (po_FileIds p). e_GetFileInfo E (bk_posts s) a i = Some (info i) \<and>
      fi_Size (info i) \<le> MaxFileBytes \<and> e_DownloadFile E (bk_posts s) a i = Some (content i)"
  shows "map fl_DataB64 (fst (run_state (downloadAttachments E a p) s)) = map base64_encode (map content (po_FileIds p))"
proof -
  let ?load = "\<lambda>i. do {
     fi \<leftarrow> GetFileInfo E a i;
     case fi of
       None \<Rightarrow> State_Monad.return []
     | Some fi \<Rightarrow>
         if MaxFileBytes < fi_Size fi then State_Monad.return []
         else do {
           data \<leftarrow> DownloadFile E a i;
           State_Monad.return (case data of
               None \<Rightarrow> []
             | Some bytes \<Rightarrow> [\<lparr>fl_Name = fi_Name fi, fl_Mime = fi_MimeType fi, fl_DataB64 = base64_encode bytes\<rparr>])
         }
   }"
  have "run_state (collect ?load is) s = (map (\<lambda>i. \<lparr>fl_Name = fi_Name (info i), fl_Mime = fi_MimeType (info i),
      fl_DataB64 = base64_encode (content i)\<rparr>) is, s)" if "set is \<subseteq> set (po_FileIds p)" for "is"
    using that assms by (induction "is") (auto simp: mm_read_defs)
  then show ?thesis by (simp add: downloadAttachments_def comp_def)
qed

text \<open>
  C37. The limits of attachments and frames do not fit together. \<^verbatim>\<open>downloadAttachments\<close> limits each file to
  8 MiB but neither their number nor their sum, and the frame that carries them in base64 is limited to 12 MiB
  by the reader. A dispatch whose files are longer than 9 MiB together is refused by the connection of
  the harness, which closes; the message stays unacknowledged, and so every handshake of this harness writes it
  again, to be refused again.
\<close>

theorem oversized_dispatch_repeats:
  assumes "run_state (serve_hello E H harness c first) s = (True, s')"
    and "m \<in> unacked (bk_db s')" "ob_HarnessID m = hn_ID harness" "ob_Payload m = PDispatch d"
    and "jd_Attachments d = fst (run_state (downloadAttachments E0 a p) t)" "a \<noteq> UnavailableAPI"
    and "\<forall>i \<in> set (po_FileIds p). e_GetFileInfo E0 (bk_posts t) a i = Some (info i) \<and> fi_Size (info i) \<le> MaxFileBytes \<and>
      e_DownloadFile E0 (bk_posts t) a i = Some (content i)"
    and "9 * 2 ^ 20 < sum_list (map (\<lambda>i. length (content i)) (po_FileIds p))"
  shows "(c, outbox_frame E m) \<in> set (bk_frames s') \<and>
    (\<exists>f. frame_of lit (outbox_frame E m) = Inr f \<and> conn_recv val f = Inl TooBig)"
proof -
  obtain u where "run_state (flushOutbox E (hn_ID harness) c) u = (Inr (), s')"
    using assms(1) by (rule serve_hello_flushes)
  then have "(c, outbox_frame E m) \<in> set (bk_frames s')"
    using run_flushOutbox [of E "hn_ID harness" c u s'] assms(2,3) by (auto simp: set_outbox_pending)
  moreover obtain f where f: "frame_of lit (outbox_frame E m) = Inr f"
    using assms(4) by (simp add: frame_of_def enc_envelope_def outbox_frame_def)
  have "map fl_DataB64 (jd_Attachments d) = map base64_encode (map content (po_FileIds p))"
    using download_all [OF assms(6,7)] assms(5) by simp
  then have "4 * sum_list (map length (map content (po_FileIds p))) \<le> 3 * length (frame_data f)"
    using assms(4) f by (intro dispatch_frame_length) (simp_all add: outbox_frame_def)
  then have "conn_recv val f = Inl TooBig" using assms(8) by (simp add: conn_recv_def MaxFrame_def comp_def)
  ultimately show ?thesis using f by blast
qed

end
