(* ===== verification/Store_Suite.thy ===== *)
theory Store_Suite
  imports Sqlite Effects
begin

text \<open>
  The conformance suite of the store, \<^verbatim>\<open>internal/store/storetest/suite.go\<close>, run on the model of the
  SQLite store: one definition per test, with its calls in their order and its conditions. A test ends
  with \<open>pass\<close>, or with \<open>fatal\<close> where the source calls \<^verbatim>\<open>t.Fatal\<close>. The clock is a parameter: \<^verbatim>\<open>now\<close>
  reads it and truncates to milliseconds, and the store reads it where it calls \<^verbatim>\<open>time.Now\<close> itself.
\<close>

section \<open>Running a test\<close>

record suite =
  su_db :: db
  su_reading :: nat

type_synonym 'a test = "(suite, 'a) state"

definition pass :: "bool test" where
  "pass = State_Monad.return True"

definition fatal :: "bool test" where
  "fatal = State_Monad.return False"

definition time_Now :: "(nat \<Rightarrow> time) \<Rightarrow> time test" where
  "time_Now clk = State (\<lambda>s. (clk (su_reading s), s\<lparr>su_reading := Suc (su_reading s)\<rparr>))"

definition now :: "(nat \<Rightarrow> time) \<Rightarrow> time test" where
  "now clk = do { t \<leftarrow> time_Now clk; State_Monad.return (stored_time t) }"

text \<open>A call of the store, and a query.\<close>

definition st :: "(db \<Rightarrow> 'a \<times> db) \<Rightarrow> 'a test" where
  "st f = State (\<lambda>s. let (r, d) = f (su_db s) in (r, s\<lparr>su_db := d\<rparr>))"

definition qu :: "(db \<Rightarrow> 'a) \<Rightarrow> 'a test" where
  "qu f = reads (\<lambda>s. f (su_db s))"

text \<open>A seed fails the test itself when its call fails.\<close>

definition seeded :: "'a option test \<Rightarrow> ('a \<Rightarrow> bool test) \<Rightarrow> bool test" where
  "seeded m k = do { r \<leftarrow> m; case r of None \<Rightarrow> fatal | Some x \<Rightarrow> k x }"

text \<open>The slice of a call whose error is ignored, and a condition on the value it returns.\<close>

definition slice :: "'a list res \<Rightarrow> 'a list" where
  "slice r = (case r of Inl _ \<Rightarrow> [] | Inr xs \<Rightarrow> xs)"

definition value_is :: "'a res \<Rightarrow> ('a \<Rightarrow> bool) \<Rightarrow> bool" where
  "value_is r P = (case r of Inl _ \<Rightarrow> False | Inr x \<Rightarrow> P x)"

section \<open>Seeds\<close>

definition seedHarness :: "(nat \<Rightarrow> time) \<Rightarrow> Harness option test" where
  "seedHarness clk = do {
     t \<leftarrow> now clk;
     let h = \<lparr>hn_ID = ''hrn_1'', hn_MMUserID = ''user_1'', hn_Name = ''mbp'', hn_TokenHash = ''hash_1'',
              hn_Version = ''0.1.0'', hn_CreatedAt = t, hn_LastSeenAt = None\<rparr>;
     r \<leftarrow> st (\<lambda>d. CreateHarness d h);
     State_Monad.return (if r \<noteq> Inr () then None else Some h)
   }"

definition seedJob :: "(nat \<Rightarrow> time) \<Rightarrow> string \<Rightarrow> JobState \<Rightarrow> unit option test" where
  "seedJob clk i js = do {
     t \<leftarrow> now clk;
     u \<leftarrow> now clk;
     r \<leftarrow> st (\<lambda>d. CreateJob d \<lparr>jb_ID = i, jb_HarnessID = ''hrn_1'', jb_MMUserID = ''user_1'', jb_ChannelID = ''ch'',
       jb_RootPostID = ''root_'' @ i, jb_TriggerPostID = ''trig'', jb_StatusPostID = [], jb_BotUserID = [],
       jb_Workspace = ''ws'', jb_Prompt = ''do it'', jb_State = js, jb_LastSeq = 0, jb_ResultText = [], jb_Error = [],
       jb_CreatedAt = t, jb_UpdatedAt = u, jb_ExpiresAt = None, jb_FinishedAt = None\<rparr>);
     State_Monad.return (if r \<noteq> Inr () then None else Some ())
   }"

definition rm_input :: string where
  "rm_input = CHR ''{'' # CHR 0x22 # ''command'' @ [CHR 0x22, CHR '':'', CHR 0x22] @ ''rm -rf x'' @ [CHR 0x22, CHR ''}'']"

definition seedApproval :: "(nat \<Rightarrow> time) \<Rightarrow> string \<Rightarrow> time \<Rightarrow> Approval option test" where
  "seedApproval clk i expiry = do {
     t \<leftarrow> now clk;
     let a = \<lparr>av_ID = i, av_JobID = ''job_1'', av_Tool = ''Bash'', av_Summary = ''rm -rf x'', av_Input = rm_input,
              av_Nonce = ''n'', av_RequestedAt = t, av_ExpiresAt = expiry, av_Decision = [], av_DecidedBy = [], av_DecidedAt = None\<rparr>;
     r \<leftarrow> st (\<lambda>d. CreateApproval d a);
     State_Monad.return (if r \<noteq> Inr () then None else Some a)
   }"

section \<open>Harnesses and pairings\<close>

definition testHarnessCRUD :: "(nat \<Rightarrow> time) \<Rightarrow> bool test" where
  "testHarnessCRUD clk = seeded (seedHarness clk) (\<lambda>h. do {
     r \<leftarrow> st (\<lambda>d. CreateHarness d h);
     if r \<noteq> Inl ErrConflict then fatal else do {
     got \<leftarrow> qu (\<lambda>d. HarnessByTokenHash d ''hash_1'');
     if \<not> value_is got (\<lambda>g. hn_ID g = hn_ID h \<and> hn_LastSeenAt g = None) then fatal else do {
     seen \<leftarrow> now clk;
     r \<leftarrow> st (\<lambda>d. TouchHarness d (hn_ID h) seen ''0.2.0'');
     if r \<noteq> Inr () then fatal else do {
     got \<leftarrow> qu (\<lambda>d. HarnessByID d (hn_ID h));
     if \<not> value_is got (\<lambda>g. hn_Version g = ''0.2.0'' \<and> hn_LastSeenAt g = Some seen) then fatal else do {
     hs \<leftarrow> qu (\<lambda>d. HarnessesByUser d ''user_1'');
     if length (slice hs) \<noteq> 1 then fatal else do {
     r \<leftarrow> st (\<lambda>d. DeleteHarness d (hn_ID h));
     if r \<noteq> Inr () then fatal else do {
     got \<leftarrow> qu (\<lambda>d. HarnessByID d (hn_ID h));
     if got \<noteq> Inl ErrNotFound then fatal else do {
     r \<leftarrow> st (\<lambda>d. TouchHarness d ''nope'' seen []);
     if r \<noteq> Inl ErrNotFound then fatal else pass }}}}}}}})"

definition testPairingConsumeOnce :: "(nat \<Rightarrow> time) \<Rightarrow> bool test" where
  "testPairingConsumeOnce clk = do {
     t \<leftarrow> now clk;
     r \<leftarrow> st (\<lambda>d. CreatePairing d ''code'' ''user_1'' (t + minute));
     if r \<noteq> Inr () then fatal else do {
     t \<leftarrow> now clk;
     r \<leftarrow> st (\<lambda>d. ConsumePairing d ''code'' t);
     if r \<noteq> Inr ''user_1'' then fatal else do {
     t \<leftarrow> now clk;
     r \<leftarrow> st (\<lambda>d. ConsumePairing d ''code'' t);
     if r \<noteq> Inl ErrNotFound then fatal else do {
     t \<leftarrow> now clk;
     r \<leftarrow> st (\<lambda>d. ConsumePairing d ''unknown'' t);
     if r \<noteq> Inl ErrNotFound then fatal else pass }}}}"

definition testPairingExpired :: "(nat \<Rightarrow> time) \<Rightarrow> bool test" where
  "testPairingExpired clk = do {
     t \<leftarrow> now clk;
     r \<leftarrow> st (\<lambda>d. CreatePairing d ''code'' ''user_1'' (t - second));
     if r \<noteq> Inr () then fatal else do {
     t \<leftarrow> now clk;
     r \<leftarrow> st (\<lambda>d. ConsumePairing d ''code'' t);
     if r \<noteq> Inl ErrNotFound then fatal else pass }}"

section \<open>Jobs\<close>

definition testJobTransitionCAS :: "(nat \<Rightarrow> time) \<Rightarrow> bool test" where
  "testJobTransitionCAS clk = seeded (seedHarness clk) (\<lambda>_. seeded (seedJob clk ''job_1'' JobDispatched) (\<lambda>_. do {
     t \<leftarrow> time_Now clk;
     j \<leftarrow> st (\<lambda>d. TransitionJob d t ''job_1'' [JobDispatched] JobRunning (no_patch\<lparr>pt_StatusPostID := Some ''post_1''\<rparr>));
     if \<not> value_is j (\<lambda>j. jb_State j = JobRunning \<and> jb_StatusPostID j = ''post_1'' \<and> jb_FinishedAt j = None) then fatal else do {
     t \<leftarrow> time_Now clk;
     j \<leftarrow> st (\<lambda>d. TransitionJob d t ''job_1'' [JobQueued] JobRunning no_patch);
     if j \<noteq> Inl ErrConflict then fatal else do {
     t \<leftarrow> time_Now clk;
     j \<leftarrow> st (\<lambda>d. TransitionJob d t ''missing'' [JobRunning] JobFailed no_patch);
     if j \<noteq> Inl ErrNotFound then fatal else do {
     t \<leftarrow> time_Now clk;
     j \<leftarrow> st (\<lambda>d. TransitionJob d t ''job_1'' ActiveStates JobSucceeded (no_patch\<lparr>pt_ResultText := Some ''done''\<rparr>));
     if \<not> value_is j (\<lambda>j. jb_State j = JobSucceeded \<and> jb_FinishedAt j \<noteq> None \<and> jb_ResultText j = ''done'' \<and> jb_StatusPostID j = ''post_1'')
     then fatal else do {
     t \<leftarrow> time_Now clk;
     j \<leftarrow> st (\<lambda>d. TransitionJob d t ''job_1'' ActiveStates JobCancelled no_patch);
     if j \<noteq> Inl ErrConflict then fatal else pass }}}}}))"

definition testJobProgressMonotonic :: "(nat \<Rightarrow> time) \<Rightarrow> bool test" where
  "testJobProgressMonotonic clk = seeded (seedHarness clk) (\<lambda>_. seeded (seedJob clk ''job_1'' JobRunning) (\<lambda>_. do {
     t \<leftarrow> time_Now clk;
     ok \<leftarrow> st (\<lambda>d. RecordProgress d t ''job_1'' 5);
     if ok \<noteq> Inr True then fatal else do {
     t \<leftarrow> time_Now clk;
     ok \<leftarrow> st (\<lambda>d. RecordProgress d t ''job_1'' 3);
     if ok = Inr True then fatal else do {
     t \<leftarrow> time_Now clk;
     ok \<leftarrow> st (\<lambda>d. RecordProgress d t ''job_1'' 5);
     if ok = Inr True then fatal else do {
     t \<leftarrow> time_Now clk;
     ok \<leftarrow> st (\<lambda>d. RecordProgress d t ''job_1'' 6);
     if ok \<noteq> Inr True then fatal else do {
     j \<leftarrow> qu (\<lambda>d. JobByID d ''job_1'');
     if \<not> value_is j (\<lambda>j. jb_LastSeq j = 6) then fatal else
     seeded (seedJob clk ''job_2'' JobSucceeded) (\<lambda>_. do {
     t \<leftarrow> time_Now clk;
     ok \<leftarrow> st (\<lambda>d. RecordProgress d t ''job_2'' 1);
     if ok = Inr True then fatal else pass }) }}}}}))"

definition expiring_job :: "string \<Rightarrow> time \<Rightarrow> time \<Rightarrow> time \<Rightarrow> Job" where
  "expiring_job i t u expiry = \<lparr>jb_ID = i, jb_HarnessID = ''hrn_1'', jb_MMUserID = ''user_1'', jb_ChannelID = ''ch'',
     jb_RootPostID = ''r'', jb_TriggerPostID = ''t'', jb_StatusPostID = [], jb_BotUserID = [], jb_Workspace = ''ws'', jb_Prompt = ''p'',
     jb_State = JobQueued, jb_LastSeq = 0, jb_ResultText = [], jb_Error = [], jb_CreatedAt = t, jb_UpdatedAt = u,
     jb_ExpiresAt = Some expiry, jb_FinishedAt = None\<rparr>"

definition testJobExpireQueued :: "(nat \<Rightarrow> time) \<Rightarrow> bool test" where
  "testJobExpireQueued clk = seeded (seedHarness clk) (\<lambda>_. do {
     t \<leftarrow> now clk;
     let past = t - minute;
     t \<leftarrow> now clk;
     let future = t + minute;
     seeded (seedJob clk ''job_old'' JobQueued) (\<lambda>_. do {
     t \<leftarrow> now clk;
     u \<leftarrow> now clk;
     let old = expiring_job ''job_exp'' t u past;
     let fresh = old\<lparr>jb_ID := ''job_fresh'', jb_ExpiresAt := Some future\<rparr>;
     r \<leftarrow> st (\<lambda>d. CreateJob d old);
     if r \<noteq> Inr () then fatal else do {
     r \<leftarrow> st (\<lambda>d. CreateJob d fresh);
     if r \<noteq> Inr () then fatal else do {
     t \<leftarrow> now clk;
     expired \<leftarrow> st (\<lambda>d. ExpireQueuedJobs d t);
     if \<not> value_is expired (\<lambda>js. length js = 1 \<and> jb_ID (hd js) = ''job_exp'' \<and> jb_State (hd js) = JobExpired \<and> jb_FinishedAt (hd js) \<noteq> None)
     then fatal else do {
     j \<leftarrow> qu (\<lambda>d. JobByID d ''job_fresh'');
     if \<not> value_is j (\<lambda>j. jb_State j = JobQueued) then fatal else pass }}}}) })"

definition testJobActiveByHarness :: "(nat \<Rightarrow> time) \<Rightarrow> bool test" where
  "testJobActiveByHarness clk = seeded (seedHarness clk) (\<lambda>_. seeded (seedJob clk ''job_a'' JobRunning) (\<lambda>_.
     seeded (seedJob clk ''job_b'' JobAwaitingApproval) (\<lambda>_. seeded (seedJob clk ''job_c'' JobSucceeded) (\<lambda>_. do {
     active \<leftarrow> qu (\<lambda>d. ActiveJobsByHarness d ''hrn_1'');
     if \<not> value_is active (\<lambda>js. length js = 2) then fatal else do {
     byThread \<leftarrow> qu (\<lambda>d. ListJobs d (any_job\<lparr>jf_RootPostID := ''root_job_a''\<rparr>));
     if length (slice byThread) \<noteq> 1 \<or> jb_ID (hd (slice byThread)) \<noteq> ''job_a'' then fatal else pass }}))))"

definition testJobKeepsBot :: "(nat \<Rightarrow> time) \<Rightarrow> bool test" where
  "testJobKeepsBot clk = seeded (seedHarness clk) (\<lambda>_. do {
     t \<leftarrow> now clk;
     u \<leftarrow> now clk;
     r \<leftarrow> st (\<lambda>d. CreateJob d \<lparr>jb_ID = ''job_b'', jb_HarnessID = ''hrn_1'', jb_MMUserID = ''user_1'', jb_ChannelID = ''ch'',
       jb_RootPostID = ''r'', jb_TriggerPostID = ''t'', jb_StatusPostID = [], jb_BotUserID = ''bot_1'', jb_Workspace = ''ws'', jb_Prompt = ''p'',
       jb_State = JobRunning, jb_LastSeq = 0, jb_ResultText = [], jb_Error = [], jb_CreatedAt = t, jb_UpdatedAt = u,
       jb_ExpiresAt = None, jb_FinishedAt = None\<rparr>);
     if r \<noteq> Inr () then fatal else do {
     got \<leftarrow> qu (\<lambda>d. JobByID d ''job_b'');
     if \<not> value_is got (\<lambda>j. jb_BotUserID j = ''bot_1'') then fatal else pass }})"

section \<open>Approvals\<close>

definition testApprovalDecideOnce :: "(nat \<Rightarrow> time) \<Rightarrow> bool test" where
  "testApprovalDecideOnce clk = seeded (seedHarness clk) (\<lambda>_. seeded (seedJob clk ''job_1'' JobAwaitingApproval) (\<lambda>_. do {
     t \<leftarrow> now clk;
     seeded (seedApproval clk ''apr_1'' (t + 60 * minute)) (\<lambda>_. do {
     pending \<leftarrow> qu (\<lambda>d. PendingApprovalsByJob d ''job_1'');
     if length (slice pending) \<noteq> 1 \<or> \<not> Pending (hd (slice pending)) \<or> av_Input (hd (slice pending)) \<noteq> rm_input then fatal else do {
     t \<leftarrow> now clk;
     a \<leftarrow> st (\<lambda>d. DecideApproval d ''apr_1'' DecisionAllow ''user_1'' t);
     if \<not> value_is a (\<lambda>a. av_Decision a = DecisionAllow \<and> av_DecidedBy a = ''user_1'' \<and> av_DecidedAt a \<noteq> None) then fatal else do {
     t \<leftarrow> now clk;
     a \<leftarrow> st (\<lambda>d. DecideApproval d ''apr_1'' DecisionDeny ''user_2'' t);
     if a \<noteq> Inl ErrConflict then fatal else do {
     t \<leftarrow> now clk;
     a \<leftarrow> st (\<lambda>d. DecideApproval d ''apr_x'' DecisionDeny ''user_2'' t);
     if a \<noteq> Inl ErrNotFound then fatal else do {
     pending \<leftarrow> qu (\<lambda>d. PendingApprovalsByJob d ''job_1'');
     if length (slice pending) \<noteq> 0 then fatal else pass }}}}}) }))"

definition testApprovalExpired :: "(nat \<Rightarrow> time) \<Rightarrow> bool test" where
  "testApprovalExpired clk = seeded (seedHarness clk) (\<lambda>_. seeded (seedJob clk ''job_1'' JobAwaitingApproval) (\<lambda>_. do {
     t \<leftarrow> now clk;
     seeded (seedApproval clk ''apr_1'' (t - second)) (\<lambda>_. do {
     t \<leftarrow> now clk;
     a \<leftarrow> st (\<lambda>d. DecideApproval d ''apr_1'' DecisionAllow ''user_1'' t);
     if a \<noteq> Inl ErrConflict then fatal else pass }) }))"

definition testApprovalDuplicateID :: "(nat \<Rightarrow> time) \<Rightarrow> bool test" where
  "testApprovalDuplicateID clk = seeded (seedHarness clk) (\<lambda>_. seeded (seedJob clk ''job_1'' JobAwaitingApproval) (\<lambda>_. do {
     t \<leftarrow> now clk;
     seeded (seedApproval clk ''apr_1'' (t + 60 * minute)) (\<lambda>a. do {
     r \<leftarrow> st (\<lambda>d. CreateApproval d a);
     if r \<noteq> Inl ErrConflict then fatal else pass }) }))"

section \<open>The outbox, the audit log\<close>

text \<open>The payloads, which the store keeps as they are, are parameters: \<open>pa\<close> of the first message, \<open>pb\<close> of the others.\<close>

definition outbox_msgs :: "payload \<Rightarrow> payload \<Rightarrow> time \<Rightarrow> OutboxMessage list" where
  "outbox_msgs pa pb t = [
     \<lparr>ob_ID = ''m1'', ob_HarnessID = ''hrn_1'', ob_JobID = ''job_1'', ob_Type = ''job.dispatch'', ob_Payload = pa,
      ob_CreatedAt = t, ob_AckedAt = None\<rparr>,
     \<lparr>ob_ID = ''m2'', ob_HarnessID = ''hrn_1'', ob_JobID = ''job_1'', ob_Type = ''job.cancel'', ob_Payload = pb,
      ob_CreatedAt = t + millisecond, ob_AckedAt = None\<rparr>,
     \<lparr>ob_ID = ''m3'', ob_HarnessID = ''hrn_2'', ob_JobID = [], ob_Type = ''job.dispatch'', ob_Payload = pb,
      ob_CreatedAt = t, ob_AckedAt = None\<rparr>]"

primrec enqueue_all :: "OutboxMessage list \<Rightarrow> unit option test" where
  "enqueue_all [] = State_Monad.return (Some ())"
| "enqueue_all (m # rest) = do {
     r \<leftarrow> st (\<lambda>d. Enqueue d m);
     if r \<noteq> Inr () then State_Monad.return None else enqueue_all rest
   }"

definition testOutboxPendingAckPurge :: "payload \<Rightarrow> payload \<Rightarrow> (nat \<Rightarrow> time) \<Rightarrow> bool test" where
  "testOutboxPendingAckPurge pa pb clk = do {
     t0 \<leftarrow> now clk;
     let msgs = outbox_msgs pa pb t0;
     seeded (enqueue_all msgs) (\<lambda>_. do {
     r \<leftarrow> st (\<lambda>d. Enqueue d (msgs ! 0));
     if r \<noteq> Inl ErrConflict then fatal else do {
     pending \<leftarrow> qu (\<lambda>d. PendingOutbox d ''hrn_1'');
     if \<not> value_is pending (\<lambda>ps. length ps = 2 \<and> ob_ID (ps ! 0) = ''m1'' \<and> ob_ID (ps ! 1) = ''m2'' \<and> ob_Payload (ps ! 0) = pa)
     then fatal else do {
     t \<leftarrow> now clk;
     r \<leftarrow> st (\<lambda>d. AckOutbox d ''m1'' t);
     if r \<noteq> Inr () then fatal else do {
     t \<leftarrow> now clk;
     r \<leftarrow> st (\<lambda>d. AckOutbox d ''m1'' t);
     if r \<noteq> Inr () then fatal else do {
     pending \<leftarrow> qu (\<lambda>d. PendingOutbox d ''hrn_1'');
     if length (slice pending) \<noteq> 1 \<or> ob_ID (slice pending ! 0) \<noteq> ''m2'' then fatal else do {
     t \<leftarrow> now clk;
     n \<leftarrow> st (\<lambda>d. PurgeOutbox d (t + second));
     if n \<noteq> Inr 1 then fatal else do {
     pending \<leftarrow> qu (\<lambda>d. PendingOutbox d ''hrn_2'');
     if length (slice pending) \<noteq> 1 then fatal else pass }}}}}}}) }"

definition testAuditAppend :: "(nat \<Rightarrow> time) \<Rightarrow> bool test" where
  "testAuditAppend clk = do {
     t \<leftarrow> time_Now clk;
     r \<leftarrow> st (\<lambda>d. AppendAudit d t \<lparr>ae_At = zero_time, ae_Actor = ''system'', ae_Action = ''test'', ae_JobID = ''job_1'',
       ae_Details = [(''k'', DStr ''v'')]\<rparr>);
     if r \<noteq> Inr () then fatal else do {
     u \<leftarrow> now clk;
     t \<leftarrow> time_Now clk;
     r \<leftarrow> st (\<lambda>d. AppendAudit d t \<lparr>ae_At = u, ae_Actor = ''user_1'', ae_Action = ''test.nodetails'', ae_JobID = [], ae_Details = []\<rparr>);
     if r \<noteq> Inr () then fatal else pass }}"

section \<open>Bots and init requests\<close>

definition plain_bot :: "string \<Rightarrow> string \<Rightarrow> string \<Rightarrow> string \<Rightarrow> time \<Rightarrow> Bot" where
  "plain_bot i owner name token t = \<lparr>bt_UserID = i, bt_MMUserID = owner, bt_Username = name, bt_Token = token, bt_CreatedAt = t,
     bt_HarnessID = [], bt_TeamID = [], bt_ChannelID = [], bt_IncomingHookID = [], bt_OutgoingHookID = [], bt_OutgoingToken = []\<rparr>"

definition testBotsPerOwner :: "(nat \<Rightarrow> time) \<Rightarrow> bool test" where
  "testBotsPerOwner clk = do {
     t \<leftarrow> now clk;
     r \<leftarrow> st (\<lambda>d. CreateBot d (plain_bot ''bot_1'' ''user_1'' ''harness-manuel'' ''tok'' t));
     if r \<noteq> Inr () then fatal else do {
     t \<leftarrow> now clk;
     r \<leftarrow> st (\<lambda>d. CreateBot d (plain_bot ''bot_2'' ''user_1'' ''other'' ''t'' t));
     if r \<noteq> Inr () then fatal else do {
     t \<leftarrow> now clk;
     r \<leftarrow> st (\<lambda>d. CreateBot d (plain_bot ''bot_3'' ''user_2'' ''harness-manuel'' ''t'' t));
     if r \<noteq> Inl ErrConflict then fatal else do {
     got \<leftarrow> qu (\<lambda>d. BotByOwner d ''user_1'');
     if \<not> value_is got (\<lambda>b. bt_UserID b = ''bot_1'' \<and> bt_Token b = ''tok'') then fatal else do {
     got \<leftarrow> qu (\<lambda>d. BotByUserID d ''bot_x'');
     if got \<noteq> Inl ErrNotFound then fatal else do {
     bs \<leftarrow> qu ListBots;
     if length (slice bs) \<noteq> 2 then fatal else pass }}}}}}"

definition suite_init :: "string \<Rightarrow> string \<Rightarrow> string \<Rightarrow> time \<Rightarrow> time \<Rightarrow> InitRequest" where
  "suite_init c b n t expiry = \<lparr>in_CodeHash = c, in_BotName = b, in_HarnessName = n, in_CreatedAt = t, in_ExpiresAt = expiry,
     in_ClaimedAt = None, in_HarnessID = [], in_HarnessToken = [], in_FetchedAt = None, in_BotUserID = [], in_PollTokenHash = []\<rparr>"

text \<open>The last part of \<^verbatim>\<open>testInitDeviceFlow\<close>: expired codes are gone for both sides.\<close>

definition expired_codes :: "(nat \<Rightarrow> time) \<Rightarrow> bool test" where
  "expired_codes clk = do {
     t \<leftarrow> now clk;
     u \<leftarrow> now clk;
     st (\<lambda>d. CreateInit d (suite_init ''old'' [] [] t (u - second)));
     t \<leftarrow> now clk;
     r \<leftarrow> st (\<lambda>d. FetchInit d ''old'' t);
     if r \<noteq> Inl ErrNotFound then fatal else do {
     t \<leftarrow> now clk;
     c \<leftarrow> st (\<lambda>d. ClaimInit d ''old'' t ''h'' ''t'');
     if c \<noteq> Inl ErrNotFound then fatal else pass }}"

definition testInitDeviceFlow :: "(nat \<Rightarrow> time) \<Rightarrow> bool test" where
  "testInitDeviceFlow clk = do {
     t \<leftarrow> now clk;
     let expiry = t + 10 * minute;
     t \<leftarrow> now clk;
     c \<leftarrow> st (\<lambda>d. CreateInit d (suite_init ''c1'' ''custom'' ''mbp'' t expiry));
     if c \<noteq> Inr () then fatal else do {
     t \<leftarrow> now clk;
     c \<leftarrow> st (\<lambda>d. CreateInit d (suite_init ''c1'' [] [] t expiry));
     if c \<noteq> Inl ErrConflict then fatal else do {
     t \<leftarrow> now clk;
     r \<leftarrow> st (\<lambda>d. FetchInit d ''c1'' t);
     if \<not> value_is r (\<lambda>r. \<not> Claimed r \<and> in_BotName r = ''custom'' \<and> in_HarnessName r = ''mbp'') then fatal else do {
     t \<leftarrow> now clk;
     c \<leftarrow> st (\<lambda>d. ClaimInit d ''c1'' t ''hrn_1'' ''hrt_secret'');
     if c \<noteq> Inr () then fatal else do {
     t \<leftarrow> now clk;
     c \<leftarrow> st (\<lambda>d. ClaimInit d ''c1'' t ''hrn_2'' ''x'');
     if c \<noteq> Inl ErrConflict then fatal else do {
     t \<leftarrow> now clk;
     c \<leftarrow> st (\<lambda>d. ClaimInit d ''nope'' t ''hrn_2'' ''x'');
     if c \<noteq> Inl ErrNotFound then fatal else do {
     t \<leftarrow> now clk;
     r \<leftarrow> st (\<lambda>d. FetchInit d ''c1'' t);
     if \<not> value_is r (\<lambda>r. Claimed r \<and> in_HarnessID r = ''hrn_1'' \<and> in_HarnessToken r = ''hrt_secret'' \<and> in_FetchedAt r \<noteq> None)
     then fatal else do {
     t \<leftarrow> now clk;
     r \<leftarrow> st (\<lambda>d. FetchInit d ''c1'' t);
     if r \<noteq> Inl ErrConflict then fatal else do {
     r \<leftarrow> qu (\<lambda>d. InitByHarness d ''hrn_1'');
     if value_is r (\<lambda>r. in_HarnessToken r \<noteq> []) then fatal else expired_codes clk }}}}}}}} }"

section \<open>The suite\<close>

definition suite_tests :: "payload \<Rightarrow> payload \<Rightarrow> (string \<times> ((nat \<Rightarrow> time) \<Rightarrow> bool test)) list" where
  "suite_tests pa pb = [
     (''HarnessCRUD'', testHarnessCRUD),
     (''PairingConsumeOnce'', testPairingConsumeOnce),
     (''PairingExpired'', testPairingExpired),
     (''JobTransitionCAS'', testJobTransitionCAS),
     (''JobProgressMonotonic'', testJobProgressMonotonic),
     (''JobExpireQueued'', testJobExpireQueued),
     (''JobActiveByHarness'', testJobActiveByHarness),
     (''ApprovalDecideOnce'', testApprovalDecideOnce),
     (''ApprovalExpired'', testApprovalExpired),
     (''ApprovalDuplicateID'', testApprovalDuplicateID),
     (''OutboxPendingAckPurge'', testOutboxPendingAckPurge pa pb),
     (''BotsPerOwner'', testBotsPerOwner),
     (''InitDeviceFlow'', testInitDeviceFlow),
     (''JobKeepsBot'', testJobKeepsBot),
     (''AuditAppend'', testAuditAppend)]"

text \<open>\<^verbatim>\<open>Run\<close>: each test gets a fresh, empty store, and its own stretch of the clock.\<close>

definition run_test :: "((nat \<Rightarrow> time) \<Rightarrow> bool test) \<Rightarrow> (nat \<Rightarrow> time) \<Rightarrow> bool" where
  "run_test fn clk = fst (run_state (fn clk) \<lparr>su_db = empty_db, su_reading = 0\<rparr>)"

definition run_suite :: "payload \<Rightarrow> payload \<Rightarrow> (string \<Rightarrow> nat \<Rightarrow> time) \<Rightarrow> bool" where
  "run_suite pa pb clk = list_all (\<lambda>(name, fn). run_test fn (clk name)) (suite_tests pa pb)"

section \<open>The suite passes\<close>

text \<open>The wall clock does not go back while a test runs, and a test takes less than half a minute.\<close>

definition steady :: "(nat \<Rightarrow> time) \<Rightarrow> bool" where
  "steady clk \<longleftrightarrow> mono clk \<and> (\<forall>n. clk n < clk 0 + 30 * second)"

lemma run_pass [simp]: "run_state pass s = (True, s)"
  by (simp add: pass_def)

lemma run_time_Now [simp]: "run_state (time_Now clk) s = (clk (su_reading s), s\<lparr>su_reading := Suc (su_reading s)\<rparr>)"
  by (simp add: time_Now_def)

lemma run_now [simp]: "run_state (now clk) s = (stored_time (clk (su_reading s)), s\<lparr>su_reading := Suc (su_reading s)\<rparr>)"
  by (simp add: now_def)

lemma run_st [simp]: "run_state (st f) s = (fst (f (su_db s)), s\<lparr>su_db := snd (f (su_db s))\<rparr>)"
  by (simp add: st_def case_prod_unfold Let_def)

lemma run_qu [simp]: "run_state (qu f) s = (f (su_db s), s)"
  by (simp add: qu_def)

lemma ms_shift [simp]:
  "ms (t + minute) = ms t + 60000" "ms (t - minute) = ms t - 60000" "ms (t + 60 * minute) = ms t + 3600000"
  "ms (t + 10 * minute) = ms t + 600000" "ms (t - second) = ms t - 1000" "ms (t + second) = ms t + 1000"
  "ms (t + millisecond) = ms t + 1"
  by (simp_all add: ms_def minute_def second_def millisecond_def)

lemma steady_ms:
  assumes "steady clk"
  shows "i \<le> j \<Longrightarrow> ms (clk i) \<le> ms (clk j)" "ms (clk j) \<le> ms (clk i) + 30000"
proof -
  have m: "mono clk" and lt: "clk j < clk 0 + 30 * second" using assms by (simp_all add: steady_def)
  show "i \<le> j \<Longrightarrow> ms (clk i) \<le> ms (clk j)" using m by (intro ms_mono) (simp add: monoD)
  have "ms (clk j) \<le> ms (clk i + 30 * second)" using lt monoD [OF m, of 0 i] by (intro ms_mono) simp
  then show "ms (clk j) \<le> ms (clk i) + 30000" by (simp add: ms_def second_def millisecond_def)
qed

lemma stored_time_le_iff [simp]: "stored_time s \<le> stored_time t \<longleftrightarrow> ms s \<le> ms t"
  by (simp add: stored_time_def fromMS_def millisecond_def)

text \<open>The comparisons the tests come down to.\<close>

lemma steady_simps [simp]:
  assumes "steady clk"
  shows "ms (clk j) < ms (clk i) + 60000" "ms (clk j) < ms (clk i) + 600000" "ms (clk j) < ms (clk i) + 3600000"
    "i \<le> j \<Longrightarrow> ms (clk i) \<le> ms (clk j)" "i \<le> j \<Longrightarrow> ms (clk i) < ms (clk j) + 1000"
    "i \<le> j \<Longrightarrow> ms (clk i) - 1000 \<le> ms (clk j)" "i \<le> j \<Longrightarrow> ms (clk i) - 60000 \<le> ms (clk j)"
    "ms (clk i) + 60000 \<le> ms (clk j) \<longleftrightarrow> False" "ms (clk i) + 600000 \<le> ms (clk j) \<longleftrightarrow> False"
    "i \<le> j \<Longrightarrow> ms (clk j) < ms (clk i) - 1000 \<longleftrightarrow> False"
  using steady_ms(1) [OF assms, of i j] steady_ms(2) [OF assms, of j i] steady_ms(2) [OF assms, of i j] by simp_all

lemmas suite_defs = run_test_def seeded_def seedHarness_def seedJob_def seedApproval_def value_is_def slice_def empty_db_def scan_row_def Let_def

lemmas job_defs = CreateHarness_def stored_harness_def CreateJob_def trigger_taken_def stored_job_def JobByID_def rows_affected_def

lemmas approval_defs = CreateApproval_def stored_approval_def rm_input_def PendingApprovalsByJob_def Pending_def DecideApproval_def
  decide_row_def ApprovalByID_def

lemma passes_HarnessCRUD: "run_test testHarnessCRUD clk"
  by (simp add: suite_defs testHarnessCRUD_def CreateHarness_def HarnessByTokenHash_def TouchHarness_def HarnessByID_def
    HarnessesByUser_def DeleteHarness_def stored_harness_def rows_affected_def rows_delete_def)

lemma passes_PairingConsumeOnce: "steady clk \<Longrightarrow> run_test testPairingConsumeOnce clk"
  by (simp add: suite_defs testPairingConsumeOnce_def CreatePairing_def ConsumePairing_def pairing_usable_def)

lemma passes_PairingExpired: "steady clk \<Longrightarrow> run_test testPairingExpired clk"
  by (simp add: suite_defs testPairingExpired_def CreatePairing_def ConsumePairing_def pairing_usable_def)

lemma passes_JobTransitionCAS: "run_test testJobTransitionCAS clk"
  by (simp add: suite_defs job_defs testJobTransitionCAS_def TransitionJob_def patch_job_def no_patch_def ActiveStates_def)

lemma passes_JobProgressMonotonic: "run_test testJobProgressMonotonic clk"
  by (simp add: suite_defs job_defs testJobProgressMonotonic_def RecordProgress_def)

lemma passes_JobExpireQueued: "steady clk \<Longrightarrow> run_test testJobExpireQueued clk"
  by (simp add: suite_defs job_defs testJobExpireQueued_def expiring_job_def ExpireQueuedJobs_def queue_expired_def expire_job_def)

lemma passes_JobActiveByHarness: "run_test testJobActiveByHarness clk"
  by (simp add: suite_defs job_defs testJobActiveByHarness_def ActiveJobsByHarness_def ListJobs_def job_matches_def any_job_def ActiveStates_def)

lemma passes_JobKeepsBot: "run_test testJobKeepsBot clk"
  by (simp add: suite_defs job_defs testJobKeepsBot_def)

lemma passes_ApprovalDecideOnce: "steady clk \<Longrightarrow> run_test testApprovalDecideOnce clk"
  by (simp add: suite_defs job_defs approval_defs testApprovalDecideOnce_def)

lemma passes_ApprovalExpired: "steady clk \<Longrightarrow> run_test testApprovalExpired clk"
  by (simp add: suite_defs job_defs approval_defs testApprovalExpired_def)

lemma passes_ApprovalDuplicateID: "run_test testApprovalDuplicateID clk"
  by (simp add: suite_defs job_defs approval_defs testApprovalDuplicateID_def)

lemma passes_OutboxPendingAckPurge: "steady clk \<Longrightarrow> run_test (testOutboxPendingAckPurge pa pb) clk"
  by (simp add: suite_defs testOutboxPendingAckPurge_def outbox_msgs_def Enqueue_def stored_outbox_def PendingOutbox_def outbox_pending_def
    AckOutbox_def PurgeOutbox_def acked_before_def rows_affected_def rows_delete_def)

lemma passes_BotsPerOwner: "steady clk \<Longrightarrow> run_test testBotsPerOwner clk"
  by (simp add: suite_defs testBotsPerOwner_def plain_bot_def CreateBot_def checkBotHarness_def stored_bot_def BotByOwner_def BotByUserID_def ListBots_def)

lemma passes_InitDeviceFlow: "steady clk \<Longrightarrow> run_test testInitDeviceFlow clk"
  by (simp add: suite_defs testInitDeviceFlow_def expired_codes_def suite_init_def CreateInit_def stored_init_def FetchInit_def InitByCode_def
    Claimed_def ClaimInit_def InitByHarness_def rows_affected_def)

lemma passes_AuditAppend: "run_test testAuditAppend clk"
  by (simp add: suite_defs testAuditAppend_def AppendAudit_def)


end
