(* ===== verification/Fake_Server.thy ===== *)
theory Fake_Server
  imports Onboarding Wire "HOL-Library.AList"
begin

text \<open>
  The in-memory Mattermost of the repository, \<^verbatim>\<open>internal/broker/mattermost/mmtest/fake.go\<close>: the server the tests
  of the broker run against. Its maps are association lists. A view with a token shares everything
  with its parent, so a view is the token alone and the state is that of the server. Go visits a map in any
  order; where two users have the same name the model takes the first.
\<close>

section \<open>State\<close>

text \<open>The properties of a post that the code reads.\<close>

datatype post_prop = PropString string | PropAttachments "Attachment list" | PropOther

record fake_post =
  fp_Post :: Post
  fp_Props :: "(string \<times> post_prop) list"

record fake_user =
  fu_Id :: string
  fu_Username :: string
  fu_IsBot :: bool

record fake_bot =
  fb_UserId :: string
  fb_Username :: string
  fb_DisplayName :: string
  fb_Description :: string

record fake =
  fk_seq :: nat
  fk_Posts :: "(string \<times> fake_post) list"
  fk_Order :: "string list"
  fk_Users :: "(string \<times> fake_user) list"
  fk_Files :: "(string \<times> string) list"
  fk_Bots :: "(string \<times> fake_bot) list"
  fk_BotTokens :: "(string \<times> string) list"
  fk_Memberships :: "(string \<times> bool) list"
  fk_Channels :: "(string \<times> Channel) list"

definition fake_New :: fake where
  "fake_New = \<lparr>fk_seq = 0, fk_Posts = [], fk_Order = [], fk_Users = [], fk_Files = [], fk_Bots = [], fk_BotTokens = [],
     fk_Memberships = [], fk_Channels = []\<rparr>"

definition fake_id :: "string \<Rightarrow> nat \<Rightarrow> string" where
  "fake_id prefix n = prefix @ nat_digits n"

definition fake_next :: "string \<Rightarrow> fake \<Rightarrow> string \<times> fake" where
  "fake_next prefix f = (fake_id prefix (Suc (fk_seq f)), f\<lparr>fk_seq := Suc (fk_seq f)\<rparr>)"

section \<open>The API\<close>

definition fake_AddUser :: "string \<Rightarrow> string \<Rightarrow> fake \<Rightarrow> fake" where
  "fake_AddUser i name f = f\<lparr>fk_Users := AList.update i \<lparr>fu_Id = i, fu_Username = name, fu_IsBot = False\<rparr> (fk_Users f)\<rparr>"

text \<open>\<open>token\<close> is that of the view.\<close>

definition fake_CreatePost :: "string \<Rightarrow> fake_post \<Rightarrow> fake \<Rightarrow> fake_post \<times> fake" where
  "fake_CreatePost token p f =
     (let (i, f) = fake_next ''post'' f;
          cp = \<lparr>fp_Post = (fp_Post p)\<lparr>po_Id := i\<rparr>,
                fp_Props = (if token \<noteq> [] then AList.update ''mmtest_token'' (PropString token) (fp_Props p) else fp_Props p)\<rparr>
      in (cp, f\<lparr>fk_Posts := AList.update i cp (fk_Posts f), fk_Order := fk_Order f @ [i]\<rparr>))"

definition no_such :: "string \<Rightarrow> string \<Rightarrow> string" where
  "no_such what i = ''mmtest: no '' @ what @ '' '' @ i"

definition fake_UpdatePost :: "string \<Rightarrow> string \<Rightarrow> (string \<times> post_prop) list option \<Rightarrow> fake \<Rightarrow> (string + unit) \<times> fake" where
  "fake_UpdatePost i message props f =
     (case map_of (fk_Posts f) i of
        None \<Rightarrow> (Inl (no_such ''post'' i), f)
      | Some p \<Rightarrow> (Inr (), f\<lparr>fk_Posts := AList.update i
          (p\<lparr>fp_Post := (fp_Post p)\<lparr>po_Message := message\<rparr>,
             fp_Props := (case props of None \<Rightarrow> fp_Props p | Some ps \<Rightarrow> ps)\<rparr>) (fk_Posts f)\<rparr>))"

definition fake_GetPost :: "string \<Rightarrow> fake \<Rightarrow> string + fake_post" where
  "fake_GetPost i f = (case map_of (fk_Posts f) i of None \<Rightarrow> Inl (no_such ''post'' i) | Some p \<Rightarrow> Inr p)"

text \<open>An id without a post would be a nil dereference; the invariant excludes it.\<close>

definition fake_GetThread :: "string \<Rightarrow> fake \<Rightarrow> fake_post list" where
  "fake_GetThread rootID f =
     filter (\<lambda>p. po_Id (fp_Post p) = rootID \<or> po_RootId (fp_Post p) = rootID) (List.map_filter (map_of (fk_Posts f)) (fk_Order f))"

definition fake_GetUser :: "string \<Rightarrow> fake \<Rightarrow> string + fake_user" where
  "fake_GetUser i f = (case map_of (fk_Users f) i of None \<Rightarrow> Inl (no_such ''user'' i) | Some u \<Rightarrow> Inr u)"

definition fake_DirectChannel :: "string \<Rightarrow> string \<Rightarrow> string" where
  "fake_DirectChannel botID userID = ''dm_'' @ userID"

definition fake_UploadFile :: "string \<Rightarrow> string \<Rightarrow> fake \<Rightarrow> (string \<times> FileInfo) \<times> fake" where
  "fake_UploadFile name data f =
     (let (i, f) = fake_next ''file'' f
      in ((i, \<lparr>fi_Name = name, fi_MimeType = [], fi_Size = int (length data)\<rparr>), f\<lparr>fk_Files := AList.update i data (fk_Files f)\<rparr>))"

definition fake_DownloadFile :: "string \<Rightarrow> fake \<Rightarrow> string + string" where
  "fake_DownloadFile i f = (case map_of (fk_Files f) i of None \<Rightarrow> Inl (no_such ''file'' i) | Some b \<Rightarrow> Inr b)"

definition fake_GetFileInfo :: "string \<Rightarrow> fake \<Rightarrow> string + FileInfo" where
  "fake_GetFileInfo i f =
     (case map_of (fk_Files f) i of
        None \<Rightarrow> Inl (no_such ''file'' i)
      | Some b \<Rightarrow> Inr \<lparr>fi_Name = i @ ''.txt'', fi_MimeType = ''text/plain'', fi_Size = int (length b)\<rparr>)"

section \<open>What the tests look at\<close>

definition fake_Message :: "string \<Rightarrow> fake \<Rightarrow> string" where
  "fake_Message i f = (case map_of (fk_Posts f) i of None \<Rightarrow> [] | Some p \<Rightarrow> po_Message (fp_Post p))"

definition fake_Last :: "fake \<Rightarrow> fake_post option" where
  "fake_Last f = (if fk_Order f = [] then None else map_of (fk_Posts f) (last (fk_Order f)))"

definition fake_Attachments :: "string \<Rightarrow> fake \<Rightarrow> Attachment list" where
  "fake_Attachments i f =
     (case map_of (fk_Posts f) i of
        None \<Rightarrow> []
      | Some p \<Rightarrow> (case map_of (fp_Props p) ''attachments'' of Some (PropAttachments ats) \<Rightarrow> ats | _ \<Rightarrow> []))"

definition fake_PostToken :: "string \<Rightarrow> fake \<Rightarrow> string" where
  "fake_PostToken i f =
     (case map_of (fk_Posts f) i of
        None \<Rightarrow> []
      | Some p \<Rightarrow> (case map_of (fp_Props p) ''mmtest_token'' of Some (PropString t) \<Rightarrow> t | _ \<Rightarrow> []))"

section \<open>Administration\<close>

definition fake_GetUserByUsername :: "string \<Rightarrow> fake \<Rightarrow> string + fake_user" where
  "fake_GetUserByUsername name f =
     (case find (\<lambda>u. fu_Username u = name) (map snd (fk_Users f)) of None \<Rightarrow> Inl (no_such ''user'' name) | Some u \<Rightarrow> Inr u)"

definition fake_CreateBot :: "string \<Rightarrow> string \<Rightarrow> string \<Rightarrow> fake \<Rightarrow> (string + fake_bot) \<times> fake" where
  "fake_CreateBot name display description f =
     (if name \<in> set (map (\<lambda>(i, u). fu_Username u) (fk_Users f)) then (Inl (''mmtest: username '' @ name @ '' taken''), f)
      else let (i, f) = fake_next ''botuser'' f;
               b = \<lparr>fb_UserId = i, fb_Username = name, fb_DisplayName = display, fb_Description = description\<rparr>
           in (Inr b, f\<lparr>fk_Users := AList.update i \<lparr>fu_Id = i, fu_Username = name, fu_IsBot = True\<rparr> (fk_Users f),
                        fk_Bots := AList.update i b (fk_Bots f)\<rparr>))"

definition fake_CreateBotToken :: "string \<Rightarrow> fake \<Rightarrow> (string + string) \<times> fake" where
  "fake_CreateBotToken i f =
     (if map_of (fk_Bots f) i = None then (Inl (no_such ''bot'' i), f)
      else (Inr (''tok_'' @ i), f\<lparr>fk_BotTokens := AList.update i (''tok_'' @ i) (fk_BotTokens f)\<rparr>))"

definition fake_AddTeamMember :: "string \<Rightarrow> string \<Rightarrow> fake \<Rightarrow> fake" where
  "fake_AddTeamMember team user f = f\<lparr>fk_Memberships := AList.update (team @ '':'' @ user) True (fk_Memberships f)\<rparr>"

definition fake_AddChannelMember :: "string \<Rightarrow> string \<Rightarrow> fake \<Rightarrow> fake" where
  "fake_AddChannelMember channel user f = f\<lparr>fk_Memberships := AList.update (channel @ '':'' @ user) True (fk_Memberships f)\<rparr>"

definition fake_GetChannel :: "string \<Rightarrow> fake \<Rightarrow> Channel" where
  "fake_GetChannel i f =
     (case map_of (fk_Channels f) i of Some ch \<Rightarrow> ch | None \<Rightarrow> \<lparr>cn_TeamId = ''team_1'', cn_Type = ''O''\<rparr>)"

section \<open>Runs\<close>

inductive fake_step :: "fake \<Rightarrow> fake \<Rightarrow> bool" where
  AddUser: "fake_step f (fake_AddUser i name f)"
| CreatePost: "fake_step f (snd (fake_CreatePost token p f))"
| UpdatePost: "fake_step f (snd (fake_UpdatePost i message props f))"
| UploadFile: "fake_step f (snd (fake_UploadFile name data f))"
| NewBot: "fake_step f (snd (fake_CreateBot name display description f))"
| NewToken: "fake_step f (snd (fake_CreateBotToken i f))"
| TeamMember: "fake_step f (fake_AddTeamMember team user f)"
| ChannelMember: "fake_step f (fake_AddChannelMember channel user f)"

text \<open>Every post has its id and its place in the order, and every id comes from the counter.\<close>

definition fake_ok :: "fake \<Rightarrow> bool" where
  "fake_ok f \<longleftrightarrow> distinct (fk_Order f) \<and> set (fk_Order f) = fst ` set (fk_Posts f) \<and>
     (\<forall>i p. map_of (fk_Posts f) i = Some p \<longrightarrow> po_Id (fp_Post p) = i) \<and>
     fst ` set (fk_Posts f) \<subseteq> fake_id ''post'' ` {..fk_seq f} \<and> fst ` set (fk_Files f) \<subseteq> fake_id ''file'' ` {..fk_seq f}"

lemma fake_id_inj [simp]: "fake_id prefix n = fake_id prefix k \<longleftrightarrow> n = k"
  unfolding fake_id_def by (metis digits_value_nat of_nat_eq_iff same_append_eq)

lemma fresh_fake_id: "fake_id prefix (Suc n) \<notin> fake_id prefix ` {..n}"
  by auto

lemmas fake_defs = fake_AddUser_def fake_CreatePost_def fake_UpdatePost_def fake_UploadFile_def fake_CreateBot_def fake_CreateBotToken_def
  fake_AddTeamMember_def fake_AddChannelMember_def fake_next_def Let_def

lemma ids_grow: "X \<subseteq> fake_id prefix ` {..n} \<Longrightarrow> X \<subseteq> fake_id prefix ` {..Suc n}"
  by (auto simp: atMost_Suc)

lemma fake_ok_CreatePost:
  assumes "fake_ok f"
  shows "fake_ok (snd (fake_CreatePost token p f))"
proof -
  have "fake_id ''post'' (Suc (fk_seq f)) \<notin> set (fk_Order f)"
    using assms fresh_fake_id [of "''post''" "fk_seq f"] by (auto simp: fake_ok_def)
  then show ?thesis
    using assms by (auto simp: fake_ok_def fake_defs dom_update update_conv' atMost_Suc split: if_splits)
qed

lemma fake_ok_UpdatePost:
  assumes "fake_ok f"
  shows "fake_ok (snd (fake_UpdatePost i message props f))"
proof (cases "map_of (fk_Posts f) i")
  case None
  then show ?thesis using assms by (simp add: fake_UpdatePost_def)
next
  case (Some p)
  then have "i \<in> fst ` set (fk_Posts f)" by (force dest: map_of_SomeD)
  then show ?thesis using assms Some by (auto simp: fake_ok_def fake_UpdatePost_def dom_update update_conv' split: if_splits)
qed

lemma fake_ok_step: "fake_step f f' \<Longrightarrow> fake_ok f \<Longrightarrow> fake_ok f'"
proof (induction rule: fake_step.induct)
  case (UploadFile name data f)
  then show ?case by (auto simp: fake_ok_def fake_defs dom_update atMost_Suc)
next
  case (NewBot name display description f)
  then show ?case by (auto simp: fake_ok_def fake_defs intro: ids_grow)
qed (simp_all add: fake_ok_CreatePost fake_ok_UpdatePost, simp_all add: fake_ok_def fake_defs)

lemma fake_ok_New: "fake_ok fake_New"
  by (simp add: fake_New_def fake_ok_def)

lemma fake_ok_reached: "fake_step\<^sup>*\<^sup>* fake_New f \<Longrightarrow> fake_ok f"
  by (induction rule: rtranclp_induct) (auto intro: fake_ok_step fake_ok_New)

section \<open>A server of threads\<close>

text \<open>
  What the core relies on from a Mattermost server: a new post has a new id, is read back, and comes last
  in its thread. The posts of a conversation are then read in the order they were written.
\<close>

primrec create_all :: "('a \<Rightarrow> 's \<Rightarrow> 'p \<times> 's) \<Rightarrow> 'a list \<Rightarrow> 's \<Rightarrow> 'p list \<times> 's" where
  "create_all create [] s = ([], s)"
| "create_all create (a # as) s = (let (p, s) = create a s; (ps, s) = create_all create as s in (p # ps, s))"

locale thread_server =
  fixes ok :: "'s \<Rightarrow> bool"
    and create :: "'a \<Rightarrow> 's \<Rightarrow> 'p \<times> 's"
    and get :: "string \<Rightarrow> 's \<Rightarrow> 'p option"
    and thread :: "string \<Rightarrow> 's \<Rightarrow> 'p list"
    and key :: "'p \<Rightarrow> string"
    and in_thread :: "string \<Rightarrow> 'a \<Rightarrow> bool"
  assumes create_ok: "ok s \<Longrightarrow> ok (snd (create a s))"
    and create_new: "ok s \<Longrightarrow> get (key (fst (create a s))) s = None"
    and get_create: "ok s \<Longrightarrow> get i (snd (create a s)) = (if i = key (fst (create a s)) then Some (fst (create a s)) else get i s)"
    and thread_create: "ok s \<Longrightarrow> in_thread r a \<Longrightarrow> thread r (snd (create a s)) = thread r s @ [fst (create a s)]"
begin

lemma create_all_ok: "ok s \<Longrightarrow> ok (snd (create_all create as s))"
  by (induction as arbitrary: s) (simp_all add: case_prod_unfold Let_def create_ok)

lemma get_old: "ok s \<Longrightarrow> get i s = Some p \<Longrightarrow> get i (snd (create_all create as s)) = Some p"
proof (induction as arbitrary: s)
  case (Cons a as)
  have "get i (snd (create a s)) = Some p"
    using get_create [OF Cons.prems(1), of i a] create_new [OF Cons.prems(1), of a] Cons.prems(2) by (metis option.distinct(1))
  then show ?case using Cons.IH create_ok [OF Cons.prems(1)] by (simp add: case_prod_unfold Let_def)
qed simp

lemma conversation:
  "ok s \<Longrightarrow> \<forall>a \<in> set as. in_thread r a \<Longrightarrow>
   thread r (snd (create_all create as s)) = thread r s @ fst (create_all create as s) \<and>
   (\<forall>p \<in> set (fst (create_all create as s)). get (key p) (snd (create_all create as s)) = Some p)"
proof (induction as arbitrary: s)
  case (Cons a as)
  let ?p = "fst (create a s)" and ?s = "snd (create a s)"
  have ok: "ok ?s" using Cons.prems(1) by (rule create_ok)
  have "get (key ?p) ?s = Some ?p" using get_create [OF Cons.prems(1)] by simp
  then have "get (key ?p) (snd (create_all create as ?s)) = Some ?p" using ok by (rule get_old [rotated])
  then show ?case
    using Cons.IH [OF ok] Cons.prems thread_create [of s r a] by (simp add: case_prod_unfold Let_def)
qed simp

end

definition fake_create :: "string \<times> fake_post \<Rightarrow> fake \<Rightarrow> fake_post \<times> fake" where
  "fake_create a = fake_CreatePost (fst a) (snd a)"

definition fake_get :: "string \<Rightarrow> fake \<Rightarrow> fake_post option" where
  "fake_get i f = (case fake_GetPost i f of Inl _ \<Rightarrow> None | Inr p \<Rightarrow> Some p)"

lemma fake_get_map: "fake_get i f = map_of (fk_Posts f) i"
  by (simp add: fake_get_def fake_GetPost_def split: option.split)

lemma fake_create_new: "fake_ok f \<Longrightarrow> map_of (fk_Posts f) (fake_id ''post'' (Suc (fk_seq f))) = None"
  using fresh_fake_id [of "''post''" "fk_seq f"] by (auto simp: fake_ok_def map_of_eq_None_iff)

lemma map_filter_other: "i \<notin> set xs \<Longrightarrow> List.map_filter (g(i := y)) xs = List.map_filter g xs"
  by (induction xs) (auto simp: map_filter_simps split: option.split)

lemma map_filter_snoc: "List.map_filter g (xs @ [x]) = List.map_filter g xs @ (case g x of None \<Rightarrow> [] | Some y \<Rightarrow> [y])"
  by (induction xs) (auto simp: map_filter_simps split: option.split)

lemma fake_thread_create:
  assumes "fake_ok f" "po_RootId (fp_Post p) = r"
  shows "fake_GetThread r (snd (fake_CreatePost token p f)) = fake_GetThread r f @ [fst (fake_CreatePost token p f)]"
proof -
  let ?i = "fake_id ''post'' (Suc (fk_seq f))"
  have new: "?i \<notin> set (fk_Order f)" using fake_create_new [OF assms(1)] assms(1) by (simp add: fake_ok_def map_of_eq_None_iff)
  have "List.map_filter (map_of (AList.update ?i q (fk_Posts f))) (fk_Order f) = List.map_filter (map_of (fk_Posts f)) (fk_Order f)" for q
    using map_filter_other [OF new] by (simp add: update_conv')
  then show ?thesis using assms(2) by (simp add: fake_GetThread_def fake_defs map_filter_snoc update_conv')
qed

interpretation fk: thread_server fake_ok fake_create fake_get fake_GetThread "\<lambda>p. po_Id (fp_Post p)"
  "\<lambda>r a. po_RootId (fp_Post (snd a)) = r"
proof
  fix s :: fake and a i r
  assume ok: "fake_ok s"
  show "fake_ok (snd (fake_create a s))" using ok by (simp add: fake_create_def fake_ok_CreatePost)
  show "fake_get (po_Id (fp_Post (fst (fake_create a s)))) s = None"
    using ok by (simp add: fake_get_map fake_create_def fake_defs fake_create_new)
  show "fake_get i (snd (fake_create a s)) =
      (if i = po_Id (fp_Post (fst (fake_create a s))) then Some (fst (fake_create a s)) else fake_get i s)"
    by (simp add: fake_get_map fake_create_def fake_defs update_conv')
  show "fake_GetThread r (snd (fake_create a s)) = fake_GetThread r s @ [fst (fake_create a s)]"
    if "po_RootId (fp_Post (snd a)) = r"
    using fake_thread_create [OF ok that] by (simp add: fake_create_def)
qed

text \<open>
  The fake server keeps conversations: after whatever calls, when replies are posted to a thread through any
  views, reading the thread gives what it was before and then exactly these posts in the order they
  were written, and each of them is read back by its id; a file that is uploaded is downloaded
  unchanged, with its length in its info.
\<close>

theorem fake_server_contract:
  assumes "fake_step\<^sup>*\<^sup>* fake_New f" "\<forall>a \<in> set as. po_RootId (fp_Post (snd a)) = r"
  shows "fake_GetThread r (snd (create_all fake_create as f)) = fake_GetThread r f @ fst (create_all fake_create as f) \<and>
    (\<forall>p \<in> set (fst (create_all fake_create as f)). fake_GetPost (po_Id (fp_Post p)) (snd (create_all fake_create as f)) = Inr p) \<and>
    (\<forall>name data. let ((i, info), f') = fake_UploadFile name data f in
       fake_DownloadFile i f' = Inr data \<and> map_sum id fi_Size (fake_GetFileInfo i f') = Inr (int (length data)))"
proof -
  have ok: "fake_ok f" using assms(1) by (rule fake_ok_reached)
  have get: "fake_get i g = Some p \<Longrightarrow> fake_GetPost i g = Inr p" for i g p
    by (simp add: fake_get_def split: sum.splits)
  show ?thesis
    using fk.conversation [OF ok assms(2)] get
    by (simp add: fake_UploadFile_def fake_next_def fake_DownloadFile_def fake_GetFileInfo_def Let_def update_conv')
qed

end
