(* ===== verification/Frame_Witnesses.thy ===== *)
theory Frame_Witnesses
  imports Start_Witnesses Agent_Process Permission_Socket Frames Store_Suite Fake_Server
begin

text \<open>The theorems on frames, agent processes, the permission server, the store suite and the fake server at concrete inputs.\<close>

section \<open>Frames\<close>

definition w_greeted :: broker where
  "w_greeted = snd (run_state (serve_hello (w_env 0) (core_handler (w_env 0)) w_harness 0 (Some w_hello)) (w_broker JobSucceeded))"

theorem frames_well_typed_witness:
  "bk_frames w_greeted \<noteq> [] \<and> list_all (\<lambda>(n, env). typed env) (bk_frames w_greeted) \<and>
   dm_frames w_running \<noteq> [] \<and> list_all typed (dm_frames w_running)"
proof -
  have "broker_step\<^sup>*\<^sup>* (w_broker JobSucceeded) w_greeted" unfolding w_greeted_def by (intro r_into_rtranclp broker_step.HelloFrom)
  moreover have "bk_frames w_greeted \<noteq> []" "dm_frames w_running \<noteq> []" by code_simp+
  ultimately show ?thesis
    using frames_well_typed [of "w_broker JobSucceeded" w_greeted w_hcfg w_daemon w_running] w_running_reached
    by (simp add: list_all_iff w_broker_def w_db_def empty_broker_def empty_db_def w_daemon_def)
qed

definition w_frame :: Envelope where
  "w_frame = New ''m1'' 0 TypeJobDispatch ''j1'' (PDispatch w_dispatch)"

theorem wire_roundtrip_witness:
  "\<exists>f. frame_of (\<lambda>_. []) w_frame = Inr f \<and> conn_recv (\<lambda>_. None) f = Inr w_frame"
proof (rule wire_roundtrip)
  have "case enc_envelope (\<lambda>_. []) w_frame of None \<Rightarrow> False | Some v \<Rightarrow> sendable v" by code_simp
  then show "\<forall>v. enc_envelope (\<lambda>_. []) w_frame = Some v \<longrightarrow> sendable v" by auto
  show "typed w_frame" "en_ID w_frame \<noteq> []" "int64 (en_TS w_frame)" "payload_ok (\<lambda>_. []) (\<lambda>_. None) (en_Payload w_frame)"
    by code_simp+
qed

definition w_mail :: "payload \<Rightarrow> broker" where
  "w_mail p = (w_broker JobSucceeded)\<lparr>bk_db := (w_db JobSucceeded)\<lparr>outbox := [w_message\<lparr>ob_Type := TypeJobDispatch, ob_Payload := p\<rparr>]\<rparr>\<rparr>"

lemma w_mail_sent:
  "fst (run_state (serve_hello (w_env 0) (core_handler (w_env 0)) w_harness 0 (Some w_hello)) (w_mail p))"
  "outbox (bk_db (snd (run_state (serve_hello (w_env 0) (core_handler (w_env 0)) w_harness 0 (Some w_hello)) (w_mail p)))) =
     [w_message\<lparr>ob_Type := TypeJobDispatch, ob_Payload := p\<rparr>]"
  by code_simp+

definition w_big :: string where
  "w_big = replicate (5 * 2 ^ 20) (CHR ''x'')"

definition w_files_env :: env where
  "w_files_env = (w_env 0)\<lparr>e_GetFileInfo := (\<lambda>log a i. Some \<lparr>fi_Name = i, fi_MimeType = [], fi_Size = 5 * 2 ^ 20\<rparr>),
     e_DownloadFile := (\<lambda>log a i. Some w_big)\<rparr>"

definition w_files_post :: Post where
  "w_files_post = \<lparr>po_Id = ''p1'', po_UserId = ''u1'', po_ChannelId = ''c1'', po_RootId = [], po_Message = ''go'', po_Type = [],
     po_FromBot = False, po_DeleteAt = 0, po_CreateAt = 0, po_FileIds = [''f1'', ''f2'']\<rparr>"

theorem oversized_dispatch_repeats_witness:
  "\<exists>d f. map fl_Name (jd_Attachments d) = [''f1'', ''f2''] \<and>
     frame_of (\<lambda>_. []) (outbox_frame (w_env 0) (w_message\<lparr>ob_Type := TypeJobDispatch, ob_Payload := PDispatch d\<rparr>)) = Inr f \<and>
     conn_recv (\<lambda>_. None) f = Inl TooBig"
proof -
  let ?d = "w_dispatch\<lparr>jd_Attachments := fst (run_state (downloadAttachments w_files_env SharedAPI w_files_post) empty_broker)\<rparr>"
  let ?m = "w_message\<lparr>ob_Type := TypeJobDispatch, ob_Payload := PDispatch ?d\<rparr>"
  let ?s = "snd (run_state (serve_hello (w_env 0) (core_handler (w_env 0)) w_harness 0 (Some w_hello)) (w_mail (PDispatch ?d)))"
  have "run_state (serve_hello (w_env 0) (core_handler (w_env 0)) w_harness 0 (Some w_hello)) (w_mail (PDispatch ?d)) = (True, ?s)"
    using w_mail_sent(1) [of "PDispatch ?d"] by (simp add: prod_eq_iff)
  then obtain f where "frame_of (\<lambda>_. []) (outbox_frame (w_env 0) ?m) = Inr f" "conn_recv (\<lambda>_. None) f = Inl TooBig"
    using oversized_dispatch_repeats [of "w_env 0" "core_handler (w_env 0)" w_harness 0 "Some w_hello" "w_mail (PDispatch ?d)" ?s ?m ?d
        w_files_env SharedAPI w_files_post empty_broker "\<lambda>i. \<lparr>fi_Name = i, fi_MimeType = [], fi_Size = 5 * 2 ^ 20\<rparr>" "\<lambda>i. w_big"
        "\<lambda>_. []" "\<lambda>_. None"] w_mail_sent(2) [of "PDispatch ?d"]
    by (simp add: unacked_def w_message_def w_harness_def w_files_env_def w_files_post_def w_big_def MaxFileBytes_def) blast
  moreover have "map fl_Name (jd_Attachments ?d) = [''f1'', ''f2'']"
    by (simp add: downloadAttachments_def mm_read_defs w_files_env_def w_files_post_def MaxFileBytes_def)
  ultimately show ?thesis by (intro exI [of _ ?d] exI [of _ f] conjI)
qed

section \<open>The process of an agent\<close>

definition w_killed :: agent_proc where
  "w_killed = (kill_group (interrupt (agent_start\<lparr>pr_ctx := True\<rparr>)))\<lparr>pr_leader := Reaped, pr_main := Returned True\<rparr>"

lemma w_killed_reached: "agent_step\<^sup>*\<^sup>* (agent_start\<lparr>pr_ctx := True\<rparr>) w_killed"
proof -
  let ?s0 = "agent_start\<lparr>pr_ctx := True\<rparr>"
  let ?s2 = "kill_group (interrupt ?s0)"
  have "agent_step ?s0 (interrupt ?s0)" "agent_step (interrupt ?s0) ?s2"
    using Interrupt [of ?s0] GraceOver [of "interrupt ?s0"] by (simp_all add: agent_step_def agent_start_def interrupt_def)
  moreover have "agent_step ?s2 (?s2\<lparr>pr_main := Waiting\<rparr>)"
    "agent_step (?s2\<lparr>pr_main := Waiting\<rparr>) (?s2\<lparr>pr_main := Waiting, pr_leader := Reaped\<rparr>)"
    "agent_step (?s2\<lparr>pr_main := Waiting, pr_leader := Reaped\<rparr>) (?s2\<lparr>pr_main := Closed, pr_leader := Reaped\<rparr>)"
    "agent_step (?s2\<lparr>pr_main := Closed, pr_leader := Reaped\<rparr>) w_killed"
    using Eof [of ?s2] Reap [of "?s2\<lparr>pr_main := Waiting\<rparr>"] WaitEnds [of "?s2\<lparr>pr_main := Waiting, pr_leader := Reaped\<rparr>"]
      Return [of "?s2\<lparr>pr_main := Closed, pr_leader := Reaped\<rparr>"]
    by (simp_all add: agent_step_def agent_start_def interrupt_def kill_group_def w_killed_def)
  ultimately show ?thesis by (meson r_into_rtranclp rtranclp.rtrancl_into_rtrancl)
qed

theorem cancelled_run_ends_witness:
  "map fst (pr_signals w_killed) = [SIGINT, SIGKILL] \<and>
   rs_Status (claude_result (seen_ctxErr ''context canceled'' w_killed) None [] (fst (claude_parse []))) = StatusCancelled"
proof -
  have start: "agent_step\<^sup>*\<^sup>* agent_start (agent_start\<lparr>pr_ctx := True\<rparr>)"
    using Cancel [of agent_start] by (intro r_into_rtranclp) (simp add: agent_step_def agent_start_def)
  have "\<nexists>s. prog_step w_killed s"
    by (auto simp: w_killed_def kill_group_def elim: prog_stepE)
  then show ?thesis
    using cancelled_run_ends [OF start, of _ w_killed "''context canceled''" None "[]" "fst (claude_parse [])"] w_killed_reached
    by (simp add: agent_start_def w_killed_def kill_group_def interrupt_def)
qed

section \<open>The permission server\<close>

definition w_listening :: perm_server where
  "w_listening = snd (perm_Start ''/p'' False None None (new_server True))"

definition w_closed :: perm_server where
  "w_closed = close_end (accept_error (handle_ends (\<lambda>_. Inl ''gone'') 0 (close_begin (accept_conn None w_listening))))"


section \<open>The store and the fake server\<close>


theorem fake_server_contract_witness:
  "fake_GetThread ''post1'' (snd (create_all fake_create [(''t'', \<lparr>fp_Post = w_files_post\<lparr>po_RootId := ''post1''\<rparr>, fp_Props = []\<rparr>)] fake_New)) =
     fst (create_all fake_create [(''t'', \<lparr>fp_Post = w_files_post\<lparr>po_RootId := ''post1''\<rparr>, fp_Props = []\<rparr>)] fake_New)"
  using fake_server_contract [of fake_New "[(''t'', \<lparr>fp_Post = w_files_post\<lparr>po_RootId := ''post1''\<rparr>, fp_Props = []\<rparr>)]" "''post1''"]
  by (simp add: fake_GetThread_def fake_New_def map_filter_simps)

end
