(* ===== verification/Mm_Requests.thy ===== *)
theory Mm_Requests
  imports Mm_Client Onboarding
begin

text \<open>
  The requests of \<^verbatim>\<open>internal/broker/mattermost/client.go\<close> and \<^verbatim>\<open>provisioner.go\<close>: each passes its arguments to the
  library, whose answers are a parameter, and puts the name of the operation before an error. Then the
  loop of one event connection, \<^verbatim>\<open>listenOnce\<close>, over what its channels deliver.
\<close>

section \<open>The library\<close>

record mm_bot =
  mb_UserId :: string
  mb_Username :: string
  mb_DisplayName :: string
  mb_Description :: string

record post_patch =
  pp_Message :: "string option"
  pp_Props :: "string option"

text \<open>\<open>'i\<close> and \<open>'o\<close> are the webhooks as the library has them.\<close>

record ('i, 'o) client4 =
  c4_GetMe :: "string + User"
  c4_GetUser :: "string \<Rightarrow> string + User"
  c4_GetPost :: "string \<Rightarrow> string + Post"
  c4_GetPostThread :: "string \<Rightarrow> string + PostList"
  c4_CreatePost :: "Post \<Rightarrow> string + Post"
  c4_PatchPost :: "string \<Rightarrow> post_patch \<Rightarrow> string + Post"
  c4_CreateDirectChannel :: "string \<Rightarrow> string \<Rightarrow> string + string"
  c4_UploadFile :: "string \<Rightarrow> string \<Rightarrow> string \<Rightarrow> string + FileInfo list"
  c4_GetFile :: "string \<Rightarrow> string + string"
  c4_GetFileInfo :: "string \<Rightarrow> string + FileInfo"
  c4_CreateBot :: "mm_bot \<Rightarrow> string + mm_bot"
  c4_CreateUserAccessToken :: "string \<Rightarrow> string \<Rightarrow> string + string"
  c4_AddTeamMember :: "string \<Rightarrow> string \<Rightarrow> string + unit"
  c4_AddChannelMember :: "string \<Rightarrow> string \<Rightarrow> string + unit"
  c4_GetChannel :: "string \<Rightarrow> string + Channel"
  c4_GetUserByUsername :: "string \<Rightarrow> string + User"
  c4_CreateIncomingWebhook :: "'i \<Rightarrow> string + 'i"
  c4_CreateOutgoingWebhook :: "'o \<Rightarrow> string + 'o"
  c4_DeleteIncomingWebhook :: "string \<Rightarrow> string + unit"
  c4_DeleteOutgoingWebhook :: "string \<Rightarrow> string + unit"
  c4_DisableBot :: "string \<Rightarrow> string + mm_bot"

section \<open>Requests\<close>

definition client_Me :: "('i, 'o) client4 \<Rightarrow> string + User" where
  "client_Me c = wrap ''get me'' (c4_GetMe c)"

definition client_GetUser :: "('i, 'o) client4 \<Rightarrow> string \<Rightarrow> string + User" where
  "client_GetUser c i = wrap ''get user'' (c4_GetUser c i)"

definition client_GetPost :: "('i, 'o) client4 \<Rightarrow> string \<Rightarrow> string + Post" where
  "client_GetPost c i = wrap ''get post'' (c4_GetPost c i)"

definition client_CreatePost :: "('i, 'o) client4 \<Rightarrow> Post \<Rightarrow> string + Post" where
  "client_CreatePost c p = wrap ''create post'' (c4_CreatePost c p)"

text \<open>Only what is given is patched; the properties are represented by their text.\<close>

definition client_UpdatePost :: "('i, 'o) client4 \<Rightarrow> string \<Rightarrow> string \<Rightarrow> string option \<Rightarrow> string + unit" where
  "client_UpdatePost c i message props =
     map_sum id (\<lambda>_. ()) (wrap ''patch post'' (c4_PatchPost c i \<lparr>pp_Message = Some message, pp_Props = props\<rparr>))"

definition client_DirectChannel :: "('i, 'o) client4 \<Rightarrow> string \<Rightarrow> string \<Rightarrow> string + string" where
  "client_DirectChannel c botID userID = wrap ''direct channel'' (c4_CreateDirectChannel c botID userID)"

definition client_DownloadFile :: "('i, 'o) client4 \<Rightarrow> string \<Rightarrow> string + string" where
  "client_DownloadFile c i = wrap ''get file'' (c4_GetFile c i)"

definition client_GetFileInfo :: "('i, 'o) client4 \<Rightarrow> string \<Rightarrow> string + FileInfo" where
  "client_GetFileInfo c i = wrap ''get file info'' (c4_GetFileInfo c i)"

definition client_CreateBot :: "('i, 'o) client4 \<Rightarrow> string \<Rightarrow> string \<Rightarrow> string \<Rightarrow> string + mm_bot" where
  "client_CreateBot c name display description =
     wrap ''create bot'' (c4_CreateBot c \<lparr>mb_UserId = [], mb_Username = name, mb_DisplayName = display, mb_Description = description\<rparr>)"

definition client_CreateBotToken :: "('i, 'o) client4 \<Rightarrow> string \<Rightarrow> string \<Rightarrow> string + string" where
  "client_CreateBotToken c i description = wrap ''create bot token'' (c4_CreateUserAccessToken c i description)"

definition client_AddTeamMember :: "('i, 'o) client4 \<Rightarrow> string \<Rightarrow> string \<Rightarrow> string + unit" where
  "client_AddTeamMember c team user = wrap ''add team member'' (c4_AddTeamMember c team user)"

definition client_AddChannelMember :: "('i, 'o) client4 \<Rightarrow> string \<Rightarrow> string \<Rightarrow> string + unit" where
  "client_AddChannelMember c channel user = wrap ''add channel member'' (c4_AddChannelMember c channel user)"

definition client_GetChannel :: "('i, 'o) client4 \<Rightarrow> string \<Rightarrow> string + Channel" where
  "client_GetChannel c i = wrap ''get channel'' (c4_GetChannel c i)"

definition client_GetUserByUsername :: "('i, 'o) client4 \<Rightarrow> string \<Rightarrow> string + User" where
  "client_GetUserByUsername c name = wrap ''get user by username'' (c4_GetUserByUsername c name)"

section \<open>The provisioner\<close>

record ('i, 'o) provisioner =
  pv_CreateBot :: "string \<Rightarrow> string \<Rightarrow> string \<Rightarrow> string + mm_bot"
  pv_CreateBotToken :: "string \<Rightarrow> string \<Rightarrow> string + string"
  pv_AddTeamMember :: "string \<Rightarrow> string \<Rightarrow> string + unit"
  pv_AddChannelMember :: "string \<Rightarrow> string \<Rightarrow> string + unit"
  pv_GetChannel :: "string \<Rightarrow> string + Channel"
  pv_GetUserByUsername :: "string \<Rightarrow> string + User"
  pv_GetUser :: "string \<Rightarrow> string + User"
  pv_CreateIncomingWebhook :: "'i \<Rightarrow> string + 'i"
  pv_CreateOutgoingWebhook :: "'o \<Rightarrow> string + 'o"
  pv_DeleteIncomingWebhook :: "string \<Rightarrow> string + unit"
  pv_DeleteOutgoingWebhook :: "string \<Rightarrow> string + unit"
  pv_DisableBot :: "string \<Rightarrow> string + unit"

definition client_provisioner :: "('i, 'o) client4 \<Rightarrow> ('i, 'o) provisioner" where
  "client_provisioner c =
     \<lparr>pv_CreateBot = client_CreateBot c, pv_CreateBotToken = client_CreateBotToken c, pv_AddTeamMember = client_AddTeamMember c,
      pv_AddChannelMember = client_AddChannelMember c, pv_GetChannel = client_GetChannel c,
      pv_GetUserByUsername = client_GetUserByUsername c, pv_GetUser = client_GetUser c,
      pv_CreateIncomingWebhook = (\<lambda>h. wrap ''create incoming webhook'' (c4_CreateIncomingWebhook c h)),
      pv_CreateOutgoingWebhook = (\<lambda>h. wrap ''create outgoing webhook'' (c4_CreateOutgoingWebhook c h)),
      pv_DeleteIncomingWebhook = (\<lambda>i. wrap ''delete incoming webhook'' (c4_DeleteIncomingWebhook c i)),
      pv_DeleteOutgoingWebhook = (\<lambda>i. wrap ''delete outgoing webhook'' (c4_DeleteOutgoingWebhook c i)),
      pv_DisableBot = (\<lambda>i. map_sum id (\<lambda>_. ()) (wrap ''disable bot'' (c4_DisableBot c i)))\<rparr>"

definition WithBotTokenIssuer :: "('i, 'o) provisioner \<Rightarrow> (string \<Rightarrow> string \<Rightarrow> string + string) \<Rightarrow> ('i, 'o) provisioner" where
  "WithBotTokenIssuer p issuer = p\<lparr>pv_CreateBotToken := issuer\<rparr>"

section \<open>One event connection\<close>

text \<open>
  What the \<^verbatim>\<open>select\<close> of \<^verbatim>\<open>listenOnce\<close> receives, in its order: the end of the context, a ping timeout, a response, an
  event, or the end of the event channel with the error of the library.
\<close>

datatype ws_input = CtxDone string | PingTimeout | WsResponse | WsEvent ws_event | EventsClosed "string option"

fun listen_once :: "(string \<Rightarrow> Post option) \<Rightarrow> (string \<Rightarrow> string list) \<Rightarrow> ws_input list \<Rightarrow> PostedEvent list \<times> string option" where
  "listen_once dp dm [] = ([], None)"
| "listen_once dp dm (CtxDone e # _) = ([], Some e)"
| "listen_once dp dm (PingTimeout # _) = ([], Some ''ping timeout'')"
| "listen_once dp dm (WsResponse # rest) = listen_once dp dm rest"
| "listen_once dp dm (EventsClosed e # _) = ([], Some (case e of Some err \<Rightarrow> err | None \<Rightarrow> ''event channel closed''))"
| "listen_once dp dm (WsEvent ev # rest) =
     (let (delivered, err) = listen_once dp dm rest
      in (case posted_event dp dm ev of None \<Rightarrow> delivered | Some p \<Rightarrow> p # delivered, err))"

text \<open>The events before the first input that ends the connection.\<close>

fun ends_connection :: "ws_input \<Rightarrow> bool" where
  "ends_connection (WsEvent _) = False"
| "ends_connection WsResponse = False"
| "ends_connection _ = True"

fun input_event :: "ws_input \<Rightarrow> ws_event option" where
  "input_event (WsEvent ev) = Some ev"
| "input_event _ = None"

lemma not_ends: "\<not> ends_connection x \<Longrightarrow> x = WsResponse \<or> (\<exists>ev. x = WsEvent ev)"
  by (cases x) simp_all

text \<open>
  An event connection delivers every post it is sent, in order, until it ends: events of other types, posts that do
  not decode and responses are passed over, and it ends with an error exactly at the first input that
  ends it.
\<close>

theorem listen_delivers:
  "fst (listen_once dp dm xs) =
     List.map_filter (posted_event dp dm) (List.map_filter input_event (takeWhile (\<lambda>x. \<not> ends_connection x) xs)) \<and>
   (snd (listen_once dp dm xs) = None \<longleftrightarrow> list_all (\<lambda>x. \<not> ends_connection x) xs)"
  by (induction dp dm xs rule: listen_once.induct) (auto simp: map_filter_simps case_prod_unfold Let_def split: option.split)

text \<open>
  Management and tokens are kept apart: with a token issuer every request but the creation of a token is that of the
  installation, the token is that of the issuer, and every error of a request says which operation failed.
\<close>

theorem issuer_only_for_tokens:
  "pv_CreateBotToken (WithBotTokenIssuer p issuer) = issuer \<and>
   (WithBotTokenIssuer p issuer)\<lparr>pv_CreateBotToken := t\<rparr> = p\<lparr>pv_CreateBotToken := t\<rparr> \<and>
   (pv_DisableBot (client_provisioner c) i = Inl e \<longrightarrow> (\<exists>err. c4_DisableBot c i = Inl err \<and> e = ''mattermost: disable bot: '' @ err))"
  by (auto simp: WithBotTokenIssuer_def client_provisioner_def wrap_def split: sum.splits)

end
