(* ===== verification/Broker_Main.thy ===== *)
theory Broker_Main
  imports Broker_Http
begin

text \<open>
  The broker command as a program: the options with their environment variables, the configuration \<^verbatim>\<open>runBroker\<close> builds
  from them, the routes of its HTTP server, and its end, with the goroutines that run beside it. Of
  the HTTP server only the outcomes of \<^verbatim>\<open>ListenAndServe\<close> and \<^verbatim>\<open>Shutdown\<close> count here.
\<close>

section \<open>Options\<close>

record broker_flags = brokerOptions +
  bo_listen :: string
  bo_dbPath :: string
  bo_minHarnessVersion :: string
  bo_queueTTL :: duration
  bo_gracePeriod :: duration
  bo_jobTimeout :: duration

text \<open>\<open>parse_duration\<close> is that of the \<^verbatim>\<open>time\<close> package; a text it refuses counts as unset.\<close>

definition env_duration :: "(string \<Rightarrow> string) \<Rightarrow> (string \<Rightarrow> duration option) \<Rightarrow> string \<Rightarrow> duration \<Rightarrow> duration" where
  "env_duration getenv parse_duration k def =
     (if getenv k = [] then def else case parse_duration (getenv k) of None \<Rightarrow> def | Some d \<Rightarrow> d)"

text \<open>The options of a command line without flags.\<close>

definition flag_defaults :: "(string \<Rightarrow> string) \<Rightarrow> (string \<Rightarrow> duration option) \<Rightarrow> broker_flags" where
  "flag_defaults getenv pd =
     \<lparr>bo_mmURL = env_or getenv ''MM_URL'' [], bo_oauthClientID = env_or getenv ''MM_OAUTH_CLIENT_ID'' [],
      bo_oauthClientSecret = env_or getenv ''MM_OAUTH_CLIENT_SECRET'' [],
      bo_botProvisioningToken = env_or getenv ''MM_BOT_PROVISIONING_TOKEN'' [],
      bo_publicURL = env_or getenv ''PUBLIC_URL'' [], bo_callbackSecret = env_or getenv ''CALLBACK_SECRET'' [],
      bo_listen = env_or getenv ''LISTEN_ADDR'' '':8080'', bo_dbPath = env_or getenv ''DB_PATH'' ''broker.db'',
      bo_minHarnessVersion = env_or getenv ''MIN_HARNESS_VERSION'' [],
      bo_queueTTL = env_duration getenv pd ''QUEUE_TTL'' (5 * minute),
      bo_gracePeriod = env_duration getenv pd ''GRACE_PERIOD'' (10 * minute),
      bo_jobTimeout = env_duration getenv pd ''JOB_TIMEOUT'' (30 * minute)\<rparr>"

section \<open>Wiring\<close>

definition core_config :: "broker_flags \<Rightarrow> Config" where
  "core_config o' = defaults
     \<lparr>cf_BotUserID = [], cf_BotUsername = [], cf_PublicURL = bo_publicURL o', cf_CallbackSecret = bo_callbackSecret o',
      cf_CommandToken = [], cf_QueueTTL = bo_queueTTL o', cf_GracePeriod = bo_gracePeriod o', cf_ApprovalTTL = 0,
      cf_JobTimeout = bo_jobTimeout o', cf_DefaultMaxTurns = 0, cf_EditInterval = 0, cf_OutboxRetention = 0\<rparr>"

text \<open>No shared client is given to the core, which makes it the unavailable one; a bot posts with a client of its own token.\<close>

definition wire_env :: "broker_flags \<Rightarrow> env \<Rightarrow> env" where
  "wire_env o' E = E\<lparr>e_cfg := core_config o', e_mm := UnavailableAPI, e_newPoster := Some (\<lambda>t. Some (BotAPI t)), e_admin := False,
     e_minVersion := bo_minHarnessVersion o'\<rparr>"

definition provisioner_for :: "(string \<Rightarrow> string + 'p) \<Rightarrow> ('p \<Rightarrow> 'i \<Rightarrow> 'p) \<Rightarrow> 'i \<Rightarrow> string \<Rightarrow> string + 'p" where
  "provisioner_for client with_issuer issuer team = (case client team of Inl e \<Rightarrow> Inl e | Inr admin \<Rightarrow> Inr (with_issuer admin issuer))"

section \<open>The OAuth service\<close>

record url =
  ul_Scheme :: string
  ul_Host :: string
  ul_User :: bool
  ul_RawQuery :: string
  ul_Fragment :: string

definition plain_url :: "(string \<Rightarrow> url option) \<Rightarrow> string \<Rightarrow> bool" where
  "plain_url parse_url t =
     (case parse_url t of
        None \<Rightarrow> False
      | Some u \<Rightarrow> ul_Host u \<noteq> [] \<and> (ul_Scheme u = ''http'' \<or> ul_Scheme u = ''https'') \<and> \<not> ul_User u \<and>
          ul_RawQuery u = [] \<and> ul_Fragment u = [])"

text \<open>
  \<^verbatim>\<open>oauth.New\<close>, given an installation store: the addresses it keeps, or its error. A key of 32 bytes is one that AES and GCM
  accept.
\<close>

definition oauth_New :: "(string \<Rightarrow> url option) \<Rightarrow> string \<Rightarrow> string \<Rightarrow> string \<Rightarrow> string \<Rightarrow> string \<Rightarrow> string + (string \<times> string)" where
  "oauth_New parse_url mmURL publicURL clientID clientSecret key =
     (if \<not> list_all (plain_url parse_url) [mmURL, publicURL]
      then Inl ''oauth: URLs must be absolute HTTP(S) URLs without credentials, query, or fragment''
      else if clientID = [] \<or> clientSecret = [] \<or> length key \<noteq> 32
      then Inl ''oauth: client credentials, installation store, and 32-byte encryption key are required''
      else Inr (TrimRight mmURL ''/'', TrimRight publicURL ''/''))"

text \<open>The start of \<^verbatim>\<open>runBroker\<close>: \<open>sha\<close> is SHA-256, whose sum is the key.\<close>

definition start_oauth :: "(string \<Rightarrow> url option) \<Rightarrow> (string \<Rightarrow> string) \<Rightarrow> broker_flags \<Rightarrow> string + (string \<times> string)" where
  "start_oauth parse_url sha o' = oauth_New parse_url (bo_mmURL o') (bo_publicURL o') (bo_oauthClientID o') (bo_oauthClientSecret o')
     (sha (''mhb/oauth/'' @ bo_callbackSecret o'))"

text \<open>
  Options that pass the checks of the command can fail in the service only because of an address: the client
  credentials are there and the key always has the length it needs.
\<close>

theorem oauth_starts:
  assumes "validate (brokerOptions.truncate o') = Inr v" "\<forall>t. length (sha t) = 32"
  shows "(\<exists>urls. start_oauth parse_url sha o' = Inr urls) \<longleftrightarrow> plain_url parse_url (bo_mmURL o') \<and> plain_url parse_url (bo_publicURL o')"
proof -
  have "bo_oauthClientID o' \<noteq> []" "bo_oauthClientSecret o' \<noteq> []"
    using assms(1) by (auto simp: validate_def Let_def brokerOptions.defs split: if_splits)
  then show ?thesis using assms(2) by (auto simp: start_oauth_def oauth_New_def)
qed

section \<open>Routes\<close>

datatype endpoint =
    OAuthStart | OAuthCallback | RedirectToStart | WebhookOf string | Healthz | HarnessSocket
  | InitStartE | InitPollE string | CommandE | ApprovalE

definition on_get :: "string \<Rightarrow> endpoint \<Rightarrow> endpoint option" where
  "on_get meth e = (if meth = ''GET'' \<or> meth = ''HEAD'' then Some e else None)"

definition on_post :: "string \<Rightarrow> endpoint \<Rightarrow> endpoint option" where
  "on_post meth e = (if meth = ''POST'' then Some e else None)"

text \<open>The patterns of the mux, on the method and the segments of the path; a wildcard matches one segment that is not empty.\<close>

definition route :: "string \<Rightarrow> string list \<Rightarrow> endpoint option" where
  "route meth path =
     (case path of
        [] \<Rightarrow> on_get meth RedirectToStart
      | [a] \<Rightarrow> if a = ''healthz'' then on_get meth Healthz else if a = ''init'' then on_post meth InitStartE else None
      | [a, b] \<Rightarrow>
          if a = ''oauth'' \<and> b = ''start'' then on_get meth OAuthStart
          else if a = ''oauth'' \<and> b = ''callback'' then on_get meth OAuthCallback
          else if a = ''harness'' \<and> b = ''v2'' then on_get meth HarnessSocket
          else if a = ''init'' \<and> b \<noteq> [] then on_get meth (InitPollE b)
          else if a = ''commands'' \<and> b = ''harness'' then on_post meth CommandE
          else if a = ''callback'' \<and> b = ''approval'' then on_post meth ApprovalE
          else None
      | [a, b, c] \<Rightarrow>
          if a = ''webhooks'' \<and> b = ''mattermost'' \<and> c \<noteq> [] then on_post meth (WebhookOf c) else None
      | _ \<Rightarrow> None)"

section \<open>The end of the program\<close>

text \<open>
  The goroutines of \<^verbatim>\<open>runBroker\<close>: the HTTP server, the sweeper, and \<^verbatim>\<open>runBroker\<close> itself with its deferred functions.
  \<open>Returned\<close> holds the error that \<^verbatim>\<open>runBroker\<close> returns, which is the exit status of the command.
\<close>

datatype http_server = Serving | ServerFailed | ServerClosed

datatype sweeper = AwaitingTick | Sweeping | SweeperGone

datatype main_routine = Selecting | Stopping | BrokerReturned "string option"

record broker_proc =
  bp_ctx :: bool
  bp_server :: http_server
  bp_errCh :: "string option"
  bp_sweeper :: sweeper
  bp_main :: main_routine
  bp_dbOpen :: bool

text \<open>After the database and the OAuth service are there; their errors are returned before anything is started.\<close>

definition broker_begin :: "string option \<Rightarrow> string option \<Rightarrow> broker_proc" where
  "broker_begin openErr oauthErr =
     \<lparr>bp_ctx = False, bp_server = (if openErr = None \<and> oauthErr = None then Serving else ServerClosed), bp_errCh = None,
      bp_sweeper = (if openErr = None \<and> oauthErr = None then AwaitingTick else SweeperGone),
      bp_main = (case openErr of Some e \<Rightarrow> BrokerReturned (Some e) | None \<Rightarrow>
        (case oauthErr of Some e \<Rightarrow> BrokerReturned (Some e) | None \<Rightarrow> Selecting)),
      bp_dbOpen = (openErr = None \<and> oauthErr = None)\<rparr>"

text \<open>\<open>shut\<close>: the answer of \<^verbatim>\<open>srv.Shutdown\<close>, nil or the end of its five seconds; then the deferred functions run.\<close>

inductive main_step :: "string option \<Rightarrow> broker_proc \<Rightarrow> broker_proc \<Rightarrow> bool" for shut where
  Signalled: "main_step shut s (s\<lparr>bp_ctx := True\<rparr>)"
| ListenFails: "bp_server s = Serving \<Longrightarrow> main_step shut s (s\<lparr>bp_server := ServerFailed, bp_errCh := Some e\<rparr>)"
| CtxEnds: "bp_main s = Selecting \<Longrightarrow> bp_ctx s \<Longrightarrow> main_step shut s (s\<lparr>bp_main := Stopping\<rparr>)"
| ErrReceived: "bp_main s = Selecting \<Longrightarrow> bp_errCh s = Some e \<Longrightarrow>
    main_step shut s (s\<lparr>bp_main := Stopping, bp_errCh := None\<rparr>)"
| ShutDown: "bp_main s = Stopping \<Longrightarrow>
    main_step shut s (s\<lparr>bp_ctx := True, bp_server := ServerClosed, bp_main := BrokerReturned shut, bp_dbOpen := False\<rparr>)"
| SweepTick: "bp_sweeper s = AwaitingTick \<Longrightarrow> main_step shut s (s\<lparr>bp_sweeper := Sweeping\<rparr>)"
| SweepEnds: "bp_sweeper s = Sweeping \<Longrightarrow> main_step shut s (s\<lparr>bp_sweeper := AwaitingTick\<rparr>)"
| SweeperEnds: "bp_sweeper s = AwaitingTick \<Longrightarrow> bp_ctx s \<Longrightarrow> main_step shut s (s\<lparr>bp_sweeper := SweeperGone\<rparr>)"

lemma main_returns_shut: "(main_step shut)\<^sup>*\<^sup>* (broker_begin None None) s \<Longrightarrow> bp_main s \<in> {Selecting, Stopping, BrokerReturned shut}"
proof (induction rule: rtranclp_induct)
  case (step s u)
  from step.hyps(2) step.IH show ?case by (induction rule: main_step.induct) simp_all
qed (simp add: broker_begin_def)

text \<open>
  A broker that cannot listen exits with success: \<^verbatim>\<open>runBroker\<close> logs the error of the server and returns what \<^verbatim>\<open>Shutdown\<close>
  returns, which is nil for a server without connections. No run of it ever returns the error.
\<close>

theorem listen_error_lost:
  "main_step None (broker_begin None None) ((broker_begin None None)\<lparr>bp_server := ServerFailed, bp_errCh := Some e\<rparr>) \<and>
   (\<exists>s. (main_step None)\<^sup>*\<^sup>* ((broker_begin None None)\<lparr>bp_server := ServerFailed, bp_errCh := Some e\<rparr>) s \<and>
     bp_main s = BrokerReturned None) \<and>
   (\<forall>shut s r. (main_step shut)\<^sup>*\<^sup>* (broker_begin None None) s \<and> bp_main s = BrokerReturned r \<longrightarrow> r = shut)"
proof (intro conjI allI impI)
  let ?s0 = "broker_begin None None"
  let ?s1 = "?s0\<lparr>bp_server := ServerFailed, bp_errCh := Some e\<rparr>"
  let ?s2 = "?s1\<lparr>bp_main := Stopping, bp_errCh := None\<rparr>"
  let ?s3 = "?s2\<lparr>bp_ctx := True, bp_server := ServerClosed, bp_main := BrokerReturned None, bp_dbOpen := False\<rparr>"
  show "main_step None ?s0 ?s1" by (rule ListenFails) (simp add: broker_begin_def)
  have "main_step None ?s1 ?s2" by (rule ErrReceived [of _ e]) (simp_all add: broker_begin_def)
  moreover have "main_step None ?s2 ?s3" by (rule ShutDown) simp
  ultimately have "(main_step None)\<^sup>*\<^sup>* ?s1 ?s3" by (meson r_into_rtranclp rtranclp.rtrancl_into_rtrancl)
  then show "\<exists>s. (main_step None)\<^sup>*\<^sup>* ?s1 s \<and> bp_main s = BrokerReturned None" by (intro exI [of _ ?s3]) simp
  show "r = shut" if "(main_step shut)\<^sup>*\<^sup>* ?s0 s \<and> bp_main s = BrokerReturned r" for shut s r
    using that main_returns_shut [of shut s] by simp
qed

text \<open>The database is closed while a sweep may still be running: nothing waits for the sweeper.\<close>

theorem sweep_after_close: "\<exists>s. (main_step None)\<^sup>*\<^sup>* (broker_begin None None) s \<and> \<not> bp_dbOpen s \<and> bp_sweeper s = Sweeping"
proof -
  let ?s1 = "(broker_begin None None)\<lparr>bp_sweeper := Sweeping\<rparr>"
  let ?s2 = "?s1\<lparr>bp_ctx := True\<rparr>"
  let ?s3 = "?s2\<lparr>bp_main := Stopping\<rparr>"
  let ?s4 = "?s3\<lparr>bp_ctx := True, bp_server := ServerClosed, bp_main := BrokerReturned None, bp_dbOpen := False\<rparr>"
  have "main_step None (broker_begin None None) ?s1" by (rule SweepTick) (simp add: broker_begin_def)
  moreover have "main_step None ?s1 ?s2" by (rule Signalled)
  moreover have "main_step None ?s2 ?s3" by (rule CtxEnds) (simp_all add: broker_begin_def)
  moreover have "main_step None ?s3 ?s4" by (rule ShutDown) simp
  ultimately have "(main_step None)\<^sup>*\<^sup>* (broker_begin None None) ?s4" by (meson r_into_rtranclp rtranclp.rtrancl_into_rtrancl)
  then show ?thesis by (intro exI [of _ ?s4]) simp
qed

text \<open>
  What the command sets up: options without flags come from the environment, an option that is accepted has the
  address without a trailing slash, a job waits at least as long as it is told, and no request is
  made in the name of a shared bot.
\<close>

lemma wired_broker:
  "cf_QueueTTL (e_cfg (wire_env o' E)) = (if bo_queueTTL o' = 0 then 5 * minute else bo_queueTTL o')"
  "cf_ApprovalTTL (e_cfg (wire_env o' E)) = 30 * minute"
  "run_state (mm_send (wire_env o' E) (e_mm (wire_env o' E)) call) s = (None, s)"
  by (simp_all add: wire_env_def core_config_def defaults_def mm_send_def)

text \<open>There is no route for pairing with a code.\<close>

lemma pair_not_routed: "route meth [''pair''] = None"
  by (simp add: route_def)

end
