(* ===== verification/Harness_Main.thy ===== *)
theory Harness_Main
  imports Startup Cli Permission_Socket
begin

text \<open>
  \<^verbatim>\<open>mhb harness run\<close> (\<^verbatim>\<open>internal/cli/harness.go\<close>) and \<^verbatim>\<open>Harness.Run\<close>: from the configuration file and the flags to the
  running daemon and its exit status. The loop of the client is an outcome here; its sessions are
  those of the theory \<open>Daemon\<close>.
\<close>

datatype run_err = RunLoad load_err | RunPath string | RunConfig config_err | RunStart start_err | RunSocket string | RunClient string

text \<open>The flags; an empty one is not given.\<close>

definition run_config ::
    "(string \<Rightarrow> string option) \<Rightarrow> (string \<Rightarrow> bool) \<Rightarrow> string \<Rightarrow> string \<Rightarrow> load_err option \<times> HarnessConfig \<Rightarrow> run_err + HarnessConfig" where
  "run_config abs_path isDir workspace agent loaded =
     (case loaded of
        (Some e, _) \<Rightarrow> Inl (RunLoad e)
      | (None, cfg) \<Rightarrow>
          (case (if workspace = [] then Some (hc_DefaultWorkspace cfg) else abs_path workspace) of
             None \<Rightarrow> Inl (RunPath workspace)
           | Some dir \<Rightarrow>
               let cfg = cfg\<lparr>hc_DefaultWorkspace := dir, hc_Agent := (if agent = [] then hc_Agent cfg else agent)\<rparr> in
               (case Validate isDir cfg of Some e \<Rightarrow> Inl (RunConfig e) | None \<Rightarrow> Inr cfg)))"

text \<open>
  \<^verbatim>\<open>Run\<close>: the permission server first, then the client until it gives up (\<open>clientErr\<close>); the server is closed when it
  returns.
\<close>

definition harness_Run :: "(string + unit) \<times> perm_server \<Rightarrow> string option \<Rightarrow> run_err option" where
  "harness_Run started clientErr =
     (case started of
        (Inl e, _) \<Rightarrow> Some (RunSocket e)
      | (Inr _, _) \<Rightarrow> map_option RunClient clientErr)"

text \<open>An end by a signal is no error.\<close>

definition harness_run ::
    "(string \<Rightarrow> string option) \<Rightarrow> (string \<Rightarrow> bool) \<Rightarrow> string \<Rightarrow> string \<Rightarrow> load_err option \<times> HarnessConfig \<Rightarrow> start_env
     \<Rightarrow> (string \<Rightarrow> (string + unit) \<times> perm_server) \<Rightarrow> string option \<Rightarrow> bool \<Rightarrow> run_err option" where
  "harness_run abs_path isDir workspace agent loaded S start_server clientErr signalled =
     (case run_config abs_path isDir workspace agent loaded of
        Inl e \<Rightarrow> Some e
      | Inr cfg \<Rightarrow>
          (case harness_New S cfg of
             Inl e \<Rightarrow> Some (RunStart e)
           | Inr h \<Rightarrow> if signalled then None else harness_Run (start_server (sd_permPath h)) clientErr))"

text \<open>
  A daemon runs on a valid configuration only: when the command gets as far as its client, the configuration it
  runs with passes the checks, with the directory and the agent of the flags where they are given, and
  everything else as in the file.
\<close>

theorem run_valid_only:
  assumes "harness_run abs_path isDir workspace agent loaded S start_server (Some e) False = Some (RunClient e)"
  shows "\<exists>cfg h. run_config abs_path isDir workspace agent loaded = Inr cfg \<and> Validate isDir cfg = None \<and> harness_New S cfg = Inr h \<and>
    hc_Agent cfg = (if agent = [] then hc_Agent (snd loaded) else agent) \<and>
    hc_Token cfg = hc_Token (snd loaded) \<and> hc_Workspaces cfg = hc_Workspaces (snd loaded) \<and> sd_Token h = hc_Token cfg"
proof -
  obtain cfg where cfg: "run_config abs_path isDir workspace agent loaded = Inr cfg"
    using assms by (cases "run_config abs_path isDir workspace agent loaded")
      (auto simp: harness_run_def run_config_def Let_def split: prod.splits option.splits if_splits)
  then obtain h where h: "harness_New S cfg = Inr h" using assms by (auto simp: harness_run_def split: sum.splits)
  have "sd_Token h = hc_Token cfg" using h by (auto simp: harness_New_def split: sum.splits option.splits)
  then show ?thesis
    using cfg h by (cases loaded) (auto simp: run_config_def Let_def split: option.splits if_splits)
qed

text \<open>The flags cannot repair a file: what \<^verbatim>\<open>LoadConfig\<close> refuses is refused before they are looked at.\<close>

lemma flags_after_load: "fst loaded = Some e \<Longrightarrow> harness_run abs_path isDir w a loaded S srv c sig = Some (RunLoad e)"
  by (cases loaded) (simp add: harness_run_def run_config_def)

end
