(* ===== verification/Spec2Isabelle.thy ===== *)
theory Spec2Isabelle
  imports Frame_Witnesses Mm_Requests Broker_Main Harness_Main
begin

text \<open>
  The Mattermost harness bridge: a broker that turns posts in Mattermost into jobs, and a harness
  on the user's own machine that runs them with a coding agent and asks for permission in the
  thread. This is a model of the Go program under \<^verbatim>\<open>src/\<close> and of what makes it correct.

  \<^bold>\<open>The program.\<close> Posts reach the broker's core through event connections (\<^verbatim>\<open>broker/bots\<close>), the
  shared bot's connection and outgoing webhooks (\<^verbatim>\<open>cli/webhook.go\<close>). The core
  (\<^verbatim>\<open>broker/core\<close>) stores a job and hands its dispatch to the hub (\<^verbatim>\<open>broker/hub\<close>), which stores it in
  the outbox table and pushes it to the harness when that is connected. The harness' client
  (\<^verbatim>\<open>harness/client\<close>) acknowledges it to the broker after the daemon (\<^verbatim>\<open>harness/harness.go\<close>) has
  accepted it. The daemon runs an agent (\<^verbatim>\<open>harness/agent\<close>), sends progress, asks for approvals
  (\<^verbatim>\<open>harness/permission\<close>, \<^verbatim>\<open>mcp\<close>) that the owner answers by clicking a signed button, and sends the
  result through an outbox file of its own. Machines and bots are set up by a device flow and a
  slash command (\<^verbatim>\<open>broker/core/onboarding.go\<close>), teams by an OAuth installation
  (\<^verbatim>\<open>broker/oauth\<close>). All broker state is in one SQLite database (\<^verbatim>\<open>store/sqlite\<close>).

  \<^bold>\<open>Theories.\<close>
  \<^item> \<open>Prelude\<close>: tables as lists of rows with keys, time and 64-bit durations, the collections of
    rules. \<open>Effects\<close>: handlers as state passing, and the locale \<open>step_relation\<close>, in which a relation
    between the states before and after is proved of a handler from its calls.
  \<^item> \<open>Go_Text\<close>, \<open>Go_Fmt\<close>, \<open>Go_Json\<close>: what the program uses of Go's standard library: UTF-8, trimming
    and fields, quoting, decimal numbers, base64, and JSON objects with their case-insensitive names.
    \<open>Json_Text\<close>: JSON texts, printed and read by a lexer and a stack machine.
  \<^item> \<open>Protocol\<close> (\<^verbatim>\<open>protocol/protocol.go\<close>, \<^verbatim>\<open>id.go\<close>), \<open>Store\<close> (\<^verbatim>\<open>store/store.go\<close>): messages and rows. \<open>Wire\<close>
    (\<^verbatim>\<open>protocol.go\<close>, \<^verbatim>\<open>wire/conn.go\<close>): the JSON of every message with its tags, and frames with their limit.
  \<^item> \<open>Sqlite\<close> (\<^verbatim>\<open>store/sqlite/store.go\<close>, \<^verbatim>\<open>oauth.go\<close>): every store call as a function on the tables; every
    statement may fail (\<open>sqlFault\<close>). \<open>Sqlite_Inv\<close>, \<open>Sqlite_Frame\<close>: the integrity of the tables and what
    a call leaves alone. \<open>Contracts\<close>: the contracts clients rely on, as locales, interpreted on the
    tables; \<open>Sqlite_Props\<close>: compare-and-set of jobs, single-use codes, final decisions, the outbox. \<open>Sqlite_Open\<close>: opening the
    database and its migrations. \<open>Store_Suite\<close> (\<^verbatim>\<open>store/storetest/suite.go\<close>): the conformance suite of the
    repository as programs over these calls.
  \<^item> \<open>Core_Text\<close>, \<open>Broker_State\<close>, \<open>Hub\<close>, \<open>Core\<close>, \<open>Onboarding\<close>, \<open>Bot_Events\<close>: the texts, the state and the
    handlers of \<^verbatim>\<open>broker/core/core.go\<close>, \<^verbatim>\<open>onboarding.go\<close>, \<^verbatim>\<open>broker/hub/hub.go\<close>, \<^verbatim>\<open>broker/bots/manager.go\<close> and
    \<^verbatim>\<open>cli/webhook.go\<close>, one definition per Go function, in the order of the code. \<open>Core_Calls\<close>: the step
    relation \<open>broker_step\<close> over all of them and the locales \<open>handler_relation\<close>, \<open>whole_relation\<close> and
    \<open>broker_relation\<close>, in which a relation is proved of every run from the single calls. \<open>Core_Life\<close>, \<open>Core_Owner\<close>, \<open>Core_Props\<close>, \<open>Hub_Props\<close>,
    \<open>Onboarding_Props\<close>: what holds in every reachable state and after every handler.
  \<^item> \<open>OAuth\<close>, \<open>OAuth_Props\<close> (\<^verbatim>\<open>broker/oauth/service.go\<close>): installation sessions, compensation, grants that
    are encrypted per team and shared by the teams of an installer.
  \<^item> \<open>Harness_Files\<close> (\<^verbatim>\<open>harness/sessions\<close>, \<^verbatim>\<open>client/outbox.go\<close>), \<open>Harness_Config\<close> (\<^verbatim>\<open>config.go\<close>, \<^verbatim>\<open>pair.go\<close>,
    \<^verbatim>\<open>initflow.go\<close>), \<open>Agents\<close> (\<^verbatim>\<open>agent/\<close>): the files and agents of the harness. \<open>Agent_Process\<close>: the process group of an
    agent, the goroutine that signals it, and \<^verbatim>\<open>Run\<close>, as a step relation.
  \<^item> \<open>Daemon\<close>, \<open>Daemon_Inv\<close>, \<open>Daemon_Props\<close> (\<^verbatim>\<open>harness/harness.go\<close>, \<^verbatim>\<open>client/client.go\<close>): the daemon with its
    goroutines cut at the points where they block or release the lock, as the step relation
    \<open>daemon_step\<close>; approval channels are objects with their own state, so that a send on a closed
    channel is a step of the model. \<open>Startup\<close>: \<^verbatim>\<open>New\<close> and \<^verbatim>\<open>buildAgents\<close>, and
    what a restart finds. \<open>Permission\<close> (\<^verbatim>\<open>permission.go\<close>, \<^verbatim>\<open>mcp/stdio.go\<close>): both ends of a
    permission request; \<open>Permission_Socket\<close>: the server between them with its goroutines. \<open>Harness_Main\<close>: the
    command that runs the daemon.
  \<^item> \<open>Mm_Client\<close> (\<^verbatim>\<open>broker/mattermost/client.go\<close>): decoding of posted events, the listener with its bounded
    queue, worker and waiting reader as the step relation \<open>listen_step\<close>, and its reconnection delays.
    \<open>Mm_Requests\<close> (also \<^verbatim>\<open>provisioner.go\<close>): its requests and one event connection. \<open>Fake_Server\<close>
    (\<^verbatim>\<open>mattermost/mmtest/fake.go\<close>): the server of the repository's tests, an instance of \<open>thread_server\<close>.
  \<^item> \<open>Broker_Http\<close> (\<^verbatim>\<open>cli/broker.go\<close>): the option checks and the HTTP endpoints, from the decoded request to
    the status and body. \<open>Broker_Main\<close>: its options, wiring, routes, and its end. \<open>Init_Client\<close> (\<^verbatim>\<open>harness/initflow.go\<close>, \<^verbatim>\<open>pair.go\<close>): the machine's side of the device
    flow, composed with these endpoints. \<open>Cli\<close> (\<^verbatim>\<open>cli/harness.go\<close>, \<^verbatim>\<open>cli/init.go\<close>): the commands that edit the
    harness' configuration.
  \<^item> \<open>System\<close>: broker and harness composed: a dispatch and its acknowledgement, a result and its
    acknowledgement, the dispatch of a cancelled job, through both programs. \<open>Frames\<close>: the frames both of them write,
    well-typed over every run, and what happens to a frame that is too long.
  \<^item> \<open>Witnesses\<close>, \<open>Daemon_Witnesses\<close>, \<open>System_Witnesses\<close>, \<open>Service_Witnesses\<close>, \<open>Client_Witnesses\<close>,
    \<open>Start_Witnesses\<close>, \<open>Frame_Witnesses\<close>: the theorems with hypotheses applied to a concrete installation.

  \<^bold>\<open>What is shown.\<close> A job only moves forward along its lifecycle, runs on a machine of the user who
  asked for it and keeps its identity. A tool call is allowed only by a signed click of the owner on
  exactly this request, and every failure on the way denies. Dispatches, answers and results
  survive disconnects and restarts on both sides and arrive; results are taken once. Codes, states
  and tokens are used once. Failed setups are undone, and a machine's setup ends: with its
  configuration written, or with an error. Posts are handled one at a time in the order Mattermost
  sent them. Sessions, attachments and configurations of the harness stay separate and survive.
  Every frame carries the payload its type announces and is read as it was written. A cancelled agent ends, and so
  does a permission server that is closed. The store passes the tests the repository has for it.
  Some theorems state where the code does not do what it means to: a job cancelled while it is queued,
  a dispatch delivered twice, a click that races with the end of its job, attachments that are too long
  together, long diagnostics of Codex; and, beside the properties of the manifest, a line too long for the scanner
  (\<open>long_line_stalls\<close>), a signal to a process that is gone (\<open>signal_after_reap\<close>), and a broker that cannot
  listen or is stopped during a sweep (\<open>listen_error_lost\<close>, \<open>sweep_after_close\<close>).

  \<^bold>\<open>Environment and bounds.\<close> Clock, random bytes, ULIDs, hashes, ciphers, the Mattermost server, file
  system outcomes, agent processes and connections that break are arguments or fields of the
  environment records, answering from the history of requests; what is relied on of them is a
  named hypothesis. Handlers see one reading of the clock. All loops are structural recursions or
  have a measure, except the polling of \<^verbatim>\<open>WaitInit\<close>, a \<open>partial_function (option)\<close> that is shown to return;
  no fuel is used. Times are unbounded integers in nanoseconds, durations wrap at
  64 bits where they are multiplied, database times keep milliseconds. A handler of the broker is one
  step: its interleaving with others happens between store calls only where a theorem says so
  (\<open>TransitionJob\<close> as compare-and-set, \<open>daemon_step\<close>).

  \<^bold>\<open>Not modelled.\<close> The SQL texts and the pragmas of the database connection, the framing of websockets and HTTP
  below a message, the Mattermost client library, the kernel side of processes and files, response
  headers, cookies and pages, the parsing of flags and the help texts of the command line, and logging:
  they are calls into other libraries without logic of their own.
\<close>

end
